(* ===== verification/Prelude.thy ===== *)
theory Prelude
  imports Main "HOL-Library.Sublist"
begin

text \<open>
  Generic material the components share: JavaScript string operations on ASCII text, the
  operations that SQL statements become on a table kept as a list of rows in insertion order,
  and the theorem collections of the development.
\<close>

named_theorems tx_simps "success of a composed transaction body, as equivalences"
named_theorems io_simps "outcome of a composed sequence of effects, as equivalences"
named_theorems repo_defs "definitions of the repository statements"

subsection \<open>Strings\<close>

type_synonym uuid = string

text \<open>
  \<open>String.prototype.toLowerCase\<close> on ASCII text: every string the program lower-cases is an
  address, a hash or calldata in hexadecimal.
\<close>

definition lower_char :: "char \<Rightarrow> char" where
  "lower_char c = (let n = (of_char c :: nat) in if 65 \<le> n \<and> n \<le> 90 then char_of (n + 32) else c)"

definition to_lower :: "string \<Rightarrow> string" where
  "to_lower s = map lower_char s"

lemma lower_char_idem [simp]: "lower_char (lower_char c) = lower_char c"
  by (auto simp: lower_char_def Let_def)

lemma to_lower_idem [simp]: "to_lower (to_lower s) = to_lower s"
  by (simp add: to_lower_def)

lemma length_to_lower [simp]: "length (to_lower s) = length s"
  by (simp add: to_lower_def)

text \<open>\<open>String.prototype.includes\<close> and \<open>startsWith\<close>.\<close>

definition starts_with :: "string \<Rightarrow> string \<Rightarrow> bool" where
  "starts_with s p \<longleftrightarrow> take (length p) s = p"

fun str_includes :: "string \<Rightarrow> string \<Rightarrow> bool" where
  "str_includes [] p = (p = [])"
| "str_includes (c # s) p = (starts_with (c # s) p \<or> str_includes s p)"

lemma starts_with_iff: "starts_with s p \<longleftrightarrow> prefix p s"
  by (auto simp: starts_with_def prefix_def) (metis append_take_drop_id)

lemma str_includes_iff: "str_includes s p \<longleftrightarrow> sublist p s"
proof (induction s)
  case Nil
  then show ?case by simp
next
  case (Cons c s)
  then show ?case by (simp add: starts_with_iff sublist_Cons_right)
qed

text \<open>
  \<open>BigInt(text)\<close>: white space around the number is ignored, the empty text is 0, a decimal number
  may have a sign and a hexadecimal, octal or binary one may not. \<open>None\<close> is the SyntaxError.
\<close>

definition js_white :: "char \<Rightarrow> bool" where
  "js_white c \<longleftrightarrow> of_char c \<in> {9, 10, 11, 12, 13, 32 :: nat}"

definition trim :: "string \<Rightarrow> string" where
  "trim s = rev (dropWhile js_white (rev (dropWhile js_white s)))"

definition digit_of :: "char \<Rightarrow> nat option" where
  "digit_of c = (let n = of_char c in
     if 48 \<le> n \<and> n \<le> 57 then Some (n - 48)
     else if 97 \<le> n \<and> n \<le> 102 then Some (n - 87)
     else if 65 \<le> n \<and> n \<le> 70 then Some (n - 55)
     else None)"

fun read_digits :: "nat \<Rightarrow> nat \<Rightarrow> string \<Rightarrow> nat option" where
  "read_digits base acc [] = Some acc"
| "read_digits base acc (c # s) = (case digit_of c of
     None \<Rightarrow> None
   | Some n \<Rightarrow> if n < base then read_digits base (acc * base + n) s else None)"

definition read_digits1 :: "nat \<Rightarrow> string \<Rightarrow> int option" where
  "read_digits1 base s = (if s = [] then None else map_option int (read_digits base 0 s))"

definition js_bigint :: "string \<Rightarrow> int option" where
  "js_bigint text = (let s = trim text in
     if s = [] then Some 0
     else if take 1 s = ''-'' then map_option uminus (read_digits1 10 (drop 1 s))
     else if take 1 s = ''+'' then read_digits1 10 (drop 1 s)
     else if take 2 s \<in> {''0x'', ''0X''} then read_digits1 16 (drop 2 s)
     else if take 2 s \<in> {''0o'', ''0O''} then read_digits1 8 (drop 2 s)
     else if take 2 s \<in> {''0b'', ''0B''} then read_digits1 2 (drop 2 s)
     else read_digits1 10 s)"

subsection \<open>Tables as lists of rows\<close>

text \<open>\<open>SELECT ... WHERE p LIMIT 1\<close>, \<open>UPDATE ... SET f WHERE p\<close> and \<open>DELETE ... WHERE p\<close>.\<close>

definition select_first :: "('r \<Rightarrow> bool) \<Rightarrow> 'r list \<Rightarrow> 'r option" where
  "select_first p rows = find p rows"

definition update_where :: "('r \<Rightarrow> bool) \<Rightarrow> ('r \<Rightarrow> 'r) \<Rightarrow> 'r list \<Rightarrow> 'r list" where
  "update_where p f rows = map (\<lambda>r. if p r then f r else r) rows"

definition delete_where :: "('r \<Rightarrow> bool) \<Rightarrow> 'r list \<Rightarrow> 'r list" where
  "delete_where p rows = filter (\<lambda>r. \<not> p r) rows"

text \<open>
  \<open>ORDER BY k DESC LIMIT 1\<close>: the row with the greatest key. Rows with equal keys come back in
  an order PostgreSQL leaves open; the model takes the row inserted last.
\<close>

fun select_latest :: "('r \<Rightarrow> int) \<Rightarrow> 'r list \<Rightarrow> 'r option" where
  "select_latest k [] = None"
| "select_latest k (r # rs) = (case select_latest k rs of
     None \<Rightarrow> Some r
   | Some r' \<Rightarrow> if k r \<le> k r' then Some r' else Some r)"

text \<open>\<open>ORDER BY k\<close> (ascending), rows with equal keys in insertion order.\<close>

definition order_by :: "('r \<Rightarrow> int) \<Rightarrow> 'r list \<Rightarrow> 'r list" where
  "order_by k rows = sort_key k rows"

lemma select_first_Some: "select_first p rows = Some r \<Longrightarrow> r \<in> set rows \<and> p r"
  by (auto simp: select_first_def find_Some_iff)

lemma select_first_None: "select_first p rows = None \<longleftrightarrow> (\<forall>r \<in> set rows. \<not> p r)"
  by (auto simp: select_first_def find_None_iff)

lemma select_latest_Some: "select_latest k rows = Some r \<Longrightarrow> r \<in> set rows"
  by (induction rows arbitrary: r) (auto split: option.splits if_splits)

lemma select_latest_None [simp]: "select_latest k rows = None \<longleftrightarrow> rows = []"
  by (cases rows) (auto split: option.splits)

lemma select_latest_max:
  "select_latest k rows = Some r \<Longrightarrow> r' \<in> set rows \<Longrightarrow> k r' \<le> k r"
  by (induction rows arbitrary: r) (fastforce split: option.splits if_splits)+

lemma set_update_where: "set (update_where p f rows) = (\<lambda>r. if p r then f r else r) ` set rows"
  by (simp add: update_where_def)

lemma length_update_where [simp]: "length (update_where p f rows) = length rows"
  by (simp add: update_where_def)

lemma map_update_where: "(\<And>r. g (f r) = g r) \<Longrightarrow> map g (update_where p f rows) = map g rows"
  by (induction rows) (auto simp: update_where_def)

lemma set_delete_where: "set (delete_where p rows) = {r \<in> set rows. \<not> p r}"
  by (simp add: delete_where_def)

lemma set_order_by [simp]: "set (order_by k rows) = set rows"
  by (simp add: order_by_def)

lemma find_append: "find P (xs @ ys) = (case find P xs of None \<Rightarrow> find P ys | Some x \<Rightarrow> Some x)"
  by (induction xs) auto

lemma select_first_update_where:
  "(\<And>r. q (f r) = q r) \<Longrightarrow> select_first q (update_where p f rows) = map_option (\<lambda>r. if p r then f r else r) (select_first q rows)"
  by (induction rows) (auto simp: select_first_def update_where_def)

end
