(* ===== verification/Canonical.thy ===== *)
theory Canonical
  imports Prelude "HOL-Library.Char_ord" "HOL-Library.List_Lexorder"
begin

text \<open>
  \<open>src/domain/canonical.ts\<close>: deterministic JSON and the fingerprint taken over it. The hash
  function itself (\<open>node:crypto\<close>) is a parameter of every definition that uses it. The main
  result is that the canonical text determines the value: two JSON values with the same text
  are equal up to the order of keys and undefined fields, and conversely.
\<close>

subsection \<open>JSON values\<close>

text \<open>
  A field of an object may be \<open>undefined\<close> (\<open>None\<close>). Numbers are the integers: every number
  the program fingerprints is a chain id, a nonce, a version or a count.
\<close>

datatype json =
    JStr string
  | JNum int
  | JBool bool
  | JNull
  | JArr "json list"
  | JObj "(string \<times> json option) list"

subsection \<open>JSON.stringify of scalars\<close>

definition digit :: "nat \<Rightarrow> char" where
  "digit n = char_of (48 + n)"

fun show_nat :: "nat \<Rightarrow> string" where
  "show_nat n = (if n < 10 then [digit n] else show_nat (n div 10) @ [digit (n mod 10)])"

declare show_nat.simps [simp del]

definition show_int :: "int \<Rightarrow> string" where
  "show_int i = (if i < 0 then CHR ''-'' # show_nat (nat (- i)) else show_nat (nat i))"

definition hex_digit :: "nat \<Rightarrow> char" where
  "hex_digit n = (if n < 10 then char_of (48 + n) else char_of (87 + n))"

text \<open>Escapes of \<open>JSON.stringify\<close>: quote, backslash and the control characters.\<close>

definition escape_char :: "char \<Rightarrow> string" where
  "escape_char c = (let n = (of_char c :: nat) in
     if n = 34 then [CHR 0x5C, CHR 0x22]
     else if n = 92 then [CHR 0x5C, CHR 0x5C]
     else if n = 8 then [CHR 0x5C, CHR ''b'']
     else if n = 9 then [CHR 0x5C, CHR ''t'']
     else if n = 10 then [CHR 0x5C, CHR ''n'']
     else if n = 12 then [CHR 0x5C, CHR ''f'']
     else if n = 13 then [CHR 0x5C, CHR ''r'']
     else if n < 32 then [CHR 0x5C, CHR ''u'', CHR ''0'', CHR ''0'', hex_digit (n div 16), hex_digit (n mod 16)]
     else [c])"

definition escape :: "string \<Rightarrow> string" where
  "escape s = concat (map escape_char s)"

definition quote :: "string \<Rightarrow> string" where
  "quote s = CHR 0x22 # escape s @ [CHR 0x22]"

text \<open>\<open>Array.prototype.join(',')\<close>\<close>

fun join_comma :: "string list \<Rightarrow> string" where
  "join_comma [] = []"
| "join_comma [x] = x"
| "join_comma (x # y # xs) = x @ CHR '','' # join_comma (y # xs)"

text \<open>The defined fields of an object in key order.\<close>

definition defined_fields :: "(string \<times> 'a option) list \<Rightarrow> (string \<times> 'a) list" where
  "defined_fields fs = concat (map (\<lambda>(k, v). case v of None \<Rightarrow> [] | Some x \<Rightarrow> [(k, x)]) fs)"

definition sorted_fields :: "(string \<times> 'a option) list \<Rightarrow> (string \<times> 'a) list" where
  "sorted_fields fs = sort_key fst (defined_fields fs)"

primrec canonical_json :: "json \<Rightarrow> string" where
  "canonical_json (JStr s) = quote s"
| "canonical_json (JNum i) = show_int i"
| "canonical_json (JBool b) = (if b then ''true'' else ''false'')"
| "canonical_json JNull = ''null''"
| "canonical_json (JArr xs) = CHR ''['' # join_comma (map canonical_json xs) @ [CHR '']'']"
| "canonical_json (JObj fs) =
     CHR ''{'' # join_comma (map (\<lambda>(k, t). quote k @ CHR '':'' # t)
       (sorted_fields (map (map_prod id (map_option canonical_json)) fs))) @ [CHR ''}'']"

text \<open>\<open>canonicalHash\<close>, over the hash function \<open>sha256Hex\<close> given as \<open>sha\<close>.\<close>

definition canonical_hash :: "(string \<Rightarrow> string) \<Rightarrow> json \<Rightarrow> string" where
  "canonical_hash sha v = sha (canonical_json v)"

text \<open>The value up to key order and undefined fields.\<close>

primrec normal_json :: "json \<Rightarrow> json" where
  "normal_json (JStr s) = JStr s"
| "normal_json (JNum i) = JNum i"
| "normal_json (JBool b) = JBool b"
| "normal_json JNull = JNull"
| "normal_json (JArr xs) = JArr (map normal_json xs)"
| "normal_json (JObj fs) =
     JObj (map (map_prod id Some) (sorted_fields (map (map_prod id (map_option normal_json)) fs)))"

subsection \<open>Fields\<close>

lemma defined_fields_map:
  "defined_fields (map (map_prod id (map_option f)) fs) = map (map_prod id f) (defined_fields fs)"
  by (induction fs) (auto simp: defined_fields_def split: option.splits)

lemma sort_key_map_prod: "sort_key fst (map (map_prod id f) xs) = map (map_prod id f) (sort_key fst xs)"
proof -
  have ins: "insort_key fst (map_prod id f x) (map (map_prod id f) ys) = map (map_prod id f) (insort_key fst x ys)"
    for x ys
    by (induction ys) auto
  show ?thesis by (induction xs) (simp_all add: ins del: map_prod_simp id_apply)
qed

lemma sorted_fields_map:
  "sorted_fields (map (map_prod id (map_option f)) fs) = map (map_prod id f) (sorted_fields fs)"
  by (simp add: sorted_fields_def defined_fields_map sort_key_map_prod)

lemma set_sorted_fields: "(k, x) \<in> set (sorted_fields fs) \<longleftrightarrow> (k, Some x) \<in> set fs"
  by (force simp: sorted_fields_def defined_fields_def split: option.splits)

lemma canonical_json_obj [simp]:
  "canonical_json (JObj fs) = CHR ''{'' # join_comma (map (\<lambda>(k, v). quote k @ CHR '':'' # canonical_json v)
     (sorted_fields fs)) @ [CHR ''}'']"
  by (simp only: canonical_json.simps sorted_fields_map) (simp add: o_def case_prod_beta')

lemma normal_json_obj [simp]:
  "normal_json (JObj fs) = JObj (map (\<lambda>(k, v). (k, Some (normal_json v))) (sorted_fields fs))"
  by (simp only: normal_json.simps sorted_fields_map) (simp add: o_def case_prod_beta' map_prod_def)

declare canonical_json.simps(6) [simp del] normal_json.simps(6) [simp del]

subsection \<open>Scalars can be read back\<close>

definition digit_value :: "char \<Rightarrow> nat" where
  "digit_value c = of_char c - 48"

definition is_digit :: "char \<Rightarrow> bool" where
  "is_digit c \<longleftrightarrow> 48 \<le> (of_char c :: nat) \<and> (of_char c :: nat) \<le> 57"

definition read_nat :: "string \<Rightarrow> nat" where
  "read_nat s = foldl (\<lambda>a c. a * 10 + digit_value c) 0 s"

lemma digit_facts: "n < 10 \<Longrightarrow> is_digit (digit n) \<and> digit_value (digit n) = n"
  by (simp add: is_digit_def digit_value_def digit_def)

lemma read_show_nat: "read_nat (show_nat n) = n"
proof (induction n rule: show_nat.induct)
  case (1 n)
  then show ?case
    by (cases "n < 10") (simp_all add: show_nat.simps [of n] read_nat_def digit_facts)
qed

lemma show_nat_digits: "c \<in> set (show_nat n) \<Longrightarrow> is_digit c"
proof (induction n rule: show_nat.induct)
  case (1 n)
  then show ?case
    by (cases "n < 10") (auto simp: show_nat.simps [of n] digit_facts)
qed

lemma show_nat_nonempty [simp]: "show_nat n \<noteq> []"
  by (simp add: show_nat.simps [of n])

lemma show_nat_inj [simp]: "show_nat m = show_nat n \<longleftrightarrow> m = n"
  by (metis read_show_nat)

text \<open>What may follow a value: the end, or a character that is not a digit.\<close>

definition ends_number :: "string \<Rightarrow> bool" where
  "ends_number r \<longleftrightarrow> (case r of [] \<Rightarrow> True | c # _ \<Rightarrow> \<not> is_digit c)"

lemma ends_number_simps [simp]:
  "ends_number []" "ends_number (CHR '','' # r)" "ends_number (CHR '']'' # r)" "ends_number (CHR ''}'' # r)"
  by (simp_all add: ends_number_def is_digit_def)

lemma takeWhile_show_nat: "ends_number r \<Longrightarrow> takeWhile is_digit (show_nat n @ r) = show_nat n"
  by (cases r) (auto simp: ends_number_def takeWhile_append2 show_nat_digits)

lemma show_nat_prefix:
  assumes "show_nat m @ r = show_nat n @ r'" "ends_number r" "ends_number r'"
  shows "m = n \<and> r = r'"
proof -
  have "takeWhile is_digit (show_nat m @ r) = takeWhile is_digit (show_nat n @ r')"
    using assms(1) by simp
  then have "show_nat m = show_nat n"
    by (simp add: takeWhile_show_nat assms(2,3))
  with assms(1) show ?thesis by simp
qed

lemma show_nat_head: "\<exists>c s. show_nat n = c # s \<and> is_digit c"
  using show_nat_digits [of "hd (show_nat n)" n] by (cases "show_nat n") (auto dest: arg_cong [where f = length])

lemma show_int_prefix:
  assumes "show_int i @ r = show_int j @ r'" "ends_number r" "ends_number r'"
  shows "i = j \<and> r = r'"
proof -
  have minus: "\<not> is_digit (CHR ''-'')" by (simp add: is_digit_def)
  show ?thesis
  proof (cases "(i < 0) = (j < 0)")
    case True
    with assms show ?thesis
      by (auto simp: show_int_def dest!: show_nat_prefix split: if_splits)
  next
    case False
    with assms(1) minus show ?thesis
      using show_nat_head [of "nat i"] show_nat_head [of "nat j"]
      by (auto simp: show_int_def split: if_splits)
  qed
qed

lemma show_int_inj [simp]: "show_int i = show_int j \<longleftrightarrow> i = j"
  using show_int_prefix [of i "[]" j "[]"] by auto

text \<open>Reading one escaped character back, as its code and the rest of the text.\<close>

definition unhex :: "char \<Rightarrow> nat" where
  "unhex c = (let n = (of_char c :: nat) in if n < 87 then n - 48 else n - 87)"

fun unescape :: "string \<Rightarrow> nat \<times> string" where
  "unescape (c # s) = (if c \<noteq> CHR 0x5C then (of_char c, s) else (case s of
      CHR 0x22 # s' \<Rightarrow> (34, s')
    | CHR 0x5C # s' \<Rightarrow> (92, s')
    | CHR ''b'' # s' \<Rightarrow> (8, s')
    | CHR ''t'' # s' \<Rightarrow> (9, s')
    | CHR ''n'' # s' \<Rightarrow> (10, s')
    | CHR ''f'' # s' \<Rightarrow> (12, s')
    | CHR ''r'' # s' \<Rightarrow> (13, s')
    | _ # _ # _ # h # l # s' \<Rightarrow> (unhex h * 16 + unhex l, s')
    | _ \<Rightarrow> (0, [])))"
| "unescape [] = (0, [])"

lemma unhex_hex_digit: "n < 16 \<Longrightarrow> unhex (hex_digit n) = n"
  by (auto simp: unhex_def hex_digit_def Let_def)

lemma of_char_not: "(of_char c :: nat) \<noteq> of_char d \<Longrightarrow> c \<noteq> d"
  by blast

lemma unescape_escape_char: "unescape (escape_char c @ a) = (of_char c, a)"
proof -
  define n where "n = (of_char c :: nat)"
  have c: "n \<noteq> 92 \<Longrightarrow> c \<noteq> CHR 0x5C"
    unfolding n_def by (rule of_char_not) simp
  have hex: "n < 32 \<Longrightarrow> unhex (hex_digit (n div 16)) * 16 + unhex (hex_digit (n mod 16)) = n"
    by (simp add: unhex_hex_digit)
  show ?thesis
    unfolding escape_char_def Let_def n_def [symmetric]
    using c hex by (simp add: n_def [symmetric])
qed

lemma escape_char_prefix:
  assumes "escape_char c @ a = escape_char d @ b"
  shows "c = d \<and> a = b"
proof -
  have "(of_char c :: nat, a) = (of_char d, b)"
    using assms by (metis unescape_escape_char)
  then show ?thesis by simp
qed

lemma escape_char_head: "\<exists>x s. escape_char c = x # s \<and> x \<noteq> CHR 0x22"
proof (cases "(of_char c :: nat) = 34")
  case False
  then have "c \<noteq> CHR 0x22" by (intro of_char_not) simp
  then show ?thesis by (simp add: escape_char_def Let_def)
qed (simp add: escape_char_def)

lemma escape_prefix:
  "escape s @ CHR 0x22 # r = escape t @ CHR 0x22 # r' \<Longrightarrow> s = t \<and> r = r'"
proof (induction s arbitrary: t)
  case Nil
  then show ?case
    using escape_char_head [of "hd t"] by (cases t) (auto simp: escape_def)
next
  case (Cons c s)
  show ?case
  proof (cases t)
    case Nil
    with Cons.prems show ?thesis
      using escape_char_head [of c] by (auto simp: escape_def)
  next
    case (Cons d t')
    with Cons.prems have "escape_char c @ escape s @ CHR 0x22 # r = escape_char d @ escape t' @ CHR 0x22 # r'"
      by (simp add: escape_def)
    from escape_char_prefix [OF this] show ?thesis
      using Cons.IH [of t'] Cons by simp
  qed
qed

lemma quote_prefix: "quote s @ r = quote t @ r' \<Longrightarrow> s = t \<and> r = r'"
  by (auto simp: quote_def dest: escape_prefix)

subsection \<open>Lists and objects can be read back\<close>

text \<open>
  \<open>reads f g x\<close>: the text \<open>f x\<close>, followed by anything that may follow a value, determines
  \<open>g x\<close> and what follows.
\<close>

definition reads :: "('a \<Rightarrow> string) \<Rightarrow> ('a \<Rightarrow> 'b) \<Rightarrow> 'a \<Rightarrow> bool" where
  "reads f g x \<longleftrightarrow> (\<forall>y r r'. ends_number r \<longrightarrow> ends_number r' \<longrightarrow> f x @ r = f y @ r' \<longrightarrow> g x = g y \<and> r = r')"

lemma readsD: "reads f g x \<Longrightarrow> f x @ r = f y @ r' \<Longrightarrow> ends_number r \<Longrightarrow> ends_number r' \<Longrightarrow> g x = g y \<and> r = r'"
  by (auto simp: reads_def)

lemma join_comma_Cons:
  "join_comma (map f (x # xs)) @ c # r =
     f x @ (case xs of [] \<Rightarrow> c # r | _ \<Rightarrow> CHR '','' # join_comma (map f xs) @ c # r)"
  by (cases xs) simp_all

lemma join_comma_reads:
  assumes "\<forall>x \<in> set xs. reads f g x"
    and "join_comma (map f xs) @ c # r = join_comma (map f ys) @ c # r'"
    and sep: "ends_number [c]" "c \<noteq> CHR '',''"
    and "\<forall>x. \<exists>d s. f x = d # s \<and> d \<noteq> c"
  shows "map g xs = map g ys \<and> r = r'"
  using assms(1,2)
proof (induction xs arbitrary: ys)
  case Nil
  show ?case
  proof (cases ys)
    case (Cons y ys')
    obtain d s where "f y = d # s" "d \<noteq> c" using assms(5) by blast
    with Nil.prems(2) Cons show ?thesis by (simp add: join_comma_Cons del: list.map(2))
  qed (use Nil in simp)
next
  case (Cons x xs)
  obtain e u where e: "f x = e # u" "e \<noteq> c" using assms(5) by blast
  show ?case
  proof (cases ys)
    case Nil
    with Cons.prems(2) e show ?thesis by (simp add: join_comma_Cons del: list.map(2))
  next
    case ys: (Cons y ys')
    define rx where "rx = (case xs of [] \<Rightarrow> c # r | _ \<Rightarrow> CHR '','' # join_comma (map f xs) @ c # r)"
    define ry where "ry = (case ys' of [] \<Rightarrow> c # r' | _ \<Rightarrow> CHR '','' # join_comma (map f ys') @ c # r')"
    have ends: "ends_number rx" "ends_number ry"
      using sep(1) by (auto simp: rx_def ry_def ends_number_def is_digit_def split: list.splits)
    have "f x @ rx = f y @ ry"
      using Cons.prems(2) unfolding ys join_comma_Cons rx_def ry_def .
    with Cons.prems(1) ends have *: "g x = g y" "rx = ry"
      by (auto dest!: readsD)
    from *(2) sep(2) have "join_comma (map f xs) @ c # r = join_comma (map f ys') @ c # r'"
      by (auto simp: rx_def ry_def split: list.splits)
    with Cons.IH Cons.prems(1) *(1) ys show ?thesis by simp
  qed
qed

lemma reads_field:
  assumes "reads canonical_json normal_json v"
  shows "reads (\<lambda>(k, v). quote k @ CHR '':'' # canonical_json v) (\<lambda>(k, v). (k, Some (normal_json v))) (k, v)"
  unfolding reads_def
proof (intro allI impI)
  fix y r r'
  assume r: "ends_number r" "ends_number r'"
    and eq: "(case (k, v) of (k, v) \<Rightarrow> quote k @ CHR '':'' # canonical_json v) @ r =
         (case y of (k, v) \<Rightarrow> quote k @ CHR '':'' # canonical_json v) @ r'"
  obtain k' w where y: "y = (k', w)" by (cases y)
  from eq y have "quote k @ (CHR '':'' # canonical_json v @ r) = quote k' @ (CHR '':'' # canonical_json w @ r')"
    by simp
  from quote_prefix [OF this] have k: "k = k'" and eq': "canonical_json v @ r = canonical_json w @ r'"
    by simp_all
  from readsD [OF assms eq' r] k y
  show "(case (k, v) of (k, v) \<Rightarrow> (k, Some (normal_json v))) = (case y of (k, v) \<Rightarrow> (k, Some (normal_json v))) \<and> r = r'"
    by auto
qed

text \<open>The first character tells the constructor.\<close>

definition json_head :: "json \<Rightarrow> nat" where
  "json_head v = (case v of JStr _ \<Rightarrow> 0 | JNum _ \<Rightarrow> 1 | JBool b \<Rightarrow> (if b then 2 else 3) | JNull \<Rightarrow> 4 | JArr _ \<Rightarrow> 5 | JObj _ \<Rightarrow> 6)"

definition char_head :: "char \<Rightarrow> nat" where
  "char_head c = (if c = CHR 0x22 then 0 else if is_digit c \<or> c = CHR ''-'' then 1
     else if c = CHR ''t'' then 2 else if c = CHR ''f'' then 3 else if c = CHR ''n'' then 4
     else if c = CHR ''['' then 5 else if c = CHR ''{'' then 6 else 7)"

lemma char_head_simps:
  "char_head (CHR 0x22) = 0" "char_head (CHR ''-'') = 1" "char_head (CHR ''t'') = 2" "char_head (CHR ''f'') = 3"
  "char_head (CHR ''n'') = 4" "char_head (CHR ''['') = 5" "char_head (CHR ''{'') = 6"
  "char_head (CHR '']'') = 7" "char_head (CHR ''}'') = 7"
  by (simp_all add: char_head_def is_digit_def)

lemma char_head_digit: "is_digit c \<Longrightarrow> char_head c = 1"
proof -
  assume c: "is_digit c"
  have "\<not> is_digit (CHR 0x22)" by (simp add: is_digit_def)
  with c have "c \<noteq> CHR 0x22" by metis
  with c show ?thesis by (simp only: char_head_def if_False if_True simp_thms)
qed

lemma canonical_json_head: "\<exists>c s. canonical_json v = c # s \<and> char_head c = json_head v"
proof (cases v)
  case (JNum i)
  then show ?thesis
    using show_nat_head [of "nat i"] char_head_digit
    by (cases "i < 0") (auto simp: show_int_def json_head_def char_head_simps)
qed (simp_all add: quote_def json_head_def char_head_simps)

lemma canonical_json_same_head:
  assumes "canonical_json v @ r = canonical_json w @ r'"
  shows "json_head v = json_head w"
proof -
  obtain c s where c: "canonical_json v = c # s" "char_head c = json_head v"
    using canonical_json_head by blast
  obtain d t where d: "canonical_json w = d # t" "char_head d = json_head w"
    using canonical_json_head by blast
  from assms c(1) d(1) have "c = d" by simp
  with c(2) d(2) show ?thesis by simp
qed

lemma json_head_eq:
  "json_head w = 0 \<Longrightarrow> \<exists>s. w = JStr s" "json_head w = 1 \<Longrightarrow> \<exists>i. w = JNum i"
  "json_head w = 2 \<Longrightarrow> w = JBool True" "json_head w = 3 \<Longrightarrow> w = JBool False"
  "json_head w = 4 \<Longrightarrow> w = JNull" "json_head w = 5 \<Longrightarrow> \<exists>xs. w = JArr xs"
  "json_head w = 6 \<Longrightarrow> \<exists>fs. w = JObj fs"
  by (cases w; simp add: json_head_def split: if_splits)+

lemma char_head_not_close: "char_head c \<noteq> 7 \<Longrightarrow> c \<noteq> CHR '']'' \<and> c \<noteq> CHR ''}''"
  using char_head_simps(8,9) by metis

lemma canonical_json_not_close: "\<exists>d s. canonical_json v = d # s \<and> d \<noteq> CHR '']'' \<and> d \<noteq> CHR ''}''"
proof -
  obtain c s where "canonical_json v = c # s" "char_head c = json_head v"
    using canonical_json_head by blast
  moreover have "json_head v \<noteq> 7" by (cases v) (simp_all add: json_head_def)
  ultimately show ?thesis using char_head_not_close [of c] by auto
qed

lemma canonical_json_reads: "reads canonical_json normal_json v"
proof (induction v)
  case (JStr s)
  show ?case unfolding reads_def
  proof (intro allI impI)
    fix w r r' assume eq: "canonical_json (JStr s) @ r = canonical_json w @ r'"
    then obtain t where w: "w = JStr t"
      using canonical_json_same_head [OF eq] json_head_eq(1) [of w] by (auto simp: json_head_def)
    with eq show "normal_json (JStr s) = normal_json w \<and> r = r'" by (auto dest: quote_prefix)
  qed
next
  case (JNum i)
  show ?case unfolding reads_def
  proof (intro allI impI)
    fix w r r' assume r: "ends_number r" "ends_number r'" and eq: "canonical_json (JNum i) @ r = canonical_json w @ r'"
    then obtain j where w: "w = JNum j"
      using canonical_json_same_head [OF eq] json_head_eq(2) [of w] by (auto simp: json_head_def)
    with eq r show "normal_json (JNum i) = normal_json w \<and> r = r'" by (auto dest: show_int_prefix)
  qed
next
  case (JBool b)
  show ?case unfolding reads_def
  proof (intro allI impI)
    fix w r r' assume eq: "canonical_json (JBool b) @ r = canonical_json w @ r'"
    then have "w = JBool b"
      using canonical_json_same_head [OF eq] json_head_eq(3,4) [of w] by (auto simp: json_head_def split: if_splits)
    with eq show "normal_json (JBool b) = normal_json w \<and> r = r'" by simp
  qed
next
  case JNull
  show ?case unfolding reads_def
  proof (intro allI impI)
    fix w r r' assume eq: "canonical_json JNull @ r = canonical_json w @ r'"
    then have "w = JNull"
      using canonical_json_same_head [OF eq] json_head_eq(5) [of w] by (auto simp: json_head_def)
    with eq show "normal_json JNull = normal_json w \<and> r = r'" by simp
  qed
next
  case (JArr xs)
  show ?case unfolding reads_def
  proof (intro allI impI)
    fix w r r' assume eq: "canonical_json (JArr xs) @ r = canonical_json w @ r'"
    then obtain ys where w: "w = JArr ys"
      using canonical_json_same_head [OF eq] json_head_eq(6) [of w] by (auto simp: json_head_def)
    with eq have "join_comma (map canonical_json xs) @ CHR '']'' # r = join_comma (map canonical_json ys) @ CHR '']'' # r'"
      by simp
    moreover have "\<forall>x. \<exists>d s. canonical_json x = d # s \<and> d \<noteq> CHR '']''"
      using canonical_json_not_close by blast
    ultimately have "map normal_json xs = map normal_json ys \<and> r = r'"
      using JArr by (intro join_comma_reads [where c = "CHR '']''"]) simp_all
    with w show "normal_json (JArr xs) = normal_json w \<and> r = r'" by simp
  qed
next
  case (JObj fs)
  let ?f = "\<lambda>(k, v). quote k @ CHR '':'' # canonical_json v"
  let ?g = "\<lambda>(k, v). (k, Some (normal_json v))"
  have items: "\<forall>x \<in> set (sorted_fields fs). reads ?f ?g x"
  proof
    fix x assume x: "x \<in> set (sorted_fields fs)"
    obtain k v where kv: "x = (k, v)" by (cases x)
    with x have "(k, Some v) \<in> set fs" by (simp add: set_sorted_fields)
    then have "reads canonical_json normal_json v"
      using JObj by fastforce
    with kv show "reads ?f ?g x" using reads_field by blast
  qed
  show ?case unfolding reads_def
  proof (intro allI impI)
    fix w r r' assume eq: "canonical_json (JObj fs) @ r = canonical_json w @ r'"
    then obtain gs where w: "w = JObj gs"
      using canonical_json_same_head [OF eq] json_head_eq(7) [of w] by (auto simp: json_head_def)
    with eq have "join_comma (map ?f (sorted_fields fs)) @ CHR ''}'' # r = join_comma (map ?f (sorted_fields gs)) @ CHR ''}'' # r'"
      by simp
    then have "map ?g (sorted_fields fs) = map ?g (sorted_fields gs) \<and> r = r'"
      by (intro join_comma_reads [OF items]) (auto simp: quote_def)
    with w show "normal_json (JObj fs) = normal_json w \<and> r = r'" by simp
  qed
qed

lemma normal_json_canonical: "canonical_json (normal_json v) = canonical_json v"
proof (induction v)
  case (JObj fs)
  have sorted: "sorted_fields (map (\<lambda>(k, v). (k, Some (normal_json v))) (sorted_fields fs))
      = map (map_prod id normal_json) (sorted_fields fs)"
  proof -
    have defined: "defined_fields (map (\<lambda>(k, v). (k, Some (normal_json v))) xs) = map (map_prod id normal_json) xs" for xs
      by (induction xs) (auto simp: defined_fields_def)
    have "sort_key fst (sorted_fields fs) = sorted_fields fs"
      by (rule sort_key_id_if_sorted) (simp add: sorted_fields_def)
    then show ?thesis
      unfolding sorted_fields_def [of "map _ _"] defined sort_key_map_prod by simp
  qed
  have "canonical_json (normal_json v) = canonical_json v" if "(k, v) \<in> set (sorted_fields fs)" for k v
    using JObj that by (fastforce simp: set_sorted_fields)
  then show ?case
    unfolding normal_json_obj canonical_json_obj sorted
    by (auto intro!: arg_cong [where f = join_comma])
qed (simp_all add: o_def cong: map_cong)

text \<open>
  A fingerprint identifies its value: equal fingerprints mean equal values (up to key order) or
  two different texts with the same hash.
\<close>

definition hash_collision :: "(string \<Rightarrow> string) \<Rightarrow> string \<Rightarrow> string \<Rightarrow> bool" where
  "hash_collision sha s t \<longleftrightarrow> s \<noteq> t \<and> sha s = sha t"

lemma canonical_hash_cases:
  assumes "canonical_hash sha v = canonical_hash sha w"
  shows "normal_json v = normal_json w \<or> hash_collision sha (canonical_json v) (canonical_json w)"
proof -
  have "normal_json v = normal_json w" if "canonical_json v = canonical_json w"
    using readsD [OF canonical_json_reads, of v "[]" w "[]"] that by simp
  with assms show ?thesis by (auto simp: canonical_hash_def hash_collision_def)
qed

text \<open>Objects whose keys are already distinct and sorted: their normal form keeps every field.\<close>

lemma defined_fields_simps [simp]:
  "defined_fields [] = []"
  "defined_fields ((k, None) # fs) = defined_fields fs"
  "defined_fields ((k, Some x) # fs) = (k, x) # defined_fields fs"
  by (simp_all add: defined_fields_def)

text \<open>Key order does not matter when the keys are distinct, as a JavaScript object's are.\<close>

lemma set_defined_fields: "set (defined_fields fs) = {(k, x). (k, Some x) \<in> set fs}"
  by (force simp: defined_fields_def split: option.splits)

lemma distinct_defined_fields: "distinct (map fst fs) \<Longrightarrow> distinct (map fst (defined_fields fs))"
proof (induction fs)
  case (Cons f fs)
  obtain k v where f: "f = (k, v)" by (cases f)
  with Cons.prems have "k \<notin> fst ` set (defined_fields fs)"
    by (force simp: set_defined_fields)
  with Cons f show ?case by (cases v) simp_all
qed simp

lemma sorted_fields_perm:
  assumes "set fs = set gs" "distinct (map fst fs)" "distinct (map fst gs)"
  shows "sorted_fields fs = sorted_fields gs"
proof -
  let ?f = "sort_key fst (defined_fields fs)" and ?g = "sort_key fst (defined_fields gs)"
  have dist: "distinct (map fst (sort_key fst (defined_fields xs)))" if "distinct (map fst xs)"
    for xs :: "(string \<times> 'a option) list"
    using distinct_defined_fields [OF that] by (metis distinct_map distinct_sort set_sort)
  have same: "set ?f = set ?g" by (simp add: set_defined_fields assms(1))
  have "?f = ?g"
  proof (rule map_sorted_distinct_set_unique [where f = fst])
    show "inj_on fst (set ?f \<union> set ?g)"
      using dist [OF assms(3)] same by (simp add: distinct_map)
  qed (use dist assms same in \<open>simp_all add: distinct_defined_fields\<close>)
  then show ?thesis by (simp add: sorted_fields_def)
qed

lemma canonical_json_key_order:
  "set fs = set gs \<Longrightarrow> distinct (map fst fs) \<Longrightarrow> distinct (map fst gs) \<Longrightarrow>
   canonical_json (JObj fs) = canonical_json (JObj gs)"
  using sorted_fields_perm [of fs gs] by simp

text \<open>What two objects with one normal form have in common, field by field.\<close>

lemma normal_json_field:
  assumes eq: "normal_json (JObj fs) = normal_json (JObj gs)" and x: "(k, Some x) \<in> set fs"
  shows "\<exists>y. (k, Some y) \<in> set gs \<and> normal_json x = normal_json y"
proof -
  from x have "(k, x) \<in> set (sorted_fields fs)" by (simp add: set_sorted_fields)
  then have "(k, Some (normal_json x)) \<in> set (map (\<lambda>(k, v). (k, Some (normal_json v))) (sorted_fields fs))"
    by force
  also have "\<dots> = set (map (\<lambda>(k, v). (k, Some (normal_json v))) (sorted_fields gs))"
    using eq by simp
  finally obtain y where "(k, y) \<in> set (sorted_fields gs)" "normal_json x = normal_json y" by auto
  then show ?thesis by (auto simp: set_sorted_fields)
qed

text \<open>A field of a stored object, as \<open>body.key\<close> reads it; \<open>None\<close> is \<open>undefined\<close>.\<close>

fun json_get :: "json \<Rightarrow> string \<Rightarrow> json option" where
  "json_get (JObj fs) k = (case map_of fs k of None \<Rightarrow> None | Some v \<Rightarrow> v)"
| "json_get _ k = None"

subsection \<open>Equal values\<close>

text \<open>A JavaScript object has every key once; so has every object inside a well keyed value.\<close>

primrec well_keyed :: "json \<Rightarrow> bool" where
  "well_keyed (JStr s) \<longleftrightarrow> True"
| "well_keyed (JNum i) \<longleftrightarrow> True"
| "well_keyed (JBool b) \<longleftrightarrow> True"
| "well_keyed JNull \<longleftrightarrow> True"
| "well_keyed (JArr xs) \<longleftrightarrow> list_all id (map well_keyed xs)"
| "well_keyed (JObj fs) \<longleftrightarrow> distinct (map fst fs) \<and>
     list_all (\<lambda>(k, b). b \<noteq> Some False) (map (map_prod id (map_option well_keyed)) fs)"

text \<open>\<open>object[key]\<close>: nothing for a key that is absent or undefined.\<close>

definition json_field :: "(string \<times> json option) list \<Rightarrow> string \<Rightarrow> json option" where
  "json_field fs k = (case map_of fs k of None \<Rightarrow> None | Some v \<Rightarrow> v)"

text \<open>
  Equality of values, without the text: scalars are equal when they are, arrays item by item, objects when
  they give equal answers for every key. There is no order of keys in it.
\<close>

inductive same_json :: "json \<Rightarrow> json \<Rightarrow> bool" where
  "same_json (JStr s) (JStr s)"
| "same_json (JNum i) (JNum i)"
| "same_json (JBool b) (JBool b)"
| "same_json JNull JNull"
| "list_all2 same_json xs ys \<Longrightarrow> same_json (JArr xs) (JArr ys)"
| "(\<And>k. rel_option same_json (json_field fs k) (json_field gs k)) \<Longrightarrow> same_json (JObj fs) (JObj gs)"
monos list_all2_mono option.rel_mono

inductive_simps same_json_simps:
  "same_json (JStr s) w" "same_json (JNum i) w" "same_json (JBool b) w" "same_json JNull w" "same_json (JArr xs) w"
  "same_json (JObj fs) w"

lemma json_field_iff: "distinct (map fst fs) \<Longrightarrow> json_field fs k = Some x \<longleftrightarrow> (k, Some x) \<in> set fs"
proof -
  assume "distinct (map fst fs)"
  moreover have "json_field fs k = Some x \<longleftrightarrow> map_of fs k = Some (Some x)" by (simp add: json_field_def split: option.split)
  ultimately show ?thesis by simp
qed

lemma well_keyed_field: "well_keyed (JObj fs) \<Longrightarrow> (k, Some x) \<in> set fs \<Longrightarrow> well_keyed x"
  by (force simp: list_all_iff)

lemma distinct_sorted_fields: "distinct (map fst fs) \<Longrightarrow> distinct (map fst (sorted_fields fs))"
  using distinct_defined_fields [of fs] by (metis distinct_map distinct_sort set_sort sorted_fields_def)

text \<open>Two sorted lists of fields with one value per key are equal when they hold the same fields.\<close>

lemma sorted_fields_eq:
  assumes "distinct (map fst fs)" "distinct (map fst gs)"
  shows "map (map_prod id f) (sorted_fields fs) = map (map_prod id f) (sorted_fields gs) \<longleftrightarrow>
    (\<forall>k. map_option f (json_field fs k) = map_option f (json_field gs k))" (is "?fs = ?gs \<longleftrightarrow> _")
proof -
  have field: "map_of (map (map_prod id f) (sorted_fields hs)) k = map_option f (json_field hs k)"
    if "distinct (map fst hs)" for hs k
  proof -
    have "map_of (sorted_fields hs) k = Some x \<longleftrightarrow> json_field hs k = Some x" for x
      using distinct_sorted_fields [OF that] json_field_iff [OF that] by (simp add: set_sorted_fields)
    then have "map_of (sorted_fields hs) k = json_field hs k" by (metis not_None_eq)
    then show ?thesis by (simp add: map_prod_def id_def map_of_map [unfolded case_prod_beta'] case_prod_beta')
  qed
  have keys: "distinct (map fst ?fs)" "distinct (map fst ?gs)" "sorted (map fst ?fs)" "sorted (map fst ?gs)"
    using assms by (simp_all add: distinct_sorted_fields o_def) (simp_all add: sorted_fields_def)
  show ?thesis
  proof
    assume "?fs = ?gs"
    then show "\<forall>k. map_option f (json_field fs k) = map_option f (json_field gs k)"
      by (metis field assms)
  next
    assume "\<forall>k. map_option f (json_field fs k) = map_option f (json_field gs k)"
    then have "map_of ?fs = map_of ?gs" by (auto simp: field assms)
    then have same: "set ?fs = set ?gs" using keys(1,2) by (metis map_of_eqI map_of_inject_set)
    from keys(1) have "inj_on fst (set ?fs \<union> set ?gs)" unfolding same [symmetric] Un_absorb distinct_map by blast
    from map_sorted_distinct_set_unique [OF this keys(3,1,4,2) same] show "?fs = ?gs" .
  qed
qed


lemma normal_json_fields:
  assumes "distinct (map fst fs)" "distinct (map fst gs)"
  shows "normal_json (JObj fs) = normal_json (JObj gs) \<longleftrightarrow>
    (\<forall>k. map_option normal_json (json_field fs k) = map_option normal_json (json_field gs k))"
proof -
  have some: "map (\<lambda>(k, v). (k, Some (f v))) xs = map (map_prod id Some) (map (map_prod id f) xs)"
    for f :: "json \<Rightarrow> json" and xs :: "(string \<times> json) list" by (induction xs) auto
  have "inj (map_prod (id :: string \<Rightarrow> string) (Some :: json \<Rightarrow> json option))" by (intro prod.inj_map) simp_all
  then show ?thesis
    unfolding sorted_fields_eq [OF assms, symmetric] normal_json_obj json.inject some by (simp only: inj_map_eq_map)
qed

lemma normal_json_same: "well_keyed v \<Longrightarrow> well_keyed w \<Longrightarrow> normal_json v = normal_json w \<longleftrightarrow> same_json v w"
proof (induction v arbitrary: w)
  case (JArr xs)
  have "map normal_json xs = map normal_json ys \<longleftrightarrow> list_all2 same_json xs ys" if "list_all well_keyed ys" for ys
    using JArr.IH JArr.prems(1) that
  proof (induction xs arbitrary: ys)
    case (Cons x xs)
    then show ?case by (cases ys) auto
  qed auto
  then show ?case using JArr.prems by (cases w) (auto simp: same_json_simps list_all_iff)
next
  case (JObj fs)
  show ?case
  proof (cases w)
    case w: (JObj gs)
    from JObj.prems w have keys: "distinct (map fst fs)" "distinct (map fst gs)" by simp_all
    have "map_option normal_json (json_field fs k) = map_option normal_json (json_field gs k) \<longleftrightarrow>
        rel_option same_json (json_field fs k) (json_field gs k)" for k
    proof (cases "json_field fs k"; cases "json_field gs k")
      fix x y assume x: "json_field fs k = Some x" and y: "json_field gs k = Some y"
      then have "(k, Some x) \<in> set fs" "(k, Some y) \<in> set gs" using json_field_iff keys by blast+
      moreover from this have "well_keyed x" "well_keyed y"
        using JObj.prems w well_keyed_field by blast+
      ultimately show ?thesis using JObj.IH [of "(k, Some x)" "Some x" x y] x y by simp
    qed simp_all
    then show ?thesis unfolding w normal_json_fields [OF keys] same_json_simps by simp
  qed (auto simp: same_json_simps)
next
  case (JStr s)
  show ?case by (cases w) (auto simp: same_json_simps)
next
  case (JNum i)
  show ?case by (cases w) (auto simp: same_json_simps)
next
  case (JBool b)
  show ?case by (cases w) (auto simp: same_json_simps)
next
  case JNull
  show ?case by (cases w) (auto simp: same_json_simps)
qed

text \<open>
  C37: two JSON values have the same canonical text exactly when they are the same value. Sameness knows no
  texts and no order: objects are the same when they give the same answer for every key, an absent and an
  undefined field alike. The values are those of JavaScript, whose objects have every key once.
\<close>

theorem canonical_json_eq_iff:
  assumes "well_keyed v" "well_keyed w"
  shows "canonical_json v = canonical_json w \<longleftrightarrow> same_json v w"
  unfolding normal_json_same [OF assms, symmetric]
proof
  assume "canonical_json v = canonical_json w"
  then show "normal_json v = normal_json w"
    using readsD [OF canonical_json_reads, of v "[]" w "[]"] by simp
next
  assume "normal_json v = normal_json w"
  then show "canonical_json v = canonical_json w"
    by (metis normal_json_canonical)
qed

theorem canonical_json_eq_iff_witness:
  "canonical_json (JObj [(''b'', Some (JNum 1)), (''a'', Some JNull)]) =
     canonical_json (JObj [(''a'', Some JNull), (''c'', None), (''b'', Some (JNum 1))]) \<and>
   canonical_json (JObj [(''b'', Some (JNum 1))]) \<noteq> canonical_json (JObj [(''b'', Some (JStr ''1''))])"
proof -
  have "same_json (JObj [(''b'', Some (JNum 1)), (''a'', Some JNull)])
      (JObj [(''a'', Some JNull), (''c'', None), (''b'', Some (JNum 1))])"
    by (rule same_json.intros(6)) (simp add: json_field_def same_json_simps)
  moreover have "\<not> same_json (JObj [(''b'', Some (JNum 1))]) (JObj [(''b'', Some (JStr ''1''))])"
    by (auto simp: same_json_simps json_field_def dest: spec [of _ "''b''"])
  ultimately show ?thesis
    using canonical_json_eq_iff [of "JObj [(''b'', Some (JNum 1)), (''a'', Some JNull)]"
        "JObj [(''a'', Some JNull), (''c'', None), (''b'', Some (JNum 1))]"]
      canonical_json_eq_iff [of "JObj [(''b'', Some (JNum 1))]" "JObj [(''b'', Some (JStr ''1''))]"] by simp
qed

end
