(* ===== verification/Errors.thy ===== *)
theory Errors
  imports Canonical
begin

text \<open>
  \<open>src/domain/errors.ts\<close>, \<open>src/db/errors.ts\<close> and \<open>src/api/errors.ts\<close>: the error codes of the
  HTTP contract, the errors the program throws as values, and their translation to a response.
\<close>

subsection \<open>Error codes\<close>

datatype error_code =
    VALIDATION_ERROR
  | UNAUTHORIZED
  | FORBIDDEN
  | RESOURCE_NOT_FOUND
  | IDEMPOTENCY_KEY_REQUIRED
  | IDEMPOTENCY_CONFLICT
  | IDEMPOTENCY_IN_PROGRESS
  | INVALID_STATE_TRANSITION
  | APPROVAL_ALREADY_RECORDED
  | SELF_APPROVAL_NOT_ALLOWED
  | APPROVAL_REQUEST_CLOSED
  | COMPLIANCE_NOT_ELIGIBLE
  | ASSET_PAUSED
  | ASSET_NOT_ACTIVE
  | SUPPLY_CAP_EXCEEDED
  | OPERATION_CONFLICT
  | CHAIN_UNAVAILABLE
  | CHAIN_IDENTITY_MISMATCH
  | SIGNER_REJECTED
  | SIGNED_TRANSACTION_MISMATCH
  | NONCE_DIVERGENCE
  | REPLACEMENT_INTENT_MISMATCH
  | REPLACEMENT_LIMIT_REACHED
  | SIMULATION_FAILED
  | INTERNAL_ERROR

fun http_status_by_code :: "error_code \<Rightarrow> nat" where
  "http_status_by_code VALIDATION_ERROR = 400"
| "http_status_by_code UNAUTHORIZED = 401"
| "http_status_by_code FORBIDDEN = 403"
| "http_status_by_code RESOURCE_NOT_FOUND = 404"
| "http_status_by_code IDEMPOTENCY_KEY_REQUIRED = 400"
| "http_status_by_code IDEMPOTENCY_CONFLICT = 409"
| "http_status_by_code IDEMPOTENCY_IN_PROGRESS = 409"
| "http_status_by_code INVALID_STATE_TRANSITION = 409"
| "http_status_by_code APPROVAL_ALREADY_RECORDED = 409"
| "http_status_by_code SELF_APPROVAL_NOT_ALLOWED = 409"
| "http_status_by_code APPROVAL_REQUEST_CLOSED = 409"
| "http_status_by_code COMPLIANCE_NOT_ELIGIBLE = 422"
| "http_status_by_code ASSET_PAUSED = 409"
| "http_status_by_code ASSET_NOT_ACTIVE = 409"
| "http_status_by_code SUPPLY_CAP_EXCEEDED = 422"
| "http_status_by_code OPERATION_CONFLICT = 409"
| "http_status_by_code CHAIN_UNAVAILABLE = 503"
| "http_status_by_code CHAIN_IDENTITY_MISMATCH = 500"
| "http_status_by_code SIGNER_REJECTED = 502"
| "http_status_by_code SIGNED_TRANSACTION_MISMATCH = 500"
| "http_status_by_code NONCE_DIVERGENCE = 500"
| "http_status_by_code REPLACEMENT_INTENT_MISMATCH = 500"
| "http_status_by_code REPLACEMENT_LIMIT_REACHED = 409"
| "http_status_by_code SIMULATION_FAILED = 422"
| "http_status_by_code INTERNAL_ERROR = 500"

text \<open>The string each code is in the source; \<open>failure_code\<close> columns store it.\<close>

fun error_code_name :: "error_code \<Rightarrow> string" where
  "error_code_name VALIDATION_ERROR = ''VALIDATION_ERROR''"
| "error_code_name UNAUTHORIZED = ''UNAUTHORIZED''"
| "error_code_name FORBIDDEN = ''FORBIDDEN''"
| "error_code_name RESOURCE_NOT_FOUND = ''RESOURCE_NOT_FOUND''"
| "error_code_name IDEMPOTENCY_KEY_REQUIRED = ''IDEMPOTENCY_KEY_REQUIRED''"
| "error_code_name IDEMPOTENCY_CONFLICT = ''IDEMPOTENCY_CONFLICT''"
| "error_code_name IDEMPOTENCY_IN_PROGRESS = ''IDEMPOTENCY_IN_PROGRESS''"
| "error_code_name INVALID_STATE_TRANSITION = ''INVALID_STATE_TRANSITION''"
| "error_code_name APPROVAL_ALREADY_RECORDED = ''APPROVAL_ALREADY_RECORDED''"
| "error_code_name SELF_APPROVAL_NOT_ALLOWED = ''SELF_APPROVAL_NOT_ALLOWED''"
| "error_code_name APPROVAL_REQUEST_CLOSED = ''APPROVAL_REQUEST_CLOSED''"
| "error_code_name COMPLIANCE_NOT_ELIGIBLE = ''COMPLIANCE_NOT_ELIGIBLE''"
| "error_code_name ASSET_PAUSED = ''ASSET_PAUSED''"
| "error_code_name ASSET_NOT_ACTIVE = ''ASSET_NOT_ACTIVE''"
| "error_code_name SUPPLY_CAP_EXCEEDED = ''SUPPLY_CAP_EXCEEDED''"
| "error_code_name OPERATION_CONFLICT = ''OPERATION_CONFLICT''"
| "error_code_name CHAIN_UNAVAILABLE = ''CHAIN_UNAVAILABLE''"
| "error_code_name CHAIN_IDENTITY_MISMATCH = ''CHAIN_IDENTITY_MISMATCH''"
| "error_code_name SIGNER_REJECTED = ''SIGNER_REJECTED''"
| "error_code_name SIGNED_TRANSACTION_MISMATCH = ''SIGNED_TRANSACTION_MISMATCH''"
| "error_code_name NONCE_DIVERGENCE = ''NONCE_DIVERGENCE''"
| "error_code_name REPLACEMENT_INTENT_MISMATCH = ''REPLACEMENT_INTENT_MISMATCH''"
| "error_code_name REPLACEMENT_LIMIT_REACHED = ''REPLACEMENT_LIMIT_REACHED''"
| "error_code_name SIMULATION_FAILED = ''SIMULATION_FAILED''"
| "error_code_name INTERNAL_ERROR = ''INTERNAL_ERROR''"

subsection \<open>Thrown values\<close>

text \<open>
  What can be thrown: an \<open>AppError\<close>, a PostgreSQL error with its code and constraint name
  (Drizzle's wrapper is already removed, as \<open>asPgError\<close> does), a schema error of the request
  validator, or any other JavaScript error with its message.
\<close>

record app_error_fields =
  ae_code :: error_code
  ae_message :: string
  ae_http_status :: nat
  ae_details :: json
  ae_retryable :: bool

datatype pg_code =
    UNIQUE_VIOLATION
  | CHECK_VIOLATION
  | FOREIGN_KEY_VIOLATION
  | RESTRICT_VIOLATION
  | SERIALIZATION_FAILURE
  | DEADLOCK_DETECTED

datatype exn =
    AppError app_error_fields
  | PgError pg_code string
  | ZodError "(string \<times> string) list"
  | JsError string

definition new_app_error :: "error_code \<Rightarrow> string \<Rightarrow> json \<Rightarrow> bool \<Rightarrow> app_error_fields" where
  "new_app_error code message details retryable =
     \<lparr>ae_code = code, ae_message = message, ae_http_status = http_status_by_code code,
      ae_details = details, ae_retryable = retryable\<rparr>"

text \<open>\<open>new AppError(code, message, {details})\<close>, the form most call sites use.\<close>

definition app_error :: "error_code \<Rightarrow> string \<Rightarrow> (string \<times> json) list \<Rightarrow> exn" where
  "app_error code message details =
     AppError (new_app_error code message (JObj (map (map_prod id Some) details)) False)"

definition validation_error :: "string \<Rightarrow> exn" where
  "validation_error message = app_error VALIDATION_ERROR message []"

definition unauthorized_error :: "string \<Rightarrow> exn" where
  "unauthorized_error message = app_error UNAUTHORIZED message []"

definition forbidden_error :: "string \<Rightarrow> (string \<times> json) list \<Rightarrow> exn" where
  "forbidden_error message details = app_error FORBIDDEN message details"

definition not_found_error :: "string \<Rightarrow> string \<Rightarrow> exn" where
  "not_found_error resource_type resource_id =
     app_error RESOURCE_NOT_FOUND (resource_type @ '' not found'')
       [(''resourceType'', JStr resource_type), (''resourceId'', JStr resource_id)]"

definition invalid_state_transition_error :: "string \<Rightarrow> string \<Rightarrow> string \<Rightarrow> exn" where
  "invalid_state_transition_error machine from_s to_s =
     app_error INVALID_STATE_TRANSITION (''invalid '' @ machine @ '' transition '' @ from_s @ '' -> '' @ to_s)
       [(''machine'', JStr machine), (''from'', JStr from_s), (''to'', JStr to_s)]"

definition chain_unavailable_error :: "string \<Rightarrow> exn" where
  "chain_unavailable_error message = AppError (new_app_error CHAIN_UNAVAILABLE message (JObj []) True)"

fun is_app_error :: "exn \<Rightarrow> bool" where
  "is_app_error (AppError _) = True"
| "is_app_error _ = False"

text \<open>\<open>isAppError(error) ? error.code : ErrorCode.INTERNAL_ERROR\<close>\<close>

fun code_of_error :: "exn \<Rightarrow> error_code" where
  "code_of_error (AppError e) = ae_code e"
| "code_of_error _ = INTERNAL_ERROR"

text \<open>\<open>error.message\<close>; every thrown value of the program is an \<open>Error\<close>.\<close>

fun message_of_error :: "exn \<Rightarrow> string" where
  "message_of_error (AppError e) = ae_message e"
| "message_of_error (PgError c k) = ''violates constraint '' @ k"
| "message_of_error (ZodError _) = ''validation''"
| "message_of_error (JsError m) = m"

fun as_pg_error :: "exn \<Rightarrow> (pg_code \<times> string) option" where
  "as_pg_error (PgError c k) = Some (c, k)"
| "as_pg_error _ = None"

definition is_unique_violation :: "exn \<Rightarrow> string option \<Rightarrow> bool" where
  "is_unique_violation e wanted = (case as_pg_error e of
     None \<Rightarrow> False
   | Some (c, k) \<Rightarrow> c = UNIQUE_VIOLATION \<and> (case wanted of None \<Rightarrow> True | Some w \<Rightarrow> k = w))"

definition is_check_violation :: "exn \<Rightarrow> string option \<Rightarrow> bool" where
  "is_check_violation e wanted = (case as_pg_error e of
     None \<Rightarrow> False
   | Some (c, k) \<Rightarrow> c = CHECK_VIOLATION \<and> (case wanted of None \<Rightarrow> True | Some w \<Rightarrow> k = w))"

definition constraint_name :: "exn \<Rightarrow> string option" where
  "constraint_name e = map_option snd (as_pg_error e)"

subsection \<open>HTTP responses\<close>

record error_body =
  eb_code :: error_code
  eb_message :: string
  eb_details :: "json option"
  eb_request_id :: string
  eb_correlation_id :: string

record normalized_error =
  ne_status :: nat
  ne_body :: error_body

definition has_no_keys :: "json \<Rightarrow> bool" where
  "has_no_keys d = (case d of JObj [] \<Rightarrow> True | _ \<Rightarrow> False)"

definition zod_issues :: "(string \<times> string) list \<Rightarrow> json" where
  "zod_issues issues = JObj [(''issues'', Some (JArr (map (\<lambda>(path, message).
     JObj [(''path'', Some (JStr path)), (''message'', Some (JStr message))]) issues)))]"

fun normalize_error :: "exn \<Rightarrow> string \<Rightarrow> string \<Rightarrow> normalized_error" where
  "normalize_error (ZodError issues) request_id correlation_id =
     \<lparr>ne_status = 400, ne_body = \<lparr>eb_code = VALIDATION_ERROR, eb_message = ''request validation failed'',
       eb_details = Some (zod_issues issues), eb_request_id = request_id, eb_correlation_id = correlation_id\<rparr>\<rparr>"
| "normalize_error (AppError e) request_id correlation_id =
     \<lparr>ne_status = ae_http_status e, ne_body = \<lparr>eb_code = ae_code e, eb_message = ae_message e,
       eb_details = (if has_no_keys (ae_details e) then None else Some (ae_details e)),
       eb_request_id = request_id, eb_correlation_id = correlation_id\<rparr>\<rparr>"
| "normalize_error _ request_id correlation_id =
     \<lparr>ne_status = 500, ne_body = \<lparr>eb_code = INTERNAL_ERROR, eb_message = ''an internal error occurred'',
       eb_details = None, eb_request_id = request_id, eb_correlation_id = correlation_id\<rparr>\<rparr>"

lemma code_of_app_error [simp]: "code_of_error (app_error c m d) = c"
  by (simp add: app_error_def new_app_error_def)

lemma app_error_eq [simp]: "app_error c m d \<noteq> PgError k n" "app_error c m d \<noteq> JsError s"
  by (simp_all add: app_error_def)

lemma pg_of_app_error [simp]: "as_pg_error (app_error c m d) = None"
  by (simp add: app_error_def)

text \<open>
  An error that is neither an application error nor a validation error reaches the client as
  the same 500 response whatever it was: driver messages and stack traces do not leak.
\<close>

theorem normalize_error_hides_internals:
  assumes "\<not> is_app_error e" "\<forall>issues. e \<noteq> ZodError issues"
  shows "normalize_error e rid cid =
     \<lparr>ne_status = 500, ne_body = \<lparr>eb_code = INTERNAL_ERROR, eb_message = ''an internal error occurred'',
       eb_details = None, eb_request_id = rid, eb_correlation_id = cid\<rparr>\<rparr>"
  using assms by (cases e) auto

theorem normalize_error_hides_internals_witness:
  "normalize_error (PgError UNIQUE_VIOLATION ''wallets_chain_address_key'') ''r'' ''c'' =
     normalize_error (JsError ''connection string was postgres://secret'') ''r'' ''c''"
  using normalize_error_hides_internals [of "PgError UNIQUE_VIOLATION ''wallets_chain_address_key''" "''r''" "''c''"]
    normalize_error_hides_internals [of "JsError ''connection string was postgres://secret''" "''r''" "''c''"]
  by simp

end
