(* ===== verification/Effects.thy ===== *)
theory Effects
  imports Errors
begin

text \<open>
  The two kinds of effectful code. A transaction body (what runs inside \<open>db.transaction\<close>) maps
  the database to an error or to a result and the new database: a thrown error carries no
  database, because PostgreSQL rolls the transaction back. Code outside a transaction threads
  the whole system state, which survives an error: what was committed before a throw stays.
\<close>

subsection \<open>Transaction bodies\<close>

type_synonym ('d, 'a) tx = "'d \<Rightarrow> exn + 'a \<times> 'd"

definition tx_ret :: "'a \<Rightarrow> ('d, 'a) tx" where
  "tx_ret a = (\<lambda>d. Inr (a, d))"

definition tx_throw :: "exn \<Rightarrow> ('d, 'a) tx" where
  "tx_throw e = (\<lambda>d. Inl e)"

definition tx_bind :: "('d, 'a) tx \<Rightarrow> ('a \<Rightarrow> ('d, 'b) tx) \<Rightarrow> ('d, 'b) tx" where
  "tx_bind m k = (\<lambda>d. case m d of Inl e \<Rightarrow> Inl e | Inr (a, d') \<Rightarrow> k a d')"

definition tx_then :: "('d, 'a) tx \<Rightarrow> ('d, 'b) tx \<Rightarrow> ('d, 'b) tx" where
  "tx_then m n = tx_bind m (\<lambda>_. n)"

definition tx_read :: "('d \<Rightarrow> 'a) \<Rightarrow> ('d, 'a) tx" where
  "tx_read f = (\<lambda>d. Inr (f d, d))"

definition tx_modify :: "('d \<Rightarrow> 'd) \<Rightarrow> ('d, unit) tx" where
  "tx_modify f = (\<lambda>d. Inr ((), f d))"

text \<open>\<open>if (\<not> ok) throw e\<close>\<close>

definition tx_guard :: "bool \<Rightarrow> exn \<Rightarrow> ('d, unit) tx" where
  "tx_guard ok e = (if ok then tx_ret () else tx_throw e)"

definition tx_when :: "bool \<Rightarrow> ('d, unit) tx \<Rightarrow> ('d, unit) tx" where
  "tx_when c m = (if c then m else tx_ret ())"

text \<open>A pure check or computation that may throw.\<close>

definition tx_lift :: "exn + 'a \<Rightarrow> ('d, 'a) tx" where
  "tx_lift r = (\<lambda>d. case r of Inl e \<Rightarrow> Inl e | Inr a \<Rightarrow> Inr (a, d))"

text \<open>\<open>for (const x of xs) await f(x)\<close>\<close>

fun tx_for_each :: "('x \<Rightarrow> ('d, unit) tx) \<Rightarrow> 'x list \<Rightarrow> ('d, unit) tx" where
  "tx_for_each f [] = tx_ret ()"
| "tx_for_each f (x # xs) = tx_then (f x) (tx_for_each f xs)"

text \<open>\<open>try m catch (e) h e\<close> around one statement: a statement that fails changes nothing.\<close>

definition tx_catch :: "('d, 'a) tx \<Rightarrow> (exn \<Rightarrow> ('d, 'a) tx) \<Rightarrow> ('d, 'a) tx" where
  "tx_catch m h = (\<lambda>d. case m d of Inl e \<Rightarrow> h e d | Inr r \<Rightarrow> Inr r)"

text \<open>Success of a composed body, step by step.\<close>

lemma tx_bind_Inr [tx_simps]:
  "tx_bind m k d = Inr (b, d'') \<longleftrightarrow> (\<exists>a d'. m d = Inr (a, d') \<and> k a d' = Inr (b, d''))"
  by (auto simp: tx_bind_def split: sum.splits)

lemma tx_then_Inr [tx_simps]:
  "tx_then m n d = Inr (b, d'') \<longleftrightarrow> (\<exists>a d'. m d = Inr (a, d') \<and> n d' = Inr (b, d''))"
  by (simp add: tx_then_def tx_bind_Inr)

lemma tx_ret_Inr [tx_simps]: "tx_ret a d = Inr (b, d') \<longleftrightarrow> b = a \<and> d' = d"
  by (auto simp: tx_ret_def)

lemma tx_throw_Inr [tx_simps]: "tx_throw e d = Inr x \<longleftrightarrow> False"
  by (simp add: tx_throw_def)

lemma tx_read_Inr [tx_simps]: "tx_read f d = Inr (b, d') \<longleftrightarrow> b = f d \<and> d' = d"
  by (auto simp: tx_read_def)

lemma tx_modify_Inr [tx_simps]: "tx_modify f d = Inr (b, d') \<longleftrightarrow> d' = f d"
  by (auto simp: tx_modify_def)

lemma tx_guard_Inr [tx_simps]: "tx_guard ok e d = Inr (b, d') \<longleftrightarrow> ok \<and> d' = d"
  by (auto simp: tx_guard_def tx_ret_def tx_throw_def)

lemma tx_catch_Inr [tx_simps]:
  "tx_catch m h d = Inr r \<longleftrightarrow> m d = Inr r \<or> (\<exists>e. m d = Inl e \<and> h e d = Inr r)"
  by (auto simp: tx_catch_def split: sum.splits)

lemma tx_when_Inr [tx_simps]:
  "tx_when c m d = Inr (u, d') \<longleftrightarrow> (if c then m d = Inr (u, d') else d' = d)"
  by (auto simp: tx_when_def tx_ret_def)

lemma tx_lift_Inr [tx_simps]: "tx_lift r d = Inr (a, d') \<longleftrightarrow> r = Inr a \<and> d' = d"
  by (auto simp: tx_lift_def split: sum.splits)

text \<open>Running a composed body forwards.\<close>

lemmas tx_run = tx_bind_def tx_then_def tx_ret_def tx_throw_def tx_read_def tx_modify_def tx_guard_def tx_catch_def
  tx_when_def tx_lift_def

text \<open>
  A predicate of the database that a body keeps whenever it commits. The rules follow the
  structure of the body, so a body keeps what each of its statements keeps.
\<close>

definition preserves :: "('d \<Rightarrow> bool) \<Rightarrow> ('d, 'a) tx \<Rightarrow> bool" where
  "preserves P m \<longleftrightarrow> (\<forall>d a d'. P d \<longrightarrow> m d = Inr (a, d') \<longrightarrow> P d')"

named_theorems preserves_intros "rules that a transaction body keeps a predicate of the database"

lemma preservesI: "(\<And>d a d'. P d \<Longrightarrow> m d = Inr (a, d') \<Longrightarrow> P d') \<Longrightarrow> preserves P m"
  by (auto simp: preserves_def)

lemma preservesD: "preserves P m \<Longrightarrow> m d = Inr (a, d') \<Longrightarrow> P d \<Longrightarrow> P d'"
  by (auto simp: preserves_def)

lemma preserves_ret [preserves_intros]: "preserves P (tx_ret a)"
  by (auto simp: preserves_def tx_simps)

lemma preserves_throw [preserves_intros]: "preserves P (tx_throw e)"
  by (auto simp: preserves_def tx_simps)

lemma preserves_read [preserves_intros]: "preserves P (tx_read f)"
  by (auto simp: preserves_def tx_simps)

lemma preserves_guard [preserves_intros]: "preserves P (tx_guard c e)"
  by (auto simp: preserves_def tx_simps)

lemma preserves_lift [preserves_intros]: "preserves P (tx_lift r)"
  by (auto simp: preserves_def tx_simps)

lemma preserves_bind [preserves_intros]:
  "preserves P m \<Longrightarrow> (\<And>a. preserves P (k a)) \<Longrightarrow> preserves P (tx_bind m k)"
  unfolding preserves_def by (metis tx_bind_Inr)

lemma preserves_then [preserves_intros]: "preserves P m \<Longrightarrow> preserves P n \<Longrightarrow> preserves P (tx_then m n)"
  unfolding preserves_def by (metis tx_then_Inr)

lemma preserves_when [preserves_intros]: "preserves P m \<Longrightarrow> preserves P (tx_when c m)"
  by (auto simp: preserves_def tx_simps split: if_splits)

lemma preserves_catch [preserves_intros]:
  "preserves P m \<Longrightarrow> (\<And>e. preserves P (h e)) \<Longrightarrow> preserves P (tx_catch m h)"
  unfolding preserves_def tx_catch_Inr by blast

lemma preserves_for_each [preserves_intros]:
  "(\<And>x. preserves P (f x)) \<Longrightarrow> preserves P (tx_for_each f xs)"
  by (induction xs) (simp_all add: preserves_ret preserves_then)

lemma preserves_if [preserves_intros]:
  "preserves P m \<Longrightarrow> preserves P n \<Longrightarrow> preserves P (if c then m else n)"
  by simp

lemma preserves_if_cond:
  "(c \<Longrightarrow> preserves P m) \<Longrightarrow> (\<not> c \<Longrightarrow> preserves P n) \<Longrightarrow> preserves P (if c then m else n)"
  by simp

lemma preserves_option [preserves_intros]:
  "preserves P m \<Longrightarrow> (\<And>x. preserves P (f x)) \<Longrightarrow> preserves P (case v of None \<Rightarrow> m | Some x \<Rightarrow> f x)"
  by (cases v) auto

lemma preserves_list [preserves_intros]:
  "preserves P m \<Longrightarrow> (\<And>x xs. preserves P (f x xs)) \<Longrightarrow> preserves P (case v of [] \<Rightarrow> m | x # xs \<Rightarrow> f x xs)"
  by (cases v) auto

lemma preserves_sum [preserves_intros]:
  "(\<And>x. preserves P (f x)) \<Longrightarrow> (\<And>y. preserves P (g y)) \<Longrightarrow>
     preserves P (case v of Inl x \<Rightarrow> f x | Inr y \<Rightarrow> g y)"
  by (cases v) auto

lemma preserves_prod [preserves_intros]:
  "(\<And>x y. preserves P (f x y)) \<Longrightarrow> preserves P (case v of (x, y) \<Rightarrow> f x y)"
  by (cases v) auto

lemma preserves_let [preserves_intros]: "(\<And>x. preserves P (f x)) \<Longrightarrow> preserves P (let x = v in f x)"
  by simp

lemma preserves_conj: "preserves P m \<Longrightarrow> preserves Q m \<Longrightarrow> preserves (\<lambda>d. P d \<and> Q d) m"
  by (auto simp: preserves_def)

subsection \<open>Code between transactions\<close>

type_synonym ('s, 'a) io = "'s \<Rightarrow> (exn + 'a) \<times> 's"

definition io_ret :: "'a \<Rightarrow> ('s, 'a) io" where
  "io_ret a = (\<lambda>s. (Inr a, s))"

definition io_throw :: "exn \<Rightarrow> ('s, 'a) io" where
  "io_throw e = (\<lambda>s. (Inl e, s))"

definition io_bind :: "('s, 'a) io \<Rightarrow> ('a \<Rightarrow> ('s, 'b) io) \<Rightarrow> ('s, 'b) io" where
  "io_bind m k = (\<lambda>s. case m s of (Inl e, s') \<Rightarrow> (Inl e, s') | (Inr a, s') \<Rightarrow> k a s')"

definition io_then :: "('s, 'a) io \<Rightarrow> ('s, 'b) io \<Rightarrow> ('s, 'b) io" where
  "io_then m n = io_bind m (\<lambda>_. n)"

definition io_read :: "('s \<Rightarrow> 'a) \<Rightarrow> ('s, 'a) io" where
  "io_read f = (\<lambda>s. (Inr (f s), s))"

definition io_guard :: "bool \<Rightarrow> exn \<Rightarrow> ('s, unit) io" where
  "io_guard ok e = (if ok then io_ret () else io_throw e)"

text \<open>\<open>try { m } catch (e) { h e }\<close>: the state the failed part left behind is kept.\<close>

definition io_catch :: "('s, 'a) io \<Rightarrow> (exn \<Rightarrow> ('s, 'a) io) \<Rightarrow> ('s, 'a) io" where
  "io_catch m h = (\<lambda>s. case m s of (Inl e, s') \<Rightarrow> h e s' | (Inr a, s') \<Rightarrow> (Inr a, s'))"

definition io_when :: "bool \<Rightarrow> ('s, unit) io \<Rightarrow> ('s, unit) io" where
  "io_when c m = (if c then m else io_ret ())"

definition io_lift :: "exn + 'a \<Rightarrow> ('s, 'a) io" where
  "io_lift r = (\<lambda>s. (r, s))"

fun io_map :: "('x \<Rightarrow> ('s, 'y) io) \<Rightarrow> 'x list \<Rightarrow> ('s, 'y list) io" where
  "io_map f [] = io_ret []"
| "io_map f (x # xs) = io_bind (f x) (\<lambda>y. io_bind (io_map f xs) (\<lambda>ys. io_ret (y # ys)))"

text \<open>\<open>try { m } ...\<close> with the outcome as a value.\<close>

definition io_attempt :: "('s, 'a) io \<Rightarrow> ('s, exn + 'a) io" where
  "io_attempt m = (\<lambda>s. case m s of (r, s') \<Rightarrow> (Inr r, s'))"

lemma io_bind_Inr [io_simps]:
  "io_bind m k s = (Inr b, s'') \<longleftrightarrow> (\<exists>a s'. m s = (Inr a, s') \<and> k a s' = (Inr b, s''))"
  by (auto simp: io_bind_def split: prod.splits sum.splits)

lemma io_bind_Inl [io_simps]:
  "io_bind m k s = (Inl e, s'') \<longleftrightarrow>
     m s = (Inl e, s'') \<or> (\<exists>a s'. m s = (Inr a, s') \<and> k a s' = (Inl e, s''))"
  by (auto simp: io_bind_def split: prod.splits sum.splits)

lemma io_then_Inr [io_simps]:
  "io_then m n s = (Inr b, s'') \<longleftrightarrow> (\<exists>a s'. m s = (Inr a, s') \<and> n s' = (Inr b, s''))"
  by (simp add: io_then_def io_bind_Inr)

lemma io_ret_iff [io_simps]: "io_ret a s = (r, s') \<longleftrightarrow> r = Inr a \<and> s' = s"
  by (auto simp: io_ret_def)

lemma io_throw_iff [io_simps]: "io_throw e s = (r, s') \<longleftrightarrow> r = Inl e \<and> s' = s"
  by (auto simp: io_throw_def)

lemma io_read_iff [io_simps]: "io_read f s = (r, s') \<longleftrightarrow> r = Inr (f s) \<and> s' = s"
  by (auto simp: io_read_def)

lemma io_guard_Inr [io_simps]: "io_guard ok e s = (Inr b, s') \<longleftrightarrow> ok \<and> s' = s"
  by (auto simp: io_guard_def io_ret_def io_throw_def)

lemma io_lift_iff [io_simps]: "io_lift x s = (r, s') \<longleftrightarrow> r = x \<and> s' = s"
  by (auto simp: io_lift_def)

lemmas io_run = io_when_def io_lift_def io_bind_def io_then_def io_ret_def io_throw_def io_read_def io_guard_def io_catch_def io_attempt_def

text \<open>
  What a sequence of effects can do to the state: a relation that is reflexive and transitive and
  holds of every step holds of the sequence.
\<close>

definition io_within :: "('s \<Rightarrow> 's \<Rightarrow> bool) \<Rightarrow> ('s, 'a) io \<Rightarrow> bool" where
  "io_within R m \<longleftrightarrow> (\<forall>s. R s (snd (m s)))"

locale state_relation =
  fixes R :: "'s \<Rightarrow> 's \<Rightarrow> bool"
  assumes R_refl: "R s s"
    and R_trans: "R s t \<Longrightarrow> R t u \<Longrightarrow> R s u"
begin

lemma within_ret: "io_within R (io_ret a)"
  by (simp add: io_within_def io_ret_def R_refl)

lemma within_throw: "io_within R (io_throw e)"
  by (simp add: io_within_def io_throw_def R_refl)

lemma within_read: "io_within R (io_read f)"
  by (simp add: io_within_def io_read_def R_refl)

lemma within_guard: "io_within R (io_guard ok e)"
  by (simp add: io_guard_def within_ret within_throw)

lemma within_bind: "io_within R m \<Longrightarrow> (\<And>a. io_within R (k a)) \<Longrightarrow> io_within R (io_bind m k)"
  unfolding io_within_def io_bind_def
  by (auto split: prod.splits sum.splits) (metis snd_conv R_trans)+

lemma within_then: "io_within R m \<Longrightarrow> io_within R n \<Longrightarrow> io_within R (io_then m n)"
  by (simp add: io_then_def within_bind)

lemma within_catch: "io_within R m \<Longrightarrow> (\<And>e. io_within R (h e)) \<Longrightarrow> io_within R (io_catch m h)"
  unfolding io_within_def io_catch_def
  by (auto split: prod.splits sum.splits) (metis snd_conv R_trans)+

lemma within_attempt: "io_within R m \<Longrightarrow> io_within R (io_attempt m)"
  by (auto simp: io_within_def io_attempt_def split: prod.splits) (metis snd_conv)

lemma within_when: "io_within R m \<Longrightarrow> io_within R (io_when c m)"
  by (simp add: io_when_def within_ret)

lemma within_lift: "io_within R (io_lift r)"
  by (simp add: io_within_def io_lift_def R_refl)

lemma within_map: "(\<And>x. io_within R (f x)) \<Longrightarrow> io_within R (io_map f xs)"
  by (induction xs) (auto intro: within_ret within_bind)

lemma within_if: "io_within R m \<Longrightarrow> io_within R n \<Longrightarrow> io_within R (if c then m else n)"
  by simp

lemma within_option:
  "io_within R m \<Longrightarrow> (\<And>x. io_within R (f x)) \<Longrightarrow> io_within R (case v of None \<Rightarrow> m | Some x \<Rightarrow> f x)"
  by (cases v) auto

lemma within_list:
  "io_within R m \<Longrightarrow> (\<And>x xs. io_within R (f x xs)) \<Longrightarrow> io_within R (case v of [] \<Rightarrow> m | x # xs \<Rightarrow> f x xs)"
  by (cases v) auto

lemma within_sum:
  "(\<And>x. io_within R (f x)) \<Longrightarrow> (\<And>y. io_within R (g y)) \<Longrightarrow>
     io_within R (case v of Inl x \<Rightarrow> f x | Inr y \<Rightarrow> g y)"
  by (cases v) auto

lemma within_prod: "(\<And>x y. io_within R (f x y)) \<Longrightarrow> io_within R (case v of (x, y) \<Rightarrow> f x y)"
  by (cases v) auto

lemma within_let: "(\<And>x. io_within R (f x)) \<Longrightarrow> io_within R (let x = v in f x)"
  by simp

lemmas within_intros = within_ret within_when within_lift within_map within_if within_option
  within_list within_sum within_prod within_let within_throw within_read within_guard within_bind within_then
  within_catch within_attempt

end

end
