(* ===== verification/Domain.thy ===== *)
theory Domain
  imports Effects
begin

text \<open>
  The pure rules under \<open>src/domain\<close>: the operation state machine (\<open>operation-state.ts\<close>), the
  approval request machine and the approval tally (\<open>approval-state.ts\<close>), roles and actors
  (\<open>roles.ts\<close>), and the authorization guard of \<open>platform/auth/authorize.ts\<close>.
\<close>

subsection \<open>State machines\<close>

text \<open>
  Both machines are a table from a state to the states it may move to, with a list of final
  states. What the services rely on is stated once, for any such table.
\<close>

locale transition_table =
  fixes allowed :: "'s \<Rightarrow> 's list"
    and terminal :: "'s list"
  assumes terminal_iff: "s \<in> set terminal \<longleftrightarrow> allowed s = []"
    and irreflexive: "s \<notin> set (allowed s)"
begin

text \<open>A timeline of the machine: each state is followed by one its row lists.\<close>

fun path :: "'s list \<Rightarrow> bool" where
  "path [] = True"
| "path [s] = True"
| "path (s # t # ss) = (t \<in> set (allowed s) \<and> path (t # ss))"

lemma path_append1: "path (ss @ [s]) \<Longrightarrow> t \<in> set (allowed s) \<Longrightarrow> path (ss @ [s, t])"
  by (induction ss rule: path.induct) (auto split: if_splits)

lemma path_Cons_D: "path (s # ss) \<Longrightarrow> path ss"
  by (cases ss) auto

text \<open>A path out of a set whose only exit is \<open>m\<close> passes \<open>m\<close>.\<close>

lemma path_through:
  "path (s # ss) \<Longrightarrow> s \<in> A \<Longrightarrow> last (s # ss) \<notin> A \<Longrightarrow> (\<And>a. a \<in> A \<Longrightarrow> set (allowed a) \<subseteq> insert m A) \<Longrightarrow>
   m \<in> set (s # ss)"
proof (induction ss arbitrary: s)
  case (Cons t ss)
  then have "t \<in> insert m A" "path (t # ss)" by auto
  with Cons show ?case by (cases "t = m") auto
qed simp

lemma terminal_absorbing: "s \<in> set terminal \<Longrightarrow> path (s # ss) \<Longrightarrow> ss = []"
  by (cases ss) (auto simp: terminal_iff)

lemma path_reaches: "path (s # ss) \<Longrightarrow> (s, last (s # ss)) \<in> {(a, b). b \<in> set (allowed a)}\<^sup>*"
proof (induction ss arbitrary: s)
  case (Cons t ss)
  then have "(s, t) \<in> {(a, b). b \<in> set (allowed a)}" "path (t # ss)" by auto
  with Cons.IH show ?case
    by (auto intro: converse_rtrancl_into_rtrancl)
qed simp

end

subsection \<open>Operations\<close>

datatype operation_state =
    Op_PENDING_APPROVAL
  | Op_READY
  | Op_PREPARING
  | Op_SIGNING
  | Op_SIGNED
  | Op_BROADCASTING
  | Op_BROADCAST_UNKNOWN
  | Op_SUBMITTED
  | Op_INCLUDED
  | Op_SUCCEEDED
  | Op_REVERTED
  | Op_FAILED
  | Op_CANCELLED

definition operation_states :: "operation_state list" where
  "operation_states = [Op_PENDING_APPROVAL, Op_READY, Op_PREPARING, Op_SIGNING, Op_SIGNED, Op_BROADCASTING,
     Op_BROADCAST_UNKNOWN, Op_SUBMITTED, Op_INCLUDED, Op_SUCCEEDED, Op_REVERTED, Op_FAILED, Op_CANCELLED]"

fun operation_state_name :: "operation_state \<Rightarrow> string" where
  "operation_state_name Op_PENDING_APPROVAL = ''PENDING_APPROVAL''"
| "operation_state_name Op_READY = ''READY''"
| "operation_state_name Op_PREPARING = ''PREPARING''"
| "operation_state_name Op_SIGNING = ''SIGNING''"
| "operation_state_name Op_SIGNED = ''SIGNED''"
| "operation_state_name Op_BROADCASTING = ''BROADCASTING''"
| "operation_state_name Op_BROADCAST_UNKNOWN = ''BROADCAST_UNKNOWN''"
| "operation_state_name Op_SUBMITTED = ''SUBMITTED''"
| "operation_state_name Op_INCLUDED = ''INCLUDED''"
| "operation_state_name Op_SUCCEEDED = ''SUCCEEDED''"
| "operation_state_name Op_REVERTED = ''REVERTED''"
| "operation_state_name Op_FAILED = ''FAILED''"
| "operation_state_name Op_CANCELLED = ''CANCELLED''"

definition terminal_operation_states :: "operation_state list" where
  "terminal_operation_states = [Op_SUCCEEDED, Op_REVERTED, Op_FAILED, Op_CANCELLED]"

definition chain_inflight_states :: "operation_state list" where
  "chain_inflight_states = [Op_BROADCASTING, Op_BROADCAST_UNKNOWN, Op_SUBMITTED, Op_INCLUDED]"

fun allowed_operation_transitions :: "operation_state \<Rightarrow> operation_state list" where
  "allowed_operation_transitions Op_PENDING_APPROVAL = [Op_READY, Op_CANCELLED, Op_FAILED]"
| "allowed_operation_transitions Op_READY = [Op_PREPARING, Op_CANCELLED, Op_FAILED]"
| "allowed_operation_transitions Op_PREPARING = [Op_SIGNING, Op_READY, Op_FAILED]"
| "allowed_operation_transitions Op_SIGNING = [Op_SIGNED, Op_FAILED]"
| "allowed_operation_transitions Op_SIGNED = [Op_BROADCASTING, Op_FAILED]"
| "allowed_operation_transitions Op_BROADCASTING = [Op_SUBMITTED, Op_BROADCAST_UNKNOWN, Op_FAILED]"
| "allowed_operation_transitions Op_BROADCAST_UNKNOWN = [Op_BROADCASTING, Op_SUBMITTED, Op_INCLUDED, Op_FAILED]"
| "allowed_operation_transitions Op_SUBMITTED = [Op_INCLUDED, Op_BROADCAST_UNKNOWN]"
| "allowed_operation_transitions Op_INCLUDED = [Op_SUCCEEDED, Op_REVERTED, Op_SUBMITTED]"
| "allowed_operation_transitions Op_SUCCEEDED = []"
| "allowed_operation_transitions Op_REVERTED = []"
| "allowed_operation_transitions Op_FAILED = []"
| "allowed_operation_transitions Op_CANCELLED = []"

definition is_terminal_operation_state :: "operation_state \<Rightarrow> bool" where
  "is_terminal_operation_state s \<longleftrightarrow> s \<in> set terminal_operation_states"

definition can_transition_operation :: "operation_state \<Rightarrow> operation_state \<Rightarrow> bool" where
  "can_transition_operation from_s to_s \<longleftrightarrow> to_s \<in> set (allowed_operation_transitions from_s)"

text \<open>\<open>assertOperationTransition\<close>: \<open>Inl\<close> is the thrown error.\<close>

definition assert_operation_transition :: "operation_state \<Rightarrow> operation_state \<Rightarrow> exn + unit" where
  "assert_operation_transition from_s to_s =
     (if \<not> can_transition_operation from_s to_s
      then Inl (invalid_state_transition_error ''operation'' (operation_state_name from_s) (operation_state_name to_s))
      else Inr ())"

definition is_operation_state :: "string \<Rightarrow> bool" where
  "is_operation_state v \<longleftrightarrow> v \<in> set (map operation_state_name operation_states)"

interpretation operation_machine: transition_table allowed_operation_transitions terminal_operation_states
proof
  show "s \<in> set terminal_operation_states \<longleftrightarrow> allowed_operation_transitions s = []" for s
    by (cases s) (simp_all add: terminal_operation_states_def)
  show "s \<notin> set (allowed_operation_transitions s)" for s
    by (cases s) simp_all
qed

lemma operation_states_all: "s \<in> set operation_states"
  by (cases s) (simp_all add: operation_states_def)

lemma UNIV_operation_state: "UNIV = set operation_states"
  using operation_states_all by auto

text \<open>The list of the code enumerates the type, so statements about all states compute.\<close>

instantiation operation_state :: enum
begin

definition enum_operation_state :: "operation_state list" where
  "enum_operation_state = operation_states"

definition enum_all_operation_state :: "(operation_state \<Rightarrow> bool) \<Rightarrow> bool" where
  "enum_all_operation_state P \<longleftrightarrow> list_all P operation_states"

definition enum_ex_operation_state :: "(operation_state \<Rightarrow> bool) \<Rightarrow> bool" where
  "enum_ex_operation_state P \<longleftrightarrow> list_ex P operation_states"

instance
  by standard (simp_all add: enum_operation_state_def enum_all_operation_state_def enum_ex_operation_state_def
      UNIV_operation_state list_all_iff list_ex_iff, simp_all add: operation_states_def)

end

lemma operation_state_name_inj: "operation_state_name s = operation_state_name t \<Longrightarrow> s = t"
  by (cases s; cases t; simp)

text \<open>
  States from which a succeeded or in-flight operation cannot come back to a state before
  signing: once bytes may be with a node, only chain evidence moves the operation.
\<close>

definition before_broadcast :: "operation_state list" where
  "before_broadcast = [Op_PENDING_APPROVAL, Op_READY, Op_PREPARING, Op_SIGNING, Op_SIGNED]"

lemma before_broadcast_closed:
  "can_transition_operation s t \<Longrightarrow> s \<notin> set before_broadcast \<Longrightarrow> t \<notin> set before_broadcast"
  by (cases s) (auto simp: can_transition_operation_def before_broadcast_def)

text \<open>
  A timeline that begins before execution and ends in SUCCEEDED was signed, broadcast and included.
\<close>

lemma succeeded_path:
  assumes "operation_machine.path (s # ss)" "s \<in> {Op_PENDING_APPROVAL, Op_READY}" "last (s # ss) = Op_SUCCEEDED"
    and "m \<in> {Op_SIGNED, Op_BROADCASTING, Op_INCLUDED}"
  shows "m \<in> set (s # ss)"
proof -
  define early where "early = {Op_PENDING_APPROVAL, Op_READY, Op_PREPARING, Op_SIGNING, Op_FAILED, Op_CANCELLED}"
  have s: "s \<in> early" using assms(2) by (auto simp: early_def)
  consider "m = Op_SIGNED" | "m = Op_BROADCASTING" | "m = Op_INCLUDED" using assms(4) by auto
  then show ?thesis
  proof cases
    case 1
    have out: "last (s # ss) \<notin> early" unfolding assms(3) by (simp add: early_def)
    show ?thesis by (rule operation_machine.path_through [OF assms(1) s out]) (use 1 in \<open>auto simp: early_def\<close>)
  next
    case 2
    have out: "last (s # ss) \<notin> insert Op_SIGNED early" unfolding assms(3) by (simp add: early_def)
    show ?thesis by (rule operation_machine.path_through [OF assms(1) _ out]) (use s 2 in \<open>auto simp: early_def\<close>)
  next
    case 3
    let ?A = "early \<union> {Op_SIGNED, Op_BROADCASTING, Op_BROADCAST_UNKNOWN, Op_SUBMITTED, Op_REVERTED}"
    have out: "last (s # ss) \<notin> ?A" unfolding assms(3) by (simp add: early_def)
    show ?thesis by (rule operation_machine.path_through [OF assms(1) _ out]) (use s 3 in \<open>auto simp: early_def\<close>)
  qed
qed

subsection \<open>Approval requests\<close>

datatype approval_request_state = Ar_PENDING | Ar_APPROVED | Ar_REJECTED | Ar_SUPERSEDED | Ar_CANCELLED

datatype approval_decision_kind = APPROVE | REJECT

definition required_mint_approvals :: nat where
  "required_mint_approvals = 2"

fun approval_request_state_name :: "approval_request_state \<Rightarrow> string" where
  "approval_request_state_name Ar_PENDING = ''PENDING''"
| "approval_request_state_name Ar_APPROVED = ''APPROVED''"
| "approval_request_state_name Ar_REJECTED = ''REJECTED''"
| "approval_request_state_name Ar_SUPERSEDED = ''SUPERSEDED''"
| "approval_request_state_name Ar_CANCELLED = ''CANCELLED''"

fun approval_decision_name :: "approval_decision_kind \<Rightarrow> string" where
  "approval_decision_name APPROVE = ''APPROVE''"
| "approval_decision_name REJECT = ''REJECT''"

fun allowed_approval_transitions :: "approval_request_state \<Rightarrow> approval_request_state list" where
  "allowed_approval_transitions Ar_PENDING = [Ar_APPROVED, Ar_REJECTED, Ar_SUPERSEDED, Ar_CANCELLED]"
| "allowed_approval_transitions Ar_APPROVED = []"
| "allowed_approval_transitions Ar_REJECTED = []"
| "allowed_approval_transitions Ar_SUPERSEDED = []"
| "allowed_approval_transitions Ar_CANCELLED = []"

definition can_transition_approval_request :: "approval_request_state \<Rightarrow> approval_request_state \<Rightarrow> bool" where
  "can_transition_approval_request from_s to_s \<longleftrightarrow> to_s \<in> set (allowed_approval_transitions from_s)"

definition assert_approval_request_transition :: "approval_request_state \<Rightarrow> approval_request_state \<Rightarrow> exn + unit" where
  "assert_approval_request_transition from_s to_s =
     (if \<not> can_transition_approval_request from_s to_s
      then Inl (invalid_state_transition_error ''approval_request'' (approval_request_state_name from_s)
        (approval_request_state_name to_s))
      else Inr ())"

definition is_approval_request_open :: "approval_request_state \<Rightarrow> bool" where
  "is_approval_request_open s \<longleftrightarrow> s = Ar_PENDING"

interpretation approval_machine: transition_table allowed_approval_transitions
  "[Ar_APPROVED, Ar_REJECTED, Ar_SUPERSEDED, Ar_CANCELLED]"
proof
  show "s \<in> set [Ar_APPROVED, Ar_REJECTED, Ar_SUPERSEDED, Ar_CANCELLED] \<longleftrightarrow> allowed_approval_transitions s = []" for s
    by (cases s) simp_all
  show "s \<notin> set (allowed_approval_transitions s)" for s
    by (cases s) simp_all
qed

lemma approval_path_short: "approval_machine.path (Ar_PENDING # ss) \<Longrightarrow> length ss \<le> 1"
  by (induction ss rule: approval_machine.path.induct) (auto split: if_splits)

record approval_tally_input =
  at_required_approvals :: nat
  at_approver_ids :: "uuid list"
  at_has_rejection :: bool

datatype approval_outcome = Outcome_PENDING nat | Outcome_APPROVED | Outcome_REJECTED

text \<open>\<open>new Set(ids).size\<close> is the number of different ids.\<close>

definition evaluate_approval_outcome :: "approval_tally_input \<Rightarrow> approval_outcome" where
  "evaluate_approval_outcome input =
     (if at_has_rejection input then Outcome_REJECTED
      else (let distinct_approvers = length (remdups (at_approver_ids input)) in
        if at_required_approvals input \<le> distinct_approvers then Outcome_APPROVED
        else Outcome_PENDING (at_required_approvals input - distinct_approvers)))"

fun approval_outcome_name :: "approval_outcome \<Rightarrow> string" where
  "approval_outcome_name (Outcome_PENDING _) = ''PENDING''"
| "approval_outcome_name Outcome_APPROVED = ''APPROVED''"
| "approval_outcome_name Outcome_REJECTED = ''REJECTED''"

text \<open>
  The tally approves exactly when nobody rejected and enough different people approved; the
  number still missing is what is left to the threshold, and duplicate rows never count.
\<close>

theorem evaluate_approval_outcome_spec:
  "(evaluate_approval_outcome input = Outcome_APPROVED \<longleftrightarrow>
      \<not> at_has_rejection input \<and> at_required_approvals input \<le> card (set (at_approver_ids input))) \<and>
   (evaluate_approval_outcome input = Outcome_REJECTED \<longleftrightarrow> at_has_rejection input) \<and>
   (evaluate_approval_outcome input = Outcome_PENDING n \<longleftrightarrow>
      \<not> at_has_rejection input \<and> 0 < n \<and> card (set (at_approver_ids input)) + n = at_required_approvals input)"
  by (auto simp: evaluate_approval_outcome_def Let_def length_remdups_card_conv)

lemma outcome_approved_card:
  "evaluate_approval_outcome input = Outcome_APPROVED \<Longrightarrow>
     \<not> at_has_rejection input \<and> at_required_approvals input \<le> card (set (at_approver_ids input))"
  by (auto simp: evaluate_approval_outcome_def Let_def length_remdups_card_conv split: if_splits)

subsection \<open>Roles and authorization\<close>

datatype app_role = ADMIN | ISSUER | COMPLIANCE_OFFICER | APPROVER | AUDITOR

fun app_role_name :: "app_role \<Rightarrow> string" where
  "app_role_name ADMIN = ''ADMIN''"
| "app_role_name ISSUER = ''ISSUER''"
| "app_role_name COMPLIANCE_OFFICER = ''COMPLIANCE_OFFICER''"
| "app_role_name APPROVER = ''APPROVER''"
| "app_role_name AUDITOR = ''AUDITOR''"

definition app_roles :: "app_role list" where
  "app_roles = [ADMIN, ISSUER, COMPLIANCE_OFFICER, APPROVER, AUDITOR]"

definition is_app_role :: "string \<Rightarrow> bool" where
  "is_app_role v \<longleftrightarrow> v \<in> set (map app_role_name app_roles)"

datatype actor_type = USER | SYSTEM

record actor =
  ac_type :: actor_type
  ac_id :: string
  ac_organization_id :: string
  ac_roles :: "app_role list"

definition system_actor :: "string \<Rightarrow> actor" where
  "system_actor i = \<lparr>ac_type = SYSTEM, ac_id = i, ac_organization_id = ''system'', ac_roles = [ADMIN]\<rparr>"

definition has_role :: "actor \<Rightarrow> app_role \<Rightarrow> bool" where
  "has_role a r \<longleftrightarrow> r \<in> set (ac_roles a)"

definition has_any_role :: "actor \<Rightarrow> app_role list \<Rightarrow> bool" where
  "has_any_role a rs \<longleftrightarrow> list_ex (\<lambda>r. r \<in> set (ac_roles a)) rs"

definition require_role :: "actor \<Rightarrow> app_role list \<Rightarrow> string \<Rightarrow> exn + unit" where
  "require_role a allowed action =
     (if ac_type a = SYSTEM then Inr ()
      else if \<not> has_any_role a allowed
      then Inl (forbidden_error (''actor is not permitted to '' @ action)
        [(''action'', JStr action), (''requiredAnyOf'', JArr (map (\<lambda>r. JStr (app_role_name r)) allowed))])
      else Inr ())"

lemma require_role_ok: "require_role a allowed action = Inr u \<longleftrightarrow> ac_type a = SYSTEM \<or> (\<exists>r \<in> set allowed. has_role a r)"
  by (auto simp: require_role_def has_any_role_def has_role_def list_ex_iff)

lemma has_any_role_iff: "has_any_role a rs \<longleftrightarrow> (\<exists>r \<in> set rs. has_role a r)"
  by (auto simp: has_any_role_def has_role_def list_ex_iff)

text \<open>What a service works with for one request: \<open>src/modules/context.ts\<close>.\<close>

record request_context =
  rc_actor :: actor
  rc_correlation_id :: string
  rc_request_id :: string

end
