(* ===== verification/Schema.thy ===== *)
theory Schema
  imports Domain
begin

text \<open>
  The PostgreSQL tables: rows as \<open>src/db/schema/index.ts\<close> and the record types of the
  repositories give them, and the constraints of \<open>src/db/migrations\<close> that protect the workflow.
  A table is the list of its rows in insertion order. Timestamps written by the database are
  microseconds; a JavaScript \<open>Date\<close> is milliseconds. Amounts, fees and counters of unbounded
  type are \<open>int\<close>; every text column is a \<open>string\<close>.
\<close>

subsection \<open>Clocks and identifiers\<close>

type_synonym pg_time = int
type_synonym js_time = int

definition pg_of_date :: "js_time \<Rightarrow> pg_time" where
  "pg_of_date t = t * 1000"

text \<open>A \<open>Date\<close> keeps the milliseconds of a timestamp and drops the rest.\<close>

definition date_of_pg :: "pg_time \<Rightarrow> js_time" where
  "date_of_pg t = t div 1000"

subsection \<open>Users\<close>

datatype user_status = Us_ACTIVE | Us_DISABLED

record user_row =
  us_id :: uuid
  us_external_subject :: string
  us_organization_id :: string
  us_display_name :: string
  us_status :: user_status

subsection \<open>Assets and wallets\<close>

datatype asset_status = As_PROVISIONING | As_ACTIVE | As_PAUSED | As_FAILED

record asset_row =
  as_id :: uuid
  as_organization_id :: string
  as_symbol :: string
  as_name :: string
  as_decimals :: int
  as_supply_cap :: int
  as_chain_id :: int
  as_contract_address :: "string option"
  as_deployment_tx_hash :: "string option"
  as_status :: asset_status
  as_policy_version :: int
  as_created_by :: uuid
  as_created_at :: pg_time
  as_updated_at :: pg_time

datatype wallet_status = Wa_REGISTERED | Wa_BLOCKED

record wallet_row =
  wa_id :: uuid
  wa_organization_id :: string
  wa_chain_id :: int
  wa_address :: string
  wa_label :: "string option"
  wa_investor_reference :: string
  wa_status :: wallet_status
  wa_created_by :: uuid
  wa_created_at :: pg_time

subsection \<open>Compliance decisions\<close>

datatype decision_status = Cd_APPROVED | Cd_REJECTED | Cd_REVOKED | Cd_EXPIRED

datatype chain_sync_status = Cs_PENDING | Cs_SYNCED | Cs_FAILED

fun decision_status_name :: "decision_status \<Rightarrow> string" where
  "decision_status_name Cd_APPROVED = ''APPROVED''"
| "decision_status_name Cd_REJECTED = ''REJECTED''"
| "decision_status_name Cd_REVOKED = ''REVOKED''"
| "decision_status_name Cd_EXPIRED = ''EXPIRED''"

record compliance_row =
  cd_id :: uuid
  cd_wallet_id :: uuid
  cd_asset_id :: "uuid option"
  cd_status :: decision_status
  cd_subject_reference :: string
  cd_provider :: string
  cd_provider_reference :: string
  cd_valid_from :: pg_time
  cd_valid_until :: pg_time
  cd_decided_at :: pg_time
  cd_decided_by :: uuid
  cd_chain_sync_status :: chain_sync_status
  cd_chain_sync_tx_hash :: "string option"
  cd_superseded_at :: "pg_time option"
  cd_revoked_at :: "pg_time option"
  cd_revocation_reason :: "string option"
  cd_created_at :: pg_time

subsection \<open>Operations\<close>

datatype operation_type = MINT | DEPLOY_ASSET | SYNC_ELIGIBILITY

fun operation_type_name :: "operation_type \<Rightarrow> string" where
  "operation_type_name MINT = ''MINT''"
| "operation_type_name DEPLOY_ASSET = ''DEPLOY_ASSET''"
| "operation_type_name SYNC_ELIGIBILITY = ''SYNC_ELIGIBILITY''"

record operation_row =
  op_id :: uuid
  op_organization_id :: string
  op_type :: operation_type
  op_state :: operation_state
  op_asset_id :: uuid
  op_wallet_id :: "uuid option"
  op_amount :: "int option"
  op_operation_reference :: "string option"
  op_compliance_decision_id :: "uuid option"
  op_proposal_hash :: string
  op_required_approvals :: nat
  op_requested_by :: uuid
  op_correlation_id :: string
  op_failure_code :: "string option"
  op_failure_reason :: "string option"
  op_claimed_by :: "string option"
  op_claimed_at :: "pg_time option"
  op_state_updated_at :: pg_time
  op_created_at :: pg_time
  op_updated_at :: pg_time

record transition_row =
  ot_operation_id :: uuid
  ot_from_state :: "operation_state option"
  ot_to_state :: operation_state
  ot_occurred_at :: pg_time

subsection \<open>Approvals\<close>

record approval_request_row =
  ar_id :: uuid
  ar_operation_id :: uuid
  ar_state :: approval_request_state
  ar_required_approvals :: nat
  ar_proposal_snapshot :: json
  ar_proposal_hash :: string
  ar_requested_by :: uuid
  ar_created_at :: pg_time
  ar_updated_at :: pg_time
  ar_closed_at :: "pg_time option"

record approval_decision_row =
  ad_id :: uuid
  ad_approval_request_id :: uuid
  ad_approver_id :: uuid
  ad_operation_requested_by :: uuid
  ad_decision :: approval_decision_kind
  ad_proposal_hash :: string
  ad_comment :: "string option"
  ad_created_at :: pg_time

subsection \<open>Idempotency keys, outbox, audit trail\<close>

datatype idempotency_status = Ik_IN_PROGRESS | Ik_COMPLETED | Ik_FAILED

record idempotency_row =
  ik_id :: uuid
  ik_scope :: string
  ik_organization_id :: string
  ik_actor_id :: uuid
  ik_idempotency_key :: string
  ik_request_hash :: string
  ik_status :: idempotency_status
  ik_response_status :: "nat option"
  ik_response_body :: "json option"
  ik_resource_type :: "string option"
  ik_resource_id :: "string option"
  ik_created_at :: pg_time
  ik_completed_at :: "pg_time option"

datatype outbox_status = Ob_PENDING | Ob_CLAIMED | Ob_DISPATCHED | Ob_FAILED

record outbox_row =
  ob_id :: uuid
  ob_topic :: string
  ob_aggregate_type :: string
  ob_aggregate_id :: uuid
  ob_payload :: json
  ob_status :: outbox_status
  ob_attempts :: nat
  ob_available_at :: pg_time
  ob_dispatched_at :: "pg_time option"
  ob_last_error :: "string option"
  ob_correlation_id :: string
  ob_claim_token :: "uuid option"
  ob_claim_expires_at :: "pg_time option"
  ob_created_at :: pg_time

record audit_row =
  au_id :: uuid
  au_occurred_at :: pg_time
  au_actor_type :: actor_type
  au_actor_id :: string
  au_action :: string
  au_resource_type :: string
  au_resource_id :: string
  au_operation_id :: "uuid option"
  au_correlation_id :: string
  au_metadata :: json

subsection \<open>Signer lane, transaction attempts, observations, signer requests\<close>

record signer_nonce_row =
  sn_chain_id :: int
  sn_signer_address :: string
  sn_next_nonce :: int
  sn_updated_at :: pg_time

datatype attempt_status =
    At_PREPARED
  | At_SIGNED
  | At_BROADCASTING
  | At_BROADCAST_UNKNOWN
  | At_SUBMITTED
  | At_INCLUDED
  | At_CONFIRMED
  | At_REVERTED
  | At_FAILED
  | At_REPLACED

datatype attempt_purpose = P_DEPLOY_TOKEN | P_SET_ELIGIBILITY | P_MINT | P_NONCE_RECOVERY

fun attempt_status_name :: "attempt_status \<Rightarrow> string" where
  "attempt_status_name At_PREPARED = ''PREPARED''"
| "attempt_status_name At_SIGNED = ''SIGNED''"
| "attempt_status_name At_BROADCASTING = ''BROADCASTING''"
| "attempt_status_name At_BROADCAST_UNKNOWN = ''BROADCAST_UNKNOWN''"
| "attempt_status_name At_SUBMITTED = ''SUBMITTED''"
| "attempt_status_name At_INCLUDED = ''INCLUDED''"
| "attempt_status_name At_CONFIRMED = ''CONFIRMED''"
| "attempt_status_name At_REVERTED = ''REVERTED''"
| "attempt_status_name At_FAILED = ''FAILED''"
| "attempt_status_name At_REPLACED = ''REPLACED''"

fun attempt_purpose_name :: "attempt_purpose \<Rightarrow> string" where
  "attempt_purpose_name P_DEPLOY_TOKEN = ''DEPLOY_TOKEN''"
| "attempt_purpose_name P_SET_ELIGIBILITY = ''SET_ELIGIBILITY''"
| "attempt_purpose_name P_MINT = ''MINT''"
| "attempt_purpose_name P_NONCE_RECOVERY = ''NONCE_RECOVERY''"

record attempt_row =
  ta_id :: uuid
  ta_operation_id :: "uuid option"
  ta_asset_id :: "uuid option"
  ta_wallet_id :: "uuid option"
  ta_purpose :: attempt_purpose
  ta_chain_id :: int
  ta_from_address :: string
  ta_to_address :: "string option"
  ta_nonce :: int
  ta_value :: int
  ta_data :: string
  ta_gas_limit :: int
  ta_max_fee_per_gas :: int
  ta_max_priority_fee_per_gas :: int
  ta_request_hash :: string
  ta_signed_raw_transaction :: "string option"
  ta_transaction_hash :: "string option"
  ta_status :: attempt_status
  ta_broadcast_attempts :: nat
  ta_block_number :: "int option"
  ta_block_hash :: "string option"
  ta_gas_used :: "int option"
  ta_receipt_status :: "int option"
  ta_contract_address :: "string option"
  ta_error_code :: "string option"
  ta_error_message :: "string option"
  ta_intent_fingerprint :: "string option"
  ta_replaces_attempt_id :: "uuid option"
  ta_replaced_by_attempt_id :: "uuid option"
  ta_replacement_reason :: "string option"
  ta_replacement_number :: nat
  ta_created_at :: pg_time
  ta_updated_at :: pg_time

datatype observation_kind =
    Ob_RECEIPT
  | Ob_BLOCK_CANONICALITY
  | Ob_FINALITY
  | Ob_MINT_EVENT
  | Ob_REFERENCE_CONSUMED
  | Ob_RECIPIENT_BALANCE
  | Ob_TOTAL_SUPPLY
  | Ob_CHAIN_IDENTITY
  | Ob_CONTRACT_CODE
  | Ob_TOKEN_METADATA
  | Ob_ELIGIBILITY_WINDOW

datatype observation_severity = INFO | WARNING | CRITICAL

datatype observation_status = Obs_OPEN | Obs_RESOLVED

record observation_row =
  co_id :: uuid
  co_operation_id :: "uuid option"
  co_transaction_attempt_id :: "uuid option"
  co_kind :: observation_kind
  co_chain_id :: int
  co_block_number :: "int option"
  co_block_hash :: "string option"
  co_transaction_hash :: "string option"
  co_matched :: bool
  co_canonical :: bool
  co_severity :: observation_severity
  co_status :: observation_status
  co_expected :: "json option"
  co_actual :: "json option"
  co_detail :: "string option"
  co_observed_at :: pg_time
  co_resolved_at :: "pg_time option"

datatype signer_request_status = Sr_PENDING | Sr_SIGNED | Sr_REJECTED | Sr_EXPIRED

record signer_request_row =
  sr_id :: uuid
  sr_transaction_attempt_id :: uuid
  sr_operation_id :: "uuid option"
  sr_provider :: string
  sr_provider_request_id :: string
  sr_status :: signer_request_status
  sr_request_fingerprint :: string
  sr_requested_at :: pg_time
  sr_last_checked_at :: "pg_time option"
  sr_signed_at :: "pg_time option"
  sr_rejected_at :: "pg_time option"
  sr_rejection_code :: "string option"

subsection \<open>The database\<close>

text \<open>
  \<open>db_now\<close> is \<open>now()\<close> of the current transaction and \<open>app_now\<close> what \<open>new Date()\<close> reads in the
  process; the two clocks are unrelated. \<open>gen_random_uuid()\<close> and \<open>randomUUID()\<close> take the next
  entry of \<open>uuid_source\<close>; nothing is assumed of it, a repeated id violates a primary key.
\<close>

record db =
  uuid_source :: "nat \<Rightarrow> uuid"
  uuid_next :: nat
  db_now :: pg_time
  app_now :: js_time
  users :: "user_row list"
  user_roles :: "(uuid \<times> string) list"
  assets :: "asset_row list"
  wallets :: "wallet_row list"
  compliance_decisions :: "compliance_row list"
  operations :: "operation_row list"
  operation_transitions :: "transition_row list"
  approval_requests :: "approval_request_row list"
  approval_decisions :: "approval_decision_row list"
  idempotency_keys :: "idempotency_row list"
  outbox :: "outbox_row list"
  audit_events :: "audit_row list"
  signer_nonces :: "signer_nonce_row list"
  transaction_attempts :: "attempt_row list"
  chain_observations :: "observation_row list"
  signer_requests :: "signer_request_row list"

definition fresh_uuid :: "(db, uuid) tx" where
  "fresh_uuid = (\<lambda>d. Inr (uuid_source d (uuid_next d), d\<lparr>uuid_next := Suc (uuid_next d)\<rparr>))"

definition empty_db :: "(nat \<Rightarrow> uuid) \<Rightarrow> db" where
  "empty_db src = \<lparr>uuid_source = src, uuid_next = 0, db_now = 0, app_now = 0,
     users = [], user_roles = [], assets = [], wallets = [], compliance_decisions = [], operations = [], operation_transitions = [], approval_requests = [], approval_decisions = [], idempotency_keys = [], outbox = [], audit_events = [], signer_nonces = [], transaction_attempts = [], chain_observations = [], signer_requests = []\<rparr>"

end
