(* ===== verification/Tables.thy ===== *)
theory Tables
  imports Schema
begin

text \<open>
  SQL statements with the constraints of \<open>src/db/migrations\<close>. A statement that writes a table
  computes the new rows, checks the CHECK constraints and then the unique indexes on them, and
  fails with the PostgreSQL error of the first one violated; nothing is written in that case.
  Format and length checks of single columns and plain foreign keys are not modelled.
\<close>

subsection \<open>Constraints\<close>

text \<open>
  A unique rule is the relation "these two rows collide"; a partial index puts its WHERE clause
  in the relation. SQL NULLs never collide.
\<close>

datatype 'r rule = Check string "'r \<Rightarrow> bool" | Unique string "'r \<Rightarrow> 'r \<Rightarrow> bool"

fun rule_holds :: "'r list \<Rightarrow> 'r rule \<Rightarrow> bool" where
  "rule_holds rows (Check n p) = list_all p rows"
| "rule_holds rows (Unique n collide) = sorted_wrt (\<lambda>r r'. \<not> collide r r') rows"

fun rule_error :: "'r rule \<Rightarrow> exn" where
  "rule_error (Check n p) = PgError CHECK_VIOLATION n"
| "rule_error (Unique n collide) = PgError UNIQUE_VIOLATION n"

definition table_ok :: "'r rule list \<Rightarrow> 'r list \<Rightarrow> bool" where
  "table_ok rules rows \<longleftrightarrow> list_all (rule_holds rows) rules"

lemma table_ok_check: "table_ok rules rows \<Longrightarrow> Check n p \<in> set rules \<Longrightarrow> r \<in> set rows \<Longrightarrow> p r"
  by (fastforce simp: table_ok_def list_all_iff)

lemma table_ok_unique_nth:
  "table_ok rules rows \<Longrightarrow> Unique n c \<in> set rules \<Longrightarrow> i < j \<Longrightarrow> j < length rows \<Longrightarrow> \<not> c (rows ! i) (rows ! j)"
  by (fastforce simp: table_ok_def list_all_iff sorted_wrt_iff_nth_less)

lemma table_ok_unique:
  assumes ok: "table_ok rules rows" and rule: "Unique n c \<in> set rules" and "r \<in> set rows" "r' \<in> set rows"
    and collide: "c r r'" "c r' r"
  shows "r = r'"
proof -
  from assms obtain i j where "i < length rows" "r = rows ! i" "j < length rows" "r' = rows ! j"
    by (metis in_set_conv_nth)
  with table_ok_unique_nth [OF ok rule] collide show ?thesis by (metis nat_neq_iff)
qed

lemma table_ok_Nil [simp]: "table_ok rules []"
proof -
  have "rule_holds [] r" for r :: "'a rule" by (cases r) auto
  then show ?thesis by (auto simp: table_ok_def list_all_iff)
qed

subsection \<open>Statements\<close>

record 'r sql_table =
  t_rules :: "'r rule list"
  t_rows :: "db \<Rightarrow> 'r list"
  t_put :: "'r list \<Rightarrow> db \<Rightarrow> db"

definition write_table :: "'r sql_table \<Rightarrow> 'r list \<Rightarrow> (db, unit) tx" where
  "write_table t rows = (\<lambda>d. case find (\<lambda>r. \<not> rule_holds rows r) (t_rules t) of
     Some r \<Rightarrow> Inl (rule_error r)
   | None \<Rightarrow> Inr ((), t_put t rows d))"

text \<open>\<open>INSERT ... RETURNING *\<close>, \<open>UPDATE ... WHERE p RETURNING *\<close> and \<open>DELETE ... WHERE p\<close>.\<close>

definition insert_into :: "'r sql_table \<Rightarrow> 'r \<Rightarrow> (db, 'r) tx" where
  "insert_into t r = tx_bind (tx_read (t_rows t)) (\<lambda>rows. tx_then (write_table t (rows @ [r])) (tx_ret r))"

definition update_in :: "'r sql_table \<Rightarrow> ('r \<Rightarrow> bool) \<Rightarrow> ('r \<Rightarrow> 'r) \<Rightarrow> (db, 'r list) tx" where
  "update_in t p f = tx_bind (tx_read (t_rows t)) (\<lambda>rows.
     tx_then (write_table t (update_where p f rows)) (tx_ret (map f (filter p rows))))"

text \<open>\<open>INSERT ... VALUES (...), (...)\<close>: all rows or none.\<close>

definition insert_all :: "'r sql_table \<Rightarrow> 'r list \<Rightarrow> (db, unit) tx" where
  "insert_all t rs = tx_bind (tx_read (t_rows t)) (\<lambda>rows. write_table t (rows @ rs))"

definition delete_from :: "'r sql_table \<Rightarrow> ('r \<Rightarrow> bool) \<Rightarrow> (db, unit) tx" where
  "delete_from t p = tx_bind (tx_read (t_rows t)) (\<lambda>rows. write_table t (delete_where p rows))"

text \<open>
  \<open>INSERT ... ON CONFLICT (columns) DO NOTHING RETURNING *\<close>: \<open>conflict\<close> is the relation of the
  target index; other constraints still fail the statement.
\<close>

definition insert_on_conflict_do_nothing ::
  "'r sql_table \<Rightarrow> ('r \<Rightarrow> 'r \<Rightarrow> bool) \<Rightarrow> 'r \<Rightarrow> (db, 'r option) tx" where
  "insert_on_conflict_do_nothing t conflict r = tx_bind (tx_read (t_rows t)) (\<lambda>rows.
     if list_ex (\<lambda>r'. conflict r' r) rows then tx_ret None
     else tx_bind (insert_into t r) (\<lambda>r. tx_ret (Some r)))"

text \<open>\<open>INSERT ... ON CONFLICT (columns) DO UPDATE SET f RETURNING *\<close>\<close>

definition insert_on_conflict_do_update ::
  "'r sql_table \<Rightarrow> ('r \<Rightarrow> 'r \<Rightarrow> bool) \<Rightarrow> 'r \<Rightarrow> ('r \<Rightarrow> 'r) \<Rightarrow> (db, 'r) tx" where
  "insert_on_conflict_do_update t conflict r f = tx_bind (tx_read (t_rows t)) (\<lambda>rows.
     case find (\<lambda>r'. conflict r' r) rows of
       None \<Rightarrow> insert_into t r
     | Some r' \<Rightarrow> tx_then (update_in t (\<lambda>r'. conflict r' r) f) (tx_ret (f r')))"

lemma write_table_Inr [tx_simps]:
  "write_table t rows d = Inr (u, d') \<longleftrightarrow> table_ok (t_rules t) rows \<and> d' = t_put t rows d"
  by (auto simp: write_table_def table_ok_def list_all_iff find_None_iff split: option.splits)
     (auto simp: find_Some_iff)

lemma insert_into_Inr [tx_simps]:
  "insert_into t r d = Inr (x, d') \<longleftrightarrow>
     x = r \<and> table_ok (t_rules t) (t_rows t d @ [r]) \<and> d' = t_put t (t_rows t d @ [r]) d"
  by (auto simp: insert_into_def tx_simps)

lemma update_in_Inr [tx_simps]:
  "update_in t p f d = Inr (x, d') \<longleftrightarrow> x = map f (filter p (t_rows t d)) \<and>
     table_ok (t_rules t) (update_where p f (t_rows t d)) \<and> d' = t_put t (update_where p f (t_rows t d)) d"
  by (auto simp: update_in_def tx_simps)

lemma insert_all_Inr [tx_simps]:
  "insert_all t rs d = Inr (x, d') \<longleftrightarrow> table_ok (t_rules t) (t_rows t d @ rs) \<and> d' = t_put t (t_rows t d @ rs) d"
  by (auto simp: insert_all_def tx_simps)

lemma delete_from_Inr [tx_simps]:
  "delete_from t p d = Inr (x, d') \<longleftrightarrow>
     table_ok (t_rules t) (delete_where p (t_rows t d)) \<and> d' = t_put t (delete_where p (t_rows t d)) d"
  by (auto simp: delete_from_def tx_simps)

lemma write_table_Inl:
  "write_table t rows d = Inl e \<longleftrightarrow> (\<exists>r. find (\<lambda>r. \<not> rule_holds rows r) (t_rules t) = Some r \<and> e = rule_error r)"
  by (auto simp: write_table_def split: option.splits)

text \<open>The interface of a table: what is put is what is read, and writes replace each other.\<close>

locale sql_table =
  fixes t :: "'r sql_table"
  assumes rows_put: "t_rows t (t_put t rows d) = rows"
    and put_put: "t_put t rows (t_put t rows' d) = t_put t rows d"
    and put_rows: "t_put t (t_rows t d) d = d"
begin

definition ok :: "db \<Rightarrow> bool" where
  "ok d \<longleftrightarrow> table_ok (t_rules t) (t_rows t d)"

lemma insert_ok: "insert_into t r d = Inr (x, d') \<Longrightarrow> ok d'"
  by (auto simp: ok_def tx_simps rows_put)

lemma update_ok: "update_in t p f d = Inr (x, d') \<Longrightarrow> ok d'"
  by (auto simp: ok_def tx_simps rows_put)

lemma delete_ok: "delete_from t p d = Inr (x, d') \<Longrightarrow> ok d'"
  by (auto simp: ok_def tx_simps rows_put)

lemma insert_rows: "insert_into t r d = Inr (x, d') \<Longrightarrow> t_rows t d' = t_rows t d @ [r]"
  by (auto simp: tx_simps rows_put)

lemma update_rows: "update_in t p f d = Inr (x, d') \<Longrightarrow> t_rows t d' = update_where p f (t_rows t d)"
  by (auto simp: tx_simps rows_put)

lemma update_none: "\<forall>r \<in> set (t_rows t d). \<not> p r \<Longrightarrow> ok d \<Longrightarrow> update_in t p f d = Inr ([], d)"
proof -
  assume none: "\<forall>r \<in> set (t_rows t d). \<not> p r" and "ok d"
  then have same: "update_where p f (t_rows t d) = t_rows t d"
    by (auto simp: update_where_def intro: map_idI)
  with none \<open>ok d\<close> show ?thesis
    by (auto simp: update_in_Inr ok_def put_rows filter_empty_conv)
qed

text \<open>
  A predicate of the database that looks at this table only through a predicate \<open>Q\<close> is kept by
  a statement that keeps \<open>Q\<close>; the other tables do not change.
\<close>

lemma preserves_insert:
  assumes "\<And>d. P d \<Longrightarrow> table_ok (t_rules t) (t_rows t d @ [r]) \<Longrightarrow> P (t_put t (t_rows t d @ [r]) d)"
  shows "preserves P (insert_into t r)"
  using assms by (auto simp: preserves_def tx_simps)

lemma preserves_update:
  assumes "\<And>d. P d \<Longrightarrow> table_ok (t_rules t) (update_where p f (t_rows t d)) \<Longrightarrow> P (t_put t (update_where p f (t_rows t d)) d)"
  shows "preserves P (update_in t p f)"
  using assms by (auto simp: preserves_def tx_simps)

lemma preserves_frame:
  assumes "\<And>rows d. P d \<Longrightarrow> P (t_put t rows d)"
  shows "preserves P (insert_into t r)" "preserves P (insert_all t rs)" "preserves P (update_in t p f)" "preserves P (delete_from t p)"
    "preserves P (insert_on_conflict_do_nothing t c r)" "preserves P (insert_on_conflict_do_update t c r f)"
  using assms
  by (auto simp: preserves_def tx_simps insert_on_conflict_do_nothing_def insert_on_conflict_do_update_def
      split: if_splits option.splits)

lemma preserves_write:
  assumes "\<And>rows d. P d \<Longrightarrow> table_ok (t_rules t) rows \<Longrightarrow> P (t_put t rows d)"
  shows "preserves P (insert_into t r)" "preserves P (insert_all t rs)" "preserves P (update_in t p f)" "preserves P (delete_from t p)"
    "preserves P (insert_on_conflict_do_nothing t c r)" "preserves P (insert_on_conflict_do_update t c r f)"
  using assms
  by (auto simp: preserves_def tx_simps insert_on_conflict_do_nothing_def insert_on_conflict_do_update_def
      split: if_splits option.splits)

end

end
