(* ===== verification/Constraints.thy ===== *)
theory Constraints
  imports Tables
begin

text \<open>
  The tables of \<open>src/db/schema/index.ts\<close> with the named constraints of \<open>src/db/migrations\<close>, and
  the statement that every committed write leaves every constraint of every table true.
\<close>

subsection \<open>Users, assets, wallets\<close>

definition user_rules :: "user_row rule list" where
  "user_rules =
    [Unique ''users_pkey'' (\<lambda>r r'. us_id r = us_id r'),
     Unique ''users_external_subject_key'' (\<lambda>r r'. us_external_subject r = us_external_subject r')]"

definition user_table :: "user_row sql_table" where
  "user_table = \<lparr>t_rules = user_rules, t_rows = users, t_put = (\<lambda>rs d. d\<lparr>users := rs\<rparr>)\<rparr>"

definition user_role_rules :: "(uuid \<times> string) rule list" where
  "user_role_rules = [Check ''user_roles_role_check'' (\<lambda>r. is_app_role (snd r)), Unique ''user_roles_pkey'' (=)]"

definition user_role_table :: "(uuid \<times> string) sql_table" where
  "user_role_table = \<lparr>t_rules = user_role_rules, t_rows = user_roles, t_put = (\<lambda>rs d. d\<lparr>user_roles := rs\<rparr>)\<rparr>"

definition asset_rules :: "asset_row rule list" where
  "asset_rules =
    [Check ''assets_supply_cap_check'' (\<lambda>r. as_supply_cap r > 0),
     Check ''assets_usable_requires_contract''
       (\<lambda>r. as_status r = As_PROVISIONING \<or> as_status r = As_FAILED \<or> as_contract_address r \<noteq> None),
     Unique ''assets_pkey'' (\<lambda>r r'. as_id r = as_id r'),
     Unique ''assets_org_symbol_key''
       (\<lambda>r r'. as_organization_id r = as_organization_id r' \<and> as_symbol r = as_symbol r'),
     Unique ''assets_chain_contract_key''
       (\<lambda>r r'. as_contract_address r \<noteq> None \<and> as_chain_id r = as_chain_id r' \<and>
          as_contract_address r = as_contract_address r')]"

definition asset_table :: "asset_row sql_table" where
  "asset_table = \<lparr>t_rules = asset_rules, t_rows = assets, t_put = (\<lambda>rs d. d\<lparr>assets := rs\<rparr>)\<rparr>"

definition wallet_rules :: "wallet_row rule list" where
  "wallet_rules =
    [Unique ''wallets_pkey'' (\<lambda>r r'. wa_id r = wa_id r'),
     Unique ''wallets_chain_address_key'' (\<lambda>r r'. wa_chain_id r = wa_chain_id r' \<and> wa_address r = wa_address r')]"

definition wallet_table :: "wallet_row sql_table" where
  "wallet_table = \<lparr>t_rules = wallet_rules, t_rows = wallets, t_put = (\<lambda>rs d. d\<lparr>wallets := rs\<rparr>)\<rparr>"

subsection \<open>Compliance decisions\<close>

definition cd_live :: "compliance_row \<Rightarrow> bool" where
  "cd_live r \<longleftrightarrow> cd_status r = Cd_APPROVED \<and> cd_superseded_at r = None"

text \<open>The index uses \<open>COALESCE(asset_id, nil-uuid)\<close>: two wallet-wide rows (asset NULL) collide.\<close>

definition compliance_rules :: "compliance_row rule list" where
  "compliance_rules =
    [Check ''compliance_decisions_validity_window'' (\<lambda>r. cd_valid_from r < cd_valid_until r),
     Check ''compliance_decisions_revocation_shape'' (\<lambda>r. (cd_status r = Cd_REVOKED) = (cd_revoked_at r \<noteq> None)),
     Unique ''compliance_decisions_pkey'' (\<lambda>r r'. cd_id r = cd_id r'),
     Unique ''compliance_decisions_provider_ref_key''
       (\<lambda>r r'. cd_provider r = cd_provider r' \<and> cd_provider_reference r = cd_provider_reference r'),
     Unique ''compliance_decisions_one_active_per_wallet''
       (\<lambda>r r'. cd_live r \<and> cd_live r' \<and> cd_wallet_id r = cd_wallet_id r' \<and> cd_asset_id r = cd_asset_id r')]"

definition compliance_table :: "compliance_row sql_table" where
  "compliance_table = \<lparr>t_rules = compliance_rules, t_rows = compliance_decisions,
     t_put = (\<lambda>rs d. d\<lparr>compliance_decisions := rs\<rparr>)\<rparr>"

subsection \<open>Operations\<close>

fun operation_type_shape :: "operation_row \<Rightarrow> bool" where
  "operation_type_shape r = (case op_type r of
     MINT \<Rightarrow> op_wallet_id r \<noteq> None \<and> (case op_amount r of None \<Rightarrow> False | Some a \<Rightarrow> a > 0) \<and>
       op_operation_reference r \<noteq> None \<and> op_required_approvals r > 0 \<and> op_compliance_decision_id r = None
   | DEPLOY_ASSET \<Rightarrow> op_wallet_id r = None \<and> op_amount r = None \<and> op_operation_reference r = None \<and>
       op_required_approvals r = 0 \<and> op_compliance_decision_id r = None
   | SYNC_ELIGIBILITY \<Rightarrow> op_wallet_id r \<noteq> None \<and> op_amount r = None \<and> op_operation_reference r = None \<and>
       op_required_approvals r = 0 \<and> op_compliance_decision_id r \<noteq> None)"

definition op_live :: "operation_row \<Rightarrow> bool" where
  "op_live r \<longleftrightarrow> op_state r \<notin> set terminal_operation_states"

definition operation_rules :: "operation_row rule list" where
  "operation_rules =
    [Check ''operations_type_shape'' operation_type_shape,
     Check ''operations_claim_consistent'' (\<lambda>r. (op_claimed_by r = None) = (op_claimed_at r = None)),
     Unique ''operations_pkey'' (\<lambda>r r'. op_id r = op_id r'),
     Unique ''operations_reference_key''
       (\<lambda>r r'. op_operation_reference r \<noteq> None \<and> op_operation_reference r = op_operation_reference r'),
     Unique ''operations_one_live_deployment_per_asset''
       (\<lambda>r r'. op_type r = DEPLOY_ASSET \<and> op_type r' = DEPLOY_ASSET \<and> op_live r \<and> op_live r' \<and>
          op_asset_id r = op_asset_id r'),
     Unique ''operations_one_live_eligibility_sync''
       (\<lambda>r r'. op_type r = SYNC_ELIGIBILITY \<and> op_type r' = SYNC_ELIGIBILITY \<and> op_live r \<and> op_live r' \<and>
          op_asset_id r = op_asset_id r' \<and> op_wallet_id r \<noteq> None \<and> op_wallet_id r = op_wallet_id r')]"

definition operation_table :: "operation_row sql_table" where
  "operation_table = \<lparr>t_rules = operation_rules, t_rows = operations, t_put = (\<lambda>rs d. d\<lparr>operations := rs\<rparr>)\<rparr>"

definition transition_log_table :: "transition_row sql_table" where
  "transition_log_table = \<lparr>t_rules = [], t_rows = operation_transitions,
     t_put = (\<lambda>rs d. d\<lparr>operation_transitions := rs\<rparr>)\<rparr>"

subsection \<open>Approvals\<close>

definition approval_request_rules :: "approval_request_row rule list" where
  "approval_request_rules =
    [Check ''approval_requests_required_approvals_check'' (\<lambda>r. ar_required_approvals r > 0),
     Unique ''approval_requests_pkey'' (\<lambda>r r'. ar_id r = ar_id r'),
     Unique ''approval_requests_one_open_per_operation''
       (\<lambda>r r'. ar_state r = Ar_PENDING \<and> ar_state r' = Ar_PENDING \<and> ar_operation_id r = ar_operation_id r')]"

definition approval_request_table :: "approval_request_row sql_table" where
  "approval_request_table = \<lparr>t_rules = approval_request_rules, t_rows = approval_requests,
     t_put = (\<lambda>rs d. d\<lparr>approval_requests := rs\<rparr>)\<rparr>"

definition approval_decision_rules :: "approval_decision_row rule list" where
  "approval_decision_rules =
    [Check ''approval_decisions_no_self_approval'' (\<lambda>r. ad_approver_id r \<noteq> ad_operation_requested_by r),
     Unique ''approval_decisions_pkey'' (\<lambda>r r'. ad_id r = ad_id r'),
     Unique ''approval_decisions_one_per_approver''
       (\<lambda>r r'. ad_approval_request_id r = ad_approval_request_id r' \<and> ad_approver_id r = ad_approver_id r')]"

definition approval_decision_table :: "approval_decision_row sql_table" where
  "approval_decision_table = \<lparr>t_rules = approval_decision_rules, t_rows = approval_decisions,
     t_put = (\<lambda>rs d. d\<lparr>approval_decisions := rs\<rparr>)\<rparr>"

subsection \<open>Idempotency keys, outbox, audit trail\<close>

definition same_idempotency_scope :: "idempotency_row \<Rightarrow> idempotency_row \<Rightarrow> bool" where
  "same_idempotency_scope r r' \<longleftrightarrow> ik_scope r = ik_scope r' \<and> ik_organization_id r = ik_organization_id r' \<and>
     ik_actor_id r = ik_actor_id r' \<and> ik_idempotency_key r = ik_idempotency_key r'"

definition idempotency_rules :: "idempotency_row rule list" where
  "idempotency_rules =
    [Check ''idempotency_keys_completed_has_response''
       (\<lambda>r. ik_status r \<noteq> Ik_COMPLETED \<or> (ik_response_status r \<noteq> None \<and> ik_response_body r \<noteq> None)),
     Unique ''idempotency_keys_pkey'' (\<lambda>r r'. ik_id r = ik_id r'),
     Unique ''idempotency_keys_scope_key'' same_idempotency_scope]"

definition idempotency_table :: "idempotency_row sql_table" where
  "idempotency_table = \<lparr>t_rules = idempotency_rules, t_rows = idempotency_keys,
     t_put = (\<lambda>rs d. d\<lparr>idempotency_keys := rs\<rparr>)\<rparr>"

definition outbox_rules :: "outbox_row rule list" where
  "outbox_rules =
    [Check ''outbox_claim_shape''
       (\<lambda>r. (ob_status r = Ob_CLAIMED) = (ob_claim_token r \<noteq> None \<and> ob_claim_expires_at r \<noteq> None)),
     Unique ''outbox_pkey'' (\<lambda>r r'. ob_id r = ob_id r')]"

definition outbox_table :: "outbox_row sql_table" where
  "outbox_table = \<lparr>t_rules = outbox_rules, t_rows = outbox, t_put = (\<lambda>rs d. d\<lparr>outbox := rs\<rparr>)\<rparr>"

definition audit_rules :: "audit_row rule list" where
  "audit_rules = [Unique ''audit_events_pkey'' (\<lambda>r r'. au_id r = au_id r')]"

definition audit_table :: "audit_row sql_table" where
  "audit_table = \<lparr>t_rules = audit_rules, t_rows = audit_events, t_put = (\<lambda>rs d. d\<lparr>audit_events := rs\<rparr>)\<rparr>"

subsection \<open>Nonce lanes, attempts, observations, signer requests\<close>

definition same_lane :: "signer_nonce_row \<Rightarrow> signer_nonce_row \<Rightarrow> bool" where
  "same_lane r r' \<longleftrightarrow> sn_chain_id r = sn_chain_id r' \<and> sn_signer_address r = sn_signer_address r'"

definition signer_nonce_rules :: "signer_nonce_row rule list" where
  "signer_nonce_rules =
    [Check ''signer_nonces_next_nonce_check'' (\<lambda>r. sn_next_nonce r \<ge> 0),
     Unique ''signer_nonces_pkey'' same_lane]"

definition signer_nonce_table :: "signer_nonce_row sql_table" where
  "signer_nonce_table = \<lparr>t_rules = signer_nonce_rules, t_rows = signer_nonces,
     t_put = (\<lambda>rs d. d\<lparr>signer_nonces := rs\<rparr>)\<rparr>"

definition same_nonce_slot :: "attempt_row \<Rightarrow> attempt_row \<Rightarrow> bool" where
  "same_nonce_slot r r' \<longleftrightarrow> ta_chain_id r = ta_chain_id r' \<and> ta_from_address r = ta_from_address r' \<and> ta_nonce r = ta_nonce r'"

text \<open>
  \<open>broadcast_requires_bytes\<close> is the constraint of \<open>0001_init.sql\<close>, which no later migration
  amends for the status REPLACED.
\<close>

definition attempt_rules :: "attempt_row rule list" where
  "attempt_rules =
    [Check ''transaction_attempts_nonce_check'' (\<lambda>r. ta_nonce r \<ge> 0),
     Check ''transaction_attempts_value_check'' (\<lambda>r. ta_value r = 0),
     Check ''transaction_attempts_gas_limit_check'' (\<lambda>r. ta_gas_limit r > 0),
     Check ''transaction_attempts_receipt_status_check'' (\<lambda>r. ta_receipt_status r \<in> {None, Some 0, Some 1}),
     Check ''transaction_attempts_signed_pair''
       (\<lambda>r. (ta_signed_raw_transaction r = None) = (ta_transaction_hash r = None)),
     Check ''transaction_attempts_broadcast_requires_bytes''
       (\<lambda>r. ta_status r \<in> {At_PREPARED, At_FAILED} \<or> ta_signed_raw_transaction r \<noteq> None),
     Check ''transaction_attempts_deploy_has_no_target'' (\<lambda>r. (ta_purpose r = P_DEPLOY_TOKEN) = (ta_to_address r = None)),
     Check ''transaction_attempts_replacement_shape''
       (\<lambda>r. (ta_replaces_attempt_id r = None) = (ta_replacement_number r = 0)),
     Check ''transaction_attempts_no_self_replacement''
       (\<lambda>r. ta_replaces_attempt_id r \<noteq> Some (ta_id r) \<and> ta_replaced_by_attempt_id r \<noteq> Some (ta_id r)),
     Unique ''transaction_attempts_pkey'' (\<lambda>r r'. ta_id r = ta_id r'),
     Unique ''transaction_attempts_hash_key''
       (\<lambda>r r'. ta_transaction_hash r \<noteq> None \<and> ta_transaction_hash r = ta_transaction_hash r'),
     Unique ''transaction_attempts_live_nonce_key''
       (\<lambda>r r'. ta_status r \<noteq> At_REPLACED \<and> ta_status r' \<noteq> At_REPLACED \<and> same_nonce_slot r r'),
     Unique ''transaction_attempts_replaced_by_key''
       (\<lambda>r r'. ta_replaced_by_attempt_id r \<noteq> None \<and> ta_replaced_by_attempt_id r = ta_replaced_by_attempt_id r')]"

definition attempt_table :: "attempt_row sql_table" where
  "attempt_table = \<lparr>t_rules = attempt_rules, t_rows = transaction_attempts,
     t_put = (\<lambda>rs d. d\<lparr>transaction_attempts := rs\<rparr>)\<rparr>"

definition observation_rules :: "observation_row rule list" where
  "observation_rules =
    [Check ''chain_observations_resolved_pair'' (\<lambda>r. (co_status r = Obs_RESOLVED) = (co_resolved_at r \<noteq> None)),
     Check ''chain_observations_matched_is_not_open''
       (\<lambda>r. \<not> co_matched r \<or> (co_severity r = INFO \<and> co_status r = Obs_RESOLVED)),
     Unique ''chain_observations_pkey'' (\<lambda>r r'. co_id r = co_id r')]"

definition observation_table :: "observation_row sql_table" where
  "observation_table = \<lparr>t_rules = observation_rules, t_rows = chain_observations,
     t_put = (\<lambda>rs d. d\<lparr>chain_observations := rs\<rparr>)\<rparr>"

definition signer_request_rules :: "signer_request_row rule list" where
  "signer_request_rules =
    [Unique ''signer_requests_pkey'' (\<lambda>r r'. sr_id r = sr_id r'),
     Unique ''signer_requests_transaction_attempt_id_key''
       (\<lambda>r r'. sr_transaction_attempt_id r = sr_transaction_attempt_id r'),
     Unique ''signer_requests_provider_request_key''
       (\<lambda>r r'. sr_provider r = sr_provider r' \<and> sr_provider_request_id r = sr_provider_request_id r')]"

definition signer_request_table :: "signer_request_row sql_table" where
  "signer_request_table = \<lparr>t_rules = signer_request_rules, t_rows = signer_requests,
     t_put = (\<lambda>rs d. d\<lparr>signer_requests := rs\<rparr>)\<rparr>"

lemmas table_defs = user_table_def user_role_table_def asset_table_def wallet_table_def compliance_table_def
  operation_table_def transition_log_table_def approval_request_table_def approval_decision_table_def
  idempotency_table_def outbox_table_def audit_table_def signer_nonce_table_def attempt_table_def
  observation_table_def signer_request_table_def

interpretation user_t: sql_table user_table by unfold_locales (simp_all add: user_table_def)
interpretation user_role_t: sql_table user_role_table by unfold_locales (simp_all add: user_role_table_def)
interpretation asset_t: sql_table asset_table by unfold_locales (simp_all add: asset_table_def)
interpretation wallet_t: sql_table wallet_table by unfold_locales (simp_all add: wallet_table_def)
interpretation compliance_t: sql_table compliance_table by unfold_locales (simp_all add: compliance_table_def)
interpretation operation_t: sql_table operation_table by unfold_locales (simp_all add: operation_table_def)
interpretation transition_log_t: sql_table transition_log_table by unfold_locales (simp_all add: transition_log_table_def)
interpretation approval_request_t: sql_table approval_request_table
  by unfold_locales (simp_all add: approval_request_table_def)
interpretation approval_decision_t: sql_table approval_decision_table
  by unfold_locales (simp_all add: approval_decision_table_def)
interpretation idempotency_t: sql_table idempotency_table by unfold_locales (simp_all add: idempotency_table_def)
interpretation outbox_t: sql_table outbox_table by unfold_locales (simp_all add: outbox_table_def)
interpretation audit_t: sql_table audit_table by unfold_locales (simp_all add: audit_table_def)
interpretation signer_nonce_t: sql_table signer_nonce_table by unfold_locales (simp_all add: signer_nonce_table_def)
interpretation attempt_t: sql_table attempt_table by unfold_locales (simp_all add: attempt_table_def)
interpretation observation_t: sql_table observation_table by unfold_locales (simp_all add: observation_table_def)
interpretation signer_request_t: sql_table signer_request_table by unfold_locales (simp_all add: signer_request_table_def)

subsection \<open>Every constraint of every table\<close>

definition db_ok :: "db \<Rightarrow> bool" where
  "db_ok d \<longleftrightarrow> table_ok (t_rules user_table) (t_rows user_table d) \<and>
     table_ok (t_rules user_role_table) (t_rows user_role_table d) \<and>
     table_ok (t_rules asset_table) (t_rows asset_table d) \<and>
     table_ok (t_rules wallet_table) (t_rows wallet_table d) \<and>
     table_ok (t_rules compliance_table) (t_rows compliance_table d) \<and>
     table_ok (t_rules operation_table) (t_rows operation_table d) \<and>
     table_ok (t_rules transition_log_table) (t_rows transition_log_table d) \<and>
     table_ok (t_rules approval_request_table) (t_rows approval_request_table d) \<and>
     table_ok (t_rules approval_decision_table) (t_rows approval_decision_table d) \<and>
     table_ok (t_rules idempotency_table) (t_rows idempotency_table d) \<and>
     table_ok (t_rules outbox_table) (t_rows outbox_table d) \<and>
     table_ok (t_rules audit_table) (t_rows audit_table d) \<and>
     table_ok (t_rules signer_nonce_table) (t_rows signer_nonce_table d) \<and>
     table_ok (t_rules attempt_table) (t_rows attempt_table d) \<and>
     table_ok (t_rules observation_table) (t_rows observation_table d) \<and>
     table_ok (t_rules signer_request_table) (t_rows signer_request_table d)"

text \<open>
  Whatever a statement writes, the constraints of its table were checked on the result and the
  other tables did not change.
\<close>

lemma db_ok_put_user: "db_ok d \<Longrightarrow> table_ok (t_rules user_table) rows \<Longrightarrow> db_ok (t_put user_table rows d)"
  by (simp add: db_ok_def table_defs)

lemma db_ok_put_user_role: "db_ok d \<Longrightarrow> table_ok (t_rules user_role_table) rows \<Longrightarrow> db_ok (t_put user_role_table rows d)"
  by (simp add: db_ok_def table_defs)

lemma db_ok_put_asset: "db_ok d \<Longrightarrow> table_ok (t_rules asset_table) rows \<Longrightarrow> db_ok (t_put asset_table rows d)"
  by (simp add: db_ok_def table_defs)

lemma db_ok_put_wallet: "db_ok d \<Longrightarrow> table_ok (t_rules wallet_table) rows \<Longrightarrow> db_ok (t_put wallet_table rows d)"
  by (simp add: db_ok_def table_defs)

lemma db_ok_put_compliance: "db_ok d \<Longrightarrow> table_ok (t_rules compliance_table) rows \<Longrightarrow> db_ok (t_put compliance_table rows d)"
  by (simp add: db_ok_def table_defs)

lemma db_ok_put_operation: "db_ok d \<Longrightarrow> table_ok (t_rules operation_table) rows \<Longrightarrow> db_ok (t_put operation_table rows d)"
  by (simp add: db_ok_def table_defs)

lemma db_ok_put_transition_log: "db_ok d \<Longrightarrow> table_ok (t_rules transition_log_table) rows \<Longrightarrow> db_ok (t_put transition_log_table rows d)"
  by (simp add: db_ok_def table_defs)

lemma db_ok_put_approval_request: "db_ok d \<Longrightarrow> table_ok (t_rules approval_request_table) rows \<Longrightarrow> db_ok (t_put approval_request_table rows d)"
  by (simp add: db_ok_def table_defs)

lemma db_ok_put_approval_decision: "db_ok d \<Longrightarrow> table_ok (t_rules approval_decision_table) rows \<Longrightarrow> db_ok (t_put approval_decision_table rows d)"
  by (simp add: db_ok_def table_defs)

lemma db_ok_put_idempotency: "db_ok d \<Longrightarrow> table_ok (t_rules idempotency_table) rows \<Longrightarrow> db_ok (t_put idempotency_table rows d)"
  by (simp add: db_ok_def table_defs)

lemma db_ok_put_outbox: "db_ok d \<Longrightarrow> table_ok (t_rules outbox_table) rows \<Longrightarrow> db_ok (t_put outbox_table rows d)"
  by (simp add: db_ok_def table_defs)

lemma db_ok_put_audit: "db_ok d \<Longrightarrow> table_ok (t_rules audit_table) rows \<Longrightarrow> db_ok (t_put audit_table rows d)"
  by (simp add: db_ok_def table_defs)

lemma db_ok_put_signer_nonce: "db_ok d \<Longrightarrow> table_ok (t_rules signer_nonce_table) rows \<Longrightarrow> db_ok (t_put signer_nonce_table rows d)"
  by (simp add: db_ok_def table_defs)

lemma db_ok_put_attempt: "db_ok d \<Longrightarrow> table_ok (t_rules attempt_table) rows \<Longrightarrow> db_ok (t_put attempt_table rows d)"
  by (simp add: db_ok_def table_defs)

lemma db_ok_put_observation: "db_ok d \<Longrightarrow> table_ok (t_rules observation_table) rows \<Longrightarrow> db_ok (t_put observation_table rows d)"
  by (simp add: db_ok_def table_defs)

lemma db_ok_put_signer_request: "db_ok d \<Longrightarrow> table_ok (t_rules signer_request_table) rows \<Longrightarrow> db_ok (t_put signer_request_table rows d)"
  by (simp add: db_ok_def table_defs)

lemmas db_ok_writes =
  user_t.preserves_write [where P = db_ok, OF db_ok_put_user]
  user_role_t.preserves_write [where P = db_ok, OF db_ok_put_user_role]
  asset_t.preserves_write [where P = db_ok, OF db_ok_put_asset]
  wallet_t.preserves_write [where P = db_ok, OF db_ok_put_wallet]
  compliance_t.preserves_write [where P = db_ok, OF db_ok_put_compliance]
  operation_t.preserves_write [where P = db_ok, OF db_ok_put_operation]
  transition_log_t.preserves_write [where P = db_ok, OF db_ok_put_transition_log]
  approval_request_t.preserves_write [where P = db_ok, OF db_ok_put_approval_request]
  approval_decision_t.preserves_write [where P = db_ok, OF db_ok_put_approval_decision]
  idempotency_t.preserves_write [where P = db_ok, OF db_ok_put_idempotency]
  outbox_t.preserves_write [where P = db_ok, OF db_ok_put_outbox]
  audit_t.preserves_write [where P = db_ok, OF db_ok_put_audit]
  signer_nonce_t.preserves_write [where P = db_ok, OF db_ok_put_signer_nonce]
  attempt_t.preserves_write [where P = db_ok, OF db_ok_put_attempt]
  observation_t.preserves_write [where P = db_ok, OF db_ok_put_observation]
  signer_request_t.preserves_write [where P = db_ok, OF db_ok_put_signer_request]

lemma db_ok_empty: "db_ok (empty_db src)"
  by (simp add: db_ok_def empty_db_def table_defs)

lemma db_ok_fresh_uuid: "preserves db_ok fresh_uuid"
  by (auto simp: preserves_def fresh_uuid_def db_ok_def table_defs)

lemma db_ok_clock: "db_ok (d\<lparr>db_now := t, app_now := t'\<rparr>) = db_ok d"
  by (simp add: db_ok_def table_defs)

end
