(* ===== verification/OperationRepo.thy ===== *)
theory OperationRepo
  imports Constraints
begin

text \<open>
  \<open>src/db/repositories/operation-repository.ts\<close>: creation of operations, the guarded state
  transition with its durable timeline, the worker claim, and the queries of the recovery sweep.
\<close>

subsection \<open>Creation\<close>

definition record_operation_transition ::
  "uuid \<Rightarrow> operation_state option \<Rightarrow> operation_state \<Rightarrow> (db, unit) tx" where
  "record_operation_transition operation_id from_s to_s =
     tx_bind (tx_read db_now) (\<lambda>now.
     tx_then (insert_into transition_log_table
       \<lparr>ot_operation_id = operation_id, ot_from_state = from_s, ot_to_state = to_s, ot_occurred_at = now\<rparr>)
     (tx_ret ()))"

text \<open>The columns both kinds of creation fill in; the defaults of the table for the others.\<close>

record new_operation =
  no_type :: operation_type
  no_state :: operation_state
  no_organization_id :: string
  no_asset_id :: uuid
  no_wallet_id :: "uuid option"
  no_amount :: "int option"
  no_operation_reference :: "string option"
  no_compliance_decision_id :: "uuid option"
  no_proposal_hash :: string
  no_required_approvals :: nat
  no_requested_by :: uuid
  no_correlation_id :: string

definition operation_with_defaults :: "uuid \<Rightarrow> pg_time \<Rightarrow> new_operation \<Rightarrow> operation_row" where
  "operation_with_defaults i now v =
     \<lparr>op_id = i, op_organization_id = no_organization_id v, op_type = no_type v, op_state = no_state v,
      op_asset_id = no_asset_id v, op_wallet_id = no_wallet_id v, op_amount = no_amount v,
      op_operation_reference = no_operation_reference v, op_compliance_decision_id = no_compliance_decision_id v,
      op_proposal_hash = no_proposal_hash v, op_required_approvals = no_required_approvals v,
      op_requested_by = no_requested_by v, op_correlation_id = no_correlation_id v,
      op_failure_code = None, op_failure_reason = None, op_claimed_by = None, op_claimed_at = None,
      op_state_updated_at = now, op_created_at = now, op_updated_at = now\<rparr>"

definition insert_operation :: "uuid \<Rightarrow> new_operation \<Rightarrow> (db, operation_row) tx" where
  "insert_operation i v =
     tx_bind (tx_read db_now) (\<lambda>now. insert_into operation_table (operation_with_defaults i now v))"

record administrative_input =
  ai_type :: operation_type
  ai_organization_id :: string
  ai_asset_id :: uuid
  ai_wallet_id :: "uuid option"
  ai_compliance_decision_id :: "uuid option"
  ai_proposal_hash :: string
  ai_requested_by :: uuid
  ai_correlation_id :: string

definition insert_administrative_operation :: "administrative_input \<Rightarrow> (db, operation_row) tx" where
  "insert_administrative_operation input =
     tx_bind fresh_uuid (\<lambda>i. tx_bind (insert_operation i
       \<lparr>no_type = ai_type input, no_state = Op_READY, no_organization_id = ai_organization_id input,
        no_asset_id = ai_asset_id input, no_wallet_id = ai_wallet_id input, no_amount = None,
        no_operation_reference = None, no_compliance_decision_id = ai_compliance_decision_id input,
        no_proposal_hash = ai_proposal_hash input, no_required_approvals = 0,
        no_requested_by = ai_requested_by input, no_correlation_id = ai_correlation_id input\<rparr>) (\<lambda>row.
     tx_then (record_operation_transition (op_id row) None Op_READY)
     (tx_ret row)))"

subsection \<open>Queries\<close>

definition find_live_administrative_operation ::
  "operation_type \<Rightarrow> uuid \<Rightarrow> uuid option \<Rightarrow> db \<Rightarrow> operation_row option" where
  "find_live_administrative_operation ty asset wallet d =
     select_first (\<lambda>r. op_type r = ty \<and> op_asset_id r = asset \<and> op_wallet_id r = wallet \<and>
       op_state r \<notin> set terminal_operation_states) (operations d)"

definition find_operation_by_id :: "uuid \<Rightarrow> db \<Rightarrow> operation_row option" where
  "find_operation_by_id i d = select_first (\<lambda>r. op_id r = i) (operations d)"

text \<open>\<open>SELECT ... FOR UPDATE\<close>: a transaction body runs alone, so the lock is the read.\<close>

definition lock_operation :: "uuid \<Rightarrow> (db, operation_row option) tx" where
  "lock_operation i = tx_read (find_operation_by_id i)"

definition list_operation_history :: "uuid \<Rightarrow> db \<Rightarrow> (operation_state \<times> pg_time) list" where
  "list_operation_history i d =
     map (\<lambda>t. (ot_to_state t, ot_occurred_at t)) (filter (\<lambda>t. ot_operation_id t = i) (operation_transitions d))"

definition find_stale_operations :: "js_time \<Rightarrow> nat \<Rightarrow> db \<Rightarrow> operation_row list" where
  "find_stale_operations stale_before limit d =
     take limit (order_by op_state_updated_at (filter (\<lambda>r.
       op_state r \<in> set [Op_READY, Op_PREPARING, Op_SIGNING, Op_SIGNED, Op_BROADCASTING, Op_BROADCAST_UNKNOWN,
         Op_SUBMITTED, Op_INCLUDED] \<and>
       op_state_updated_at r < pg_of_date stale_before) (operations d)))"

definition find_unclaimed_ready_operations :: "nat \<Rightarrow> db \<Rightarrow> operation_row list" where
  "find_unclaimed_ready_operations limit d =
     take limit (filter (\<lambda>r. op_state r = Op_READY \<and> op_claimed_by r = None) (operations d))"

definition count_operations_by_state :: "db \<Rightarrow> (operation_state \<times> nat) list" where
  "count_operations_by_state d =
     map (\<lambda>s. (s, length (filter (\<lambda>r. op_state r = s) (operations d)))) (remdups (map op_state (operations d)))"

definition find_operations_for_asset :: "uuid \<Rightarrow> nat \<Rightarrow> db \<Rightarrow> operation_row list" where
  "find_operations_for_asset asset limit d =
     take limit (order_by (\<lambda>r. - op_created_at r) (filter (\<lambda>r. op_asset_id r = asset) (operations d)))"

definition find_in_flight_operations :: "nat \<Rightarrow> db \<Rightarrow> operation_row list" where
  "find_in_flight_operations limit d =
     take limit (filter (\<lambda>r. op_state r \<in> set [Op_BROADCAST_UNKNOWN, Op_SUBMITTED, Op_INCLUDED]) (operations d))"

subsection \<open>Transitions\<close>

text \<open>\<open>TransitionPatch\<close>: an absent field is left as it is.\<close>

record transition_patch =
  tp_failure_code :: "string option option"
  tp_failure_reason :: "string option option"
  tp_claimed_by :: "string option option"
  tp_claimed_at :: "pg_time option option"

definition no_patch :: transition_patch where
  "no_patch = \<lparr>tp_failure_code = None, tp_failure_reason = None, tp_claimed_by = None, tp_claimed_at = None\<rparr>"

definition patched :: "'a option \<Rightarrow> 'a \<Rightarrow> 'a" where
  "patched p v = (case p of None \<Rightarrow> v | Some x \<Rightarrow> x)"

definition apply_transition :: "operation_state \<Rightarrow> pg_time \<Rightarrow> transition_patch \<Rightarrow> operation_row \<Rightarrow> operation_row" where
  "apply_transition to_s now patch r =
     r\<lparr>op_state := to_s, op_state_updated_at := now, op_updated_at := now,
       op_failure_code := patched (tp_failure_code patch) (op_failure_code r),
       op_failure_reason := patched (tp_failure_reason patch) (op_failure_reason r),
       op_claimed_by := patched (tp_claimed_by patch) (op_claimed_by r),
       op_claimed_at := patched (tp_claimed_at patch) (op_claimed_at r)\<rparr>"

definition transition_operation ::
  "operation_row \<Rightarrow> operation_state \<Rightarrow> transition_patch \<Rightarrow> (db, operation_row) tx" where
  "transition_operation operation to_s patch =
     tx_then (tx_lift (assert_operation_transition (op_state operation) to_s))
     (tx_bind (tx_read app_now) (\<lambda>now.
      tx_bind (update_in operation_table (\<lambda>r. op_id r = op_id operation \<and> op_state r = op_state operation)
        (apply_transition to_s (pg_of_date now) patch)) (\<lambda>rows.
      case rows of
        [] \<Rightarrow> tx_throw (app_error OPERATION_CONFLICT ''operation state changed concurrently; transition abandoned''
          [(''operationId'', JStr (op_id operation)),
           (''expectedState'', JStr (operation_state_name (op_state operation)))])
      | row # _ \<Rightarrow>
          tx_then (record_operation_transition (op_id operation) (Some (op_state operation)) to_s)
          (tx_ret row))))"

definition claim_ready_operation :: "uuid \<Rightarrow> string \<Rightarrow> (db, operation_row option) tx" where
  "claim_ready_operation operation_id worker_id =
     tx_bind (lock_operation operation_id) (\<lambda>op.
     case op of
       None \<Rightarrow> tx_ret None
     | Some operation \<Rightarrow>
         if op_state operation \<noteq> Op_READY then tx_ret None
         else tx_bind (tx_read app_now) (\<lambda>now.
           tx_bind (transition_operation operation Op_PREPARING
             (no_patch\<lparr>tp_claimed_by := Some (Some worker_id), tp_claimed_at := Some (Some (pg_of_date now))\<rparr>))
           (\<lambda>row. tx_ret (Some row))))"

definition release_claim :: "uuid \<Rightarrow> (db, unit) tx" where
  "release_claim operation_id =
     tx_bind (tx_read app_now) (\<lambda>now.
     tx_then (update_in operation_table (\<lambda>r. op_id r = operation_id)
       (\<lambda>r. r\<lparr>op_claimed_by := None, op_claimed_at := None, op_updated_at := pg_of_date now\<rparr>))
     (tx_ret ()))"

subsection \<open>What the statements do\<close>

lemma find_operation_by_id_Some: "find_operation_by_id i d = Some r \<Longrightarrow> r \<in> set (operations d) \<and> op_id r = i"
  unfolding find_operation_by_id_def by (drule select_first_Some) simp

lemma assert_transition_Inr: "assert_operation_transition s t = Inr u \<longleftrightarrow> can_transition_operation s t"
  by (simp add: assert_operation_transition_def)

lemma apply_transition_simps [simp]:
  "op_id (apply_transition s now p r) = op_id r"
  "op_state (apply_transition s now p r) = s"
  "op_type (apply_transition s now p r) = op_type r"
  by (simp_all add: apply_transition_def)

lemma record_operation_transition_Inr:
  "record_operation_transition i s t d = Inr (u, d') \<longleftrightarrow>
     d' = d\<lparr>operation_transitions := operation_transitions d @
       [\<lparr>ot_operation_id = i, ot_from_state = s, ot_to_state = t, ot_occurred_at = db_now d\<rparr>]\<rparr>"
  by (auto simp: record_operation_transition_def tx_simps transition_log_table_def table_ok_def)

lemma transition_operation_Inr:
  "transition_operation operation to_s patch d = Inr (row, d') \<longleftrightarrow>
     can_transition_operation (op_state operation) to_s \<and>
     (\<exists>r rs p f. p = (\<lambda>r. op_id r = op_id operation \<and> op_state r = op_state operation) \<and>
        f = apply_transition to_s (pg_of_date (app_now d)) patch \<and>
        filter p (operations d) = r # rs \<and> row = f r \<and>
        table_ok operation_rules (update_where p f (operations d)) \<and>
        d' = d\<lparr>operations := update_where p f (operations d),
               operation_transitions := operation_transitions d @
                 [\<lparr>ot_operation_id = op_id operation, ot_from_state = Some (op_state operation),
                   ot_to_state = to_s, ot_occurred_at = db_now d\<rparr>]\<rparr>)"
  by (auto simp: transition_operation_def tx_simps assert_transition_Inr record_operation_transition_Inr
      operation_table_def split: list.splits)

text \<open>The operation a transition was applied to, and what the other rows and columns keep.\<close>

lemma transition_operation_row:
  assumes "transition_operation operation to_s patch d = Inr (row, d')"
  shows "\<exists>r \<in> set (operations d). op_id r = op_id operation \<and> op_state r = op_state operation \<and>
     row = apply_transition to_s (pg_of_date (app_now d)) patch r \<and> row \<in> set (operations d')"
proof -
  from assms obtain r rs p f where p: "p = (\<lambda>r. op_id r = op_id operation \<and> op_state r = op_state operation)"
      and f: "f = apply_transition to_s (pg_of_date (app_now d)) patch"
      and r: "filter p (operations d) = r # rs" "row = f r" and d': "operations d' = update_where p f (operations d)"
    unfolding transition_operation_Inr by auto
  then have "r \<in> set (operations d)" "p r" by (metis filter_eq_ConsD in_set_conv_decomp, metis filter_eq_ConsD)
  moreover then have "row \<in> set (operations d')" unfolding d' set_update_where using r by force
  ultimately show ?thesis using p f r by auto
qed

subsection \<open>The timeline agrees with the state\<close>

definition history_of :: "uuid \<Rightarrow> transition_row list \<Rightarrow> operation_state list" where
  "history_of i ts = map ot_to_state (filter (\<lambda>t. ot_operation_id t = i) ts)"

definition initial_state_of :: "operation_type \<Rightarrow> operation_state" where
  "initial_state_of ty = (if ty = MINT then Op_PENDING_APPROVAL else Op_READY)"

definition timeline_ok :: "transition_row list \<Rightarrow> operation_row \<Rightarrow> bool" where
  "timeline_ok ts r \<longleftrightarrow> (\<exists>ss. history_of (op_id r) ts = initial_state_of (op_type r) # ss \<and>
     operation_machine.path (initial_state_of (op_type r) # ss) \<and>
     last (initial_state_of (op_type r) # ss) = op_state r)"

definition history_ok :: "db \<Rightarrow> bool" where
  "history_ok d \<longleftrightarrow>
     table_ok operation_rules (operations d) \<and>
     (\<forall>r \<in> set (operations d). timeline_ok (operation_transitions d) r) \<and>
     (\<forall>t \<in> set (operation_transitions d). \<exists>r \<in> set (operations d). op_id r = ot_operation_id t)"

lemma history_of_append:
  "history_of i (ts @ [t]) = history_of i ts @ (if ot_operation_id t = i then [ot_to_state t] else [])"
  by (simp add: history_of_def)

lemma operation_rules_ids:
  "table_ok operation_rules rows \<Longrightarrow> r \<in> set rows \<Longrightarrow> r' \<in> set rows \<Longrightarrow> op_id r = op_id r' \<Longrightarrow> r = r'"
  by (rule table_ok_unique [where n = "''operations_pkey''" and c = "\<lambda>r r'. op_id r = op_id r'"])
     (auto simp: operation_rules_def)

lemma operation_rules_new:
  assumes "table_ok operation_rules (rows @ [row])" "r \<in> set rows"
  shows "op_id r \<noteq> op_id row"
proof
  assume eq: "op_id r = op_id row"
  obtain k where "k < length rows" "rows ! k = r" using assms(2) by (auto simp: in_set_conv_nth)
  with eq table_ok_unique_nth [OF assms(1), of "''operations_pkey''" "\<lambda>r r'. op_id r = op_id r'" k "length rows"]
  show False by (auto simp: operation_rules_def nth_append)
qed

lemma timeline_ok_step:
  assumes ok: "timeline_ok ts r" and step: "can_transition_operation (op_state r) to_s"
    and t: "ot_operation_id t = op_id r" "ot_to_state t = to_s"
    and r': "op_id r' = op_id r" "op_type r' = op_type r" "op_state r' = to_s"
  shows "timeline_ok (ts @ [t]) r'"
proof -
  define s0 where "s0 = initial_state_of (op_type r)"
  from ok obtain ss where ss: "history_of (op_id r) ts = s0 # ss" "operation_machine.path (s0 # ss)"
      "last (s0 # ss) = op_state r"
    by (auto simp: timeline_ok_def s0_def)
  have "operation_machine.path (butlast (s0 # ss) @ [op_state r])"
    using ss by (metis append_butlast_last_id list.distinct(1))
  then have "operation_machine.path (butlast (s0 # ss) @ [op_state r, to_s])"
    using step by (intro operation_machine.path_append1) (simp_all add: can_transition_operation_def)
  then have "operation_machine.path ((s0 # ss) @ [to_s])"
    using ss(3) by (metis append.assoc append_Cons append_Nil append_butlast_last_id list.distinct(1))
  with ss t r' show ?thesis
    unfolding timeline_ok_def by (auto simp: history_of_append s0_def)
qed

lemma timeline_ok_other:
  "timeline_ok ts r \<Longrightarrow> ot_operation_id t \<noteq> op_id r \<Longrightarrow> timeline_ok (ts @ [t]) r"
  by (auto simp: timeline_ok_def history_of_append)

lemma transition_operation_history: "preserves history_ok (transition_operation operation to_s patch)"
proof (rule preservesI)
  fix d row d'
  assume ok: "history_ok d" and tr: "transition_operation operation to_s patch d = Inr (row, d')"
  define p where "p = (\<lambda>r :: operation_row. op_id r = op_id operation \<and> op_state r = op_state operation)"
  define f where "f = apply_transition to_s (pg_of_date (app_now d)) patch"
  from tr have can: "can_transition_operation (op_state operation) to_s"
    and ops: "operations d' = update_where p f (operations d)"
    and tb: "table_ok operation_rules (operations d')"
    and "\<exists>r \<in> set (operations d). p r"
    and trs: "\<exists>t. operation_transitions d' = operation_transitions d @ [t] \<and> ot_operation_id t = op_id operation \<and> ot_to_state t = to_s"
    unfolding transition_operation_Inr p_def f_def by (auto dest!: filter_eq_ConsD)
  from trs obtain t where t: "operation_transitions d' = operation_transitions d @ [t]"
      "ot_operation_id t = op_id operation" "ot_to_state t = to_s" by auto
  obtain q where q: "q \<in> set (operations d)" "p q" using \<open>\<exists>r \<in> set (operations d). p r\<close> by auto
  have "timeline_ok (operation_transitions d') r'" if r': "r' \<in> set (operations d')" for r'
  proof -
    from r' obtain r where r: "r \<in> set (operations d)" "r' = (if p r then f r else r)"
      unfolding ops set_update_where by auto
    have tl: "timeline_ok (operation_transitions d) r" using ok r(1) by (simp add: history_ok_def)
    show ?thesis
    proof (cases "p r")
      case True
      then show ?thesis unfolding t(1)
        by (intro timeline_ok_step [OF tl]) (use True r can t in \<open>auto simp: p_def f_def\<close>)
    next
      case False
      have "op_id r \<noteq> op_id operation"
        using operation_rules_ids [of "operations d" r q] ok q r(1) False by (auto simp: history_ok_def p_def)
      with False r t tl show ?thesis by (auto intro: timeline_ok_other)
    qed
  qed
  moreover have "\<exists>r \<in> set (operations d'). op_id r = ot_operation_id u" if "u \<in> set (operation_transitions d')" for u
  proof -
    have keep: "\<exists>r' \<in> set (operations d'). op_id r' = op_id r" if "r \<in> set (operations d)" for r
      unfolding ops set_update_where using that by (intro bexI [OF _ imageI [OF that]]) (simp add: f_def)
    show ?thesis
      using that ok q keep by (auto simp: t history_ok_def p_def) metis+
  qed
  ultimately show "history_ok d'" using tb by (simp add: history_ok_def)
qed

lemma history_ok_create:
  assumes "no_state v = initial_state_of (no_type v)" and "\<And>row. preserves history_ok (k row)"
  shows "preserves history_ok (tx_bind (insert_operation i v) (\<lambda>row.
    tx_then (record_operation_transition (op_id row) None (no_state v)) (k row)))"
proof (rule preservesI)
  fix d a d'
  assume ok: "history_ok d"
    and run: "tx_bind (insert_operation i v) (\<lambda>row.
      tx_then (record_operation_transition (op_id row) None (no_state v)) (k row)) d = Inr (a, d')"
  define row where "row = operation_with_defaults i (db_now d) v"
  define t where "t = \<lparr>ot_operation_id = op_id row, ot_from_state = None, ot_to_state = no_state v, ot_occurred_at = db_now d\<rparr>"
  define d1 where "d1 = d\<lparr>operations := operations d @ [row],
    operation_transitions := operation_transitions d @ [t]\<rparr>"
  from run have tb: "table_ok operation_rules (operations d @ [row])" and k: "k row d1 = Inr (a, d')"
    by (auto simp: insert_operation_def tx_simps record_operation_transition_Inr operation_table_def
        row_def t_def d1_def)
  note new = operation_rules_new [OF tb]
  have "history_ok d1"
    unfolding history_ok_def
  proof (intro conjI ballI)
    show "table_ok operation_rules (operations d1)" using tb by (simp add: d1_def)
  next
    fix r assume "r \<in> set (operations d1)"
    then consider "r \<in> set (operations d)" | "r = row" by (auto simp: d1_def)
    then show "timeline_ok (operation_transitions d1) r"
    proof cases
      case 1
      then have "timeline_ok (operation_transitions d) r" using ok by (simp add: history_ok_def)
      then have "timeline_ok (operation_transitions d @ [t]) r"
        by (rule timeline_ok_other) (use new [OF 1] in \<open>simp add: t_def\<close>)
      then show ?thesis by (simp add: d1_def)
    next
      case 2
      have "history_of (op_id row) (operation_transitions d) = []"
        using ok new by (force simp: history_ok_def history_of_def filter_empty_conv)
      then show ?thesis
        using 2 assms(1) by (simp add: d1_def timeline_ok_def history_of_append t_def)
          (simp add: row_def operation_with_defaults_def)
    qed
  next
    fix u assume "u \<in> set (operation_transitions d1)"
    then show "\<exists>r \<in> set (operations d1). op_id r = ot_operation_id u"
      using ok by (auto simp: d1_def t_def history_ok_def)
  qed
  then show "history_ok d'" using k preservesD [OF assms(2)] by blast
qed

lemma history_ok_update:
  assumes f: "\<And>r. op_id (f r) = op_id r" "\<And>r. op_type (f r) = op_type r" "\<And>r. op_state (f r) = op_state r"
  shows "preserves history_ok (update_in operation_table p f)"
proof (rule operation_t.preserves_update)
  fix d
  assume ok: "history_ok d" and tb: "table_ok (t_rules operation_table) (update_where p f (t_rows operation_table d))"
  have tl: "timeline_ok ts (f r) = timeline_ok ts r" for ts r by (simp add: timeline_ok_def f)
  have "\<exists>r' \<in> set (update_where p f (operations d)). op_id r' = op_id r" if "r \<in> set (operations d)" for r
    unfolding set_update_where using f(1) by (intro bexI [OF _ imageI [OF that]]) simp
  with ok tb tl show "history_ok (t_put operation_table (update_where p f (t_rows operation_table d)) d)"
    by (auto simp: history_ok_def operation_table_def set_update_where) metis
qed

lemma history_ok_put:
  "history_ok d \<Longrightarrow> history_ok (t_put user_table rows1 d)"
  "history_ok d \<Longrightarrow> history_ok (t_put user_role_table rows2 d)"
  "history_ok d \<Longrightarrow> history_ok (t_put asset_table rows3 d)"
  "history_ok d \<Longrightarrow> history_ok (t_put wallet_table rows4 d)"
  "history_ok d \<Longrightarrow> history_ok (t_put compliance_table rows5 d)"
  "history_ok d \<Longrightarrow> history_ok (t_put approval_request_table rows6 d)"
  "history_ok d \<Longrightarrow> history_ok (t_put approval_decision_table rows7 d)"
  "history_ok d \<Longrightarrow> history_ok (t_put idempotency_table rows8 d)"
  "history_ok d \<Longrightarrow> history_ok (t_put outbox_table rows9 d)"
  "history_ok d \<Longrightarrow> history_ok (t_put audit_table rows10 d)"
  "history_ok d \<Longrightarrow> history_ok (t_put signer_nonce_table rows11 d)"
  "history_ok d \<Longrightarrow> history_ok (t_put attempt_table rows12 d)"
  "history_ok d \<Longrightarrow> history_ok (t_put observation_table rows13 d)"
  "history_ok d \<Longrightarrow> history_ok (t_put signer_request_table rows14 d)"
  by (simp_all add: history_ok_def table_defs)

lemma history_ok_fresh_uuid: "preserves history_ok fresh_uuid"
  by (auto simp: preserves_def fresh_uuid_def history_ok_def)

lemma history_ok_clock: "history_ok (d\<lparr>db_now := t, app_now := t'\<rparr>) = history_ok d"
  by (simp add: history_ok_def)

lemmas history_ok_writes = transition_operation_history history_ok_fresh_uuid
  user_t.preserves_frame [where P = history_ok, OF history_ok_put(1)]
  user_role_t.preserves_frame [where P = history_ok, OF history_ok_put(2)]
  asset_t.preserves_frame [where P = history_ok, OF history_ok_put(3)]
  wallet_t.preserves_frame [where P = history_ok, OF history_ok_put(4)]
  compliance_t.preserves_frame [where P = history_ok, OF history_ok_put(5)]
  approval_request_t.preserves_frame [where P = history_ok, OF history_ok_put(6)]
  approval_decision_t.preserves_frame [where P = history_ok, OF history_ok_put(7)]
  idempotency_t.preserves_frame [where P = history_ok, OF history_ok_put(8)]
  outbox_t.preserves_frame [where P = history_ok, OF history_ok_put(9)]
  audit_t.preserves_frame [where P = history_ok, OF history_ok_put(10)]
  signer_nonce_t.preserves_frame [where P = history_ok, OF history_ok_put(11)]
  attempt_t.preserves_frame [where P = history_ok, OF history_ok_put(12)]
  observation_t.preserves_frame [where P = history_ok, OF history_ok_put(13)]
  signer_request_t.preserves_frame [where P = history_ok, OF history_ok_put(14)]

lemma insert_administrative_operation_history:
  assumes "ai_type input \<noteq> MINT"
  shows "preserves history_ok (insert_administrative_operation input)"
proof -
  let ?v = "\<lparr>no_type = ai_type input, no_state = Op_READY, no_organization_id = ai_organization_id input,
        no_asset_id = ai_asset_id input, no_wallet_id = ai_wallet_id input, no_amount = None,
        no_operation_reference = None, no_compliance_decision_id = ai_compliance_decision_id input,
        no_proposal_hash = ai_proposal_hash input, no_required_approvals = 0,
        no_requested_by = ai_requested_by input, no_correlation_id = ai_correlation_id input\<rparr>"
  have step: "preserves history_ok (tx_bind (insert_operation i ?v) (\<lambda>row.
      tx_then (record_operation_transition (op_id row) None (no_state ?v)) (tx_ret row)))" for i
    by (rule history_ok_create) (use assms in \<open>simp_all add: initial_state_of_def preserves_ret\<close>)
  show ?thesis
    unfolding insert_administrative_operation_def
    by (rule preserves_bind [OF history_ok_fresh_uuid]) (use step in simp)
qed

lemma claim_ready_operation_history: "preserves history_ok (claim_ready_operation i w)"
  unfolding claim_ready_operation_def lock_operation_def
  by (intro preserves_intros transition_operation_history)

lemma release_claim_history: "preserves history_ok (release_claim i)"
  unfolding release_claim_def by (intro preserves_intros history_ok_update) simp_all

end
