(* ===== verification/AttemptRepo.thy ===== *)
theory AttemptRepo
  imports OperationRepo
begin

text \<open>
  \<open>src/db/repositories/transaction-repository.ts\<close>: the signer's nonce lanes, the transaction
  attempts with their signed bytes, and the chain observations that reconciliation records.
\<close>

subsection \<open>Nonce lanes\<close>

definition reserve_nonce :: "int \<Rightarrow> string \<Rightarrow> int \<Rightarrow> (db, int) tx" where
  "reserve_nonce chain_id signer chain_nonce =
     (let signer_address = to_lower signer;
          lane = (\<lambda>r. sn_chain_id r = chain_id \<and> sn_signer_address r = signer_address)
      in tx_bind (tx_read db_now) (\<lambda>now.
         tx_then (insert_on_conflict_do_nothing signer_nonce_table same_lane
           \<lparr>sn_chain_id = chain_id, sn_signer_address = signer_address, sn_next_nonce = chain_nonce, sn_updated_at = now\<rparr>)
         (tx_bind (tx_read (\<lambda>d. select_first lane (signer_nonces d))) (\<lambda>existing.
          case existing of
            None \<Rightarrow> tx_throw (JsError ''signer nonce lane vanished after insert'')
          | Some row \<Rightarrow>
              if chain_nonce > sn_next_nonce row
              then tx_throw (app_error NONCE_DIVERGENCE
                ''chain nonce is ahead of the reserved nonce; the signer was used outside this application''
                [(''chainNonce'', JNum chain_nonce), (''reservedNextNonce'', JNum (sn_next_nonce row)),
                 (''signerAddress'', JStr signer_address)])
              else tx_bind (tx_read app_now) (\<lambda>at.
                tx_then (update_in signer_nonce_table lane
                  (\<lambda>r. r\<lparr>sn_next_nonce := sn_next_nonce row + 1, sn_updated_at := pg_of_date at\<rparr>))
                (tx_ret (sn_next_nonce row)))))))"

definition read_reserved_nonce :: "int \<Rightarrow> string \<Rightarrow> db \<Rightarrow> int option" where
  "read_reserved_nonce chain_id signer d =
     map_option sn_next_nonce
       (select_first (\<lambda>r. sn_chain_id r = chain_id \<and> sn_signer_address r = to_lower signer) (signer_nonces d))"

subsection \<open>Attempts\<close>

record insert_attempt_input =
  ia_operation_id :: "uuid option"
  ia_asset_id :: "uuid option"
  ia_wallet_id :: "uuid option"
  ia_purpose :: attempt_purpose
  ia_chain_id :: int
  ia_from_address :: string
  ia_to_address :: "string option"
  ia_nonce :: int
  ia_data :: string
  ia_gas_limit :: int
  ia_max_fee_per_gas :: int
  ia_max_priority_fee_per_gas :: int
  ia_request_hash :: string
  ia_intent_fingerprint :: string
  ia_replaces_attempt_id :: "uuid option"
  ia_replacement_reason :: "string option"
  ia_replacement_number :: "nat option"

definition prepared_attempt :: "uuid \<Rightarrow> pg_time \<Rightarrow> insert_attempt_input \<Rightarrow> attempt_row" where
  "prepared_attempt i now input =
     \<lparr>ta_id = i, ta_operation_id = ia_operation_id input, ta_asset_id = ia_asset_id input,
      ta_wallet_id = ia_wallet_id input, ta_purpose = ia_purpose input, ta_chain_id = ia_chain_id input,
      ta_from_address = to_lower (ia_from_address input), ta_to_address = map_option to_lower (ia_to_address input),
      ta_nonce = ia_nonce input, ta_value = 0, ta_data = to_lower (ia_data input),
      ta_gas_limit = ia_gas_limit input, ta_max_fee_per_gas = ia_max_fee_per_gas input,
      ta_max_priority_fee_per_gas = ia_max_priority_fee_per_gas input, ta_request_hash = ia_request_hash input,
      ta_signed_raw_transaction = None, ta_transaction_hash = None, ta_status = At_PREPARED,
      ta_broadcast_attempts = 0, ta_block_number = None, ta_block_hash = None, ta_gas_used = None,
      ta_receipt_status = None, ta_contract_address = None, ta_error_code = None, ta_error_message = None,
      ta_intent_fingerprint = Some (ia_intent_fingerprint input),
      ta_replaces_attempt_id = ia_replaces_attempt_id input, ta_replaced_by_attempt_id = None,
      ta_replacement_reason = ia_replacement_reason input,
      ta_replacement_number = (case ia_replacement_number input of None \<Rightarrow> 0 | Some n \<Rightarrow> n),
      ta_created_at = now, ta_updated_at = now\<rparr>"

definition insert_prepared_attempt :: "insert_attempt_input \<Rightarrow> (db, attempt_row) tx" where
  "insert_prepared_attempt input =
     tx_bind fresh_uuid (\<lambda>i. tx_bind (tx_read db_now) (\<lambda>now.
     insert_into attempt_table (prepared_attempt i now input)))"

text \<open>\<open>UPDATE transaction_attempts SET ..., updated_at = new Date() WHERE p\<close>\<close>

definition update_attempts :: "(attempt_row \<Rightarrow> bool) \<Rightarrow> (attempt_row \<Rightarrow> attempt_row) \<Rightarrow> (db, attempt_row list) tx" where
  "update_attempts p f = tx_bind (tx_read app_now) (\<lambda>now.
     update_in attempt_table p (\<lambda>r. (f r)\<lparr>ta_updated_at := pg_of_date now\<rparr>))"

definition persist_signed_attempt :: "uuid \<Rightarrow> string \<Rightarrow> string \<Rightarrow> (db, unit) tx" where
  "persist_signed_attempt attempt_id raw hash =
     tx_then (update_attempts (\<lambda>r. ta_id r = attempt_id)
       (\<lambda>r. r\<lparr>ta_signed_raw_transaction := Some (to_lower raw), ta_transaction_hash := Some (to_lower hash),
              ta_status := At_SIGNED\<rparr>))
     (tx_ret ())"

record attempt_status_patch =
  sp_status :: attempt_status
  sp_error_code :: "string option option"
  sp_error_message :: "string option option"
  sp_increment_broadcast_attempts :: bool

definition status_only :: "attempt_status \<Rightarrow> attempt_status_patch" where
  "status_only s = \<lparr>sp_status = s, sp_error_code = None, sp_error_message = None, sp_increment_broadcast_attempts = False\<rparr>"

definition apply_attempt_status :: "attempt_status_patch \<Rightarrow> attempt_row \<Rightarrow> attempt_row" where
  "apply_attempt_status p r =
     r\<lparr>ta_status := sp_status p,
       ta_error_code := patched (sp_error_code p) (ta_error_code r),
       ta_error_message := patched (map_option (map_option (take 2000)) (sp_error_message p)) (ta_error_message r),
       ta_broadcast_attempts := ta_broadcast_attempts r + (if sp_increment_broadcast_attempts p then 1 else 0)\<rparr>"

definition update_attempt_status :: "uuid \<Rightarrow> attempt_status_patch \<Rightarrow> (db, unit) tx" where
  "update_attempt_status attempt_id p =
     tx_then (update_attempts (\<lambda>r. ta_id r = attempt_id) (apply_attempt_status p)) (tx_ret ())"

record receipt_input =
  ri_status :: attempt_status
  ri_block_number :: int
  ri_block_hash :: string
  ri_gas_used :: int
  ri_receipt_status :: int
  ri_contract_address :: "string option"

definition record_receipt :: "uuid \<Rightarrow> receipt_input \<Rightarrow> (db, unit) tx" where
  "record_receipt attempt_id input =
     tx_then (update_attempts
       (\<lambda>r. ta_id r = attempt_id \<and> ta_status r \<notin> set [At_CONFIRMED, At_REVERTED])
       (\<lambda>r. r\<lparr>ta_status := ri_status input, ta_block_number := Some (ri_block_number input),
              ta_block_hash := Some (to_lower (ri_block_hash input)), ta_gas_used := Some (ri_gas_used input),
              ta_receipt_status := Some (ri_receipt_status input),
              ta_contract_address := map_option to_lower (ri_contract_address input)\<rparr>))
     (tx_ret ())"

definition find_attempt_by_id :: "uuid \<Rightarrow> db \<Rightarrow> attempt_row option" where
  "find_attempt_by_id i d = select_first (\<lambda>r. ta_id r = i) (transaction_attempts d)"

definition find_latest_attempt_for_operation :: "uuid \<Rightarrow> db \<Rightarrow> attempt_row option" where
  "find_latest_attempt_for_operation operation_id d =
     select_latest ta_created_at (filter (\<lambda>r. ta_operation_id r = Some operation_id) (transaction_attempts d))"

definition list_attempts_for_operation :: "uuid \<Rightarrow> db \<Rightarrow> attempt_row list" where
  "list_attempts_for_operation operation_id d =
     order_by ta_created_at (filter (\<lambda>r. ta_operation_id r = Some operation_id) (transaction_attempts d))"

text \<open>Drops inclusion evidence; the bytes, the hash and the nonce stay.\<close>

definition clear_attempt_inclusion :: "uuid \<Rightarrow> (db, unit) tx" where
  "clear_attempt_inclusion attempt_id =
     tx_then (update_attempts (\<lambda>r. ta_id r = attempt_id)
       (\<lambda>r. r\<lparr>ta_status := At_SUBMITTED, ta_block_number := None, ta_block_hash := None, ta_gas_used := None,
              ta_receipt_status := None\<rparr>))
     (tx_ret ())"

definition find_live_attempt_at_nonce :: "int \<Rightarrow> string \<Rightarrow> int \<Rightarrow> db \<Rightarrow> attempt_row option" where
  "find_live_attempt_at_nonce chain_id signer nonce d =
     select_first (\<lambda>r. ta_chain_id r = chain_id \<and> ta_from_address r = to_lower signer \<and> ta_nonce r = nonce \<and>
       ta_status r \<noteq> At_REPLACED) (transaction_attempts d)"

definition retire_attempt_for_replacement :: "uuid \<Rightarrow> string \<Rightarrow> (db, bool) tx" where
  "retire_attempt_for_replacement attempt_id reason =
     tx_bind (update_attempts (\<lambda>r. ta_id r = attempt_id \<and> ta_status r \<noteq> At_REPLACED)
       (\<lambda>r. r\<lparr>ta_status := At_REPLACED, ta_replacement_reason := Some reason\<rparr>)) (\<lambda>rows.
     tx_ret (rows \<noteq> []))"

definition link_attempt_replacement :: "uuid \<Rightarrow> uuid \<Rightarrow> (db, unit) tx" where
  "link_attempt_replacement attempt_id replacement_id =
     tx_then (update_in attempt_table (\<lambda>r. ta_id r = attempt_id)
       (\<lambda>r. r\<lparr>ta_replaced_by_attempt_id := Some replacement_id\<rparr>))
     (tx_ret ())"

definition find_stuck_attempts :: "int \<Rightarrow> int \<Rightarrow> nat \<Rightarrow> nat \<Rightarrow> db \<Rightarrow> attempt_row list" where
  "find_stuck_attempts chain_id stuck_after_ms max_replacements limit d =
     take limit (order_by ta_updated_at (filter (\<lambda>r. ta_chain_id r = chain_id \<and>
       ta_status r \<in> set [At_SUBMITTED, At_BROADCASTING, At_BROADCAST_UNKNOWN] \<and> ta_block_number r = None \<and>
       ta_replacement_number r < max_replacements \<and>
       ta_updated_at r + stuck_after_ms * 1000 \<le> db_now d) (transaction_attempts d)))"

subsection \<open>Observations\<close>

record observation_input =
  oi_operation_id :: "uuid option"
  oi_transaction_attempt_id :: "uuid option"
  oi_kind :: observation_kind
  oi_chain_id :: int
  oi_block_number :: "int option"
  oi_block_hash :: "string option"
  oi_transaction_hash :: "string option"
  oi_matched :: bool
  oi_canonical :: bool
  oi_severity :: observation_severity
  oi_expected :: "json option"
  oi_actual :: "json option"
  oi_detail :: "string option"

definition observation_of :: "uuid \<Rightarrow> pg_time \<Rightarrow> js_time \<Rightarrow> observation_input \<Rightarrow> observation_row" where
  "observation_of i now app input =
     \<lparr>co_id = i, co_operation_id = oi_operation_id input, co_transaction_attempt_id = oi_transaction_attempt_id input,
      co_kind = oi_kind input, co_chain_id = oi_chain_id input, co_block_number = oi_block_number input,
      co_block_hash = map_option to_lower (oi_block_hash input),
      co_transaction_hash = map_option to_lower (oi_transaction_hash input),
      co_matched = oi_matched input, co_canonical = oi_canonical input, co_severity = oi_severity input,
      co_status = (if oi_matched input then Obs_RESOLVED else Obs_OPEN),
      co_expected = oi_expected input, co_actual = oi_actual input, co_detail = oi_detail input,
      co_observed_at = now, co_resolved_at = (if oi_matched input then Some (pg_of_date app) else None)\<rparr>"

definition record_observation :: "observation_input \<Rightarrow> (db, unit) tx" where
  "record_observation input =
     tx_bind fresh_uuid (\<lambda>i. tx_bind (tx_read db_now) (\<lambda>now. tx_bind (tx_read app_now) (\<lambda>app.
     tx_then (insert_into observation_table (observation_of i now app input)) (tx_ret ()))))"

definition list_open_findings :: "nat \<Rightarrow> db \<Rightarrow> observation_row list" where
  "list_open_findings limit d =
     take limit (order_by (\<lambda>r. - co_observed_at r) (filter (\<lambda>r. co_status r = Obs_OPEN) (chain_observations d)))"

definition count_open_findings_by_severity :: "db \<Rightarrow> (observation_severity \<times> nat) list" where
  "count_open_findings_by_severity d =
     (let open_rows = filter (\<lambda>r. co_status r = Obs_OPEN) (chain_observations d)
      in map (\<lambda>s. (s, length (filter (\<lambda>r. co_severity r = s) open_rows))) (remdups (map co_severity open_rows)))"

definition list_observations :: "uuid \<Rightarrow> db \<Rightarrow> observation_row list" where
  "list_observations operation_id d =
     order_by co_observed_at (filter (\<lambda>r. co_operation_id r = Some operation_id) (chain_observations d))"

definition invalidate_attempt_observations :: "uuid \<Rightarrow> (db, nat) tx" where
  "invalidate_attempt_observations attempt_id =
     tx_bind (update_in observation_table
       (\<lambda>r. co_transaction_attempt_id r = Some attempt_id \<and> co_canonical r) (\<lambda>r. r\<lparr>co_canonical := False\<rparr>)) (\<lambda>rows.
     tx_ret (length rows))"

end
