(* ===== verification/Intents.thy ===== *)
theory Intents
  imports AttemptRepo
begin

text \<open>
  What the hashes of the program stand for: the mint proposal approvers sign off on
  (\<open>src/domain/mint-proposal.ts\<close>), the intents of administrative operations
  (\<open>modules/operations/administrative-intent.ts\<close>), and the fingerprint of a transaction with the
  fee-only replacement rule (\<open>modules/transactions/transaction-intent.ts\<close>). SHA-256 is the
  parameter \<open>sha\<close>; the theorems say that equal hashes mean equal intents unless two different
  texts collide under it.
\<close>

subsection \<open>Mint proposals\<close>

record mint_proposal =
  mp_asset_id :: uuid
  mp_chain_id :: int
  mp_contract_address :: string
  mp_wallet_id :: uuid
  mp_recipient_address :: string
  mp_amount :: string
  mp_operation_reference :: string
  mp_policy_version :: int
  mp_required_approvals :: nat

definition mint_proposal_json :: "mint_proposal \<Rightarrow> json" where
  "mint_proposal_json s = JObj
     [(''kind'', Some (JStr ''MINT'')),
      (''assetId'', Some (JStr (mp_asset_id s))),
      (''chainId'', Some (JNum (mp_chain_id s))),
      (''contractAddress'', Some (JStr (to_lower (mp_contract_address s)))),
      (''walletId'', Some (JStr (mp_wallet_id s))),
      (''recipientAddress'', Some (JStr (to_lower (mp_recipient_address s)))),
      (''amount'', Some (JStr (mp_amount s))),
      (''operationReference'', Some (JStr (to_lower (mp_operation_reference s)))),
      (''policyVersion'', Some (JNum (mp_policy_version s))),
      (''requiredApprovals'', Some (JNum (int (mp_required_approvals s))))]"

definition hash_mint_proposal :: "(string \<Rightarrow> string) \<Rightarrow> mint_proposal \<Rightarrow> string" where
  "hash_mint_proposal sha s = canonical_hash sha (mint_proposal_json s)"

text \<open>The snapshot as it is stored: the fields as they are, not lower-cased.\<close>

definition snapshot_json :: "mint_proposal \<Rightarrow> json" where
  "snapshot_json s = JObj
     [(''kind'', Some (JStr ''MINT'')),
      (''assetId'', Some (JStr (mp_asset_id s))),
      (''chainId'', Some (JNum (mp_chain_id s))),
      (''contractAddress'', Some (JStr (mp_contract_address s))),
      (''walletId'', Some (JStr (mp_wallet_id s))),
      (''recipientAddress'', Some (JStr (mp_recipient_address s))),
      (''amount'', Some (JStr (mp_amount s))),
      (''operationReference'', Some (JStr (mp_operation_reference s))),
      (''policyVersion'', Some (JNum (mp_policy_version s))),
      (''requiredApprovals'', Some (JNum (int (mp_required_approvals s))))]"

definition derive_operation_reference :: "(string \<Rightarrow> string) \<Rightarrow> uuid \<Rightarrow> string" where
  "derive_operation_reference sha operation_id = ''0x'' @ sha (''ito:mint:'' @ operation_id)"

text \<open>Two proposals are the same up to the case of hexadecimal text.\<close>

definition same_proposal :: "mint_proposal \<Rightarrow> mint_proposal \<Rightarrow> bool" where
  "same_proposal s t \<longleftrightarrow> mp_asset_id s = mp_asset_id t \<and> mp_chain_id s = mp_chain_id t \<and>
     to_lower (mp_contract_address s) = to_lower (mp_contract_address t) \<and> mp_wallet_id s = mp_wallet_id t \<and>
     to_lower (mp_recipient_address s) = to_lower (mp_recipient_address t) \<and> mp_amount s = mp_amount t \<and>
     to_lower (mp_operation_reference s) = to_lower (mp_operation_reference t) \<and>
     mp_policy_version s = mp_policy_version t \<and> mp_required_approvals s = mp_required_approvals t"

lemma mint_proposal_json_inj:
  assumes "normal_json (mint_proposal_json s) = normal_json (mint_proposal_json t)"
  shows "same_proposal s t"
proof -
  note f = normal_json_field [OF assms [unfolded mint_proposal_json_def]]
  show ?thesis
    using f [of "''assetId''"] f [of "''chainId''"] f [of "''contractAddress''"] f [of "''walletId''"]
      f [of "''recipientAddress''"] f [of "''amount''"] f [of "''operationReference''"] f [of "''policyVersion''"]
      f [of "''requiredApprovals''"]
    by (simp add: same_proposal_def)
qed

lemma same_proposal_json: "same_proposal s t \<Longrightarrow> mint_proposal_json s = mint_proposal_json t"
  by (simp add: same_proposal_def mint_proposal_json_def)

lemma hash_mint_proposal_cases:
  "hash_mint_proposal sha s = hash_mint_proposal sha t \<Longrightarrow>
   same_proposal s t \<or> hash_collision sha (canonical_json (mint_proposal_json s)) (canonical_json (mint_proposal_json t))"
  unfolding hash_mint_proposal_def by (metis canonical_hash_cases mint_proposal_json_inj)

subsection \<open>Administrative intents\<close>

definition deployment_intent_json :: "asset_row \<Rightarrow> json" where
  "deployment_intent_json a = JObj
     [(''kind'', Some (JStr ''DEPLOY_ASSET'')),
      (''assetId'', Some (JStr (as_id a))),
      (''chainId'', Some (JNum (as_chain_id a))),
      (''symbol'', Some (JStr (as_symbol a))),
      (''name'', Some (JStr (as_name a))),
      (''decimals'', Some (JNum (as_decimals a))),
      (''supplyCap'', Some (JStr (show_int (as_supply_cap a))))]"

definition hash_asset_deployment_intent :: "(string \<Rightarrow> string) \<Rightarrow> asset_row \<Rightarrow> string" where
  "hash_asset_deployment_intent sha a = canonical_hash sha (deployment_intent_json a)"

text \<open>\<open>Math.floor(validUntil.getTime() / 1000)\<close>: seconds, from the milliseconds of the Date.\<close>

definition eligible_until_for :: "compliance_row \<Rightarrow> int" where
  "eligible_until_for c = (if cd_status c \<noteq> Cd_APPROVED then 0 else date_of_pg (cd_valid_until c) div 1000)"

record eligibility_intent =
  ei_asset_id :: uuid
  ei_chain_id :: int
  ei_wallet_id :: uuid
  ei_wallet_address :: string
  ei_compliance_decision_id :: uuid
  ei_eligible_until :: string

definition eligibility_intent_json :: "eligibility_intent \<Rightarrow> json" where
  "eligibility_intent_json i = JObj
     [(''kind'', Some (JStr ''SYNC_ELIGIBILITY'')),
      (''assetId'', Some (JStr (ei_asset_id i))),
      (''chainId'', Some (JNum (ei_chain_id i))),
      (''walletId'', Some (JStr (ei_wallet_id i))),
      (''walletAddress'', Some (JStr (to_lower (ei_wallet_address i)))),
      (''complianceDecisionId'', Some (JStr (ei_compliance_decision_id i))),
      (''eligibleUntil'', Some (JStr (ei_eligible_until i)))]"

definition hash_eligibility_sync_intent :: "(string \<Rightarrow> string) \<Rightarrow> eligibility_intent \<Rightarrow> string" where
  "hash_eligibility_sync_intent sha i = canonical_hash sha (eligibility_intent_json i)"

lemma deployment_intent_json_inj:
  assumes "normal_json (deployment_intent_json a) = normal_json (deployment_intent_json b)"
  shows "as_id a = as_id b \<and> as_chain_id a = as_chain_id b \<and> as_symbol a = as_symbol b \<and> as_name a = as_name b \<and>
    as_decimals a = as_decimals b \<and> as_supply_cap a = as_supply_cap b"
proof -
  note f = normal_json_field [OF assms [unfolded deployment_intent_json_def]]
  show ?thesis
    using f [of "''assetId''"] f [of "''chainId''"] f [of "''symbol''"] f [of "''name''"] f [of "''decimals''"]
      f [of "''supplyCap''"]
    by simp
qed

lemma eligibility_intent_json_inj:
  assumes "normal_json (eligibility_intent_json i) = normal_json (eligibility_intent_json j)"
  shows "ei_asset_id i = ei_asset_id j \<and> ei_chain_id i = ei_chain_id j \<and> ei_wallet_id i = ei_wallet_id j \<and>
    to_lower (ei_wallet_address i) = to_lower (ei_wallet_address j) \<and>
    ei_compliance_decision_id i = ei_compliance_decision_id j \<and> ei_eligible_until i = ei_eligible_until j"
proof -
  note f = normal_json_field [OF assms [unfolded eligibility_intent_json_def]]
  show ?thesis
    using f [of "''assetId''"] f [of "''chainId''"] f [of "''walletId''"] f [of "''walletAddress''"]
      f [of "''complianceDecisionId''"] f [of "''eligibleUntil''"]
    by simp
qed

text \<open>A proposal hash never stands for an administrative operation: the kinds differ.\<close>

lemma intent_kinds_differ:
  "normal_json (mint_proposal_json s) \<noteq> normal_json (deployment_intent_json a)"
  "normal_json (mint_proposal_json s) \<noteq> normal_json (eligibility_intent_json i)"
  "normal_json (deployment_intent_json a) \<noteq> normal_json (eligibility_intent_json i)"
proof -
  show "normal_json (mint_proposal_json s) \<noteq> normal_json (deployment_intent_json a)"
  proof
    assume "normal_json (mint_proposal_json s) = normal_json (deployment_intent_json a)"
    from normal_json_field [OF this [unfolded mint_proposal_json_def deployment_intent_json_def], of "''kind''"]
    show False by simp
  qed
  show "normal_json (mint_proposal_json s) \<noteq> normal_json (eligibility_intent_json i)"
  proof
    assume "normal_json (mint_proposal_json s) = normal_json (eligibility_intent_json i)"
    from normal_json_field [OF this [unfolded mint_proposal_json_def eligibility_intent_json_def], of "''kind''"]
    show False by simp
  qed
  show "normal_json (deployment_intent_json a) \<noteq> normal_json (eligibility_intent_json i)"
  proof
    assume "normal_json (deployment_intent_json a) = normal_json (eligibility_intent_json i)"
    from normal_json_field [OF this [unfolded deployment_intent_json_def eligibility_intent_json_def], of "''kind''"]
    show False by simp
  qed
qed

subsection \<open>Transaction intents and fee-only replacement\<close>

record transaction_intent =
  ti_chain_id :: int
  ti_from :: string
  ti_to :: "string option"
  ti_data :: string
  ti_value :: string
  ti_purpose :: string
  ti_operation_id :: "uuid option"

definition json_of_opt :: "string option \<Rightarrow> json" where
  "json_of_opt v = (case v of None \<Rightarrow> JNull | Some s \<Rightarrow> JStr s)"

definition transaction_intent_json :: "transaction_intent \<Rightarrow> json" where
  "transaction_intent_json i = JObj
     [(''chainId'', Some (JNum (ti_chain_id i))),
      (''from'', Some (JStr (to_lower (ti_from i)))),
      (''to'', Some (json_of_opt (map_option to_lower (ti_to i)))),
      (''data'', Some (JStr (to_lower (ti_data i)))),
      (''value'', Some (JStr (ti_value i))),
      (''purpose'', Some (JStr (ti_purpose i))),
      (''operationId'', Some (json_of_opt (ti_operation_id i)))]"

definition intent_fingerprint :: "(string \<Rightarrow> string) \<Rightarrow> transaction_intent \<Rightarrow> string" where
  "intent_fingerprint sha i = canonical_hash sha (transaction_intent_json i)"

definition intent_of :: "attempt_row \<Rightarrow> transaction_intent" where
  "intent_of a = \<lparr>ti_chain_id = ta_chain_id a, ti_from = ta_from_address a, ti_to = ta_to_address a,
     ti_data = ta_data a, ti_value = show_int (ta_value a), ti_purpose = attempt_purpose_name (ta_purpose a),
     ti_operation_id = ta_operation_id a\<rparr>"

definition fingerprint_of :: "(string \<Rightarrow> string) \<Rightarrow> attempt_row \<Rightarrow> string" where
  "fingerprint_of sha a = intent_fingerprint sha (intent_of a)"

lemma normal_json_of_opt [simp]: "normal_json (json_of_opt v) = json_of_opt v"
  by (cases v) (simp_all add: json_of_opt_def)

lemma json_of_opt_inj [simp]: "json_of_opt v = json_of_opt w \<longleftrightarrow> v = w"
  by (cases v; cases w) (simp_all add: json_of_opt_def)

definition same_intent :: "transaction_intent \<Rightarrow> transaction_intent \<Rightarrow> bool" where
  "same_intent i j \<longleftrightarrow> ti_chain_id i = ti_chain_id j \<and> to_lower (ti_from i) = to_lower (ti_from j) \<and>
     map_option to_lower (ti_to i) = map_option to_lower (ti_to j) \<and> to_lower (ti_data i) = to_lower (ti_data j) \<and>
     ti_value i = ti_value j \<and> ti_purpose i = ti_purpose j \<and> ti_operation_id i = ti_operation_id j"

lemma transaction_intent_json_inj:
  assumes "normal_json (transaction_intent_json i) = normal_json (transaction_intent_json j)"
  shows "same_intent i j"
proof -
  note f = normal_json_field [OF assms [unfolded transaction_intent_json_def]]
  show ?thesis
    using f [of "''chainId''"] f [of "''from''"] f [of "''to''"] f [of "''data''"] f [of "''value''"]
      f [of "''purpose''"] f [of "''operationId''"]
    by (simp add: same_intent_def)
qed

record replacement_fields =
  rf_chain_id :: int
  rf_from_address :: string
  rf_to_address :: "string option"
  rf_data :: string
  rf_value :: string
  rf_nonce :: int
  rf_purpose :: attempt_purpose
  rf_operation_id :: "uuid option"

definition replacement_intent :: "replacement_fields \<Rightarrow> transaction_intent" where
  "replacement_intent r = \<lparr>ti_chain_id = rf_chain_id r, ti_from = rf_from_address r, ti_to = rf_to_address r,
     ti_data = rf_data r, ti_value = rf_value r, ti_purpose = attempt_purpose_name (rf_purpose r),
     ti_operation_id = rf_operation_id r\<rparr>"

definition mismatch :: "attempt_row \<Rightarrow> string \<Rightarrow> json \<Rightarrow> json \<Rightarrow> exn + unit" where
  "mismatch previous field expected actual = Inl (app_error REPLACEMENT_INTENT_MISMATCH
     (''replacement changes '' @ field @ ''; only fee fields may differ'')
     [(''field'', JStr field), (''expected'', expected), (''actual'', actual),
      (''previousAttemptId'', JStr (ta_id previous))])"

definition assert_fee_only_replacement :: "(string \<Rightarrow> string) \<Rightarrow> attempt_row \<Rightarrow> replacement_fields \<Rightarrow> exn + unit" where
  "assert_fee_only_replacement sha previous r =
     (if rf_nonce r \<noteq> ta_nonce previous then mismatch previous ''nonce'' (JNum (ta_nonce previous)) (JNum (rf_nonce r))
      else if rf_chain_id r \<noteq> ta_chain_id previous
      then mismatch previous ''chainId'' (JNum (ta_chain_id previous)) (JNum (rf_chain_id r))
      else if to_lower (rf_from_address r) \<noteq> to_lower (ta_from_address previous)
      then mismatch previous ''signer'' (JStr (ta_from_address previous)) (JStr (rf_from_address r))
      else if map_option to_lower (rf_to_address r) \<noteq> ta_to_address previous
      then mismatch previous ''destination'' (json_of_opt (ta_to_address previous)) (json_of_opt (rf_to_address r))
      else if to_lower (rf_data r) \<noteq> ta_data previous
      then mismatch previous ''calldata'' (JStr (ta_data previous)) (JStr (rf_data r))
      else if rf_value r \<noteq> show_int (ta_value previous)
      then mismatch previous ''value'' (JStr (show_int (ta_value previous))) (JStr (rf_value r))
      else if rf_purpose r \<noteq> ta_purpose previous
      then mismatch previous ''purpose'' (JStr (attempt_purpose_name (ta_purpose previous)))
        (JStr (attempt_purpose_name (rf_purpose r)))
      else if rf_operation_id r \<noteq> ta_operation_id previous
      then mismatch previous ''operation'' (json_of_opt (ta_operation_id previous)) (json_of_opt (rf_operation_id r))
      else (let expected = fingerprint_of sha previous; actual = intent_fingerprint sha (replacement_intent r)
        in if actual \<noteq> expected \<or>
             (case ta_intent_fingerprint previous of None \<Rightarrow> expected | Some f \<Rightarrow> f) \<noteq> expected
           then mismatch previous ''intentFingerprint'' (JStr expected) (JStr actual)
           else Inr ()))"

record fee_estimate =
  fe_max_fee_per_gas :: int
  fe_max_priority_fee_per_gas :: int

text \<open>BigInt division truncates; fees and the percentage are not negative, so it is \<open>div\<close>.\<close>

definition bump_scale :: "int \<Rightarrow> int \<Rightarrow> int" where
  "bump_scale bump_percent v = v * (100 + bump_percent) div 100 + 1"

definition bump_fees :: "attempt_row \<Rightarrow> fee_estimate \<Rightarrow> int \<Rightarrow> fee_estimate" where
  "bump_fees previous current bump_percent =
     \<lparr>fe_max_fee_per_gas = max (bump_scale bump_percent (ta_max_fee_per_gas previous)) (fe_max_fee_per_gas current),
      fe_max_priority_fee_per_gas = max (bump_scale bump_percent (ta_max_priority_fee_per_gas previous))
        (fe_max_priority_fee_per_gas current)\<rparr>"

lemma bump_scale_greater: "0 \<le> v \<Longrightarrow> 0 \<le> p \<Longrightarrow> v < bump_scale p v"
proof -
  assume "0 \<le> v" "0 \<le> p"
  then have "v * 100 \<le> v * (100 + p)" by (intro mult_left_mono) auto
  then have "v * 100 div 100 \<le> v * (100 + p) div 100" by (rule zdiv_mono1) simp
  then show ?thesis by (simp add: bump_scale_def)
qed

lemma bump_scale_percent: "0 \<le> v \<Longrightarrow> 0 \<le> p \<Longrightarrow> v * (100 + p) < 100 * bump_scale p v"
  unfolding bump_scale_def by presburger

subsection \<open>What a hash match means\<close>

text \<open>
  C36: a mint proposal hash is bound to every field of the financial intent. Two proposals hash
  alike exactly when they agree on asset, chain, contract, wallet, recipient, amount, single-use
  reference, policy version and threshold (hexadecimal text up to case), or SHA-256 collides on
  their two different canonical texts.
\<close>

theorem mint_proposal_hash_binds:
  "hash_mint_proposal sha s = hash_mint_proposal sha t \<longleftrightarrow>
     same_proposal s t \<or> hash_collision sha (canonical_json (mint_proposal_json s)) (canonical_json (mint_proposal_json t))"
proof
  assume "hash_mint_proposal sha s = hash_mint_proposal sha t"
  then show "same_proposal s t \<or> hash_collision sha (canonical_json (mint_proposal_json s)) (canonical_json (mint_proposal_json t))"
    by (rule hash_mint_proposal_cases)
next
  assume "same_proposal s t \<or> hash_collision sha (canonical_json (mint_proposal_json s)) (canonical_json (mint_proposal_json t))"
  then show "hash_mint_proposal sha s = hash_mint_proposal sha t"
    by (auto simp: hash_mint_proposal_def canonical_hash_def hash_collision_def dest: same_proposal_json)
qed

lemma fingerprint_cases:
  "fingerprint_of sha a = fingerprint_of sha b \<Longrightarrow>
   same_intent (intent_of a) (intent_of b) \<or>
   hash_collision sha (canonical_json (transaction_intent_json (intent_of a)))
     (canonical_json (transaction_intent_json (intent_of b)))"
  unfolding fingerprint_of_def intent_fingerprint_def by (metis canonical_hash_cases transaction_intent_json_inj)


lemma bump_fees_strictly_raises_facts:
  assumes "0 \<le> ta_max_fee_per_gas a" "0 \<le> ta_max_priority_fee_per_gas a" "0 \<le> p"
  shows "ta_max_fee_per_gas a < fe_max_fee_per_gas (bump_fees a cur p)"
    and "ta_max_priority_fee_per_gas a < fe_max_priority_fee_per_gas (bump_fees a cur p)"
    and "ta_max_fee_per_gas a * (100 + p) < 100 * fe_max_fee_per_gas (bump_fees a cur p)"
    and "ta_max_priority_fee_per_gas a * (100 + p) < 100 * fe_max_priority_fee_per_gas (bump_fees a cur p)"
    and "fe_max_fee_per_gas cur \<le> fe_max_fee_per_gas (bump_fees a cur p)"
    and "fe_max_priority_fee_per_gas cur \<le> fe_max_priority_fee_per_gas (bump_fees a cur p)"
  using bump_scale_greater [OF assms(1,3)] bump_scale_greater [OF assms(2,3)] bump_scale_percent [OF assms(1,3)]
    bump_scale_percent [OF assms(2,3)]
  by (auto simp: bump_fees_def)

text \<open>
  C35: a replacement raises both fee fields strictly above the previous attempt's own, each by more than
  the percentage, and neither is below the current estimate.
\<close>

theorem bump_fees_strictly_raises:
  assumes "0 \<le> ta_max_fee_per_gas a" "0 \<le> ta_max_priority_fee_per_gas a" "0 \<le> p"
  shows "ta_max_fee_per_gas a < fe_max_fee_per_gas (bump_fees a cur p) \<and>
    ta_max_priority_fee_per_gas a < fe_max_priority_fee_per_gas (bump_fees a cur p) \<and>
    ta_max_fee_per_gas a * (100 + p) < 100 * fe_max_fee_per_gas (bump_fees a cur p) \<and>
    ta_max_priority_fee_per_gas a * (100 + p) < 100 * fe_max_priority_fee_per_gas (bump_fees a cur p) \<and>
    fe_max_fee_per_gas cur \<le> fe_max_fee_per_gas (bump_fees a cur p) \<and>
    fe_max_priority_fee_per_gas cur \<le> fe_max_priority_fee_per_gas (bump_fees a cur p)"
  using bump_fees_strictly_raises_facts [OF assms] by blast

end
