(* ===== verification/WorkflowRepo.thy ===== *)
theory WorkflowRepo
  imports OperationRepo
begin

text \<open>
  The repositories of the workflow around operations: approvals (\<open>approval-repository.ts\<close>), the
  transactional outbox (\<open>outbox-repository.ts\<close>), idempotency keys
  (\<open>idempotency-repository.ts\<close>), signer requests (\<open>signer-request-repository.ts\<close>) and the
  append-only audit trail (\<open>audit-repository.ts\<close>), all under \<open>src/db/repositories\<close>.
\<close>

subsection \<open>Approvals\<close>

record new_approval_request =
  nar_operation_id :: uuid
  nar_required_approvals :: nat
  nar_proposal_snapshot :: json
  nar_proposal_hash :: string
  nar_requested_by :: uuid

definition insert_approval_request :: "new_approval_request \<Rightarrow> (db, approval_request_row) tx" where
  "insert_approval_request input =
     tx_bind fresh_uuid (\<lambda>i. tx_bind (tx_read db_now) (\<lambda>now.
     insert_into approval_request_table
       \<lparr>ar_id = i, ar_operation_id = nar_operation_id input, ar_state = Ar_PENDING,
        ar_required_approvals = nar_required_approvals input, ar_proposal_snapshot = nar_proposal_snapshot input,
        ar_proposal_hash = nar_proposal_hash input, ar_requested_by = nar_requested_by input,
        ar_created_at = now, ar_updated_at = now, ar_closed_at = None\<rparr>))"

definition find_approval_request_by_id :: "uuid \<Rightarrow> db \<Rightarrow> approval_request_row option" where
  "find_approval_request_by_id i d = select_first (\<lambda>r. ar_id r = i) (approval_requests d)"

definition lock_approval_request :: "uuid \<Rightarrow> (db, approval_request_row option) tx" where
  "lock_approval_request i = tx_read (find_approval_request_by_id i)"

definition find_open_approval_request_for_operation :: "uuid \<Rightarrow> db \<Rightarrow> approval_request_row option" where
  "find_open_approval_request_for_operation operation_id d =
     select_first (\<lambda>r. ar_operation_id r = operation_id \<and> ar_state r = Ar_PENDING) (approval_requests d)"

definition close_approval_request :: "uuid \<Rightarrow> approval_request_state \<Rightarrow> (db, unit) tx" where
  "close_approval_request i s =
     tx_bind (tx_read app_now) (\<lambda>now.
     tx_then (update_in approval_request_table (\<lambda>r. ar_id r = i)
       (\<lambda>r. r\<lparr>ar_state := s, ar_updated_at := pg_of_date now, ar_closed_at := Some (pg_of_date now)\<rparr>))
     (tx_ret ()))"

record new_approval_decision =
  nad_approval_request_id :: uuid
  nad_approver_id :: uuid
  nad_operation_requested_by :: uuid
  nad_decision :: approval_decision_kind
  nad_proposal_hash :: string
  nad_comment :: "string option"

text \<open>
  The composite foreign key \<open>approval_decisions_requester_fk\<close> ties the copied requester to the
  request it refers to.
\<close>

definition insert_approval_decision :: "new_approval_decision \<Rightarrow> (db, approval_decision_row) tx" where
  "insert_approval_decision input =
     tx_bind fresh_uuid (\<lambda>i. tx_bind (tx_read db_now) (\<lambda>now.
     tx_bind (insert_into approval_decision_table
       \<lparr>ad_id = i, ad_approval_request_id = nad_approval_request_id input, ad_approver_id = nad_approver_id input,
        ad_operation_requested_by = nad_operation_requested_by input, ad_decision = nad_decision input,
        ad_proposal_hash = nad_proposal_hash input, ad_comment = nad_comment input, ad_created_at = now\<rparr>) (\<lambda>row.
     tx_bind (tx_read approval_requests) (\<lambda>requests.
     tx_then (tx_guard (list_ex (\<lambda>r. ar_id r = nad_approval_request_id input \<and>
         ar_requested_by r = nad_operation_requested_by input) requests)
       (PgError FOREIGN_KEY_VIOLATION ''approval_decisions_requester_fk''))
     (tx_ret row)))))"

definition list_decisions :: "uuid \<Rightarrow> db \<Rightarrow> approval_decision_row list" where
  "list_decisions request_id d =
     order_by ad_created_at (filter (\<lambda>r. ad_approval_request_id r = request_id) (approval_decisions d))"

subsection \<open>Outbox\<close>

definition OPERATION_READY :: string where
  "OPERATION_READY = ''operation.ready''"

record new_outbox =
  nob_topic :: string
  nob_aggregate_type :: string
  nob_aggregate_id :: uuid
  nob_payload :: json
  nob_correlation_id :: string

definition enqueue_outbox :: "new_outbox \<Rightarrow> (db, outbox_row) tx" where
  "enqueue_outbox input =
     tx_bind fresh_uuid (\<lambda>i. tx_bind (tx_read db_now) (\<lambda>now.
     insert_into outbox_table
       \<lparr>ob_id = i, ob_topic = nob_topic input, ob_aggregate_type = nob_aggregate_type input,
        ob_aggregate_id = nob_aggregate_id input, ob_payload = nob_payload input, ob_status = Ob_PENDING,
        ob_attempts = 0, ob_available_at = now, ob_dispatched_at = None, ob_last_error = None,
        ob_correlation_id = nob_correlation_id input, ob_claim_token = None, ob_claim_expires_at = None,
        ob_created_at = now\<rparr>))"

definition DEFAULT_CLAIM_LEASE_MS :: int where
  "DEFAULT_CLAIM_LEASE_MS = 30000"

text \<open>
  Rows due: PENDING ones by \<open>now\<close> (the database clock unless the caller gives a date) and
  CLAIMED ones whose lease ran out, in the order \<open>available_at, id\<close>.
\<close>

definition outbox_due :: "pg_time \<Rightarrow> pg_time \<Rightarrow> outbox_row \<Rightarrow> bool" where
  "outbox_due due_at now r \<longleftrightarrow>
     (ob_status r = Ob_PENDING \<and> ob_available_at r \<le> due_at) \<or>
     (ob_status r = Ob_CLAIMED \<and> (case ob_claim_expires_at r of None \<Rightarrow> False | Some e \<Rightarrow> e \<le> now))"

definition claim_candidates :: "nat \<Rightarrow> js_time option \<Rightarrow> db \<Rightarrow> uuid list" where
  "claim_candidates limit now_input d =
     (let due_at = (case now_input of None \<Rightarrow> db_now d | Some t \<Rightarrow> pg_of_date t)
      in map ob_id (take limit (order_by ob_available_at (sort_key ob_id
           (filter (outbox_due due_at (db_now d)) (outbox d))))))"

definition claim_outbox_row :: "uuid \<Rightarrow> pg_time \<Rightarrow> outbox_row \<Rightarrow> outbox_row" where
  "claim_outbox_row token expires r =
     r\<lparr>ob_status := Ob_CLAIMED, ob_claim_token := Some token, ob_claim_expires_at := Some expires,
       ob_attempts := ob_attempts r + 1\<rparr>"

definition claim_pending_outbox :: "nat \<Rightarrow> int option \<Rightarrow> js_time option \<Rightarrow> (db, uuid \<times> outbox_row list) tx" where
  "claim_pending_outbox limit lease_ms now_input =
     tx_bind fresh_uuid (\<lambda>claim_token.
     tx_bind (tx_read (claim_candidates limit now_input)) (\<lambda>candidates.
     tx_bind (tx_read db_now) (\<lambda>now.
     tx_bind (update_in outbox_table (\<lambda>r. ob_id r \<in> set candidates)
       (claim_outbox_row claim_token
         (now + (case lease_ms of None \<Rightarrow> DEFAULT_CLAIM_LEASE_MS | Some ms \<Rightarrow> ms) * 1000))) (\<lambda>rows.
     tx_ret (claim_token, rows)))))"

definition mark_outbox_dispatched :: "uuid list \<Rightarrow> uuid \<Rightarrow> (db, unit) tx" where
  "mark_outbox_dispatched ids claim_token =
     (if ids = [] then tx_ret ()
      else tx_bind (tx_read db_now) (\<lambda>now.
        tx_then (update_in outbox_table (\<lambda>r. ob_id r \<in> set ids \<and> ob_claim_token r = Some claim_token)
          (\<lambda>r. r\<lparr>ob_status := Ob_DISPATCHED, ob_dispatched_at := Some now, ob_last_error := None,
                 ob_claim_token := None, ob_claim_expires_at := None\<rparr>))
        (tx_ret ())))"

definition reschedule_outbox :: "uuid \<Rightarrow> uuid \<Rightarrow> string \<Rightarrow> int \<Rightarrow> (db, unit) tx" where
  "reschedule_outbox i claim_token err retry_after_ms =
     tx_bind (tx_read db_now) (\<lambda>now.
     tx_then (update_in outbox_table (\<lambda>r. ob_id r = i \<and> ob_claim_token r = Some claim_token)
       (\<lambda>r. r\<lparr>ob_status := Ob_PENDING, ob_last_error := Some (take 1000 err),
              ob_available_at := now + retry_after_ms * 1000, ob_claim_token := None, ob_claim_expires_at := None\<rparr>))
     (tx_ret ()))"

definition count_outbox_by_status :: "db \<Rightarrow> (outbox_status \<times> nat) list" where
  "count_outbox_by_status d =
     map (\<lambda>s. (s, length (filter (\<lambda>r. ob_status r = s) (outbox d)))) (remdups (map ob_status (outbox d)))"

definition find_outbox_for_aggregate :: "uuid \<Rightarrow> db \<Rightarrow> outbox_row list" where
  "find_outbox_for_aggregate i d = filter (\<lambda>r. ob_aggregate_id r = i) (outbox d)"

subsection \<open>Idempotency keys\<close>

record idempotency_identity =
  ii_scope :: string
  ii_organization_id :: string
  ii_actor_id :: uuid
  ii_idempotency_key :: string

definition find_idempotency_record :: "idempotency_identity \<Rightarrow> db \<Rightarrow> idempotency_row option" where
  "find_idempotency_record identity d =
     select_first (\<lambda>r. ik_scope r = ii_scope identity \<and> ik_organization_id r = ii_organization_id identity \<and>
       ik_actor_id r = ii_actor_id identity \<and> ik_idempotency_key r = ii_idempotency_key identity) (idempotency_keys d)"

definition claim_idempotency_key :: "idempotency_identity \<Rightarrow> string \<Rightarrow> (db, bool \<times> idempotency_row) tx" where
  "claim_idempotency_key identity request_hash =
     tx_bind fresh_uuid (\<lambda>i. tx_bind (tx_read db_now) (\<lambda>now.
     tx_bind (insert_on_conflict_do_nothing idempotency_table same_idempotency_scope
       \<lparr>ik_id = i, ik_scope = ii_scope identity, ik_organization_id = ii_organization_id identity,
        ik_actor_id = ii_actor_id identity, ik_idempotency_key = ii_idempotency_key identity,
        ik_request_hash = request_hash, ik_status = Ik_IN_PROGRESS, ik_response_status = None,
        ik_response_body = None, ik_resource_type = None, ik_resource_id = None, ik_created_at = now,
        ik_completed_at = None\<rparr>) (\<lambda>inserted.
     case inserted of
       Some row \<Rightarrow> tx_ret (True, row)
     | None \<Rightarrow> tx_bind (tx_read (find_idempotency_record identity)) (\<lambda>existing.
         case existing of
           None \<Rightarrow> tx_throw (JsError ''idempotency key vanished after conflict'')
         | Some row \<Rightarrow> tx_ret (False, row)))))"

record idempotent_result =
  ir_status :: nat
  ir_body :: json
  ir_resource_type :: string
  ir_resource_id :: string

definition complete_idempotency_key :: "uuid \<Rightarrow> idempotent_result \<Rightarrow> (db, unit) tx" where
  "complete_idempotency_key i result =
     tx_bind (tx_read app_now) (\<lambda>now.
     tx_then (update_in idempotency_table (\<lambda>r. ik_id r = i)
       (\<lambda>r. r\<lparr>ik_status := Ik_COMPLETED, ik_response_status := Some (ir_status result),
              ik_response_body := Some (ir_body result), ik_resource_type := Some (ir_resource_type result),
              ik_resource_id := Some (ir_resource_id result), ik_completed_at := Some (pg_of_date now)\<rparr>))
     (tx_ret ()))"

definition release_idempotency_key :: "uuid \<Rightarrow> (db, unit) tx" where
  "release_idempotency_key i = delete_from idempotency_table (\<lambda>r. ik_id r = i)"

subsection \<open>Signer requests\<close>

record new_signer_request =
  nsr_transaction_attempt_id :: uuid
  nsr_operation_id :: "uuid option"
  nsr_provider :: string
  nsr_provider_request_id :: string
  nsr_status :: signer_request_status
  nsr_request_fingerprint :: string

definition record_signer_request :: "new_signer_request \<Rightarrow> (db, signer_request_row) tx" where
  "record_signer_request input =
     tx_bind fresh_uuid (\<lambda>i. tx_bind (tx_read db_now) (\<lambda>now.
     insert_on_conflict_do_update signer_request_table
       (\<lambda>r r'. sr_transaction_attempt_id r = sr_transaction_attempt_id r')
       \<lparr>sr_id = i, sr_transaction_attempt_id = nsr_transaction_attempt_id input,
        sr_operation_id = nsr_operation_id input, sr_provider = nsr_provider input,
        sr_provider_request_id = nsr_provider_request_id input, sr_status = nsr_status input,
        sr_request_fingerprint = nsr_request_fingerprint input, sr_requested_at = now,
        sr_last_checked_at = None, sr_signed_at = None, sr_rejected_at = None, sr_rejection_code = None\<rparr>
       (\<lambda>r. r\<lparr>sr_status := nsr_status input, sr_last_checked_at := Some now,
              sr_signed_at := (if nsr_status input = Sr_SIGNED then Some now else sr_signed_at r)\<rparr>)))"

definition mark_signer_request_signed :: "uuid \<Rightarrow> (db, unit) tx" where
  "mark_signer_request_signed i =
     tx_bind (tx_read db_now) (\<lambda>now.
     tx_then (update_in signer_request_table (\<lambda>r. sr_id r = i)
       (\<lambda>r. r\<lparr>sr_status := Sr_SIGNED, sr_signed_at := Some now, sr_last_checked_at := Some now\<rparr>))
     (tx_ret ()))"

definition mark_signer_request_rejected :: "uuid \<Rightarrow> string \<Rightarrow> (db, unit) tx" where
  "mark_signer_request_rejected i rejection_code =
     tx_bind (tx_read db_now) (\<lambda>now.
     tx_then (update_in signer_request_table (\<lambda>r. sr_id r = i)
       (\<lambda>r. r\<lparr>sr_status := Sr_REJECTED, sr_rejected_at := Some now, sr_last_checked_at := Some now,
              sr_rejection_code := Some rejection_code\<rparr>))
     (tx_ret ()))"

definition expire_lapsed_signer_request :: "uuid \<Rightarrow> int \<Rightarrow> (db, bool) tx" where
  "expire_lapsed_signer_request i timeout_ms =
     tx_bind (tx_read db_now) (\<lambda>now.
     tx_bind (update_in signer_request_table
       (\<lambda>r. sr_id r = i \<and> sr_status r = Sr_PENDING \<and> sr_requested_at r + timeout_ms * 1000 \<le> now)
       (\<lambda>r. r\<lparr>sr_status := Sr_EXPIRED, sr_rejected_at := Some now, sr_last_checked_at := Some now,
              sr_rejection_code := Some ''SIGNER_REQUEST_TIMEOUT''\<rparr>)) (\<lambda>rows.
     tx_ret (rows \<noteq> [])))"

definition touch_signer_request :: "uuid \<Rightarrow> (db, unit) tx" where
  "touch_signer_request i =
     tx_bind (tx_read db_now) (\<lambda>now.
     tx_then (update_in signer_request_table (\<lambda>r. sr_id r = i) (\<lambda>r. r\<lparr>sr_last_checked_at := Some now\<rparr>))
     (tx_ret ()))"

definition find_signer_request_for_attempt :: "uuid \<Rightarrow> db \<Rightarrow> signer_request_row option" where
  "find_signer_request_for_attempt attempt_id d =
     select_first (\<lambda>r. sr_transaction_attempt_id r = attempt_id) (signer_requests d)"

definition count_pending_signer_requests :: "db \<Rightarrow> nat" where
  "count_pending_signer_requests d = length (filter (\<lambda>r. sr_status r = Sr_PENDING) (signer_requests d))"

subsection \<open>Audit trail\<close>

record audit_event_input =
  aei_actor :: actor
  aei_action :: string
  aei_resource_type :: string
  aei_resource_id :: string
  aei_correlation_id :: string
  aei_operation_id :: "uuid option"
  aei_metadata :: "json option"

definition record_audit_event :: "audit_event_input \<Rightarrow> (db, uuid) tx" where
  "record_audit_event input =
     tx_bind fresh_uuid (\<lambda>i. tx_bind (tx_read db_now) (\<lambda>now.
     tx_bind (insert_into audit_table
       \<lparr>au_id = i, au_occurred_at = now, au_actor_type = ac_type (aei_actor input), au_actor_id = ac_id (aei_actor input),
        au_action = aei_action input, au_resource_type = aei_resource_type input,
        au_resource_id = aei_resource_id input, au_operation_id = aei_operation_id input,
        au_correlation_id = aei_correlation_id input,
        au_metadata = (case aei_metadata input of None \<Rightarrow> JObj [] | Some m \<Rightarrow> m)\<rparr>) (\<lambda>row.
     tx_ret (au_id row))))"

text \<open>
  The cursor is the text \<open>iso|id\<close>; \<open>of_iso\<close> is \<open>new Date(text)\<close> as milliseconds. A cursor without
  the separator has no second part and does not filter.
\<close>

fun split_at_bar :: "string \<Rightarrow> string \<times> string option" where
  "split_at_bar [] = ([], None)"
| "split_at_bar (c # s) = (if c = CHR ''|'' then ([], Some (takeWhile (\<lambda>x. x \<noteq> CHR ''|'') s))
     else (case split_at_bar s of (a, b) \<Rightarrow> (c # a, b)))"

record audit_query =
  aq_operation_id :: "uuid option"
  aq_resource_type :: "string option"
  aq_resource_id :: "string option"
  aq_limit :: nat
  aq_cursor :: "string option"

definition before_cursor :: "(string \<Rightarrow> js_time) \<Rightarrow> string option \<Rightarrow> audit_row \<Rightarrow> bool" where
  "before_cursor of_iso cursor r = (case cursor of
     None \<Rightarrow> True
   | Some c \<Rightarrow> (case split_at_bar c of
       (at, Some i) \<Rightarrow> au_occurred_at r < pg_of_date (of_iso at) \<or>
         (au_occurred_at r = pg_of_date (of_iso at) \<and> au_id r < i)
     | (at, None) \<Rightarrow> True))"

text \<open>\<open>ORDER BY occurred_at DESC, id DESC LIMIT n\<close>\<close>

definition list_audit_events :: "(string \<Rightarrow> js_time) \<Rightarrow> audit_query \<Rightarrow> db \<Rightarrow> audit_row list" where
  "list_audit_events of_iso q d =
     take (aq_limit q) (rev (sort_key au_occurred_at (sort_key au_id (filter (\<lambda>r.
       (aq_operation_id q = None \<or> au_operation_id r = aq_operation_id q) \<and>
       (case aq_resource_type q of None \<Rightarrow> True | Some t \<Rightarrow> au_resource_type r = t) \<and>
       (case aq_resource_id q of None \<Rightarrow> True | Some i \<Rightarrow> au_resource_id r = i) \<and>
       before_cursor of_iso (aq_cursor q) r) (audit_events d)))))"

definition count_audit_events_for_operation :: "uuid \<Rightarrow> db \<Rightarrow> nat" where
  "count_audit_events_for_operation i d = length (filter (\<lambda>r. au_operation_id r = Some i) (audit_events d))"

end
