(* ===== verification/RegistryRepo.thy ===== *)
theory RegistryRepo
  imports OperationRepo
begin

text \<open>
  The registries under \<open>src/db/repositories\<close>: assets (\<open>asset-repository.ts\<close>), wallets
  (\<open>wallet-repository.ts\<close>), users and their roles (\<open>user-repository.ts\<close>) and compliance
  decisions (\<open>compliance-repository.ts\<close>).
\<close>

subsection \<open>Assets\<close>

record insert_asset_input =
  nas_organization_id :: string
  nas_symbol :: string
  nas_name :: string
  nas_decimals :: int
  nas_supply_cap :: int
  nas_chain_id :: int
  nas_created_by :: uuid

definition insert_provisioning_asset :: "insert_asset_input \<Rightarrow> (db, asset_row) tx" where
  "insert_provisioning_asset input =
     tx_bind fresh_uuid (\<lambda>i. tx_bind (tx_read db_now) (\<lambda>now.
     insert_into asset_table
       \<lparr>as_id = i, as_organization_id = nas_organization_id input, as_symbol = nas_symbol input,
        as_name = nas_name input, as_decimals = nas_decimals input, as_supply_cap = nas_supply_cap input,
        as_chain_id = nas_chain_id input, as_contract_address = None, as_deployment_tx_hash = None,
        as_status = As_PROVISIONING, as_policy_version = 1, as_created_by = nas_created_by input,
        as_created_at = now, as_updated_at = now\<rparr>))"

definition mark_asset_active :: "uuid \<Rightarrow> string \<Rightarrow> string \<Rightarrow> (db, unit) tx" where
  "mark_asset_active asset_id contract_address deployment_tx_hash =
     tx_bind (tx_read app_now) (\<lambda>now.
     tx_then (update_in asset_table (\<lambda>r. as_id r = asset_id)
       (\<lambda>r. r\<lparr>as_contract_address := Some (to_lower contract_address),
              as_deployment_tx_hash := Some (to_lower deployment_tx_hash),
              as_status := As_ACTIVE, as_updated_at := pg_of_date now\<rparr>))
     (tx_ret ()))"

definition mark_asset_failed :: "uuid \<Rightarrow> (db, unit) tx" where
  "mark_asset_failed asset_id =
     tx_bind (tx_read app_now) (\<lambda>now.
     tx_then (update_in asset_table (\<lambda>r. as_id r = asset_id)
       (\<lambda>r. r\<lparr>as_status := As_FAILED, as_updated_at := pg_of_date now\<rparr>))
     (tx_ret ()))"

definition find_asset_by_id :: "uuid \<Rightarrow> db \<Rightarrow> asset_row option" where
  "find_asset_by_id i d = select_first (\<lambda>r. as_id r = i) (assets d)"

definition find_asset_by_symbol :: "string \<Rightarrow> string \<Rightarrow> db \<Rightarrow> asset_row option" where
  "find_asset_by_symbol org symbol d =
     select_first (\<lambda>r. as_organization_id r = org \<and> as_symbol r = symbol) (assets d)"

subsection \<open>Wallets\<close>

record insert_wallet_input =
  nwa_organization_id :: string
  nwa_chain_id :: int
  nwa_address :: string
  nwa_label :: "string option"
  nwa_investor_reference :: string
  nwa_created_by :: uuid

definition insert_wallet :: "insert_wallet_input \<Rightarrow> (db, wallet_row) tx" where
  "insert_wallet input =
     tx_bind fresh_uuid (\<lambda>i. tx_bind (tx_read db_now) (\<lambda>now.
     insert_into wallet_table
       \<lparr>wa_id = i, wa_organization_id = nwa_organization_id input, wa_chain_id = nwa_chain_id input,
        wa_address = to_lower (nwa_address input), wa_label = nwa_label input,
        wa_investor_reference = nwa_investor_reference input, wa_status = Wa_REGISTERED,
        wa_created_by = nwa_created_by input, wa_created_at = now\<rparr>))"

definition find_wallet_by_id :: "uuid \<Rightarrow> db \<Rightarrow> wallet_row option" where
  "find_wallet_by_id i d = select_first (\<lambda>r. wa_id r = i) (wallets d)"

definition find_wallet_by_address :: "int \<Rightarrow> string \<Rightarrow> db \<Rightarrow> wallet_row option" where
  "find_wallet_by_address chain_id address d =
     select_first (\<lambda>r. wa_chain_id r = chain_id \<and> wa_address r = to_lower address) (wallets d)"

subsection \<open>Users\<close>

record user_record =
  ur_user :: user_row
  ur_roles :: "app_role list"

fun app_role_of_name :: "string \<Rightarrow> app_role option" where
  "app_role_of_name s = find (\<lambda>r. app_role_name r = s) app_roles"

text \<open>Rows whose text is not a role of the application are skipped.\<close>

definition load_roles :: "uuid \<Rightarrow> db \<Rightarrow> app_role list" where
  "load_roles user_id d =
     List.map_filter (\<lambda>(u, role). if u = user_id then app_role_of_name role else None) (user_roles d)"

definition find_user_by_subject :: "string \<Rightarrow> db \<Rightarrow> user_record option" where
  "find_user_by_subject subject d =
     map_option (\<lambda>u. \<lparr>ur_user = u, ur_roles = load_roles (us_id u) d\<rparr>)
       (select_first (\<lambda>r. us_external_subject r = subject) (users d))"

definition find_user_by_id :: "uuid \<Rightarrow> db \<Rightarrow> user_record option" where
  "find_user_by_id i d =
     map_option (\<lambda>u. \<lparr>ur_user = u, ur_roles = load_roles (us_id u) d\<rparr>) (select_first (\<lambda>r. us_id r = i) (users d))"

definition to_actor :: "user_record \<Rightarrow> actor" where
  "to_actor u = \<lparr>ac_type = USER, ac_id = us_id (ur_user u), ac_organization_id = us_organization_id (ur_user u),
     ac_roles = ur_roles u\<rparr>"

record create_user_input =
  cu_external_subject :: string
  cu_organization_id :: string
  cu_display_name :: string
  cu_roles :: "app_role list"

text \<open>
  The three statements of \<open>upsertUser\<close>; its callers open no transaction around them, so each commits alone.
\<close>

definition upsert_user_row :: "create_user_input \<Rightarrow> (db, user_row) tx" where
  "upsert_user_row input =
     tx_bind fresh_uuid (\<lambda>i.
     insert_on_conflict_do_update user_table (\<lambda>r r'. us_external_subject r = us_external_subject r')
       \<lparr>us_id = i, us_external_subject = cu_external_subject input, us_organization_id = cu_organization_id input,
        us_display_name = cu_display_name input, us_status = Us_ACTIVE\<rparr>
       (\<lambda>r. r\<lparr>us_display_name := cu_display_name input, us_organization_id := cu_organization_id input\<rparr>))"

definition clear_user_roles :: "uuid \<Rightarrow> (db, unit) tx" where
  "clear_user_roles user_id = delete_from user_role_table (\<lambda>r. fst r = user_id)"

definition insert_user_roles :: "uuid \<Rightarrow> app_role list \<Rightarrow> (db, unit) tx" where
  "insert_user_roles user_id roles =
     tx_when (roles \<noteq> []) (insert_all user_role_table (map (\<lambda>role. (user_id, app_role_name role)) roles))"

subsection \<open>Compliance decisions\<close>

definition supersede_active_decisions :: "uuid \<Rightarrow> uuid option \<Rightarrow> (db, unit) tx" where
  "supersede_active_decisions wallet_id asset_id =
     tx_bind (tx_read db_now) (\<lambda>now.
     tx_then (update_in compliance_table
       (\<lambda>r. cd_wallet_id r = wallet_id \<and> cd_asset_id r = asset_id \<and> cd_status r = Cd_APPROVED \<and>
          cd_superseded_at r = None)
       (\<lambda>r. r\<lparr>cd_superseded_at := Some now\<rparr>))
     (tx_ret ()))"

record new_compliance_decision =
  ncd_wallet_id :: uuid
  ncd_asset_id :: "uuid option"
  ncd_status :: decision_status
  ncd_subject_reference :: string
  ncd_provider :: string
  ncd_provider_reference :: string
  ncd_valid_from :: js_time
  ncd_valid_until :: js_time
  ncd_decided_at :: js_time
  ncd_decided_by :: uuid
  ncd_revoked_at :: "js_time option"
  ncd_revocation_reason :: "string option"

definition insert_compliance_decision :: "new_compliance_decision \<Rightarrow> (db, compliance_row) tx" where
  "insert_compliance_decision input =
     tx_bind fresh_uuid (\<lambda>i. tx_bind (tx_read db_now) (\<lambda>now.
     insert_into compliance_table
       \<lparr>cd_id = i, cd_wallet_id = ncd_wallet_id input, cd_asset_id = ncd_asset_id input, cd_status = ncd_status input,
        cd_subject_reference = ncd_subject_reference input, cd_provider = ncd_provider input,
        cd_provider_reference = ncd_provider_reference input, cd_valid_from = pg_of_date (ncd_valid_from input),
        cd_valid_until = pg_of_date (ncd_valid_until input), cd_decided_at = pg_of_date (ncd_decided_at input),
        cd_decided_by = ncd_decided_by input, cd_chain_sync_status = Cs_PENDING, cd_chain_sync_tx_hash = None,
        cd_superseded_at = None, cd_revoked_at = map_option pg_of_date (ncd_revoked_at input),
        cd_revocation_reason = ncd_revocation_reason input, cd_created_at = now\<rparr>))"

definition mark_compliance_chain_synced :: "uuid \<Rightarrow> string \<Rightarrow> (db, unit) tx" where
  "mark_compliance_chain_synced decision_id transaction_hash =
     tx_then (update_in compliance_table (\<lambda>r. cd_id r = decision_id)
       (\<lambda>r. r\<lparr>cd_chain_sync_status := Cs_SYNCED, cd_chain_sync_tx_hash := Some (to_lower transaction_hash)\<rparr>))
     (tx_ret ())"

definition mark_compliance_chain_sync_failed :: "uuid \<Rightarrow> (db, unit) tx" where
  "mark_compliance_chain_sync_failed decision_id =
     tx_then (update_in compliance_table (\<lambda>r. cd_id r = decision_id) (\<lambda>r. r\<lparr>cd_chain_sync_status := Cs_FAILED\<rparr>))
     (tx_ret ())"

text \<open>
  The live approval covering a wallet: \<open>valid_from <= now() < valid_until\<close> by the clock of the
  database; with an asset, a wallet-wide decision (asset NULL) covers it too.
\<close>

definition approval_in_force :: "pg_time \<Rightarrow> compliance_row \<Rightarrow> bool" where
  "approval_in_force now r \<longleftrightarrow> cd_status r = Cd_APPROVED \<and> cd_superseded_at r = None \<and>
     cd_valid_from r \<le> now \<and> now < cd_valid_until r"

definition find_active_approval :: "uuid \<Rightarrow> uuid option \<Rightarrow> db \<Rightarrow> compliance_row option" where
  "find_active_approval wallet_id asset_id d =
     select_latest cd_decided_at (filter (\<lambda>r. cd_wallet_id r = wallet_id \<and> approval_in_force (db_now d) r \<and>
       (cd_asset_id r = None \<or> (asset_id \<noteq> None \<and> cd_asset_id r = asset_id))) (compliance_decisions d))"

definition find_latest_revocation :: "uuid \<Rightarrow> uuid option \<Rightarrow> db \<Rightarrow> compliance_row option" where
  "find_latest_revocation wallet_id asset_id d =
     select_latest cd_decided_at (filter (\<lambda>r. cd_wallet_id r = wallet_id \<and> cd_status r = Cd_REVOKED \<and>
       cd_asset_id r = asset_id) (compliance_decisions d))"

definition find_lapsed_approvals :: "nat \<Rightarrow> db \<Rightarrow> compliance_row list" where
  "find_lapsed_approvals limit d =
     take limit (filter (\<lambda>r. cd_status r = Cd_APPROVED \<and> cd_superseded_at r = None \<and> cd_valid_until r \<le> db_now d)
       (compliance_decisions d))"

definition mark_decision_expired :: "uuid \<Rightarrow> (db, unit) tx" where
  "mark_decision_expired decision_id =
     tx_bind (tx_read db_now) (\<lambda>now.
     tx_then (update_in compliance_table (\<lambda>r. cd_id r = decision_id)
       (\<lambda>r. r\<lparr>cd_status := Cd_EXPIRED, cd_superseded_at := Some now\<rparr>))
     (tx_ret ()))"

definition find_decision_by_id :: "uuid \<Rightarrow> db \<Rightarrow> compliance_row option" where
  "find_decision_by_id i d = select_first (\<lambda>r. cd_id r = i) (compliance_decisions d)"

end
