(* ===== verification/Runtime.thy ===== *)
theory Runtime
  imports Intents WorkflowRepo RegistryRepo
begin

text \<open>
  How services run: a process holds the database handle and talks to external services. Each
  \<open>db.transaction\<close> and each single statement outside one is a committed step; before it, other
  processes may have committed steps of their own (\<open>sys_others\<close>), and both clocks have moved
  (\<open>sys_clock\<close>). External services are functions on an abstract world \<open>'w\<close>.
\<close>

subsection \<open>Dates as text\<close>

text \<open>The Gregorian date of a day number counted from 1970-01-01, by eras of 400 years.\<close>

definition civil_from_days :: "int \<Rightarrow> int \<times> int \<times> int" where
  "civil_from_days days =
     (let z = days + 719468;
          era = z div 146097;
          doe = z mod 146097;
          yoe = (doe - doe div 1460 + doe div 36524 - doe div 146096) div 365;
          doy = doe - (365 * yoe + yoe div 4 - yoe div 100);
          mp = (5 * doy + 2) div 153;
          day = doy - (153 * mp + 2) div 5 + 1;
          month = (if mp < 10 then mp + 3 else mp - 9)
      in (yoe + era * 400 + (if month \<le> 2 then 1 else 0), month, day))"

definition pad :: "nat \<Rightarrow> int \<Rightarrow> string" where
  "pad width n = (let s = show_nat (nat n) in replicate (width - length s) (CHR ''0'') @ s)"

text \<open>\<open>Date.prototype.toISOString\<close>, for years 0 to 9999.\<close>

definition iso_string :: "js_time \<Rightarrow> string" where
  "iso_string t =
     (let days = t div 86400000; ms = t mod 86400000; (y, m, d) = civil_from_days days
      in pad 4 y @ ''-'' @ pad 2 m @ ''-'' @ pad 2 d @ ''T'' @ pad 2 (ms div 3600000) @ '':'' @
         pad 2 (ms div 60000 mod 60) @ '':'' @ pad 2 (ms div 1000 mod 60) @ ''.'' @ pad 3 (ms mod 1000) @ ''Z'')"

lemma iso_string_example: "iso_string 1709210096789 = ''2024-02-29T12:34:56.789Z''"
  by code_simp

subsection \<open>The system around a service\<close>

record 'w sys =
  sys_db :: db
  sys_world :: 'w
  sys_step :: nat
  sys_clock :: "nat \<Rightarrow> pg_time \<times> js_time"
  sys_others :: "nat \<Rightarrow> db \<Rightarrow> db"

text \<open>The database a step finds: what the others left, with the clocks of this moment.\<close>

definition db_at_step :: "'w sys \<Rightarrow> db" where
  "db_at_step s = (sys_others s (sys_step s) (sys_db s))
     \<lparr>db_now := fst (sys_clock s (sys_step s)), app_now := snd (sys_clock s (sys_step s))\<rparr>"

text \<open>\<open>db.transaction(body)\<close>: commit, or roll back and rethrow.\<close>

definition run_tx :: "(db, 'a) tx \<Rightarrow> ('w sys, 'a) io" where
  "run_tx m = (\<lambda>s. case m (db_at_step s) of
     Inl e \<Rightarrow> (Inl e, s\<lparr>sys_db := db_at_step s, sys_step := Suc (sys_step s)\<rparr>)
   | Inr (a, d) \<Rightarrow> (Inr a, s\<lparr>sys_db := d, sys_step := Suc (sys_step s)\<rparr>))"

definition run_query :: "(db \<Rightarrow> 'a) \<Rightarrow> ('w sys, 'a) io" where
  "run_query f = run_tx (tx_read f)"

text \<open>\<open>Date.now()\<close> outside a transaction.\<close>

definition date_now :: "('w sys, js_time) io" where
  "date_now = run_query app_now"

definition js_uuid :: "('w sys, uuid) io" where
  "js_uuid = run_tx fresh_uuid"

text \<open>A call to an external service.\<close>

definition call_world :: "('w \<Rightarrow> (exn + 'a) \<times> 'w) \<Rightarrow> ('w sys, 'a) io" where
  "call_world f = (\<lambda>s. case f (sys_world s) of (r, w) \<Rightarrow> (r, s\<lparr>sys_world := w\<rparr>))"

lemma run_tx_Inr: "run_tx m s = (Inr a, s') \<longleftrightarrow>
  (\<exists>d. m (db_at_step s) = Inr (a, d) \<and> s' = s\<lparr>sys_db := d, sys_step := Suc (sys_step s)\<rparr>)"
  by (auto simp: run_tx_def split: sum.splits prod.splits)

lemma run_tx_Inl: "run_tx m s = (Inl e, s') \<longleftrightarrow>
  m (db_at_step s) = Inl e \<and> s' = s\<lparr>sys_db := db_at_step s, sys_step := Suc (sys_step s)\<rparr>"
  by (auto simp: run_tx_def split: sum.splits prod.splits)

lemma run_query_iff: "run_query f s = (r, s') \<longleftrightarrow>
  r = Inr (f (db_at_step s)) \<and> s' = s\<lparr>sys_db := db_at_step s, sys_step := Suc (sys_step s)\<rparr>"
  by (auto simp: run_query_def run_tx_def tx_read_def)

text \<open>
  A process keeps an invariant of the database if every transaction it commits does, the other
  processes do, and the invariant does not look at the clocks.
\<close>

definition sys_keeps :: "(db \<Rightarrow> bool) \<Rightarrow> 'w sys \<Rightarrow> 'w sys \<Rightarrow> bool" where
  "sys_keeps P s s' \<longleftrightarrow> sys_others s' = sys_others s \<and>
     ((\<forall>n d. P d \<longrightarrow> P (sys_others s n d)) \<longrightarrow> P (sys_db s) \<longrightarrow> P (sys_db s'))"

interpretation keeps: state_relation "sys_keeps P"
  by unfold_locales (auto simp: sys_keeps_def)

lemma keeps_call_world: "io_within (sys_keeps P) (call_world f)"
  by (auto simp: io_within_def sys_keeps_def call_world_def split: prod.splits)

locale db_invariant =
  fixes P :: "db \<Rightarrow> bool"
  assumes clock: "P (d\<lparr>db_now := t, app_now := t'\<rparr>) = P d"
    and uuid: "preserves P fresh_uuid"
begin

lemma at_step: "\<forall>n d. P d \<longrightarrow> P (sys_others s n d) \<Longrightarrow> P (sys_db s) \<Longrightarrow> P (db_at_step s)"
  by (simp add: db_at_step_def clock)

lemma within_run_tx: "preserves P m \<Longrightarrow> io_within (sys_keeps P) (run_tx m)"
  unfolding io_within_def sys_keeps_def run_tx_def
  by (auto split: sum.splits prod.splits intro: at_step dest: preservesD)

lemma within_run_query: "io_within (sys_keeps P) (run_query f)"
  unfolding run_query_def by (rule within_run_tx) (rule preserves_read)

lemma within_date_now: "io_within (sys_keeps P) date_now"
  unfolding date_now_def by (rule within_run_query)

lemma within_js_uuid: "io_within (sys_keeps P) js_uuid"
  unfolding js_uuid_def by (rule within_run_tx) (rule uuid)

lemmas program_intros = keeps.within_intros keeps_call_world within_run_tx within_run_query within_date_now
  within_js_uuid

text \<open>A program that keeps \<open>P\<close> leaves it true, whatever the other processes commit meanwhile.\<close>

lemma program_keeps:
  assumes "io_within (sys_keeps P) m" "m s = (r, s')" "P (sys_db s)" "\<And>n d. P d \<Longrightarrow> P (sys_others s n d)"
  shows "P (sys_db s')"
  using assms unfolding io_within_def sys_keeps_def by (metis snd_conv)

end

interpretation ok_inv: db_invariant db_ok
  by unfold_locales (rule db_ok_clock, rule db_ok_fresh_uuid)

interpretation history_inv: db_invariant history_ok
  by unfold_locales (rule history_ok_clock, rule history_ok_fresh_uuid)

end
