(* ===== verification/Frames.thy ===== *)
theory Frames
  imports Runtime
begin

text \<open>
  What repository statements keep. An invariant of the workflow looks at a few tables; the locale
  \<open>side_tables\<close> collects what every statement on the other tables does to it, once for all such
  invariants. Each invariant of the development interprets the locale that fits it. The four tables
  with a single writing statement (audit events, nonce lanes, timelines and approval decisions) enter
  by that statement, so that an invariant may say what the statement does to them.
\<close>

lemma keeps_audit_statement:
  assumes "\<And>rows d. P d \<Longrightarrow> table_ok (t_rules audit_table) rows \<Longrightarrow> P (t_put audit_table rows d)" "preserves P fresh_uuid"
  shows "preserves P (record_audit_event i)"
  unfolding record_audit_event_def by (intro preserves_intros audit_t.preserves_write assms)

lemma keeps_reserve_statement:
  assumes "\<And>rows d. P d \<Longrightarrow> table_ok (t_rules signer_nonce_table) rows \<Longrightarrow> P (t_put signer_nonce_table rows d)"
  shows "preserves P (reserve_nonce c s n)"
  unfolding reserve_nonce_def by (intro preserves_intros signer_nonce_t.preserves_write assms)

lemma keeps_log_statement:
  assumes "\<And>rows d. P d \<Longrightarrow> table_ok (t_rules transition_log_table) rows \<Longrightarrow> P (t_put transition_log_table rows d)"
  shows "preserves P (record_operation_transition i s t)"
  unfolding record_operation_transition_def by (intro preserves_intros transition_log_t.preserves_write assms)

lemma keeps_decision_statement:
  assumes "\<And>rows d. P d \<Longrightarrow> table_ok (t_rules approval_decision_table) rows \<Longrightarrow> P (t_put approval_decision_table rows d)"
    "preserves P fresh_uuid"
  shows "preserves P (insert_approval_decision i)"
  unfolding insert_approval_decision_def by (intro preserves_intros approval_decision_t.preserves_write assms)

locale side_tables = db_invariant +
  assumes put_user: "P d \<Longrightarrow> table_ok (t_rules user_table) rows1 \<Longrightarrow> P (t_put user_table rows1 d)"
    and put_user_role: "P d \<Longrightarrow> table_ok (t_rules user_role_table) rows2 \<Longrightarrow> P (t_put user_role_table rows2 d)"
    and put_asset: "P d \<Longrightarrow> table_ok (t_rules asset_table) rows3 \<Longrightarrow> P (t_put asset_table rows3 d)"
    and put_wallet: "P d \<Longrightarrow> table_ok (t_rules wallet_table) rows4 \<Longrightarrow> P (t_put wallet_table rows4 d)"
    and put_compliance: "P d \<Longrightarrow> table_ok (t_rules compliance_table) rows5 \<Longrightarrow> P (t_put compliance_table rows5 d)"
    and put_idempotency: "P d \<Longrightarrow> table_ok (t_rules idempotency_table) rows6 \<Longrightarrow> P (t_put idempotency_table rows6 d)"
    and put_outbox: "P d \<Longrightarrow> table_ok (t_rules outbox_table) rows7 \<Longrightarrow> P (t_put outbox_table rows7 d)"
    and keeps_record_audit_event: "preserves P (record_audit_event event)"
    and put_observation: "P d \<Longrightarrow> table_ok (t_rules observation_table) rows9 \<Longrightarrow> P (t_put observation_table rows9 d)"
    and put_signer_request: "P d \<Longrightarrow> table_ok (t_rules signer_request_table) rows10 \<Longrightarrow> P (t_put signer_request_table rows10 d)"
begin

lemmas side_writes =
  user_t.preserves_write [where P = P, OF put_user]
  user_role_t.preserves_write [where P = P, OF put_user_role]
  asset_t.preserves_write [where P = P, OF put_asset]
  wallet_t.preserves_write [where P = P, OF put_wallet]
  compliance_t.preserves_write [where P = P, OF put_compliance]
  idempotency_t.preserves_write [where P = P, OF put_idempotency]
  outbox_t.preserves_write [where P = P, OF put_outbox]
  observation_t.preserves_write [where P = P, OF put_observation]
  signer_request_t.preserves_write [where P = P, OF put_signer_request]

lemma keeps_insert_provisioning_asset: "preserves P (insert_provisioning_asset i)"
  unfolding insert_provisioning_asset_def by (intro preserves_intros side_writes uuid)

lemma keeps_mark_asset_active: "preserves P (mark_asset_active i a h)"
  unfolding mark_asset_active_def by (intro preserves_intros side_writes uuid)

lemma keeps_mark_asset_failed: "preserves P (mark_asset_failed i)"
  unfolding mark_asset_failed_def by (intro preserves_intros side_writes uuid)

lemma keeps_insert_wallet: "preserves P (insert_wallet i)"
  unfolding insert_wallet_def by (intro preserves_intros side_writes uuid)

lemma keeps_upsert_user_row: "preserves P (upsert_user_row i)"
  unfolding upsert_user_row_def by (intro preserves_intros side_writes uuid)

lemma keeps_clear_user_roles: "preserves P (clear_user_roles i)"
  unfolding clear_user_roles_def by (intro preserves_intros side_writes uuid)

lemma keeps_insert_user_roles: "preserves P (insert_user_roles i rs)"
  unfolding insert_user_roles_def by (intro preserves_intros side_writes uuid)

lemma keeps_supersede_active_decisions: "preserves P (supersede_active_decisions w a)"
  unfolding supersede_active_decisions_def by (intro preserves_intros side_writes uuid)

lemma keeps_insert_compliance_decision: "preserves P (insert_compliance_decision i)"
  unfolding insert_compliance_decision_def by (intro preserves_intros side_writes uuid)

lemma keeps_mark_compliance_chain_synced: "preserves P (mark_compliance_chain_synced i h)"
  unfolding mark_compliance_chain_synced_def by (intro preserves_intros side_writes uuid)

lemma keeps_mark_compliance_chain_sync_failed: "preserves P (mark_compliance_chain_sync_failed i)"
  unfolding mark_compliance_chain_sync_failed_def by (intro preserves_intros side_writes uuid)

lemma keeps_mark_decision_expired: "preserves P (mark_decision_expired i)"
  unfolding mark_decision_expired_def by (intro preserves_intros side_writes uuid)

lemma keeps_enqueue_outbox: "preserves P (enqueue_outbox i)"
  unfolding enqueue_outbox_def by (intro preserves_intros side_writes uuid)

lemma keeps_claim_pending_outbox: "preserves P (claim_pending_outbox n l t)"
  unfolding claim_pending_outbox_def by (intro preserves_intros side_writes uuid)

lemma keeps_mark_outbox_dispatched: "preserves P (mark_outbox_dispatched is t)"
  unfolding mark_outbox_dispatched_def by (intro preserves_intros side_writes uuid)

lemma keeps_reschedule_outbox: "preserves P (reschedule_outbox i t e r)"
  unfolding reschedule_outbox_def by (intro preserves_intros side_writes uuid)

lemma keeps_claim_idempotency_key: "preserves P (claim_idempotency_key i h)"
  unfolding claim_idempotency_key_def by (intro preserves_intros side_writes uuid)

lemma keeps_complete_idempotency_key: "preserves P (complete_idempotency_key i r)"
  unfolding complete_idempotency_key_def by (intro preserves_intros side_writes uuid)

lemma keeps_release_idempotency_key: "preserves P (release_idempotency_key i)"
  unfolding release_idempotency_key_def by (intro preserves_intros side_writes uuid)

lemma keeps_record_signer_request: "preserves P (record_signer_request i)"
  unfolding record_signer_request_def by (intro preserves_intros side_writes uuid)

lemma keeps_mark_signer_request_signed: "preserves P (mark_signer_request_signed i)"
  unfolding mark_signer_request_signed_def by (intro preserves_intros side_writes uuid)

lemma keeps_mark_signer_request_rejected: "preserves P (mark_signer_request_rejected i c)"
  unfolding mark_signer_request_rejected_def by (intro preserves_intros side_writes uuid)

lemma keeps_expire_lapsed_signer_request: "preserves P (expire_lapsed_signer_request i t)"
  unfolding expire_lapsed_signer_request_def by (intro preserves_intros side_writes uuid)

lemma keeps_touch_signer_request: "preserves P (touch_signer_request i)"
  unfolding touch_signer_request_def by (intro preserves_intros side_writes uuid)

lemma keeps_record_observation: "preserves P (record_observation i)"
  unfolding record_observation_def by (intro preserves_intros side_writes uuid)

lemma keeps_invalidate_attempt_observations: "preserves P (invalidate_attempt_observations i)"
  unfolding invalidate_attempt_observations_def by (intro preserves_intros side_writes uuid)

lemmas side_intros =
  uuid keeps_insert_provisioning_asset
  keeps_mark_asset_active
  keeps_mark_asset_failed
  keeps_insert_wallet
  keeps_upsert_user_row
  keeps_clear_user_roles
  keeps_insert_user_roles
  keeps_supersede_active_decisions
  keeps_insert_compliance_decision
  keeps_mark_compliance_chain_synced
  keeps_mark_compliance_chain_sync_failed
  keeps_mark_decision_expired
  keeps_enqueue_outbox
  keeps_claim_pending_outbox
  keeps_mark_outbox_dispatched
  keeps_reschedule_outbox
  keeps_claim_idempotency_key
  keeps_complete_idempotency_key
  keeps_release_idempotency_key
  keeps_record_signer_request
  keeps_mark_signer_request_signed
  keeps_mark_signer_request_rejected
  keeps_expire_lapsed_signer_request
  keeps_touch_signer_request
  keeps_record_audit_event
  keeps_record_observation
  keeps_invalidate_attempt_observations

end

text \<open>Invariants that look neither at the side tables nor at attempts and nonce lanes.\<close>

locale chain_side_tables = side_tables +
  assumes put_attempt: "P d \<Longrightarrow> table_ok (t_rules attempt_table) rows11 \<Longrightarrow> P (t_put attempt_table rows11 d)"
    and keeps_reserve_nonce: "preserves P (reserve_nonce chain signer chain_nonce)"
begin

lemmas chain_writes = attempt_t.preserves_write [where P = P, OF put_attempt]

lemma keeps_insert_prepared_attempt: "preserves P (insert_prepared_attempt i)"
  unfolding insert_prepared_attempt_def by (intro preserves_intros chain_writes uuid)

lemma keeps_update_attempts: "preserves P (update_attempts p f)"
  unfolding update_attempts_def by (intro preserves_intros chain_writes uuid)

lemma keeps_persist_signed_attempt: "preserves P (persist_signed_attempt i r h)"
  unfolding persist_signed_attempt_def update_attempts_def by (intro preserves_intros chain_writes uuid)

lemma keeps_update_attempt_status: "preserves P (update_attempt_status i p)"
  unfolding update_attempt_status_def update_attempts_def by (intro preserves_intros chain_writes uuid)

lemma keeps_record_receipt: "preserves P (record_receipt i r)"
  unfolding record_receipt_def update_attempts_def by (intro preserves_intros chain_writes uuid)

lemma keeps_clear_attempt_inclusion: "preserves P (clear_attempt_inclusion i)"
  unfolding clear_attempt_inclusion_def update_attempts_def by (intro preserves_intros chain_writes uuid)

lemma keeps_retire_attempt_for_replacement: "preserves P (retire_attempt_for_replacement i r)"
  unfolding retire_attempt_for_replacement_def update_attempts_def by (intro preserves_intros chain_writes uuid)

lemma keeps_link_attempt_replacement: "preserves P (link_attempt_replacement i j)"
  unfolding link_attempt_replacement_def by (intro preserves_intros chain_writes uuid)

lemmas chain_side_intros = side_intros
  keeps_reserve_nonce
  keeps_insert_prepared_attempt
  keeps_update_attempts
  keeps_persist_signed_attempt
  keeps_update_attempt_status
  keeps_record_receipt
  keeps_clear_attempt_inclusion
  keeps_retire_attempt_for_replacement
  keeps_link_attempt_replacement

end

text \<open>Invariants that look neither at operations, their timeline nor approvals.\<close>

locale operation_side_tables = side_tables +
  assumes put_operation: "P d \<Longrightarrow> table_ok (t_rules operation_table) rows13 \<Longrightarrow> P (t_put operation_table rows13 d)"
    and keeps_record_operation_transition: "preserves P (record_operation_transition op_uuid from_s to_s)"
    and put_approval_request: "P d \<Longrightarrow> table_ok (t_rules approval_request_table) rows15 \<Longrightarrow> P (t_put approval_request_table rows15 d)"
    and keeps_insert_approval_decision: "preserves P (insert_approval_decision new_decision)"
begin

lemmas operation_writes = operation_t.preserves_write [where P = P, OF put_operation]
  approval_request_t.preserves_write [where P = P, OF put_approval_request]

lemma keeps_insert_operation: "preserves P (insert_operation i v)"
  unfolding insert_operation_def by (intro preserves_intros operation_writes uuid )

lemma keeps_insert_administrative_operation: "preserves P (insert_administrative_operation i)"
  unfolding insert_administrative_operation_def by (intro preserves_intros operation_writes uuid keeps_insert_operation keeps_record_operation_transition)

lemma keeps_transition_operation: "preserves P (transition_operation r s p)"
  unfolding transition_operation_def by (intro preserves_intros operation_writes uuid keeps_record_operation_transition)

lemma keeps_claim_ready_operation: "preserves P (claim_ready_operation i w)"
  unfolding claim_ready_operation_def lock_operation_def by (intro preserves_intros operation_writes uuid keeps_transition_operation)

lemma keeps_release_claim: "preserves P (release_claim i)"
  unfolding release_claim_def by (intro preserves_intros operation_writes uuid )

lemma keeps_insert_approval_request: "preserves P (insert_approval_request i)"
  unfolding insert_approval_request_def by (intro preserves_intros operation_writes uuid )

lemma keeps_close_approval_request: "preserves P (close_approval_request i s)"
  unfolding close_approval_request_def by (intro preserves_intros operation_writes uuid )

lemmas operation_side_intros = side_intros
  keeps_record_operation_transition
  keeps_insert_operation
  keeps_insert_administrative_operation
  keeps_transition_operation
  keeps_claim_ready_operation
  keeps_release_claim
  keeps_insert_approval_request
  keeps_close_approval_request
  keeps_insert_approval_decision

end

lemma db_ok_statements:
  "preserves db_ok (record_audit_event i)" "preserves db_ok (reserve_nonce c s n)"
  "preserves db_ok (record_operation_transition u f t)" "preserves db_ok (insert_approval_decision v)"
  by (intro keeps_audit_statement keeps_reserve_statement keeps_log_statement keeps_decision_statement db_ok_fresh_uuid
    db_ok_put_audit db_ok_put_signer_nonce db_ok_put_transition_log db_ok_put_approval_decision; assumption)+

interpretation ok_inv: chain_side_tables db_ok
  by unfold_locales (fact db_ok_put_user db_ok_put_user_role db_ok_put_asset db_ok_put_wallet db_ok_put_compliance
    db_ok_put_idempotency db_ok_put_outbox db_ok_put_observation db_ok_put_signer_request
    db_ok_put_attempt db_ok_statements)+

interpretation ok_inv: operation_side_tables db_ok
  by unfold_locales (fact db_ok_put_operation db_ok_put_approval_request db_ok_statements)+

interpretation history_inv: chain_side_tables history_ok
  by unfold_locales
    (simp_all add: history_ok_put keeps_audit_statement keeps_reserve_statement history_ok_fresh_uuid)

lemmas ok_intros = ok_inv.chain_side_intros ok_inv.operation_side_intros

lemmas history_intros = history_inv.chain_side_intros transition_operation_history claim_ready_operation_history
  release_claim_history

end
