(* ===== verification/RegistryServices.thy ===== *)
theory RegistryServices
  imports Frames
begin

text \<open>
  Application services over the registries: \<open>modules/assets/asset-service.ts\<close>,
  \<open>modules/wallets/wallet-service.ts\<close> and \<open>modules/audit/audit-service.ts\<close>. Transaction bodies are
  named \<open>..._tx\<close>; the service method around one does what the code does before and after it.
\<close>

subsection \<open>Assets\<close>

record create_asset_input =
  ca_symbol :: string
  ca_name :: string
  ca_decimals :: int
  ca_supply_cap :: string

definition operation_ready_message :: "uuid \<Rightarrow> string \<Rightarrow> new_outbox" where
  "operation_ready_message operation_id correlation_id =
     \<lparr>nob_topic = OPERATION_READY, nob_aggregate_type = ''operation'', nob_aggregate_id = operation_id,
      nob_payload = JObj [(''operationId'', Some (JStr operation_id))], nob_correlation_id = correlation_id\<rparr>"

definition enqueue_deployment :: "(string \<Rightarrow> string) \<Rightarrow> request_context \<Rightarrow> asset_row \<Rightarrow> (db, operation_row) tx" where
  "enqueue_deployment sha ctx asset =
     tx_bind (insert_administrative_operation
       \<lparr>ai_type = DEPLOY_ASSET, ai_organization_id = ac_organization_id (rc_actor ctx), ai_asset_id = as_id asset,
        ai_wallet_id = None, ai_compliance_decision_id = None,
        ai_proposal_hash = hash_asset_deployment_intent sha asset, ai_requested_by = ac_id (rc_actor ctx),
        ai_correlation_id = rc_correlation_id ctx\<rparr>) (\<lambda>operation.
     tx_then (enqueue_outbox (operation_ready_message (op_id operation) (rc_correlation_id ctx)))
     (tx_ret operation))"

definition create_asset_tx ::
  "(string \<Rightarrow> string) \<Rightarrow> int \<Rightarrow> request_context \<Rightarrow> create_asset_input \<Rightarrow> int \<Rightarrow> (db, asset_row \<times> uuid) tx" where
  "create_asset_tx sha chain_id ctx input supply_cap =
     tx_bind (insert_provisioning_asset
       \<lparr>nas_organization_id = ac_organization_id (rc_actor ctx), nas_symbol = ca_symbol input, nas_name = ca_name input,
        nas_decimals = ca_decimals input, nas_supply_cap = supply_cap, nas_chain_id = chain_id,
        nas_created_by = ac_id (rc_actor ctx)\<rparr>) (\<lambda>asset.
     tx_bind (enqueue_deployment sha ctx asset) (\<lambda>operation.
     tx_then (record_audit_event
       \<lparr>aei_actor = rc_actor ctx, aei_action = ''asset.created'', aei_resource_type = ''asset'',
        aei_resource_id = as_id asset, aei_correlation_id = rc_correlation_id ctx,
        aei_operation_id = Some (op_id operation),
        aei_metadata = Some (JObj [(''symbol'', Some (JStr (as_symbol asset))),
          (''decimals'', Some (JNum (as_decimals asset))),
          (''supplyCap'', Some (JStr (show_int (as_supply_cap asset)))),
          (''chainId'', Some (JNum (as_chain_id asset)))])\<rparr>)
     (tx_ret (asset, op_id operation))))"

text \<open>\<open>BigInt(text)\<close> throws a SyntaxError for text that is not an integer.\<close>

definition bigint_or_throw :: "string \<Rightarrow> exn + int" where
  "bigint_or_throw text = (case js_bigint text of
     None \<Rightarrow> Inl (JsError (''Cannot convert '' @ text @ '' to a BigInt''))
   | Some n \<Rightarrow> Inr n)"

definition create_asset ::
  "(string \<Rightarrow> string) \<Rightarrow> int \<Rightarrow> request_context \<Rightarrow> create_asset_input \<Rightarrow> ('w sys, asset_row \<times> uuid) io" where
  "create_asset sha chain_id ctx input =
     io_then (io_lift (require_role (rc_actor ctx) [ISSUER, ADMIN] ''create an asset''))
     (io_bind (io_lift (bigint_or_throw (ca_supply_cap input))) (\<lambda>supply_cap.
      io_then (io_guard (supply_cap > 0) (validation_error ''supplyCap must be greater than zero''))
      (io_catch (run_tx (create_asset_tx sha chain_id ctx input supply_cap)) (\<lambda>e.
         if is_unique_violation e None
         then io_throw (app_error OPERATION_CONFLICT ''an asset with this symbol already exists for the organization''
           [(''symbol'', JStr (ca_symbol input))])
         else io_throw e))))"

definition get_asset :: "request_context \<Rightarrow> uuid \<Rightarrow> ('w sys, asset_row) io" where
  "get_asset ctx asset_id =
     io_then (io_lift (require_role (rc_actor ctx) [ISSUER, ADMIN, APPROVER, COMPLIANCE_OFFICER, AUDITOR] ''read an asset''))
     (io_bind (run_query (find_asset_by_id asset_id)) (\<lambda>found.
      case found of
        None \<Rightarrow> io_throw (not_found_error ''asset'' asset_id)
      | Some asset \<Rightarrow>
          if as_organization_id asset \<noteq> ac_organization_id (rc_actor ctx)
          then io_throw (not_found_error ''asset'' asset_id)
          else io_ret asset))"

definition request_deployment_tx ::
  "(string \<Rightarrow> string) \<Rightarrow> request_context \<Rightarrow> asset_row \<Rightarrow> (db, operation_row) tx" where
  "request_deployment_tx sha ctx asset =
     tx_bind (tx_read (find_live_administrative_operation DEPLOY_ASSET (as_id asset) None)) (\<lambda>live.
     case live of
       Some operation \<Rightarrow> tx_ret operation
     | None \<Rightarrow> enqueue_deployment sha ctx asset)"

definition request_deployment ::
  "(string \<Rightarrow> string) \<Rightarrow> request_context \<Rightarrow> uuid \<Rightarrow> ('w sys, operation_row) io" where
  "request_deployment sha ctx asset_id =
     io_then (io_lift (require_role (rc_actor ctx) [ISSUER, ADMIN] ''deploy an asset contract''))
     (io_bind (get_asset ctx asset_id) (\<lambda>asset.
      case as_contract_address asset of
        Some address \<Rightarrow> io_throw (app_error OPERATION_CONFLICT ''asset already has a deployed contract''
          [(''assetId'', JStr asset_id), (''contractAddress'', JStr address)])
      | None \<Rightarrow> run_tx (request_deployment_tx sha ctx asset)))"

fun asset_status_name :: "asset_status \<Rightarrow> string" where
  "asset_status_name As_PROVISIONING = ''PROVISIONING''"
| "asset_status_name As_ACTIVE = ''ACTIVE''"
| "asset_status_name As_PAUSED = ''PAUSED''"
| "asset_status_name As_FAILED = ''FAILED''"

text \<open>The checks of \<open>requireActiveAsset\<close>, in their order.\<close>

definition active_asset_check :: "uuid \<Rightarrow> string \<Rightarrow> asset_row option \<Rightarrow> exn + asset_row" where
  "active_asset_check asset_id organization_id found = (case found of
     None \<Rightarrow> Inl (not_found_error ''asset'' asset_id)
   | Some asset \<Rightarrow>
       if as_organization_id asset \<noteq> organization_id then Inl (not_found_error ''asset'' asset_id)
       else if as_status asset = As_PAUSED
       then Inl (app_error ASSET_PAUSED ''asset is paused'' [(''assetId'', JStr asset_id)])
       else if as_status asset \<noteq> As_ACTIVE \<or> as_contract_address asset = None
       then Inl (app_error ASSET_NOT_ACTIVE ''asset is not active''
         [(''assetId'', JStr asset_id), (''status'', JStr (asset_status_name (as_status asset)))])
       else Inr asset)"

definition require_active_asset :: "uuid \<Rightarrow> string \<Rightarrow> ('w sys, asset_row) io" where
  "require_active_asset asset_id organization_id =
     io_bind (run_query (find_asset_by_id asset_id)) (\<lambda>found.
     io_lift (active_asset_check asset_id organization_id found))"

definition find_by_symbol :: "string \<Rightarrow> string \<Rightarrow> ('w sys, asset_row option) io" where
  "find_by_symbol organization_id symbol = run_query (find_asset_by_symbol organization_id symbol)"

subsection \<open>Wallets\<close>

record register_wallet_input =
  rw_address :: string
  rw_investor_reference :: string
  rw_label :: "string option"

definition register_wallet_tx :: "int \<Rightarrow> request_context \<Rightarrow> register_wallet_input \<Rightarrow> (db, wallet_row) tx" where
  "register_wallet_tx chain_id ctx input =
     tx_bind (insert_wallet
       \<lparr>nwa_organization_id = ac_organization_id (rc_actor ctx), nwa_chain_id = chain_id, nwa_address = rw_address input,
        nwa_label = rw_label input, nwa_investor_reference = rw_investor_reference input,
        nwa_created_by = ac_id (rc_actor ctx)\<rparr>) (\<lambda>wallet.
     tx_then (record_audit_event
       \<lparr>aei_actor = rc_actor ctx, aei_action = ''wallet.registered'', aei_resource_type = ''wallet'',
        aei_resource_id = wa_id wallet, aei_correlation_id = rc_correlation_id ctx, aei_operation_id = None,
        aei_metadata = Some (JObj [(''address'', Some (JStr (wa_address wallet))),
          (''chainId'', Some (JNum (wa_chain_id wallet))),
          (''investorReference'', Some (JStr (wa_investor_reference wallet)))])\<rparr>)
     (tx_ret wallet))"

definition register_wallet :: "int \<Rightarrow> request_context \<Rightarrow> register_wallet_input \<Rightarrow> ('w sys, wallet_row) io" where
  "register_wallet chain_id ctx input =
     io_then (io_lift (require_role (rc_actor ctx) [ISSUER, ADMIN, COMPLIANCE_OFFICER] ''register a wallet''))
     (io_catch (run_tx (register_wallet_tx chain_id ctx input)) (\<lambda>e.
        if is_unique_violation e None
        then io_throw (app_error OPERATION_CONFLICT ''wallet address is already registered on this chain''
          [(''address'', JStr (to_lower (rw_address input)))])
        else io_throw e))"

definition get_wallet :: "request_context \<Rightarrow> uuid \<Rightarrow> ('w sys, wallet_row) io" where
  "get_wallet ctx wallet_id =
     io_bind (run_query (find_wallet_by_id wallet_id)) (\<lambda>found.
     case found of
       None \<Rightarrow> io_throw (not_found_error ''wallet'' wallet_id)
     | Some wallet \<Rightarrow>
         if wa_organization_id wallet \<noteq> ac_organization_id (rc_actor ctx)
         then io_throw (not_found_error ''wallet'' wallet_id)
         else io_ret wallet)"

definition find_by_address :: "int \<Rightarrow> string \<Rightarrow> ('w sys, wallet_row option) io" where
  "find_by_address chain_id address = run_query (find_wallet_by_address chain_id address)"

subsection \<open>Audit queries\<close>

record audit_query_input =
  aqi_operation_id :: "uuid option"
  aqi_resource_type :: "string option"
  aqi_resource_id :: "string option"
  aqi_limit :: "int option"
  aqi_cursor :: "string option"

definition audit_limit :: "int option \<Rightarrow> nat" where
  "audit_limit l = nat (min (max (case l of None \<Rightarrow> 50 | Some n \<Rightarrow> n) 1) 200)"

text \<open>\<open>occurredAt\<close> is a Date by now, so the cursor has milliseconds only.\<close>

definition cursor_of :: "audit_row \<Rightarrow> string" where
  "cursor_of r = iso_string (date_of_pg (au_occurred_at r)) @ ''|'' @ au_id r"

definition audit_page :: "nat \<Rightarrow> audit_row list \<Rightarrow> audit_row list \<times> string option" where
  "audit_page limit events =
     (let page = take limit events
      in (page, if length events > limit \<and> page \<noteq> [] then Some (cursor_of (last page)) else None))"

definition query_audit ::
  "(string \<Rightarrow> js_time) \<Rightarrow> request_context \<Rightarrow> audit_query_input \<Rightarrow> ('w sys, audit_row list \<times> string option) io" where
  "query_audit of_iso ctx input =
     io_then (io_lift (require_role (rc_actor ctx) [AUDITOR, ADMIN] ''read audit events''))
     (let limit = audit_limit (aqi_limit input)
      in io_bind (run_query (list_audit_events of_iso
           \<lparr>aq_operation_id = aqi_operation_id input, aq_resource_type = aqi_resource_type input,
            aq_resource_id = aqi_resource_id input, aq_limit = limit + 1, aq_cursor = aqi_cursor input\<rparr>)) (\<lambda>events.
         io_ret (audit_page limit events)))"

subsection \<open>What the services keep\<close>

lemma enqueue_deployment_keeps:
  "preserves db_ok (enqueue_deployment sha ctx asset)" "preserves history_ok (enqueue_deployment sha ctx asset)"
  unfolding enqueue_deployment_def
  by (intro preserves_intros ok_intros) (intro preserves_intros history_intros insert_administrative_operation_history, simp)

lemma registry_tx_keeps:
  "preserves db_ok (create_asset_tx sha c ctx input n)" "preserves history_ok (create_asset_tx sha c ctx input n)"
  "preserves db_ok (request_deployment_tx sha ctx asset)" "preserves history_ok (request_deployment_tx sha ctx asset)"
  "preserves db_ok (register_wallet_tx c ctx winput)" "preserves history_ok (register_wallet_tx c ctx winput)"
  unfolding create_asset_tx_def request_deployment_tx_def register_wallet_tx_def
  by (intro preserves_intros ok_intros history_intros enqueue_deployment_keeps)+

end
