(* ===== verification/MintService.thy ===== *)
theory MintService
  imports RegistryServices
begin

text \<open>
  \<open>modules/idempotency/idempotency-service.ts\<close> and \<open>modules/operations/mint-service.ts\<close>: a mint
  request is recorded once per idempotency key, as a PENDING_APPROVAL operation together with
  the approval request that gates it.
\<close>

subsection \<open>Idempotency\<close>

record idempotent_outcome = idempotent_result +
  io_replayed :: bool

definition idempotent_work ::
  "uuid \<Rightarrow> (db, idempotent_result) tx \<Rightarrow> (db, idempotent_result) tx" where
  "idempotent_work record_id work =
     tx_bind work (\<lambda>produced.
     tx_then (complete_idempotency_key record_id produced)
     (tx_ret produced))"

text \<open>What a request that did not win the claim gets: the stored response, or an error.\<close>

definition replay_outcome ::
  "string \<Rightarrow> string \<Rightarrow> idempotency_row \<Rightarrow> exn + idempotent_outcome" where
  "replay_outcome idempotency_key request_hash rec =
     (if ik_request_hash rec \<noteq> request_hash
      then Inl (app_error IDEMPOTENCY_CONFLICT ''idempotency key was already used with a different request payload''
        [(''idempotencyKey'', JStr idempotency_key)])
      else if ik_status rec = Ik_COMPLETED
      then Inr \<lparr>ir_status = (case ik_response_status rec of None \<Rightarrow> 200 | Some s \<Rightarrow> s),
        ir_body = (case ik_response_body rec of None \<Rightarrow> JNull | Some b \<Rightarrow> b),
        ir_resource_type = (case ik_resource_type rec of None \<Rightarrow> ''unknown'' | Some t \<Rightarrow> t),
        ir_resource_id = (case ik_resource_id rec of None \<Rightarrow> '''' | Some i \<Rightarrow> i),
        io_replayed = True\<rparr>
      else Inl (AppError (new_app_error IDEMPOTENCY_IN_PROGRESS ''an identical request is currently being processed''
        (JObj [(''idempotencyKey'', Some (JStr idempotency_key))]) True)))"

definition fresh_outcome :: "idempotent_result \<Rightarrow> idempotent_outcome" where
  "fresh_outcome r = \<lparr>ir_status = ir_status r, ir_body = ir_body r, ir_resource_type = ir_resource_type r,
     ir_resource_id = ir_resource_id r, io_replayed = False\<rparr>"

definition execute_idempotent ::
  "(string \<Rightarrow> string) \<Rightarrow> idempotency_identity \<Rightarrow> json \<Rightarrow> (db, idempotent_result) tx \<Rightarrow> ('w sys, idempotent_outcome) io" where
  "execute_idempotent sha identity request work =
     (let request_hash = canonical_hash sha request
      in io_bind (run_tx (claim_idempotency_key identity request_hash)) (\<lambda>(claimed, rec).
         if \<not> claimed then io_lift (replay_outcome (ii_idempotency_key identity) request_hash rec)
         else io_catch
           (io_bind (run_tx (idempotent_work (ik_id rec) work)) (\<lambda>result. io_ret (fresh_outcome result)))
           (\<lambda>e. io_then (io_catch (run_tx (release_idempotency_key (ik_id rec))) (\<lambda>_. io_ret ()))
                (io_throw e))))"

subsection \<open>Mint requests\<close>

definition MINT_IDEMPOTENCY_SCOPE :: string where
  "MINT_IDEMPOTENCY_SCOPE = ''POST /v1/assets/{assetId}/mints''"

record request_mint_input =
  rm_asset_id :: uuid
  rm_wallet_id :: uuid
  rm_amount :: string
  rm_idempotency_key :: string

record request_mint_result =
  rmr_operation_id :: "json option"
  rmr_approval_request_id :: "json option"
  rmr_state :: "json option"
  rmr_required_approvals :: "json option"
  rmr_replayed :: bool
  rmr_http_status :: nat

definition mint_snapshot :: "asset_row \<Rightarrow> wallet_row \<Rightarrow> int \<Rightarrow> string \<Rightarrow> mint_proposal" where
  "mint_snapshot asset wallet amount operation_reference =
     \<lparr>mp_asset_id = as_id asset, mp_chain_id = as_chain_id asset,
      mp_contract_address = (case as_contract_address asset of None \<Rightarrow> '''' | Some a \<Rightarrow> a),
      mp_wallet_id = wa_id wallet, mp_recipient_address = wa_address wallet, mp_amount = show_int amount,
      mp_operation_reference = operation_reference, mp_policy_version = as_policy_version asset,
      mp_required_approvals = required_mint_approvals\<rparr>"

text \<open>The business transaction: operation, timeline, approval request, audit event.\<close>

definition new_mint_operation ::
  "(string \<Rightarrow> string) \<Rightarrow> request_context \<Rightarrow> asset_row \<Rightarrow> wallet_row \<Rightarrow> int \<Rightarrow> uuid \<Rightarrow> new_operation" where
  "new_mint_operation sha ctx asset wallet amount operation_id =
     (let reference = derive_operation_reference sha operation_id
      in \<lparr>no_type = MINT, no_state = Op_PENDING_APPROVAL, no_organization_id = ac_organization_id (rc_actor ctx),
          no_asset_id = as_id asset, no_wallet_id = Some (wa_id wallet), no_amount = Some amount,
          no_operation_reference = Some reference, no_compliance_decision_id = None,
          no_proposal_hash = hash_mint_proposal sha (mint_snapshot asset wallet amount reference),
          no_required_approvals = required_mint_approvals, no_requested_by = ac_id (rc_actor ctx),
          no_correlation_id = rc_correlation_id ctx\<rparr>)"

definition mint_requested_event ::
  "request_context \<Rightarrow> operation_row \<Rightarrow> approval_request_row \<Rightarrow> compliance_row \<Rightarrow> asset_row \<Rightarrow> wallet_row \<Rightarrow> int \<Rightarrow> audit_event_input" where
  "mint_requested_event ctx operation request decision asset wallet amount =
     \<lparr>aei_actor = rc_actor ctx, aei_action = ''operation.mint_requested'', aei_resource_type = ''operation'',
      aei_resource_id = op_id operation, aei_correlation_id = rc_correlation_id ctx,
      aei_operation_id = Some (op_id operation),
      aei_metadata = Some (JObj [(''assetId'', Some (JStr (as_id asset))), (''walletId'', Some (JStr (wa_id wallet))),
        (''amount'', Some (JStr (show_int amount))),
        (''operationReference'', Some (json_of_opt (op_operation_reference operation))),
        (''proposalHash'', Some (JStr (op_proposal_hash operation))),
        (''approvalRequestId'', Some (JStr (ar_id request))),
        (''complianceDecisionId'', Some (JStr (cd_id decision)))])\<rparr>"

definition mint_work ::
  "(string \<Rightarrow> string) \<Rightarrow> request_context \<Rightarrow> asset_row \<Rightarrow> wallet_row \<Rightarrow> compliance_row \<Rightarrow> int \<Rightarrow> (db, idempotent_result) tx" where
  "mint_work sha ctx asset wallet decision amount =
     tx_bind fresh_uuid (\<lambda>operation_id.
     (let v = new_mint_operation sha ctx asset wallet amount operation_id;
          snapshot = mint_snapshot asset wallet amount (derive_operation_reference sha operation_id)
      in tx_bind (insert_operation operation_id v) (\<lambda>operation.
         tx_then (record_operation_transition (op_id operation) None Op_PENDING_APPROVAL)
         (tx_bind (insert_approval_request
            \<lparr>nar_operation_id = op_id operation, nar_required_approvals = required_mint_approvals,
             nar_proposal_snapshot = snapshot_json snapshot, nar_proposal_hash = no_proposal_hash v,
             nar_requested_by = ac_id (rc_actor ctx)\<rparr>) (\<lambda>request.
          tx_then (record_audit_event (mint_requested_event ctx operation request decision asset wallet amount))
          (tx_ret \<lparr>ir_status = 202,
             ir_body = JObj [(''operationId'', Some (JStr (op_id operation))),
               (''approvalRequestId'', Some (JStr (ar_id request))),
               (''state'', Some (JStr (operation_state_name (op_state operation)))),
               (''requiredApprovals'', Some (JNum (int required_mint_approvals)))],
             ir_resource_type = ''operation'', ir_resource_id = op_id operation\<rparr>))))))"

fun wallet_status_name :: "wallet_status \<Rightarrow> string" where
  "wallet_status_name Wa_REGISTERED = ''REGISTERED''"
| "wallet_status_name Wa_BLOCKED = ''BLOCKED''"

definition mint_amount :: "string \<Rightarrow> exn + int" where
  "mint_amount text = (case js_bigint text of
     None \<Rightarrow> Inl (validation_error ''amount must be an integer string in base units'')
   | Some n \<Rightarrow> if n \<le> 0 then Inl (validation_error ''amount must be greater than zero'') else Inr n)"

definition mint_wallet_check :: "request_context \<Rightarrow> uuid \<Rightarrow> asset_row \<Rightarrow> wallet_row option \<Rightarrow> exn + wallet_row" where
  "mint_wallet_check ctx wallet_id asset found = (case found of
     None \<Rightarrow> Inl (not_found_error ''wallet'' wallet_id)
   | Some wallet \<Rightarrow>
       if wa_organization_id wallet \<noteq> ac_organization_id (rc_actor ctx) then Inl (not_found_error ''wallet'' wallet_id)
       else if wa_chain_id wallet \<noteq> as_chain_id asset
       then Inl (validation_error ''wallet and asset are on different chains'')
       else if wa_status wallet \<noteq> Wa_REGISTERED
       then Inl (app_error COMPLIANCE_NOT_ELIGIBLE ''wallet is blocked''
         [(''walletId'', JStr (wa_id wallet)), (''status'', JStr (wallet_status_name (wa_status wallet)))])
       else Inr wallet)"

definition request_mint ::
  "(string \<Rightarrow> string) \<Rightarrow> request_context \<Rightarrow> request_mint_input \<Rightarrow> ('w sys, request_mint_result) io" where
  "request_mint sha ctx input =
     io_then (io_lift (require_role (rc_actor ctx) [ISSUER, ADMIN] ''request a mint''))
     (io_bind (io_lift (mint_amount (rm_amount input))) (\<lambda>amount.
      io_bind (require_active_asset (rm_asset_id input) (ac_organization_id (rc_actor ctx))) (\<lambda>asset.
      io_bind (run_query (find_wallet_by_id (rm_wallet_id input))) (\<lambda>found.
      io_bind (io_lift (mint_wallet_check ctx (rm_wallet_id input) asset found)) (\<lambda>wallet.
      io_bind (run_query (find_active_approval (wa_id wallet) (Some (as_id asset)))) (\<lambda>decision.
      case decision of
        None \<Rightarrow> io_throw (app_error COMPLIANCE_NOT_ELIGIBLE ''wallet has no valid compliance approval''
          [(''walletId'', JStr (wa_id wallet)), (''assetId'', JStr (as_id asset))])
      | Some decision \<Rightarrow>
          io_bind (execute_idempotent sha
            \<lparr>ii_scope = MINT_IDEMPOTENCY_SCOPE, ii_organization_id = ac_organization_id (rc_actor ctx),
             ii_actor_id = ac_id (rc_actor ctx), ii_idempotency_key = rm_idempotency_key input\<rparr>
            (JObj [(''assetId'', Some (JStr (rm_asset_id input))), (''walletId'', Some (JStr (rm_wallet_id input))),
                   (''amount'', Some (JStr (show_int amount)))])
            (mint_work sha ctx asset wallet decision amount)) (\<lambda>outcome.
          io_ret \<lparr>rmr_operation_id = json_get (ir_body outcome) ''operationId'',
            rmr_approval_request_id = json_get (ir_body outcome) ''approvalRequestId'',
            rmr_state = json_get (ir_body outcome) ''state'',
            rmr_required_approvals = json_get (ir_body outcome) ''requiredApprovals'',
            rmr_replayed = io_replayed outcome, rmr_http_status = ir_status outcome\<rparr>)))))))"

definition get_operation :: "request_context \<Rightarrow> uuid \<Rightarrow> ('w sys, operation_row) io" where
  "get_operation ctx operation_id =
     io_bind (run_query (find_operation_by_id operation_id)) (\<lambda>found.
     case found of
       None \<Rightarrow> io_throw (not_found_error ''operation'' operation_id)
     | Some operation \<Rightarrow>
         if op_organization_id operation \<noteq> ac_organization_id (rc_actor ctx)
         then io_throw (not_found_error ''operation'' operation_id)
         else io_ret operation)"

text \<open>The proposal as the current asset, wallet and operation rows give it.\<close>

definition rebuild_mint_proposal :: "(string \<Rightarrow> string) \<Rightarrow> operation_row \<Rightarrow> asset_row \<Rightarrow> wallet_row \<Rightarrow> mint_proposal \<times> string" where
  "rebuild_mint_proposal sha operation asset wallet =
     (let snapshot = \<lparr>mp_asset_id = as_id asset, mp_chain_id = as_chain_id asset,
        mp_contract_address = (case as_contract_address asset of None \<Rightarrow> '''' | Some a \<Rightarrow> a),
        mp_wallet_id = wa_id wallet, mp_recipient_address = wa_address wallet,
        mp_amount = (case op_amount operation of None \<Rightarrow> '''' | Some a \<Rightarrow> show_int a),
        mp_operation_reference = (case op_operation_reference operation of None \<Rightarrow> '''' | Some r \<Rightarrow> r),
        mp_policy_version = as_policy_version asset, mp_required_approvals = op_required_approvals operation\<rparr>
      in (snapshot, hash_mint_proposal sha snapshot))"

end
