(* ===== verification/ApprovalService.thy ===== *)
theory ApprovalService
  imports MintService
begin

text \<open>
  \<open>modules/approvals/approval-service.ts\<close>: the two-person approval of mint operations. The whole
  decision is one transaction on the locked request; the database forbids self-approval and a
  second decision by the same approver.
\<close>

record record_approval_input =
  rai_approval_request_id :: uuid
  rai_decision :: approval_decision_kind
  rai_comment :: "string option"

record record_approval_result =
  rar_approval_request_id :: uuid
  rar_operation_id :: uuid
  rar_approval_request_state :: approval_request_state
  rar_operation_state :: operation_state
  rar_approvals_recorded :: nat
  rar_required_approvals :: nat

definition approval_event ::
  "request_context \<Rightarrow> string \<Rightarrow> string \<Rightarrow> string \<Rightarrow> uuid \<Rightarrow> (string \<times> json) list \<Rightarrow> audit_event_input" where
  "approval_event ctx action resource_type resource_id operation_id metadata =
     \<lparr>aei_actor = rc_actor ctx, aei_action = action, aei_resource_type = resource_type, aei_resource_id = resource_id,
      aei_correlation_id = rc_correlation_id ctx, aei_operation_id = Some operation_id,
      aei_metadata = Some (JObj (map (map_prod id Some) metadata))\<rparr>"

definition insert_decision_or_explain ::
  "request_context \<Rightarrow> record_approval_input \<Rightarrow> approval_request_row \<Rightarrow> (db, approval_decision_row) tx" where
  "insert_decision_or_explain ctx input request =
     tx_catch (insert_approval_decision
       \<lparr>nad_approval_request_id = ar_id request, nad_approver_id = ac_id (rc_actor ctx),
        nad_operation_requested_by = ar_requested_by request, nad_decision = rai_decision input,
        nad_proposal_hash = ar_proposal_hash request, nad_comment = rai_comment input\<rparr>)
     (\<lambda>e. if is_unique_violation e (Some ''approval_decisions_one_per_approver'')
          then tx_throw (app_error APPROVAL_ALREADY_RECORDED
            ''this approver has already recorded a decision for this request''
            [(''approvalRequestId'', JStr (ar_id request))])
          else if is_check_violation e (Some ''approval_decisions_no_self_approval'')
          then tx_throw (app_error SELF_APPROVAL_NOT_ALLOWED ''the requester of an operation may not approve it''
            [(''approvalRequestId'', JStr (ar_id request))])
          else tx_throw e)"

definition approvers :: "approval_decision_row list \<Rightarrow> uuid list" where
  "approvers decisions = map ad_approver_id (filter (\<lambda>d. ad_decision d = APPROVE) decisions)"

definition tally :: "approval_request_row \<Rightarrow> approval_decision_row list \<Rightarrow> approval_outcome" where
  "tally request decisions = evaluate_approval_outcome
     \<lparr>at_required_approvals = ar_required_approvals request, at_approver_ids = approvers decisions,
      at_has_rejection = list_ex (\<lambda>d. ad_decision d = REJECT) decisions\<rparr>"

text \<open>What follows from the tally: the states of the request and of the operation.\<close>

definition apply_outcome ::
  "request_context \<Rightarrow> approval_request_row \<Rightarrow> operation_row \<Rightarrow> approval_outcome \<Rightarrow>
   (db, approval_request_state \<times> operation_state) tx" where
  "apply_outcome ctx request operation outcome = (case outcome of
     Outcome_APPROVED \<Rightarrow>
       tx_then (close_approval_request (ar_id request) Ar_APPROVED)
       (tx_bind (transition_operation operation Op_READY no_patch) (\<lambda>ready.
        tx_then (enqueue_outbox (operation_ready_message (op_id operation) (op_correlation_id operation)))
        (tx_then (record_audit_event (approval_event ctx ''operation.approved'' ''operation'' (op_id operation)
          (op_id operation) [(''approvals'', JNum (int (ar_required_approvals request)))]))
        (tx_ret (Ar_APPROVED, op_state ready)))))
   | Outcome_REJECTED \<Rightarrow>
       tx_then (close_approval_request (ar_id request) Ar_REJECTED)
       (tx_bind (transition_operation operation Op_CANCELLED
          (no_patch\<lparr>tp_failure_code := Some (Some ''APPROVAL_REJECTED''),
                    tp_failure_reason := Some (Some ''an approver rejected'')\<rparr>)) (\<lambda>cancelled.
        tx_then (record_audit_event (approval_event ctx ''operation.cancelled'' ''operation'' (op_id operation)
          (op_id operation) [(''reason'', JStr ''APPROVAL_REJECTED'')]))
        (tx_ret (Ar_REJECTED, op_state cancelled))))
   | Outcome_PENDING _ \<Rightarrow> tx_ret (ar_state request, op_state operation))"

definition record_and_tally ::
  "request_context \<Rightarrow> record_approval_input \<Rightarrow> approval_request_row \<Rightarrow> operation_row \<Rightarrow> (db, record_approval_result) tx" where
  "record_and_tally ctx input request operation =
     tx_then (insert_decision_or_explain ctx input request)
     (tx_bind (tx_read (list_decisions (ar_id request))) (\<lambda>decisions.
      tx_then (record_audit_event (approval_event ctx ''approval.decision_recorded'' ''approval_request'' (ar_id request)
        (op_id operation)
        [(''decision'', JStr (approval_decision_name (rai_decision input))),
         (''proposalHash'', JStr (ar_proposal_hash request)),
         (''outcome'', JStr (approval_outcome_name (tally request decisions))),
         (''decisionsRecorded'', JNum (int (length decisions)))]))
      (tx_bind (apply_outcome ctx request operation (tally request decisions)) (\<lambda>(request_state, operation_state).
       tx_ret \<lparr>rar_approval_request_id = ar_id request, rar_operation_id = op_id operation,
         rar_approval_request_state = request_state, rar_operation_state = operation_state,
         rar_approvals_recorded = length (approvers decisions),
         rar_required_approvals = ar_required_approvals request\<rparr>))))"

definition supersede_changed_request ::
  "request_context \<Rightarrow> approval_request_row \<Rightarrow> operation_row \<Rightarrow> string \<Rightarrow> (db, 'a) tx" where
  "supersede_changed_request ctx request operation current_hash =
     tx_then (close_approval_request (ar_id request) Ar_SUPERSEDED)
     (tx_then (record_audit_event (approval_event ctx ''approval.request_superseded'' ''approval_request'' (ar_id request)
        (op_id operation) [(''expectedHash'', JStr (ar_proposal_hash request)), (''currentHash'', JStr current_hash)]))
     (tx_throw (app_error OPERATION_CONFLICT ''the financial intent changed; previous approvals are void''
        [(''approvalRequestId'', JStr (ar_id request))])))"

definition record_decision_tx ::
  "(string \<Rightarrow> string) \<Rightarrow> request_context \<Rightarrow> record_approval_input \<Rightarrow> (db, record_approval_result) tx" where
  "record_decision_tx sha ctx input =
     tx_bind (lock_approval_request (rai_approval_request_id input)) (\<lambda>locked.
     case locked of
       None \<Rightarrow> tx_throw (not_found_error ''approval_request'' (rai_approval_request_id input))
     | Some request \<Rightarrow>
         if ar_state request \<noteq> Ar_PENDING
         then tx_throw (app_error APPROVAL_REQUEST_CLOSED ''approval request is no longer open''
           [(''approvalRequestId'', JStr (ar_id request)), (''state'', JStr (approval_request_state_name (ar_state request)))])
         else if ar_requested_by request = ac_id (rc_actor ctx)
         then tx_throw (app_error SELF_APPROVAL_NOT_ALLOWED ''the requester of an operation may not approve it''
           [(''approvalRequestId'', JStr (ar_id request))])
         else tx_bind (lock_operation (ar_operation_id request)) (\<lambda>found.
           case found of
             None \<Rightarrow> tx_throw (not_found_error ''operation'' (ar_operation_id request))
           | Some operation \<Rightarrow>
               if op_state operation \<noteq> Op_PENDING_APPROVAL
               then tx_throw (app_error INVALID_STATE_TRANSITION ''operation is no longer awaiting approval''
                 [(''operationId'', JStr (op_id operation)), (''state'', JStr (operation_state_name (op_state operation)))])
               else
                 tx_bind (tx_read (find_asset_by_id (op_asset_id operation))) (\<lambda>asset.
                 tx_bind (tx_read (\<lambda>d. case op_wallet_id operation of None \<Rightarrow> None | Some w \<Rightarrow> find_wallet_by_id w d)) (\<lambda>wallet.
                 case (asset, wallet) of
                   (Some asset, Some wallet) \<Rightarrow>
                     (let rebuilt = snd (rebuild_mint_proposal sha operation asset wallet)
                      in if rebuilt \<noteq> ar_proposal_hash request
                         then supersede_changed_request ctx request operation rebuilt
                         else record_and_tally ctx input request operation)
                 | _ \<Rightarrow> tx_throw (not_found_error ''operation'' (op_id operation))))))"

definition record_approval_decision ::
  "(string \<Rightarrow> string) \<Rightarrow> request_context \<Rightarrow> record_approval_input \<Rightarrow> ('w sys, record_approval_result) io" where
  "record_approval_decision sha ctx input =
     io_then (io_lift (require_role (rc_actor ctx) [APPROVER, ADMIN] ''record an approval decision''))
     (io_bind (run_query (find_approval_request_by_id (rai_approval_request_id input))) (\<lambda>preview.
      case preview of
        None \<Rightarrow> io_throw (not_found_error ''approval_request'' (rai_approval_request_id input))
      | Some request \<Rightarrow>
          io_bind (run_query (find_operation_by_id (ar_operation_id request))) (\<lambda>operation_preview.
          if (case operation_preview of None \<Rightarrow> True
              | Some operation \<Rightarrow> op_organization_id operation \<noteq> ac_organization_id (rc_actor ctx))
          then io_throw (not_found_error ''approval_request'' (rai_approval_request_id input))
          else run_tx (record_decision_tx sha ctx input))))"

end
