(* ===== verification/TwoPerson.thy ===== *)
theory TwoPerson
  imports ApprovalService
begin

text \<open>
  The two-person rule as an invariant of the database: a mint that went past approval has a
  closed request with the same financial intent, approved by two different people who are not
  its requester, and with no rejection.
\<close>

definition gated :: "operation_row \<Rightarrow> bool" where
  "gated r \<longleftrightarrow> op_type r = MINT \<and> op_state r \<notin> {Op_PENDING_APPROVAL, Op_CANCELLED, Op_FAILED}"

definition decisions_on :: "uuid \<Rightarrow> db \<Rightarrow> approval_decision_row list" where
  "decisions_on i d = filter (\<lambda>x. ad_approval_request_id x = i) (approval_decisions d)"

definition approved_by_two :: "db \<Rightarrow> operation_row \<Rightarrow> bool" where
  "approved_by_two d r \<longleftrightarrow> (\<exists>q \<in> set (approval_requests d).
     ar_operation_id q = op_id r \<and> ar_state q = Ar_APPROVED \<and> ar_proposal_hash q = op_proposal_hash r \<and>
     (\<forall>x \<in> set (decisions_on (ar_id q) d). ad_decision x = APPROVE \<and> ad_proposal_hash x = op_proposal_hash r \<and>
        ad_approver_id x \<noteq> op_requested_by r) \<and>
     2 \<le> card (ad_approver_id ` set (decisions_on (ar_id q) d)))"

text \<open>Requests carry the intent and the requester of their operation, decisions those of their request.\<close>

definition request_matches :: "operation_row list \<Rightarrow> approval_request_row \<Rightarrow> bool" where
  "request_matches ops q \<longleftrightarrow> ar_required_approvals q = required_mint_approvals \<and>
     (\<exists>r \<in> set ops. op_id r = ar_operation_id q \<and> op_proposal_hash r = ar_proposal_hash q \<and>
        op_requested_by r = ar_requested_by q)"

definition decision_matches :: "approval_request_row list \<Rightarrow> approval_decision_row \<Rightarrow> bool" where
  "decision_matches qs x \<longleftrightarrow> ad_approver_id x \<noteq> ad_operation_requested_by x \<and>
     (\<exists>q \<in> set qs. ar_id q = ad_approval_request_id x \<and> ar_requested_by q = ad_operation_requested_by x \<and>
        ar_proposal_hash q = ad_proposal_hash x)"

definition two_person_ok :: "db \<Rightarrow> bool" where
  "two_person_ok d \<longleftrightarrow>
     table_ok operation_rules (operations d) \<and> table_ok approval_request_rules (approval_requests d) \<and>
     (\<forall>q \<in> set (approval_requests d). request_matches (operations d) q) \<and>
     (\<forall>x \<in> set (approval_decisions d). decision_matches (approval_requests d) x) \<and>
     (\<forall>r \<in> set (operations d). gated r \<longrightarrow> approved_by_two d r)"

lemma approval_request_ids:
  "table_ok approval_request_rules rows \<Longrightarrow> q \<in> set rows \<Longrightarrow> q' \<in> set rows \<Longrightarrow> ar_id q = ar_id q' \<Longrightarrow> q = q'"
  by (rule table_ok_unique [where n = "''approval_requests_pkey''" and c = "\<lambda>r r'. ar_id r = ar_id r'"])
     (auto simp: approval_request_rules_def)

subsection \<open>Tables the rule does not look at\<close>

lemma two_person_statements:
  "preserves two_person_ok (record_audit_event i)" "preserves two_person_ok (reserve_nonce c s n)"
  by (intro keeps_audit_statement keeps_reserve_statement;
      auto simp: two_person_ok_def approved_by_two_def decisions_on_def table_defs preserves_def fresh_uuid_def)+

interpretation two_person_inv: chain_side_tables two_person_ok
  by unfold_locales
    (fact two_person_statements |
     (auto simp: two_person_ok_def approved_by_two_def decisions_on_def table_defs preserves_def fresh_uuid_def)[1])+

lemma two_person_ok_transition_log:
  "two_person_ok d \<Longrightarrow> two_person_ok (d\<lparr>operation_transitions := ts\<rparr>)"
  by (auto simp: two_person_ok_def approved_by_two_def decisions_on_def)

lemma two_person_record_transition: "preserves two_person_ok (record_operation_transition i s t)"
  by (auto simp: preserves_def record_operation_transition_Inr intro: two_person_ok_transition_log)

subsection \<open>Operations\<close>

text \<open>A step of the machine enters the gated states only from PENDING_APPROVAL to READY.\<close>

lemma gated_step:
  assumes "can_transition_operation s t" "t \<notin> {Op_PENDING_APPROVAL, Op_CANCELLED, Op_FAILED}"
    and "\<not> (s = Op_PENDING_APPROVAL \<and> t = Op_READY)"
  shows "s \<notin> {Op_PENDING_APPROVAL, Op_CANCELLED, Op_FAILED}"
  using assms by (cases s) (auto simp: can_transition_operation_def)

lemma approved_by_two_ops:
  "op_id r' = op_id r \<Longrightarrow> op_proposal_hash r' = op_proposal_hash r \<Longrightarrow> op_requested_by r' = op_requested_by r \<Longrightarrow>
   approval_requests d' = approval_requests d \<Longrightarrow> approval_decisions d' = approval_decisions d \<Longrightarrow>
   approved_by_two d' r' = approved_by_two d r"
  by (simp add: approved_by_two_def decisions_on_def)

lemma two_person_update_operations:
  assumes ok: "two_person_ok d" and tb: "table_ok operation_rules (update_where p f (operations d))"
    and same: "\<And>r. op_id (f r) = op_id r" "\<And>r. op_proposal_hash (f r) = op_proposal_hash r"
      "\<And>r. op_requested_by (f r) = op_requested_by r"
    and gate: "\<And>r. r \<in> set (operations d) \<Longrightarrow> p r \<Longrightarrow> gated (f r) \<Longrightarrow> gated r \<or> approved_by_two d r"
  shows "two_person_ok (d\<lparr>operations := update_where p f (operations d)\<rparr>)"
proof -
  let ?ops = "update_where p f (operations d)" and ?d = "d\<lparr>operations := update_where p f (operations d)\<rparr>"
  have "request_matches ?ops q" if "request_matches (operations d) q" for q
  proof -
    from that obtain r where r: "r \<in> set (operations d)" "op_id r = ar_operation_id q"
        "op_proposal_hash r = ar_proposal_hash q" "op_requested_by r = ar_requested_by q"
        and n: "ar_required_approvals q = required_mint_approvals"
      by (auto simp: request_matches_def)
    let ?r = "if p r then f r else r"
    have "?r \<in> set ?ops" using r(1) by (auto simp: set_update_where)
    moreover have "op_id ?r = op_id r" "op_proposal_hash ?r = op_proposal_hash r" "op_requested_by ?r = op_requested_by r"
      by (simp_all add: same)
    ultimately show ?thesis using r n by (auto simp: request_matches_def intro!: bexI [of _ ?r])
  qed
  moreover have "approved_by_two ?d r'" if r': "r' \<in> set ?ops" "gated r'" for r'
  proof -
    from r' obtain r where r: "r \<in> set (operations d)" "r' = (if p r then f r else r)"
      by (auto simp: set_update_where)
    have "approved_by_two d r" using r r'(2) gate [of r] ok by (auto simp: two_person_ok_def split: if_splits)
    then show ?thesis using r(2) approved_by_two_ops [of r' r ?d d] by (simp add: same split: if_splits)
  qed
  ultimately show ?thesis using ok tb by (auto simp: two_person_ok_def)
qed

lemma two_person_update:
  assumes "\<And>r. op_id (f r) = op_id r" "\<And>r. op_proposal_hash (f r) = op_proposal_hash r"
      "\<And>r. op_requested_by (f r) = op_requested_by r" "\<And>r. op_type (f r) = op_type r" "\<And>r. op_state (f r) = op_state r"
  shows "preserves two_person_ok (update_in operation_table p f)"
proof (rule operation_t.preserves_update)
  fix d
  assume "two_person_ok d" "table_ok (t_rules operation_table) (update_where p f (t_rows operation_table d))"
  then show "two_person_ok (t_put operation_table (update_where p f (t_rows operation_table d)) d)"
    using two_person_update_operations [of d p f] assms by (simp add: operation_table_def gated_def)
qed

lemma two_person_transition_at:
  assumes ok: "two_person_ok d" and tr: "transition_operation operation to_s patch d = Inr (row, d')"
    and gate: "op_state operation = Op_PENDING_APPROVAL \<Longrightarrow> to_s = Op_READY \<Longrightarrow>
      \<forall>r \<in> set (operations d). op_id r = op_id operation \<longrightarrow> op_state r = op_state operation \<longrightarrow> approved_by_two d r"
  shows "two_person_ok d'"
proof -
  define p where "p = (\<lambda>r :: operation_row. op_id r = op_id operation \<and> op_state r = op_state operation)"
  define f where "f = apply_transition to_s (pg_of_date (app_now d)) patch"
  from tr obtain ts where can: "can_transition_operation (op_state operation) to_s"
    and tb: "table_ok operation_rules (update_where p f (operations d))"
    and d': "d' = d\<lparr>operations := update_where p f (operations d), operation_transitions := ts\<rparr>"
    unfolding transition_operation_Inr p_def f_def by auto
  have "two_person_ok (d\<lparr>operations := update_where p f (operations d)\<rparr>)"
  proof (rule two_person_update_operations [OF ok tb])
    fix r assume r: "r \<in> set (operations d)" "p r" "gated (f r)"
    show "gated r \<or> approved_by_two d r"
    proof (cases "op_state operation = Op_PENDING_APPROVAL \<and> to_s = Op_READY")
      case True
      with gate r show ?thesis by (auto simp: p_def)
    next
      case False
      with gated_step [OF can] r show ?thesis by (auto simp: gated_def f_def p_def)
    qed
  qed (simp_all add: f_def apply_transition_def)
  then have "two_person_ok (d\<lparr>operations := update_where p f (operations d)\<rparr>\<lparr>operation_transitions := ts\<rparr>)"
    by (rule two_person_ok_transition_log)
  then show ?thesis by (simp add: d')
qed

lemma two_person_transition:
  "op_state operation \<noteq> Op_PENDING_APPROVAL \<or> to_s \<noteq> Op_READY \<Longrightarrow>
   preserves two_person_ok (transition_operation operation to_s patch)"
  by (rule preservesI) (erule two_person_transition_at, auto)

lemma two_person_claim: "preserves two_person_ok (claim_ready_operation i w)"
  unfolding claim_ready_operation_def lock_operation_def
  by (intro preserves_intros two_person_transition) simp

lemma two_person_release: "preserves two_person_ok (release_claim i)"
  unfolding release_claim_def by (intro preserves_intros two_person_update) simp_all

lemma two_person_insert_operation:
  assumes "no_type v = MINT \<Longrightarrow> no_state v = Op_PENDING_APPROVAL"
  shows "preserves two_person_ok (insert_operation i v)"
proof (rule preservesI)
  fix d row d'
  assume ok: "two_person_ok d" and ins: "insert_operation i v d = Inr (row, d')"
  from ins have row: "row = operation_with_defaults i (db_now d) v"
    and tb: "table_ok operation_rules (operations d @ [row])" and d': "d' = d\<lparr>operations := operations d @ [row]\<rparr>"
    by (auto simp: insert_operation_def tx_simps operation_table_def)
  have "\<not> gated row" using assms by (auto simp: gated_def row operation_with_defaults_def)
  moreover have "approved_by_two d' r = approved_by_two d r" for r by (rule approved_by_two_ops) (simp_all add: d')
  moreover have "request_matches (operations d') q" if "request_matches (operations d) q" for q
    using that by (auto simp: request_matches_def d')
  ultimately show "two_person_ok d'" using ok tb by (auto simp: two_person_ok_def d')
qed

lemma two_person_administrative:
  "ai_type input \<noteq> MINT \<Longrightarrow> preserves two_person_ok (insert_administrative_operation input)"
  unfolding insert_administrative_operation_def
  by (intro preserves_intros two_person_inv.uuid two_person_insert_operation two_person_record_transition) simp

lemmas two_person_intros = two_person_inv.chain_side_intros two_person_record_transition two_person_claim
  two_person_release

subsection \<open>Requests and decisions\<close>

lemma approved_by_two_mono:
  assumes "approved_by_two d r" and sub: "set (approval_requests d) \<subseteq> set (approval_requests d')"
    and same: "\<And>q. q \<in> set (approval_requests d) \<Longrightarrow> ar_state q = Ar_APPROVED \<Longrightarrow>
      decisions_on (ar_id q) d' = decisions_on (ar_id q) d"
  shows "approved_by_two d' r"
  using assms unfolding approved_by_two_def by (metis subsetD)

lemma two_person_insert_request:
  assumes ok: "two_person_ok d" and ins: "insert_approval_request input d = Inr (q, d')"
    and r: "r \<in> set (operations d)" "op_id r = nar_operation_id input" "op_proposal_hash r = nar_proposal_hash input"
      "op_requested_by r = nar_requested_by input" "nar_required_approvals input = required_mint_approvals"
  shows "two_person_ok d'"
proof -
  from ins obtain n where tb: "table_ok approval_request_rules (approval_requests d @ [q])"
    and d': "d' = d\<lparr>uuid_next := n, approval_requests := approval_requests d @ [q]\<rparr>"
    and q: "ar_operation_id q = nar_operation_id input" "ar_proposal_hash q = nar_proposal_hash input"
      "ar_requested_by q = nar_requested_by input" "ar_required_approvals q = nar_required_approvals input"
    by (auto simp: insert_approval_request_def tx_simps fresh_uuid_def approval_request_table_def)
  have "approved_by_two d' s" if "approved_by_two d s" for s
    by (rule approved_by_two_mono [OF that]) (auto simp: d' decisions_on_def)
  moreover have "request_matches (operations d) q" using r q by (auto simp: request_matches_def)
  moreover have "decision_matches (approval_requests d') x" if "decision_matches (approval_requests d) x" for x
    using that by (auto simp: decision_matches_def d')
  ultimately show ?thesis using ok tb by (auto simp: two_person_ok_def d')
qed

lemma insert_approval_decision_Inr:
  assumes "insert_approval_decision input d = Inr (x, d')"
  shows "\<exists>n. d' = d\<lparr>uuid_next := n, approval_decisions := approval_decisions d @ [x]\<rparr> \<and>
     table_ok approval_decision_rules (approval_decisions d @ [x]) \<and>
     ad_approval_request_id x = nad_approval_request_id input \<and> ad_approver_id x = nad_approver_id input \<and>
     ad_decision x = nad_decision input \<and> ad_proposal_hash x = nad_proposal_hash input \<and>
     ad_operation_requested_by x = nad_operation_requested_by input"
  using assms by (auto simp: insert_approval_decision_def tx_simps fresh_uuid_def approval_decision_table_def)

lemma two_person_insert_decision:
  assumes ok: "two_person_ok d" and ins: "insert_approval_decision input d = Inr (x, d')"
    and q: "q \<in> set (approval_requests d)" "ar_state q = Ar_PENDING" "ar_id q = nad_approval_request_id input"
      "ar_requested_by q = nad_operation_requested_by input" "ar_proposal_hash q = nad_proposal_hash input"
  shows "two_person_ok d'"
proof -
  from insert_approval_decision_Inr [OF ins] obtain n where
      d': "d' = d\<lparr>uuid_next := n, approval_decisions := approval_decisions d @ [x]\<rparr>"
    and tb: "table_ok approval_decision_rules (approval_decisions d @ [x])"
    and x: "ad_approval_request_id x = nad_approval_request_id input" "ad_approver_id x = nad_approver_id input"
     "ad_decision x = nad_decision input" "ad_proposal_hash x = nad_proposal_hash input"
     "ad_operation_requested_by x = nad_operation_requested_by input" by auto
  have "approved_by_two d' r" if "approved_by_two d r" for r
  proof (rule approved_by_two_mono [OF that])
    fix q' assume q': "q' \<in> set (approval_requests d)" "ar_state q' = Ar_APPROVED"
    have "ar_id q' \<noteq> ar_id q"
      using approval_request_ids [of "approval_requests d" q' q] ok q q' by (auto simp: two_person_ok_def)
    then show "decisions_on (ar_id q') d' = decisions_on (ar_id q') d"
      using x q by (simp add: decisions_on_def d')
  qed (simp add: d')
  moreover have "ad_approver_id x \<noteq> ad_operation_requested_by x"
    using table_ok_check [OF tb, of "''approval_decisions_no_self_approval''"] by (simp add: approval_decision_rules_def)
  then have "decision_matches (approval_requests d) x" using q x by (auto simp: decision_matches_def)
  ultimately show ?thesis using ok by (auto simp: two_person_ok_def d')
qed

lemma close_approval_request_Inr:
  "close_approval_request i s d = Inr (u, d') \<longleftrightarrow>
     (let f = (\<lambda>r. r\<lparr>ar_state := s, ar_updated_at := pg_of_date (app_now d), ar_closed_at := Some (pg_of_date (app_now d))\<rparr>);
          rows = update_where (\<lambda>r. ar_id r = i) f (approval_requests d)
      in table_ok approval_request_rules rows \<and> d' = d\<lparr>approval_requests := rows\<rparr>)"
  by (auto simp: close_approval_request_def tx_simps approval_request_table_def Let_def)

lemma two_person_close_request:
  assumes ok: "two_person_ok d" and close: "close_approval_request i s d = Inr (u, d')"
    and s: "s = Ar_APPROVED \<or> (\<forall>q \<in> set (approval_requests d). ar_id q = i \<longrightarrow> ar_state q \<noteq> Ar_APPROVED)"
  shows "two_person_ok d'"
proof -
  define f where "f = (\<lambda>r :: approval_request_row.
    r\<lparr>ar_state := s, ar_updated_at := pg_of_date (app_now d), ar_closed_at := Some (pg_of_date (app_now d))\<rparr>)"
  define rows where "rows = update_where (\<lambda>r. ar_id r = i) f (approval_requests d)"
  from close have tb: "table_ok approval_request_rules rows" and d': "d' = d\<lparr>approval_requests := rows\<rparr>"
    by (simp_all add: close_approval_request_Inr Let_def rows_def f_def)
  have f: "ar_id (f q) = ar_id q" "ar_operation_id (f q) = ar_operation_id q" "ar_proposal_hash (f q) = ar_proposal_hash q"
    "ar_requested_by (f q) = ar_requested_by q" "ar_required_approvals (f q) = ar_required_approvals q" "ar_state (f q) = s" for q
    by (simp_all add: f_def)
  have mem: "(if ar_id q = i then f q else q) \<in> set rows" if "q \<in> set (approval_requests d)" for q
    using that by (auto simp: rows_def set_update_where)
  have "approved_by_two d' r" if ap: "approved_by_two d r" for r
  proof -
    from ap obtain q where q: "q \<in> set (approval_requests d)" "ar_operation_id q = op_id r" "ar_state q = Ar_APPROVED"
        "ar_proposal_hash q = op_proposal_hash r"
      and ds: "\<forall>x \<in> set (decisions_on (ar_id q) d). ad_decision x = APPROVE \<and> ad_proposal_hash x = op_proposal_hash r \<and>
          ad_approver_id x \<noteq> op_requested_by r" "2 \<le> card (ad_approver_id ` set (decisions_on (ar_id q) d))"
      by (auto simp: approved_by_two_def)
    let ?q = "if ar_id q = i then f q else q"
    have "ar_state ?q = Ar_APPROVED" using q s f by auto
    then show ?thesis
      using mem [OF q(1)] q ds f by (auto simp: approved_by_two_def decisions_on_def d' intro!: bexI [of _ ?q])
  qed
  moreover have "request_matches (operations d) q'" if "q' \<in> set rows" for q'
    using that ok f by (auto simp: rows_def set_update_where two_person_ok_def request_matches_def)
  moreover have "decision_matches rows x" if "decision_matches (approval_requests d) x" for x
  proof -
    from that obtain q where "q \<in> set (approval_requests d)" "ar_id q = ad_approval_request_id x"
        "ar_requested_by q = ad_operation_requested_by x" "ar_proposal_hash q = ad_proposal_hash x"
      and "ad_approver_id x \<noteq> ad_operation_requested_by x" by (auto simp: decision_matches_def)
    then show ?thesis
      using mem [of q] f by (auto simp: decision_matches_def intro!: bexI [of _ "if ar_id q = i then f q else q"])
  qed
  ultimately show ?thesis using ok tb by (auto simp: two_person_ok_def d')
qed

subsection \<open>The decision transaction\<close>

text \<open>What an APPROVED tally says of the decisions of a request.\<close>

lemma tally_approved:
  assumes ok: "two_person_ok d" and q: "q \<in> set (approval_requests d)" "ar_operation_id q = op_id r"
    and r: "r \<in> set (operations d)" and t: "tally q (list_decisions (ar_id q) d) = Outcome_APPROVED"
  shows "\<forall>x \<in> set (decisions_on (ar_id q) d). ad_decision x = APPROVE \<and> ad_proposal_hash x = op_proposal_hash r \<and>
      ad_approver_id x \<noteq> op_requested_by r"
    and "2 \<le> card (ad_approver_id ` set (decisions_on (ar_id q) d))"
    and "ar_proposal_hash q = op_proposal_hash r"
proof -
  have ds: "set (list_decisions (ar_id q) d) = set (decisions_on (ar_id q) d)"
    by (simp add: list_decisions_def decisions_on_def)
  from outcome_approved_card [OF t [unfolded tally_def]]
  have no_reject: "\<forall>x \<in> set (decisions_on (ar_id q) d). ad_decision x \<noteq> REJECT"
    and card: "ar_required_approvals q \<le> card (set (approvers (list_decisions (ar_id q) d)))"
    by (auto simp: list_ex_iff ds)
  then have all_approve: "\<forall>x \<in> set (decisions_on (ar_id q) d). ad_decision x = APPROVE"
    by (metis approval_decision_kind.exhaust)
  have req: "request_matches (operations d) q" using ok q by (simp add: two_person_ok_def)
  then obtain r' where r': "r' \<in> set (operations d)" "op_id r' = ar_operation_id q" "op_proposal_hash r' = ar_proposal_hash q"
      "op_requested_by r' = ar_requested_by q" and two: "ar_required_approvals q = 2"
    by (auto simp: request_matches_def required_mint_approvals_def)
  have "r' = r" using operation_rules_ids [of "operations d" r' r] ok r r' q by (simp add: two_person_ok_def)
  show "ar_proposal_hash q = op_proposal_hash r" using r' \<open>r' = r\<close> by simp
  show "\<forall>x \<in> set (decisions_on (ar_id q) d). ad_decision x = APPROVE \<and> ad_proposal_hash x = op_proposal_hash r \<and>
      ad_approver_id x \<noteq> op_requested_by r"
  proof (intro ballI conjI)
    fix x assume x: "x \<in> set (decisions_on (ar_id q) d)"
    then show "ad_decision x = APPROVE" using all_approve by blast
    from x have "decision_matches (approval_requests d) x" "ad_approval_request_id x = ar_id q"
      using ok by (auto simp: two_person_ok_def decisions_on_def)
    then obtain q' where "q' \<in> set (approval_requests d)" "ar_id q' = ar_id q" "ar_requested_by q' = ad_operation_requested_by x"
        "ar_proposal_hash q' = ad_proposal_hash x" and ne: "ad_approver_id x \<noteq> ad_operation_requested_by x"
      by (auto simp: decision_matches_def)
    moreover have "q' = q" using approval_request_ids [of "approval_requests d" q' q] ok q calculation by (simp add: two_person_ok_def)
    ultimately show "ad_proposal_hash x = op_proposal_hash r" "ad_approver_id x \<noteq> op_requested_by r"
      using r' \<open>r' = r\<close> by auto
  qed
  have "set (approvers (list_decisions (ar_id q) d)) = ad_approver_id ` set (decisions_on (ar_id q) d)"
    using all_approve by (auto simp: approvers_def ds)
  then show "2 \<le> card (ad_approver_id ` set (decisions_on (ar_id q) d))" using card two by simp
qed

lemma closed_request_approves:
  assumes ok: "two_person_ok d" and q: "q \<in> set (approval_requests d)" "ar_operation_id q = op_id r"
    and r: "r \<in> set (operations d)" and t: "tally q (list_decisions (ar_id q) d) = Outcome_APPROVED"
    and close: "close_approval_request (ar_id q) Ar_APPROVED d = Inr (u, d')"
  shows "approved_by_two d' r"
proof -
  note tally = tally_approved [OF ok q r t]
  let ?f = "\<lambda>r :: approval_request_row. r\<lparr>ar_state := Ar_APPROVED, ar_updated_at := pg_of_date (app_now d),
    ar_closed_at := Some (pg_of_date (app_now d))\<rparr>"
  have d': "d' = d\<lparr>approval_requests := update_where (\<lambda>r. ar_id r = ar_id q) ?f (approval_requests d)\<rparr>"
    using close by (simp add: close_approval_request_Inr Let_def)
  have "?f q \<in> set (approval_requests d')" using q(1) by (auto simp: d' set_update_where)
  moreover have "decisions_on i d' = decisions_on i d" for i by (simp add: decisions_on_def d')
  ultimately show ?thesis
    using tally q unfolding approved_by_two_def by (intro bexI [of _ "?f q"]) simp_all
qed

lemma apply_outcome_two_person:
  assumes ok: "two_person_ok d" and q: "q \<in> set (approval_requests d)" "ar_operation_id q = op_id r" "ar_state q = Ar_PENDING"
    and r: "r \<in> set (operations d)"
    and run: "apply_outcome ctx q r (tally q (list_decisions (ar_id q) d)) d = Inr (x, d')"
  shows "two_person_ok d'"
proof (cases "tally q (list_decisions (ar_id q) d)")
  case (Outcome_PENDING n)
  with run ok show ?thesis by (simp add: apply_outcome_def tx_simps)
next
  case Outcome_APPROVED
  from run obtain d1 d2 d3 row row3 a where
      close: "close_approval_request (ar_id q) Ar_APPROVED d = Inr ((), d1)"
    and tr: "transition_operation r Op_READY no_patch d1 = Inr (row, d2)"
    and out: "enqueue_outbox (operation_ready_message (op_id r) (op_correlation_id r)) d2 = Inr (row3, d3)"
    and audit: "record_audit_event (approval_event ctx ''operation.approved'' ''operation'' (op_id r) (op_id r)
          [(''approvals'', JNum (int (ar_required_approvals q)))]) d3 = Inr (a, d')"
    unfolding apply_outcome_def Outcome_APPROVED by (auto simp: tx_simps)
  have ok1: "two_person_ok d1" by (rule two_person_close_request [OF ok close]) simp
  have ops: "operations d1 = operations d" using close by (auto simp: close_approval_request_Inr Let_def)
  have "r' = r" if "r' \<in> set (operations d1)" "op_id r' = op_id r" for r'
    using operation_rules_ids [of "operations d" r' r] ok that r ops by (simp add: two_person_ok_def)
  then have "two_person_ok d2"
    using closed_request_approves [OF ok q(1,2) r Outcome_APPROVED close] by (intro two_person_transition_at [OF ok1 tr]) auto
  then have "two_person_ok d3" by (rule preservesD [OF two_person_inv.keeps_enqueue_outbox out])
  then show ?thesis by (rule preservesD [OF two_person_inv.keeps_record_audit_event audit])
next
  case Outcome_REJECTED
  from run obtain d1 d2 row a where
      close: "close_approval_request (ar_id q) Ar_REJECTED d = Inr ((), d1)"
    and tr: "transition_operation r Op_CANCELLED (no_patch\<lparr>tp_failure_code := Some (Some ''APPROVAL_REJECTED''),
                    tp_failure_reason := Some (Some ''an approver rejected'')\<rparr>) d1 = Inr (row, d2)"
    and audit: "record_audit_event (approval_event ctx ''operation.cancelled'' ''operation'' (op_id r) (op_id r)
          [(''reason'', JStr ''APPROVAL_REJECTED'')]) d2 = Inr (a, d')"
    unfolding apply_outcome_def Outcome_REJECTED by (auto simp: tx_simps)
  have "ar_state q' \<noteq> Ar_APPROVED" if "q' \<in> set (approval_requests d)" "ar_id q' = ar_id q" for q'
    using approval_request_ids [of "approval_requests d" q' q] ok q that by (auto simp: two_person_ok_def)
  then have "two_person_ok d1" by (intro two_person_close_request [OF ok close]) blast
  then have "two_person_ok d2" by (rule preservesD [OF two_person_transition tr, rotated]) simp
  then show ?thesis by (rule preservesD [OF two_person_inv.keeps_record_audit_event audit])
qed

lemma insert_decision_or_explain_Inr:
  assumes "insert_decision_or_explain ctx input q d = Inr (x, d')"
  shows "insert_approval_decision
       \<lparr>nad_approval_request_id = ar_id q, nad_approver_id = ac_id (rc_actor ctx),
        nad_operation_requested_by = ar_requested_by q, nad_decision = rai_decision input,
        nad_proposal_hash = ar_proposal_hash q, nad_comment = rai_comment input\<rparr> d = Inr (x, d')"
  using assms by (auto simp: insert_decision_or_explain_def tx_simps split: if_splits)

text \<open>An audit event changes no table but its own.\<close>

lemma record_audit_event_tables:
  assumes "record_audit_event input d = Inr (x, d')"
  shows "approval_requests d' = approval_requests d" "operations d' = operations d"
    "approval_decisions d' = approval_decisions d"
  using assms by (auto simp: record_audit_event_def tx_simps fresh_uuid_def audit_table_def)

lemma record_and_tally_two_person:
  assumes ok: "two_person_ok d" and q: "q \<in> set (approval_requests d)" "ar_operation_id q = op_id r" "ar_state q = Ar_PENDING"
    and r: "r \<in> set (operations d)" and run: "record_and_tally ctx input q r d = Inr (x, d')"
  shows "two_person_ok d'"
proof -
  from run obtain y d1 a d2 z where
      ins: "insert_decision_or_explain ctx input q d = Inr (y, d1)"
    and audit: "\<exists>e. record_audit_event e d1 = Inr (a, d2)"
    and out: "apply_outcome ctx q r (tally q (list_decisions (ar_id q) d1)) d2 = Inr (z, d')"
    unfolding record_and_tally_def by (auto simp: tx_simps split: prod.splits) blast
  note ins = insert_decision_or_explain_Inr [OF ins]
  have ok1: "two_person_ok d1" by (rule two_person_insert_decision [OF ok ins q(1)]) (simp_all add: q)
  have tables1: "approval_requests d1 = approval_requests d" "operations d1 = operations d"
    using insert_approval_decision_Inr [OF ins] by auto
  from audit obtain e where e: "record_audit_event e d1 = Inr (a, d2)" by blast
  have ok2: "two_person_ok d2" by (rule preservesD [OF two_person_inv.keeps_record_audit_event e ok1])
  note tables2 = record_audit_event_tables [OF e]
  have "list_decisions (ar_id q) d1 = list_decisions (ar_id q) d2" by (simp add: list_decisions_def tables2)
  then show ?thesis using apply_outcome_two_person [OF ok2 _ q(2,3) _ out [unfolded \<open>list_decisions (ar_id q) d1 = _\<close>]] q r
    by (simp add: tables1 tables2)
qed

lemma record_decision_two_person: "preserves two_person_ok (record_decision_tx sha ctx input)"
proof (rule preservesI)
  fix d x d'
  assume ok: "two_person_ok d" and run: "record_decision_tx sha ctx input d = Inr (x, d')"
  from run obtain q r where q: "find_approval_request_by_id (rai_approval_request_id input) d = Some q" "ar_state q = Ar_PENDING"
      and r: "find_operation_by_id (ar_operation_id q) d = Some r"
      and run: "record_and_tally ctx input q r d = Inr (x, d')"
    unfolding record_decision_tx_def supersede_changed_request_def
    by (auto simp: tx_simps lock_approval_request_def lock_operation_def Let_def split: option.splits if_splits)
  from q have "q \<in> set (approval_requests d)" unfolding find_approval_request_by_id_def by (auto dest: select_first_Some)
  moreover have "r \<in> set (operations d)" "op_id r = ar_operation_id q" using find_operation_by_id_Some [OF r] by simp_all
  ultimately show "two_person_ok d'" using record_and_tally_two_person [OF ok _ _ q(2) _ run] by simp
qed

lemma mint_work_two_person: "preserves two_person_ok (mint_work sha ctx asset wallet decision amount)"
proof (rule preservesI)
  fix d res d'
  assume ok: "two_person_ok d" and run: "mint_work sha ctx asset wallet decision amount d = Inr (res, d')"
  from run obtain i d0 row d1 d2 q d3 a where
      i: "fresh_uuid d = Inr (i, d0)"
    and ins: "insert_operation i (new_mint_operation sha ctx asset wallet amount i) d0 = Inr (row, d1)"
    and tr: "record_operation_transition (op_id row) None Op_PENDING_APPROVAL d1 = Inr ((), d2)"
    and req: "insert_approval_request
            \<lparr>nar_operation_id = op_id row, nar_required_approvals = required_mint_approvals,
             nar_proposal_snapshot = snapshot_json (mint_snapshot asset wallet amount (derive_operation_reference sha i)),
             nar_proposal_hash = no_proposal_hash (new_mint_operation sha ctx asset wallet amount i),
             nar_requested_by = ac_id (rc_actor ctx)\<rparr> d2 = Inr (q, d3)"
    and audit: "record_audit_event (mint_requested_event ctx row q decision asset wallet amount) d3 = Inr (a, d')"
    unfolding mint_work_def by (auto simp: tx_simps Let_def)
  have ok1: "two_person_ok d1"
    using preservesD [OF two_person_insert_operation ins] preservesD [OF two_person_inv.uuid i ok]
    by (simp add: new_mint_operation_def Let_def)
  then have ok2: "two_person_ok d2" by (rule preservesD [OF two_person_record_transition tr])
  have row: "row \<in> set (operations d2)" "op_proposal_hash row = no_proposal_hash (new_mint_operation sha ctx asset wallet amount i)"
      "op_requested_by row = ac_id (rc_actor ctx)"
    using ins tr by (auto simp: insert_operation_def tx_simps record_operation_transition_Inr operation_table_def
      operation_with_defaults_def new_mint_operation_def Let_def)
  have "two_person_ok d3" by (rule two_person_insert_request [OF ok2 req row(1)]) (simp_all add: row)
  then show "two_person_ok d'" by (rule preservesD [OF two_person_inv.keeps_record_audit_event audit])
qed

end
