(* ===== verification/Ports.thy ===== *)
theory Ports
  imports RegistryServices
begin

text \<open>
  The interfaces to the chain and to the signer, \<open>src/ports/evm-gateway.ts\<close> and
  \<open>src/ports/signer-provider.ts\<close>, as records of functions on the abstract world; the two
  development signers of \<open>src/adapters/signer\<close>; and the verification of signed bytes of
  \<open>src/adapters/evm/signed-transaction-verifier.ts\<close> over the transaction codec of viem.
\<close>

subsection \<open>The chain\<close>

type_synonym ('w, 'a) call = "'w \<Rightarrow> (exn + 'a) \<times> 'w"

record encoded_call =
  ec_to :: "string option"
  ec_data :: string

datatype simulation_result = Sim_ok int | Sim_failed string

datatype receipt_outcome = Rc_success | Rc_reverted

record log_view =
  lv_address :: string
  lv_topics :: "string list"
  lv_data :: string
  lv_log_index :: nat

record receipt_view =
  rv_transaction_hash :: string
  rv_status :: receipt_outcome
  rv_block_number :: int
  rv_block_hash :: string
  rv_gas_used :: int
  rv_contract_address :: "string option"
  rv_logs :: "log_view list"

record mint_event =
  me_operation_reference :: string
  me_recipient :: string
  me_amount :: int
  me_new_total_supply :: int

record token_state =
  tk_paused :: bool
  tk_total_supply :: int
  tk_supply_cap :: int
  tk_decimals :: int
  tk_symbol :: string

record chain_identity =
  ci_chain_id :: int
  ci_latest_block_number :: int

record token_deployment =
  td_name :: string
  td_symbol :: string
  td_decimals :: int
  td_supply_cap :: int
  td_admin :: string
  td_minter :: string
  td_compliance_officer :: string
  td_pauser :: string

record mint_call =
  mc_recipient :: string
  mc_amount :: int
  mc_operation_reference :: string
  mc_deadline :: int

record set_eligibility_call =
  se_account :: string
  se_eligible_until :: int

record simulate_input =
  si_from :: string
  si_to :: "string option"
  si_data :: string
  si_value :: int

record 'w gateway =
  gw_get_chain_identity :: "('w, chain_identity) call"
  gw_assert_contract_deployed :: "string \<Rightarrow> ('w, unit) call"
  gw_get_fee_estimate :: "('w, fee_estimate) call"
  gw_get_transaction_count :: "string \<Rightarrow> ('w, int) call"
  gw_encode_token_deployment :: "token_deployment \<Rightarrow> encoded_call"
  gw_encode_mint_call :: "string \<Rightarrow> mint_call \<Rightarrow> encoded_call"
  gw_encode_set_eligibility_call :: "string \<Rightarrow> set_eligibility_call \<Rightarrow> encoded_call"
  gw_simulate :: "simulate_input \<Rightarrow> ('w, simulation_result) call"
  gw_broadcast_raw_transaction :: "string \<Rightarrow> ('w, string) call"
  gw_get_transaction_receipt :: "string \<Rightarrow> ('w, receipt_view option) call"
  gw_get_latest_block_number :: "('w, int) call"
  gw_get_block_hash_at :: "int \<Rightarrow> ('w, string option) call"
  gw_get_finalized_block_number :: "('w, int option) call"
  gw_decode_mint_executed_events :: "string \<Rightarrow> log_view list \<Rightarrow> mint_event list"
  gw_read_token_state :: "string \<Rightarrow> ('w, token_state) call"
  gw_read_balance_of :: "string \<Rightarrow> string \<Rightarrow> ('w, int) call"
  gw_read_reference_consumed :: "string \<Rightarrow> string \<Rightarrow> ('w, bool) call"
  gw_read_eligible_until :: "string \<Rightarrow> string \<Rightarrow> ('w, int) call"

subsection \<open>The signer\<close>

record unsigned_request =
  utr_attempt_id :: uuid
  utr_chain_id :: int
  utr_from :: string
  utr_to :: "string option"
  utr_nonce :: int
  utr_value :: int
  utr_data :: string
  utr_gas_limit :: int
  utr_max_fee_per_gas :: int
  utr_max_priority_fee_per_gas :: int

record signing_context =
  sc_purpose :: attempt_purpose
  sc_operation_id :: "uuid option"
  sc_asset_id :: "uuid option"
  sc_correlation_id :: string
  sc_evidence :: json

datatype signer_state =
    Signature_pending (provider_request_id: string)
  | Signature_signed (provider_request_id: string) (signed_by: string) (signed_bytes: string) (signed_hash: string)
  | Signature_rejected (provider_request_id: string) (rejection_reason: string) (rejection_code: string)

fun is_pending :: "signer_state \<Rightarrow> bool" where
  "is_pending (Signature_pending i) = True"
| "is_pending (Signature_signed i a t h) = False"
| "is_pending (Signature_rejected i r c) = False"

fun signer_request_status_of :: "signer_state \<Rightarrow> signer_request_status" where
  "signer_request_status_of (Signature_pending i) = Sr_PENDING"
| "signer_request_status_of (Signature_signed i a t h) = Sr_SIGNED"
| "signer_request_status_of (Signature_rejected i r c) = Sr_REJECTED"

record 'w signer_provider =
  sg_name :: string
  sg_get_signer_address :: "('w, string) call"
  sg_request_signature :: "unsigned_request \<Rightarrow> signing_context \<Rightarrow> ('w, signer_state) call"
  sg_fetch_signature :: "string \<Rightarrow> ('w, signer_state) call"

text \<open>
  The contract in the comments of \<open>SignerProvider\<close>: the request is idempotent on the attempt id,
  and a decided request is found again by its provider request id. \<open>available\<close> says when the
  provider answers.
\<close>

locale signer_contract =
  fixes rid :: "uuid \<Rightarrow> string"
    and request :: "unsigned_request \<Rightarrow> signing_context \<Rightarrow> ('w, signer_state) call"
    and fetch :: "string \<Rightarrow> ('w, signer_state) call"
    and available :: "'w \<Rightarrow> bool"
  assumes rid_inj: "rid a = rid b \<Longrightarrow> a = b"
    and request_rid: "available w \<Longrightarrow> request r c w = (Inr st, w') \<Longrightarrow> provider_request_id st = rid (utr_attempt_id r)"
    and request_available: "available w \<Longrightarrow> request r c w = (Inr st, w') \<Longrightarrow> available w'"
    and fetch_decided: "available w \<Longrightarrow> request r c w = (Inr st, w') \<Longrightarrow> \<not> is_pending st \<Longrightarrow>
      fetch (rid (utr_attempt_id r)) w' = (Inr st, w')"
    and request_again: "available w \<Longrightarrow> request r c w = (Inr st, w') \<Longrightarrow> \<not> is_pending st \<Longrightarrow> request r c w' = (Inr st, w')"
begin

text \<open>Two requests with one provider request id are the same attempt: no second signing intent.\<close>

lemma one_intent_per_attempt:
  "available w \<Longrightarrow> request r c w = (Inr st, w') \<Longrightarrow> available v \<Longrightarrow> request r' c' v = (Inr st', v') \<Longrightarrow>
   provider_request_id st = provider_request_id st' \<Longrightarrow> utr_attempt_id r = utr_attempt_id r'"
  using request_rid rid_inj by metis

text \<open>After a lost answer, retrying the request and then fetching it give the same decision.\<close>

lemma retry_then_fetch:
  assumes "available w" "request r c w = (Inr st, w1)" "\<not> is_pending st" "request r c w1 = (x, w2)"
  shows "x = Inr st \<and> fetch (provider_request_id st) w2 = (Inr st, w2)"
proof -
  have "request r c w1 = (Inr st, w1)" using assms(1,2,3) by (rule request_again)
  with assms fetch_decided [OF assms(1,2,3)] request_rid [OF assms(1,2)] show ?thesis by simp
qed

end

subsection \<open>The local development signer\<close>

record local_signer =
  ls_address :: string
  ls_chain_id :: int
  ls_allowed_selectors :: "string list"
  ls_sign :: "unsigned_request \<Rightarrow> string"
  ls_keccak256 :: "string \<Rightarrow> string"

definition evaluate_policy :: "local_signer \<Rightarrow> unsigned_request \<Rightarrow> signing_context \<Rightarrow> (string \<times> string) option" where
  "evaluate_policy ls r c =
     (if utr_chain_id r \<noteq> ls_chain_id ls
      then Some (''CHAIN_ID_NOT_PERMITTED'', ''signer is bound to chain '' @ show_int (ls_chain_id ls))
      else if to_lower (utr_from r) \<noteq> to_lower (ls_address ls)
      then Some (''SIGNER_ADDRESS_MISMATCH'', ''requested signer address is not held by this provider'')
      else if utr_value r \<noteq> 0
      then Some (''VALUE_TRANSFER_NOT_PERMITTED'', ''this signer never authorises native value transfers'')
      else case utr_to r of
        None \<Rightarrow>
          if sc_purpose c = P_DEPLOY_TOKEN then None
          else Some (''CONTRACT_CREATION_NOT_PERMITTED'', ''contract creation is only permitted for token deployment'')
      | Some target \<Rightarrow>
          if sc_purpose c = P_NONCE_RECOVERY
          then (if utr_data r = ''0x'' \<and> to_lower target = to_lower (ls_address ls) then None
            else Some (''NONCE_RECOVERY_SHAPE_NOT_PERMITTED'', ''nonce recovery must be an empty self-transfer''))
          else if take 10 (utr_data r) \<notin> set (ls_allowed_selectors ls)
          then Some (''FUNCTION_NOT_PERMITTED'', ''calldata does not select an allowlisted token function'')
          else None)"

type_synonym decided = "string \<rightharpoonup> signer_state"

definition local_request_id :: "uuid \<Rightarrow> string" where
  "local_request_id attempt_id = ''local-'' @ attempt_id"

definition local_request_signature ::
  "local_signer \<Rightarrow> unsigned_request \<Rightarrow> signing_context \<Rightarrow> (decided, signer_state) call" where
  "local_request_signature ls r c = (\<lambda>decided.
     let i = local_request_id (utr_attempt_id r);
         st = (case evaluate_policy ls r c of
             Some (code, reason) \<Rightarrow> Signature_rejected i reason code
           | None \<Rightarrow> (let signed = ls_sign ls r
               in Signature_signed i (ls_address ls) signed (ls_keccak256 ls signed)))
     in (Inr st, decided(i \<mapsto> st)))"

definition local_fetch_signature :: "string \<Rightarrow> (decided, signer_state) call" where
  "local_fetch_signature i = (\<lambda>decided. (case decided i of
     None \<Rightarrow> Inl (JsError (''unknown signer request '' @ i))
   | Some st \<Rightarrow> Inr st, decided))"

definition local_signer_provider :: "local_signer \<Rightarrow> decided signer_provider" where
  "local_signer_provider ls = \<lparr>sg_name = ''local-dev'', sg_get_signer_address = (\<lambda>w. (Inr (ls_address ls), w)),
     sg_request_signature = local_request_signature ls, sg_fetch_signature = local_fetch_signature\<rparr>"

interpretation local_signer: signer_contract local_request_id "local_request_signature ls" local_fetch_signature "\<lambda>_. True"
  for ls
proof
  show "local_request_id a = local_request_id b \<Longrightarrow> a = b" for a b by (simp add: local_request_id_def)
qed (auto simp: local_request_signature_def local_fetch_signature_def Let_def split: option.splits)

subsection \<open>The deferred development signer\<close>

record deferred_request =
  dr_request :: unsigned_request
  dr_context :: signing_context
  dr_polls_before_signing :: nat
  dr_rejection :: "(string \<times> string) option"
  dr_settled :: "signer_state option"

record 'v deferred_state =
  ds_inner :: 'v
  ds_requests :: "string \<rightharpoonup> deferred_request"
  ds_polls_before_signing :: nat
  ds_fetch_failures :: nat

definition deferred_request_id :: "uuid \<Rightarrow> string" where
  "deferred_request_id attempt_id = ''deferred-'' @ attempt_id"

fun with_request_id :: "string \<Rightarrow> signer_state \<Rightarrow> signer_state" where
  "with_request_id i (Signature_pending _) = Signature_pending i"
| "with_request_id i (Signature_signed _ a t h) = Signature_signed i a t h"
| "with_request_id i (Signature_rejected _ r c) = Signature_rejected i r c"

definition settle :: "string \<Rightarrow> deferred_request \<Rightarrow> signer_state option \<Rightarrow> 'v deferred_state \<Rightarrow> 'v deferred_state" where
  "settle i p st w = w\<lparr>ds_requests := (ds_requests w)(i \<mapsto> p\<lparr>dr_settled := st\<rparr>)\<rparr>"

definition deferred_advance :: "'v signer_provider \<Rightarrow> string \<Rightarrow> ('v deferred_state, signer_state) call" where
  "deferred_advance inner i = (\<lambda>w. case ds_requests w i of
     None \<Rightarrow> (Inl (JsError (''unknown signer request '' @ i)), w)
   | Some p \<Rightarrow> (case dr_settled p of
       Some st \<Rightarrow> (Inr st, w)
     | None \<Rightarrow> (case dr_rejection p of
         Some (code, reason) \<Rightarrow>
           (let st = Signature_rejected i reason code in (Inr st, settle i p (Some st) w))
       | None \<Rightarrow>
           if dr_polls_before_signing p > 0
           then (Inr (Signature_pending i),
             w\<lparr>ds_requests := (ds_requests w)(i \<mapsto> p\<lparr>dr_polls_before_signing := dr_polls_before_signing p - 1\<rparr>)\<rparr>)
           else (case sg_request_signature inner (dr_request p) (dr_context p) (ds_inner w) of
               (Inl e, v) \<Rightarrow> (Inl e, w\<lparr>ds_inner := v\<rparr>)
             | (Inr signed, v) \<Rightarrow>
                 if is_pending signed then (Inr (Signature_pending i), settle i p None (w\<lparr>ds_inner := v\<rparr>))
                 else (let st = with_request_id i signed in (Inr st, settle i p (Some st) (w\<lparr>ds_inner := v\<rparr>)))))))"

definition deferred_request_signature ::
  "'v signer_provider \<Rightarrow> unsigned_request \<Rightarrow> signing_context \<Rightarrow> ('v deferred_state, signer_state) call" where
  "deferred_request_signature inner r c = (\<lambda>w.
     let i = deferred_request_id (utr_attempt_id r)
     in case ds_requests w i of
       Some existing \<Rightarrow>
         (Inr (case dr_settled existing of Some st \<Rightarrow> st | None \<Rightarrow> Signature_pending i), w)
     | None \<Rightarrow> deferred_advance inner i
         (w\<lparr>ds_requests := (ds_requests w)(i \<mapsto> \<lparr>dr_request = r, dr_context = c,
            dr_polls_before_signing = ds_polls_before_signing w, dr_rejection = None, dr_settled = None\<rparr>)\<rparr>))"

definition deferred_fetch_signature :: "'v signer_provider \<Rightarrow> string \<Rightarrow> ('v deferred_state, signer_state) call" where
  "deferred_fetch_signature inner i = (\<lambda>w.
     if ds_fetch_failures w > 0
     then (Inl (JsError ''signer provider unavailable''), w\<lparr>ds_fetch_failures := ds_fetch_failures w - 1\<rparr>)
     else deferred_advance inner i w)"

definition deferred_reject :: "uuid \<Rightarrow> string \<Rightarrow> string \<Rightarrow> 'v deferred_state \<Rightarrow> (exn + unit) \<times> 'v deferred_state" where
  "deferred_reject attempt_id code reason = (\<lambda>w. let i = deferred_request_id attempt_id in
     case ds_requests w i of
       None \<Rightarrow> (Inl (JsError (''unknown signer request '' @ i)), w)
     | Some p \<Rightarrow> (Inr (), w\<lparr>ds_requests := (ds_requests w)(i \<mapsto> p\<lparr>dr_rejection := Some (code, reason)\<rparr>)\<rparr>))"

definition deferred_release :: "uuid \<Rightarrow> 'v deferred_state \<Rightarrow> (exn + unit) \<times> 'v deferred_state" where
  "deferred_release attempt_id = (\<lambda>w. let i = deferred_request_id attempt_id in
     case ds_requests w i of
       None \<Rightarrow> (Inl (JsError (''unknown signer request '' @ i)), w)
     | Some p \<Rightarrow> (Inr (), w\<lparr>ds_requests := (ds_requests w)(i \<mapsto> p\<lparr>dr_polls_before_signing := 0\<rparr>)\<rparr>))"

text \<open>What every state of the adapter satisfies: a settled answer carries its own request id.\<close>

definition deferred_ok :: "'v deferred_state \<Rightarrow> bool" where
  "deferred_ok w \<longleftrightarrow> (\<forall>i p st. ds_requests w i = Some p \<longrightarrow> dr_settled p = Some st \<longrightarrow> provider_request_id st = i \<and> \<not> is_pending st)"

lemma with_request_id_simps [simp]:
  "provider_request_id (with_request_id i st) = i" "is_pending (with_request_id i st) = is_pending st"
  by (cases st; simp)+

lemma deferred_advance_facts:
  assumes run: "deferred_advance inner i w = (Inr st, w')" and ok: "deferred_ok w"
  shows "deferred_ok w' \<and> provider_request_id st = i \<and> ds_fetch_failures w' = ds_fetch_failures w \<and>
    (\<not> is_pending st \<longrightarrow> (\<exists>p. ds_requests w' i = Some p \<and> dr_settled p = Some st))"
  using assms
  by (auto simp: deferred_advance_def deferred_ok_def settle_def Let_def
      split: option.splits if_splits prod.splits sum.splits)

lemma deferred_request_facts:
  assumes "deferred_request_signature inner r c w = (Inr st, w')" "deferred_ok w"
  shows "deferred_ok w' \<and> provider_request_id st = deferred_request_id (utr_attempt_id r) \<and>
    ds_fetch_failures w' = ds_fetch_failures w \<and>
    (\<not> is_pending st \<longrightarrow> (\<exists>p. ds_requests w' (deferred_request_id (utr_attempt_id r)) = Some p \<and> dr_settled p = Some st))"
proof (cases "ds_requests w (deferred_request_id (utr_attempt_id r))")
  case None
  have "deferred_ok (w\<lparr>ds_requests := (ds_requests w)(deferred_request_id (utr_attempt_id r) \<mapsto>
      \<lparr>dr_request = r, dr_context = c, dr_polls_before_signing = ds_polls_before_signing w, dr_rejection = None,
       dr_settled = None\<rparr>)\<rparr>)"
    using assms(2) by (auto simp: deferred_ok_def)
  from deferred_advance_facts [OF _ this] None assms show ?thesis
    by (fastforce simp: deferred_request_signature_def Let_def)
next
  case (Some p)
  with assms show ?thesis
    by (auto simp: deferred_request_signature_def deferred_ok_def Let_def split: option.splits)
qed

interpretation deferred_signer: signer_contract deferred_request_id "deferred_request_signature inner"
  "deferred_fetch_signature inner" "\<lambda>w. ds_fetch_failures w = 0 \<and> deferred_ok w"
  for inner
proof
  show "deferred_request_id a = deferred_request_id b \<Longrightarrow> a = b" for a b by (simp add: deferred_request_id_def)
next
  fix r c st and w w' :: "'a deferred_state"
  assume w: "ds_fetch_failures w = 0 \<and> deferred_ok w" and run: "deferred_request_signature inner r c w = (Inr st, w')"
  note facts = deferred_request_facts [OF run conjunct2 [OF w]]
  show "provider_request_id st = deferred_request_id (utr_attempt_id r)" using facts by simp
  show "ds_fetch_failures w' = 0 \<and> deferred_ok w'" using facts w by simp
  assume "\<not> is_pending st"
  with facts obtain p where "ds_requests w' (deferred_request_id (utr_attempt_id r)) = Some p" "dr_settled p = Some st"
    by auto
  with facts w show "deferred_fetch_signature inner (deferred_request_id (utr_attempt_id r)) w' = (Inr st, w')"
    and "deferred_request_signature inner r c w' = (Inr st, w')"
    by (simp_all add: deferred_fetch_signature_def deferred_advance_def deferred_request_signature_def Let_def)
qed

definition deferred_signer_provider :: "'v signer_provider \<Rightarrow> 'v deferred_state signer_provider" where
  "deferred_signer_provider inner = \<lparr>sg_name = ''deferred-'' @ sg_name inner,
     sg_get_signer_address = (\<lambda>w. case sg_get_signer_address inner (ds_inner w) of (a, v) \<Rightarrow> (a, w\<lparr>ds_inner := v\<rparr>)),
     sg_request_signature = deferred_request_signature inner, sg_fetch_signature = deferred_fetch_signature inner\<rparr>"

subsection \<open>Verification of signed bytes\<close>

text \<open>What viem reads from a serialized transaction; a missing field is \<open>undefined\<close>.\<close>

record parsed_transaction =
  pt_type :: string
  pt_chain_id :: "int option"
  pt_nonce :: "int option"
  pt_to :: "string option"
  pt_value :: "int option"
  pt_data :: "string option"
  pt_gas :: "int option"
  pt_max_fee_per_gas :: "int option"
  pt_max_priority_fee_per_gas :: "int option"

record transaction_codec =
  tc_parse :: "string \<Rightarrow> parsed_transaction option"
  tc_recover :: "string \<Rightarrow> string option"
  tc_keccak256 :: "string \<Rightarrow> string"

definition signed_mismatch :: "string \<Rightarrow> string \<Rightarrow> string \<Rightarrow> exn" where
  "signed_mismatch field expected actual = app_error SIGNED_TRANSACTION_MISMATCH
     (''signed transaction does not match the committed signing request ('' @ field @ '')'')
     [(''field'', JStr field), (''expected'', JStr expected), (''actual'', JStr actual)]"

text \<open>\<open>String(value)\<close>\<close>

definition str_of_int_opt :: "int option \<Rightarrow> string" where
  "str_of_int_opt v = (case v of None \<Rightarrow> ''undefined'' | Some n \<Rightarrow> show_int n)"

definition str_of_opt :: "string option \<Rightarrow> string" where
  "str_of_opt v = (case v of None \<Rightarrow> ''null'' | Some s \<Rightarrow> s)"

text \<open>The first field of the parsed transaction that differs from the request.\<close>

definition parsed_mismatch :: "parsed_transaction \<Rightarrow> unsigned_request \<Rightarrow> exn option" where
  "parsed_mismatch p r =
     (let to_e = map_option to_lower (utr_to r); to_a = map_option to_lower (pt_to p);
          value_a = (case pt_value p of None \<Rightarrow> 0 | Some v \<Rightarrow> v);
          data_a = to_lower (case pt_data p of None \<Rightarrow> ''0x'' | Some x \<Rightarrow> x)
      in if pt_type p \<noteq> ''eip1559'' then Some (signed_mismatch ''type'' ''eip1559'' (pt_type p))
         else if pt_chain_id p \<noteq> Some (utr_chain_id r)
         then Some (signed_mismatch ''chainId'' (show_int (utr_chain_id r)) (str_of_int_opt (pt_chain_id p)))
         else if pt_nonce p \<noteq> Some (utr_nonce r)
         then Some (signed_mismatch ''nonce'' (show_int (utr_nonce r)) (str_of_int_opt (pt_nonce p)))
         else if to_e \<noteq> to_a then Some (signed_mismatch ''to'' (str_of_opt to_e) (str_of_opt to_a))
         else if value_a \<noteq> utr_value r then Some (signed_mismatch ''value'' (show_int (utr_value r)) (show_int value_a))
         else if data_a \<noteq> to_lower (utr_data r) then Some (signed_mismatch ''data'' (to_lower (utr_data r)) data_a)
         else if pt_gas p \<noteq> Some (utr_gas_limit r)
         then Some (signed_mismatch ''gas'' (show_int (utr_gas_limit r)) (str_of_int_opt (pt_gas p)))
         else if pt_max_fee_per_gas p \<noteq> Some (utr_max_fee_per_gas r)
         then Some (signed_mismatch ''maxFeePerGas'' (show_int (utr_max_fee_per_gas r)) (str_of_int_opt (pt_max_fee_per_gas p)))
         else if pt_max_priority_fee_per_gas p \<noteq> Some (utr_max_priority_fee_per_gas r)
         then Some (signed_mismatch ''maxPriorityFeePerGas'' (show_int (utr_max_priority_fee_per_gas r))
           (str_of_int_opt (pt_max_priority_fee_per_gas p)))
         else if utr_max_priority_fee_per_gas r > utr_max_fee_per_gas r
         then Some (signed_mismatch ''feePolicy'' ''maxPriorityFeePerGas <= maxFeePerGas'' ''priority fee exceeds max fee'')
         else None)"

definition verify_signed_transaction ::
  "transaction_codec \<Rightarrow> string \<Rightarrow> unsigned_request \<Rightarrow> string \<Rightarrow> string \<Rightarrow> exn + (string \<times> string)" where
  "verify_signed_transaction codec signed r expected_signer claimed_hash =
     (if \<not> starts_with signed ''0x02'' then Inl (signed_mismatch ''envelope'' ''0x02 (eip1559)'' (take 4 signed))
      else case tc_parse codec signed of
        None \<Rightarrow> Inl (app_error SIGNED_TRANSACTION_MISMATCH ''returned bytes are not a valid transaction'' [])
      | Some p \<Rightarrow> (case parsed_mismatch p r of
          Some e \<Rightarrow> Inl e
        | None \<Rightarrow> (case tc_recover codec signed of
            None \<Rightarrow> Inl (app_error SIGNED_TRANSACTION_MISMATCH ''unable to recover signer from signature'' [])
          | Some recovered \<Rightarrow>
              if to_lower recovered \<noteq> to_lower expected_signer
              then Inl (signed_mismatch ''signer'' (to_lower expected_signer) (to_lower recovered))
              else (let hash = tc_keccak256 codec signed
                in if to_lower hash \<noteq> to_lower claimed_hash
                   then Inl (signed_mismatch ''transactionHash'' hash claimed_hash)
                   else Inr (hash, recovered)))))"

text \<open>
  C7: signed bytes are accepted only when they are an EIP-1559 transaction that carries every
  field of the committed request, recover to the expected signer and hash to the claimed hash;
  and the hash reported is the hash of exactly these bytes.
\<close>

theorem verified_bytes_are_the_request:
  "verify_signed_transaction codec signed r signer claimed = Inr (hash, recovered) \<longleftrightarrow>
     starts_with signed ''0x02'' \<and>
     (\<exists>p. tc_parse codec signed = Some p \<and> pt_type p = ''eip1559'' \<and>
        pt_chain_id p = Some (utr_chain_id r) \<and> pt_nonce p = Some (utr_nonce r) \<and>
        map_option to_lower (pt_to p) = map_option to_lower (utr_to r) \<and>
        (case pt_value p of None \<Rightarrow> 0 | Some v \<Rightarrow> v) = utr_value r \<and>
        to_lower (case pt_data p of None \<Rightarrow> ''0x'' | Some x \<Rightarrow> x) = to_lower (utr_data r) \<and>
        pt_gas p = Some (utr_gas_limit r) \<and> pt_max_fee_per_gas p = Some (utr_max_fee_per_gas r) \<and>
        pt_max_priority_fee_per_gas p = Some (utr_max_priority_fee_per_gas r) \<and>
        utr_max_priority_fee_per_gas r \<le> utr_max_fee_per_gas r) \<and>
     tc_recover codec signed = Some recovered \<and> to_lower recovered = to_lower signer \<and>
     hash = tc_keccak256 codec signed \<and> to_lower hash = to_lower claimed"
proof -
  have parsed: "parsed_mismatch p r = None \<longleftrightarrow>
      pt_type p = ''eip1559'' \<and> pt_chain_id p = Some (utr_chain_id r) \<and> pt_nonce p = Some (utr_nonce r) \<and>
      map_option to_lower (pt_to p) = map_option to_lower (utr_to r) \<and>
      (case pt_value p of None \<Rightarrow> 0 | Some v \<Rightarrow> v) = utr_value r \<and>
      to_lower (case pt_data p of None \<Rightarrow> ''0x'' | Some x \<Rightarrow> x) = to_lower (utr_data r) \<and>
      pt_gas p = Some (utr_gas_limit r) \<and> pt_max_fee_per_gas p = Some (utr_max_fee_per_gas r) \<and>
      pt_max_priority_fee_per_gas p = Some (utr_max_priority_fee_per_gas r) \<and>
      utr_max_priority_fee_per_gas r \<le> utr_max_fee_per_gas r" for p
    unfolding parsed_mismatch_def Let_def by (auto simp: not_less)
  have "verify_signed_transaction codec signed r signer claimed = Inr (hash, recovered) \<longleftrightarrow>
     starts_with signed ''0x02'' \<and> (\<exists>p. tc_parse codec signed = Some p \<and> parsed_mismatch p r = None) \<and>
     tc_recover codec signed = Some recovered \<and> to_lower recovered = to_lower signer \<and>
     hash = tc_keccak256 codec signed \<and> to_lower hash = to_lower claimed"
    unfolding verify_signed_transaction_def Let_def
    by (auto split: option.splits if_splits)
  then show ?thesis unfolding parsed .
qed

end
