(* ===== verification/Confirmation.thy ===== *)
theory Confirmation
  imports Ports
begin

text \<open>
  Chain policy (\<open>platform/config/chain-profile.ts\<close>) and the bounded wait for a settled receipt
  (\<open>modules/transactions/confirmation.ts\<close>).
\<close>

subsection \<open>Chain profiles\<close>

datatype finality_tag = Tag_latest | Tag_safe | Tag_finalized

record replacement_policy =
  rp_stuck_after_ms :: int
  rp_max_replacements :: nat
  rp_fee_bump_percent :: int

record chain_profile =
  pf_chain_id :: int
  pf_label :: string
  pf_rpc_url :: string
  pf_eip1559 :: bool
  pf_finality_tag :: finality_tag
  pf_confirmations :: int
  pf_replacement :: replacement_policy

definition ANVIL_CHAIN_ID :: int where
  "ANVIL_CHAIN_ID = 31337"

definition finality_tag_for :: "int \<Rightarrow> finality_tag" where
  "finality_tag_for chain_id = (if chain_id = ANVIL_CHAIN_ID then Tag_latest else Tag_finalized)"

definition label_for :: "int \<Rightarrow> string" where
  "label_for chain_id =
     (if chain_id = ANVIL_CHAIN_ID then ''anvil-local''
      else if chain_id = 11155111 then ''sepolia''
      else ''evm-'' @ show_int chain_id)"

definition chain_profile_from :: "int \<Rightarrow> string \<Rightarrow> int \<Rightarrow> replacement_policy \<Rightarrow> chain_profile" where
  "chain_profile_from chain_id rpc_url confirmations replacement =
     \<lparr>pf_chain_id = chain_id, pf_label = label_for chain_id, pf_rpc_url = rpc_url, pf_eip1559 = True,
      pf_finality_tag = finality_tag_for chain_id, pf_confirmations = confirmations, pf_replacement = replacement\<rparr>"

text \<open>The settings of the process that the profiles are made of.\<close>

record chain_config =
  cfg_evm_chain_id :: int
  cfg_evm_rpc_url :: string
  cfg_evm_confirmations :: int
  cfg_testnet_rpc_url :: "string option"
  cfg_testnet_chain_id :: "int option"
  cfg_testnet_confirmations :: int
  cfg_replacement :: replacement_policy

text \<open>\<open>new Map(entries)\<close>: the last entry of a key is kept; here the keys differ.\<close>

record chain_profiles =
  ps_active :: chain_profile
  ps_others :: "chain_profile list"

definition profiles_get :: "chain_profiles \<Rightarrow> int \<Rightarrow> exn + chain_profile" where
  "profiles_get ps chain_id =
     (case find (\<lambda>p. pf_chain_id p = chain_id) (rev (ps_active ps # ps_others ps)) of
        None \<Rightarrow> Inl (JsError (''no chain profile configured for chain '' @ show_int chain_id))
      | Some p \<Rightarrow> Inr p)"

definition resolve_chain_profiles :: "chain_config \<Rightarrow> exn + chain_profiles" where
  "resolve_chain_profiles config =
     (let active = chain_profile_from (cfg_evm_chain_id config) (cfg_evm_rpc_url config) (cfg_evm_confirmations config)
        (cfg_replacement config)
      in case (cfg_testnet_rpc_url config, cfg_testnet_chain_id config) of
        (Some url, Some testnet) \<Rightarrow>
          if testnet = pf_chain_id active then Inl (JsError ''TESTNET_CHAIN_ID must differ from EVM_CHAIN_ID'')
          else Inr \<lparr>ps_active = active, ps_others =
            [chain_profile_from testnet url (cfg_testnet_confirmations config) (cfg_replacement config)]\<rparr>
      | _ \<Rightarrow> Inr \<lparr>ps_active = active, ps_others = []\<rparr>)"

lemma profile_lookup_sound_facts:
  assumes "resolve_chain_profiles config = Inr ps"
  shows "profiles_get ps (cfg_evm_chain_id config) = Inr (ps_active ps)"
    and "profiles_get ps c = Inr p \<Longrightarrow> pf_chain_id p = c \<and> (pf_finality_tag p = Tag_latest \<longleftrightarrow> c = ANVIL_CHAIN_ID)"
    and "cfg_testnet_rpc_url config \<noteq> None \<Longrightarrow> cfg_testnet_chain_id config \<noteq> Some (cfg_evm_chain_id config)"
proof -
  show "profiles_get ps (cfg_evm_chain_id config) = Inr (ps_active ps)"
    using assms
    by (auto simp: resolve_chain_profiles_def profiles_get_def Let_def chain_profile_from_def split: option.splits if_splits)
  show "pf_chain_id p = c \<and> (pf_finality_tag p = Tag_latest \<longleftrightarrow> c = ANVIL_CHAIN_ID)" if "profiles_get ps c = Inr p"
    using assms that
    by (auto simp: resolve_chain_profiles_def profiles_get_def Let_def chain_profile_from_def finality_tag_for_def
        split: option.splits if_splits)
  show "cfg_testnet_chain_id config \<noteq> Some (cfg_evm_chain_id config)" if "cfg_testnet_rpc_url config \<noteq> None"
    using assms that
    by (auto simp: resolve_chain_profiles_def Let_def chain_profile_from_def split: option.splits if_splits)
qed

text \<open>
  The profile of a chain is never another chain's: whatever profiles the settings resolve to,
  a lookup that answers returns the profile of the chain asked for, the active chain is always
  found, and a testnet configured on the active chain's id is refused.
\<close>

theorem profile_lookup_sound:
  assumes "resolve_chain_profiles config = Inr ps"
  shows "profiles_get ps (cfg_evm_chain_id config) = Inr (ps_active ps) \<and>
    (\<forall>c p. profiles_get ps c = Inr p \<longrightarrow>
       pf_chain_id p = c \<and> (pf_finality_tag p = Tag_latest \<longleftrightarrow> c = ANVIL_CHAIN_ID)) \<and>
    (cfg_testnet_rpc_url config \<noteq> None \<longrightarrow> cfg_testnet_chain_id config \<noteq> Some (cfg_evm_chain_id config))"
  using profile_lookup_sound_facts [OF assms] by blast

subsection \<open>Waiting for confirmation\<close>

record confirmation_policy =
  po_confirmations :: int
  po_finality_tag :: finality_tag
  po_timeout_ms :: int
  po_poll_interval_ms :: int

datatype confirmation_outcome =
    Co_FINALIZED receipt_view
  | Co_REVERTED receipt_view
  | Co_ORPHANED receipt_view
  | Co_INCLUDED receipt_view
  | Co_PENDING

text \<open>
  \<open>sleep\<close>: a timer does not fire before its delay, which the runtime takes for at least a
  millisecond; every later moment moves by the delay, on the clock of the process and on that of the
  database, and other processes may commit in between.
\<close>

definition delayed :: "int \<Rightarrow> (nat \<Rightarrow> pg_time \<times> js_time) \<Rightarrow> nat \<Rightarrow> pg_time \<times> js_time" where
  "delayed ms clock n = (case clock n of (t, t') \<Rightarrow> (t + 1000 * ms, t' + ms))"

definition sleep :: "int \<Rightarrow> ('w sys, unit) io" where
  "sleep ms = (\<lambda>s. (Inr (), s\<lparr>sys_step := Suc (sys_step s), sys_clock := delayed (max 1 ms) (sys_clock s)\<rparr>))"

definition is_final :: "'w gateway \<Rightarrow> int \<Rightarrow> confirmation_policy \<Rightarrow> ('w sys, bool) io" where
  "is_final gw block policy =
     (let by_depth = io_bind (call_world (gw_get_latest_block_number gw)) (\<lambda>latest.
        io_ret (latest - block + 1 \<ge> po_confirmations policy))
      in if po_finality_tag policy \<noteq> Tag_latest
         then io_bind (call_world (gw_get_finalized_block_number gw)) (\<lambda>finalized.
           case finalized of Some n \<Rightarrow> io_ret (n \<ge> block) | None \<Rightarrow> by_depth)
         else by_depth)"

text \<open>
  Both loops of \<open>awaitConfirmation\<close> run while the clock is before the deadline. The first argument
  bounds the number of rounds; the last theorem of this file shows that the bound chosen is never
  reached, because every round sleeps and the clock does not go back.
\<close>

fun poll_receipt :: "nat \<Rightarrow> 'w gateway \<Rightarrow> string \<Rightarrow> js_time \<Rightarrow> confirmation_policy \<Rightarrow> ('w sys, receipt_view option) io" where
  "poll_receipt 0 gw hash deadline policy = io_ret None"
| "poll_receipt (Suc n) gw hash deadline policy =
     io_bind date_now (\<lambda>now.
     if now < deadline
     then io_bind (call_world (gw_get_transaction_receipt gw hash)) (\<lambda>receipt.
       case receipt of
         Some r \<Rightarrow> io_ret (Some r)
       | None \<Rightarrow> io_then (sleep (po_poll_interval_ms policy)) (poll_receipt n gw hash deadline policy))
     else io_ret None)"

definition watch_round ::
  "'w gateway \<Rightarrow> string \<Rightarrow> js_time \<Rightarrow> confirmation_policy \<Rightarrow> (receipt_view \<Rightarrow> ('w sys, confirmation_outcome) io) \<Rightarrow>
   receipt_view \<Rightarrow> ('w sys, confirmation_outcome) io" where
  "watch_round gw hash deadline policy next_round observed =
     io_bind date_now (\<lambda>now.
     if now < deadline
     then io_bind (call_world (gw_get_transaction_receipt gw hash)) (\<lambda>current.
       case current of
         None \<Rightarrow> io_ret (Co_ORPHANED observed)
       | Some r \<Rightarrow> io_bind (call_world (gw_get_block_hash_at gw (rv_block_number r))) (\<lambda>canonical.
           if (case canonical of None \<Rightarrow> True | Some h \<Rightarrow> to_lower h \<noteq> to_lower (rv_block_hash r))
           then io_ret (Co_ORPHANED r)
           else if rv_status r = Rc_reverted then io_ret (Co_REVERTED r)
           else io_bind (is_final gw (rv_block_number r) policy) (\<lambda>final.
             if final then io_ret (Co_FINALIZED r)
             else io_then (sleep (po_poll_interval_ms policy)) (next_round r))))
     else io_ret (Co_INCLUDED observed))"

fun watch_receipt ::
  "nat \<Rightarrow> 'w gateway \<Rightarrow> string \<Rightarrow> js_time \<Rightarrow> confirmation_policy \<Rightarrow> receipt_view \<Rightarrow> ('w sys, confirmation_outcome) io" where
  "watch_receipt 0 gw hash deadline policy observed = io_ret (Co_INCLUDED observed)"
| "watch_receipt (Suc n) gw hash deadline policy observed =
     watch_round gw hash deadline policy (watch_receipt n gw hash deadline policy) observed"

definition rounds :: "confirmation_policy \<Rightarrow> nat" where
  "rounds policy = Suc (nat (po_timeout_ms policy))"

definition await_rounds ::
  "nat \<Rightarrow> 'w gateway \<Rightarrow> string \<Rightarrow> confirmation_policy \<Rightarrow> ('w sys, confirmation_outcome) io" where
  "await_rounds n gw hash policy =
     io_bind date_now (\<lambda>now.
     (let deadline = now + po_timeout_ms policy
      in io_bind (poll_receipt n gw hash deadline policy) (\<lambda>receipt.
         case receipt of
           None \<Rightarrow> io_ret Co_PENDING
         | Some r \<Rightarrow> watch_receipt n gw hash deadline policy r)))"

definition await_confirmation :: "'w gateway \<Rightarrow> string \<Rightarrow> confirmation_policy \<Rightarrow> ('w sys, confirmation_outcome) io" where
  "await_confirmation gw hash policy = await_rounds (rounds policy) gw hash policy"

subsection \<open>What an outcome is evidence of\<close>

text \<open>The chain said this of a receipt at some moment of the wait.\<close>

definition chain_reported :: "'w gateway \<Rightarrow> string \<Rightarrow> receipt_view \<Rightarrow> bool" where
  "chain_reported gw hash r \<longleftrightarrow> (\<exists>w w'. gw_get_transaction_receipt gw hash w = (Inr (Some r), w'))"

definition chain_canonical :: "'w gateway \<Rightarrow> receipt_view \<Rightarrow> bool" where
  "chain_canonical gw r \<longleftrightarrow> (\<exists>w w' h. gw_get_block_hash_at gw (rv_block_number r) w = (Inr (Some h), w') \<and>
     to_lower h = to_lower (rv_block_hash r))"

definition chain_final :: "'w gateway \<Rightarrow> confirmation_policy \<Rightarrow> int \<Rightarrow> bool" where
  "chain_final gw policy block \<longleftrightarrow>
     (po_finality_tag policy \<noteq> Tag_latest \<and> (\<exists>w w' n. gw_get_finalized_block_number gw w = (Inr (Some n), w') \<and> block \<le> n)) \<or>
     ((po_finality_tag policy = Tag_latest \<or> (\<exists>w w'. gw_get_finalized_block_number gw w = (Inr None, w'))) \<and>
      (\<exists>w w' latest. gw_get_latest_block_number gw w = (Inr latest, w') \<and> po_confirmations policy \<le> latest - block + 1))"

lemma call_world_Inr: "call_world f s = (Inr a, s') \<longleftrightarrow> (\<exists>w'. f (sys_world s) = (Inr a, w') \<and> s' = s\<lparr>sys_world := w'\<rparr>)"
  by (auto simp: call_world_def split: prod.splits)

lemma is_final_evidence: "is_final gw block policy s = (Inr True, s') \<Longrightarrow> chain_final gw policy block"
proof (cases "po_finality_tag policy = Tag_latest")
  case True
  then show "is_final gw block policy s = (Inr True, s') \<Longrightarrow> chain_final gw policy block"
    unfolding is_final_def chain_final_def Let_def by (auto simp: io_simps call_world_Inr)
next
  case False
  assume run: "is_final gw block policy s = (Inr True, s')"
  with False obtain finalized s1 where fin: "call_world (gw_get_finalized_block_number gw) s = (Inr finalized, s1)"
    unfolding is_final_def Let_def by (auto simp: io_simps)
  show ?thesis
  proof (cases finalized)
    case None
    with False run fin show ?thesis
      unfolding is_final_def chain_final_def Let_def by (auto simp: io_simps call_world_Inr)
  next
    case (Some n)
    with False run fin show ?thesis
      unfolding is_final_def chain_final_def Let_def by (auto simp: io_simps call_world_Inr)
  qed
qed

text \<open>What each outcome of the second loop rests on.\<close>

fun outcome_evidence :: "'w gateway \<Rightarrow> string \<Rightarrow> confirmation_policy \<Rightarrow> confirmation_outcome \<Rightarrow> bool" where
  "outcome_evidence gw hash policy (Co_FINALIZED r) \<longleftrightarrow> chain_reported gw hash r \<and> chain_canonical gw r \<and>
     rv_status r = Rc_success \<and> chain_final gw policy (rv_block_number r)"
| "outcome_evidence gw hash policy (Co_REVERTED r) \<longleftrightarrow> chain_reported gw hash r \<and> chain_canonical gw r \<and> rv_status r = Rc_reverted"
| "outcome_evidence gw hash policy (Co_ORPHANED r) \<longleftrightarrow> chain_reported gw hash r"
| "outcome_evidence gw hash policy (Co_INCLUDED r) \<longleftrightarrow> chain_reported gw hash r"
| "outcome_evidence gw hash policy Co_PENDING \<longleftrightarrow> True"

lemma poll_receipt_evidence: "poll_receipt n gw hash deadline policy s = (Inr (Some r), s') \<Longrightarrow> chain_reported gw hash r"
  by (induction n arbitrary: s)
    (auto simp: io_simps call_world_Inr chain_reported_def split: if_splits option.splits, blast)

lemma watch_receipt_evidence:
  "watch_receipt n gw hash deadline policy observed s = (Inr out, s') \<Longrightarrow> chain_reported gw hash observed \<Longrightarrow>
   outcome_evidence gw hash policy out"
proof (induction n arbitrary: s observed)
  case (Suc n)
  note prems = Suc.prems(1) [unfolded watch_receipt.simps watch_round_def] Suc.prems(2)
  from prems obtain now s1 where now: "date_now s = (Inr now, s1)"
    by (auto simp: io_simps)
  show ?case
  proof (cases "now < deadline")
    case False
    with prems now show ?thesis by (auto simp: io_simps)
  next
    case True
    with prems(1) now obtain current s2 where
      cur: "call_world (gw_get_transaction_receipt gw hash) s1 = (Inr current, s2)"
      by (auto simp: io_simps)
    show ?thesis
    proof (cases current)
      case None
      with prems now True cur show ?thesis by (auto simp: io_simps)
    next
      case (Some r)
      then have rep: "chain_reported gw hash r" using cur by (auto simp: chain_reported_def call_world_Inr)
      from prems(1) now True cur Some obtain canonical s3 where
        can: "call_world (gw_get_block_hash_at gw (rv_block_number r)) s2 = (Inr canonical, s3)"
        by (auto simp: io_simps)
      have canonical: "chain_canonical gw r" if "canonical = Some h" "to_lower h = to_lower (rv_block_hash r)" for h
        using can that by (auto simp: chain_canonical_def call_world_Inr)
      have status: "rv_status r = Rc_success" if "rv_status r \<noteq> Rc_reverted"
        using that by (cases "rv_status r") auto
      show ?thesis
        using prems(1) now True cur Some can rep
        by (auto simp: io_simps status split: option.splits if_splits intro: canonical is_final_evidence Suc.IH)
    qed
  qed
qed (auto simp: io_simps)

lemma await_confirmation_backed:
  "await_confirmation gw hash policy s = (Inr out, s') \<Longrightarrow> outcome_evidence gw hash policy out"
  unfolding await_confirmation_def await_rounds_def Let_def
  by (auto simp: io_simps split: option.splits dest!: poll_receipt_evidence intro: watch_receipt_evidence)

subsection \<open>Time\<close>

text \<open>The clock of the process does not go back; two readings may show the same millisecond.\<close>

definition clock_forward :: "'w sys \<Rightarrow> bool" where
  "clock_forward s \<longleftrightarrow> (\<forall>n. snd (sys_clock s n) \<le> snd (sys_clock s (Suc n)))"

definition js_clock :: "'w sys \<Rightarrow> js_time" where
  "js_clock s = snd (sys_clock s (sys_step s))"

definition slept :: "int \<Rightarrow> 'w sys \<Rightarrow> 'w sys" where
  "slept ms s = s\<lparr>sys_step := Suc (sys_step s), sys_clock := delayed (max 1 ms) (sys_clock s)\<rparr>"

lemma sleep_run: "sleep ms s = (Inr (), slept ms s)"
  by (simp add: sleep_def slept_def)

lemma date_now_run: "date_now s = (Inr (js_clock s), s\<lparr>sys_db := db_at_step s, sys_step := Suc (sys_step s)\<rparr>)"
  by (simp add: date_now_def run_query_def run_tx_def tx_read_def js_clock_def db_at_step_def)

lemma clock_forward_step:
  "clock_forward s \<Longrightarrow> clock_forward (s\<lparr>sys_db := d, sys_step := n\<rparr>)"
  "clock_forward s \<Longrightarrow> js_clock s \<le> js_clock (s\<lparr>sys_db := d, sys_step := Suc (sys_step s)\<rparr>)"
  by (simp_all add: clock_forward_def js_clock_def)

lemma clock_forward_slept:
  "clock_forward s \<Longrightarrow> clock_forward (slept ms s)" "clock_forward s \<Longrightarrow> js_clock s + 1 \<le> js_clock (slept ms s)"
proof -
  assume s: "clock_forward s"
  then show "clock_forward (slept ms s)" by (simp add: clock_forward_def slept_def delayed_def case_prod_beta')
  from s have "js_clock s \<le> snd (sys_clock s (Suc (sys_step s)))" by (simp add: clock_forward_def js_clock_def)
  then show "js_clock s + 1 \<le> js_clock (slept ms s)"
    by (simp add: js_clock_def slept_def delayed_def case_prod_beta')
qed

text \<open>A step that only adds time and does not go back.\<close>

definition later :: "'w sys \<Rightarrow> 'w sys \<Rightarrow> bool" where
  "later s s' \<longleftrightarrow> clock_forward s' \<and> js_clock s \<le> js_clock s'"

lemma call_world_later: "clock_forward s \<Longrightarrow> call_world f s = (r, s') \<Longrightarrow> later s s'"
  by (auto simp: later_def call_world_def clock_forward_def js_clock_def split: prod.splits)

lemma is_final_later: "clock_forward s \<Longrightarrow> is_final gw b policy s = (r, s') \<Longrightarrow> later s s'"
  unfolding is_final_def Let_def
  by (auto simp: io_bind_def io_ret_def call_world_def later_def clock_forward_def js_clock_def
      split: if_splits prod.splits sum.splits option.splits)

lemma round_passes:
  assumes t: "clock_forward s" and l: "later (s\<lparr>sys_db := db_at_step s, sys_step := Suc (sys_step s)\<rparr>) s1"
  shows "clock_forward (slept ms s1) \<and> js_clock s + 1 \<le> js_clock (slept ms s1)"
  using clock_forward_slept [of s1 ms] clock_forward_step(2) [OF t, of "db_at_step s"] l by (auto simp: later_def)

lemma poll_rounds_enough:
  "clock_forward s \<Longrightarrow> deadline \<le> js_clock s + int n \<Longrightarrow> n \<le> m \<Longrightarrow>
   poll_receipt (Suc m) gw hash deadline policy s = poll_receipt (Suc n) gw hash deadline policy s"
proof (induction n arbitrary: m s)
  case 0
  then show ?case by (simp add: io_bind_def date_now_run io_ret_def)
next
  case (Suc n)
  then obtain m' where m: "m = Suc m'" "n \<le> m'" by (cases m) auto
  let ?s = "s\<lparr>sys_db := db_at_step s, sys_step := Suc (sys_step s)\<rparr>"
  have t: "clock_forward ?s" using Suc.prems(1) by (simp add: clock_forward_def)
  obtain r s1 where c: "call_world (gw_get_transaction_receipt gw hash) ?s = (r, s1)" by fastforce
  have "poll_receipt (Suc m') gw hash deadline policy (slept (po_poll_interval_ms policy) s1) =
      poll_receipt (Suc n) gw hash deadline policy (slept (po_poll_interval_ms policy) s1)"
    using round_passes [where ms = "po_poll_interval_ms policy", OF Suc.prems(1) call_world_later [OF t c]] Suc.prems(2) m
    by (intro Suc.IH) auto
  then show ?case
    unfolding m by (simp add: io_bind_def io_then_def sleep_run date_now_run io_ret_def c split: sum.splits option.splits)
qed

lemma watch_round_cong:
  assumes "\<And>a s1 b s2 f s3 r h. call_world (gw_get_transaction_receipt gw hash)
        (s\<lparr>sys_db := db_at_step s, sys_step := Suc (sys_step s)\<rparr>) = (a, s1) \<Longrightarrow>
      call_world (gw_get_block_hash_at gw h) s1 = (b, s2) \<Longrightarrow> is_final gw h policy s2 = (f, s3) \<Longrightarrow>
      k r (slept (po_poll_interval_ms policy) s3) = k' r (slept (po_poll_interval_ms policy) s3)"
  shows "watch_round gw hash deadline policy k observed s = watch_round gw hash deadline policy k' observed s"
  unfolding watch_round_def io_bind_def io_then_def sleep_run date_now_run io_ret_def
  by (auto split: prod.splits sum.splits option.splits intro: assms)

lemma watch_rounds_enough:
  "clock_forward s \<Longrightarrow> deadline \<le> js_clock s + int n \<Longrightarrow> n \<le> m \<Longrightarrow>
   watch_receipt (Suc m) gw hash deadline policy r s = watch_receipt (Suc n) gw hash deadline policy r s"
proof (induction n arbitrary: m s r)
  case 0
  then show ?case by (simp add: watch_round_def io_bind_def date_now_run io_ret_def)
next
  case (Suc n)
  then obtain m' where m: "m = Suc m'" "n \<le> m'" by (cases m) auto
  let ?s = "s\<lparr>sys_db := db_at_step s, sys_step := Suc (sys_step s)\<rparr>"
  have t: "clock_forward ?s" using Suc.prems(1) by (simp add: clock_forward_def)
  have same: "watch_receipt (Suc m') gw hash deadline policy x (slept (po_poll_interval_ms policy) s3) =
      watch_receipt (Suc n) gw hash deadline policy x (slept (po_poll_interval_ms policy) s3)"
    if c: "call_world (gw_get_transaction_receipt gw hash) ?s = (a, s1)"
      "call_world (gw_get_block_hash_at gw h) s1 = (b, s2)" "is_final gw h policy s2 = (f, s3)"
    for a s1 b s2 f s3 x h
  proof -
    have l1: "later ?s s1" by (rule call_world_later [OF t c(1)])
    then have l2: "later s1 s2" by (intro call_world_later [OF _ c(2)]) (simp add: later_def)
    then have l3: "later s2 s3" by (intro is_final_later [OF _ c(3)]) (simp add: later_def)
    from l1 l2 l3 have "later ?s s3" by (auto simp: later_def)
    from round_passes [where ms = "po_poll_interval_ms policy", OF Suc.prems(1) this] Suc.prems(2) m show ?thesis by (intro Suc.IH) auto
  qed
  show ?case
    unfolding m watch_receipt.simps(2) [of "Suc m'"] watch_receipt.simps(2) [of "Suc n"]
    by (rule watch_round_cong) (erule same)
qed

text \<open>
  C38: \<open>awaitConfirmation\<close> returns within its deadline. When the clock of the process does not go back,
  no number of further rounds changes the outcome, so the bound of the model cuts nothing off: a
  round that does not return sleeps, and a sleep takes at least a millisecond.
\<close>

theorem await_rounds_enough:
  assumes "clock_forward s" and "nat (po_timeout_ms policy) \<le> m"
  shows "await_rounds (Suc m) gw hash policy s = await_confirmation gw hash policy s"
proof -
  let ?s = "s\<lparr>sys_db := db_at_step s, sys_step := Suc (sys_step s)\<rparr>" and ?d = "js_clock s + po_timeout_ms policy"
  have t: "clock_forward ?s" using assms(1) by (simp add: clock_forward_def)
  have d: "?d \<le> js_clock ?s + int (nat (po_timeout_ms policy))"
    using clock_forward_step(2) [OF assms(1), of "db_at_step s"] by linarith
  note poll = poll_rounds_enough [OF t d assms(2)]
  have "watch_receipt (Suc m) gw hash ?d policy r s' = watch_receipt (rounds policy) gw hash ?d policy r s'"
    if "later ?s s'" for r s'
    unfolding rounds_def using that d assms(2) by (intro watch_rounds_enough) (auto simp: later_def)
  moreover have "later s1 s2" if "clock_forward s1" "poll_receipt n gw hash ?d policy s1 = (x, s2)" for n x s1 s2
    using that
  proof (induction n arbitrary: s1)
    case 0
    then show ?case by (simp add: io_ret_def later_def)
  next
    case (Suc n)
    let ?s1 = "s1\<lparr>sys_db := db_at_step s1, sys_step := Suc (sys_step s1)\<rparr>"
    have t1: "clock_forward ?s1" using Suc.prems(1) by (simp add: clock_forward_def)
    have l1: "later s1 ?s1" using t1 clock_forward_step(2) [OF Suc.prems(1), of "db_at_step s1"] by (simp add: later_def)
    obtain y s3 where c: "call_world (gw_get_transaction_receipt gw hash) ?s1 = (y, s3)" by fastforce
    have l3: "later s1 s3" using call_world_later [OF t1 c] l1 by (auto simp: later_def)
    note rp = round_passes [where ms = "po_poll_interval_ms policy", OF Suc.prems(1) call_world_later [OF t1 c]]
    from Suc.prems(2) consider "s2 = ?s1" | "s2 = s3"
      | "poll_receipt n gw hash ?d policy (slept (po_poll_interval_ms policy) s3) = (x, s2)"
      by (auto simp: io_bind_def io_then_def sleep_run date_now_run io_ret_def c split: if_splits sum.splits option.splits)
    then show ?case
    proof cases
      case 3
      from Suc.IH [OF _ 3] rp show ?thesis by (auto simp: later_def)
    qed (use l1 l3 in auto)
  qed
  then have "later ?s s'" if "poll_receipt n gw hash ?d policy ?s = (x, s')" for n x s'
    using that t by blast
  moreover obtain x s' where run: "poll_receipt (rounds policy) gw hash ?d policy ?s = (x, s')" by fastforce
  ultimately have "watch_receipt (Suc m) gw hash ?d policy r s' = watch_receipt (rounds policy) gw hash ?d policy r s'" for r
    by blast
  then show ?thesis
    unfolding await_confirmation_def await_rounds_def Let_def io_bind_def date_now_run
    using run poll [folded rounds_def] by (simp split: sum.splits option.splits)
qed

subsection \<open>What was heard during the wait\<close>

text \<open>
  A world may remember the answers of the chain, the newest first. Asked about another hash, a
  gateway may add what it likes.
\<close>

datatype answer =
    Heard_receipt "receipt_view option"
  | Heard_block int "string option"
  | Heard_finalized "int option"
  | Heard_latest int

definition remembers :: "('w \<Rightarrow> answer list) \<Rightarrow> string \<Rightarrow> 'w gateway \<Rightarrow> bool" where
  "remembers heard hash gw \<longleftrightarrow>
     (\<forall>w x w'. gw_get_transaction_receipt gw hash w = (Inr x, w') \<longrightarrow> heard w' = Heard_receipt x # heard w) \<and>
     (\<forall>b w x w'. gw_get_block_hash_at gw b w = (Inr x, w') \<longrightarrow> heard w' = Heard_block b x # heard w) \<and>
     (\<forall>w x w'. gw_get_finalized_block_number gw w = (Inr x, w') \<longrightarrow> heard w' = Heard_finalized x # heard w) \<and>
     (\<forall>w x w'. gw_get_latest_block_number gw w = (Inr x, w') \<longrightarrow> heard w' = Heard_latest x # heard w)"

lemma remembers_calls:
  assumes "remembers heard hash gw"
  shows "call_world (gw_get_transaction_receipt gw hash) s = (Inr r, s') \<Longrightarrow> heard (sys_world s') = Heard_receipt r # heard (sys_world s)"
    "call_world (gw_get_block_hash_at gw b) s = (Inr h, s') \<Longrightarrow> heard (sys_world s') = Heard_block b h # heard (sys_world s)"
    "call_world (gw_get_finalized_block_number gw) s = (Inr f, s') \<Longrightarrow> heard (sys_world s') = Heard_finalized f # heard (sys_world s)"
    "call_world (gw_get_latest_block_number gw) s = (Inr n, s') \<Longrightarrow> heard (sys_world s') = Heard_latest n # heard (sys_world s)"
  using assms by (auto simp: remembers_def call_world_Inr)

text \<open>Answers that say whether a block is final under the policy.\<close>

definition final_heard :: "confirmation_policy \<Rightarrow> int \<Rightarrow> answer list \<Rightarrow> bool \<Rightarrow> bool" where
  "final_heard policy block answers final \<longleftrightarrow>
     (po_finality_tag policy \<noteq> Tag_latest \<and> (\<exists>n. answers = [Heard_finalized (Some n)] \<and> final = (block \<le> n))) \<or>
     (\<exists>latest. answers = [Heard_latest latest] @ (if po_finality_tag policy = Tag_latest then [] else [Heard_finalized None]) \<and>
        final = (po_confirmations policy \<le> latest - block + 1))"

text \<open>The newest answers show the receipt, and its block at its height.\<close>

definition canonical_heard :: "receipt_view \<Rightarrow> answer list \<Rightarrow> bool" where
  "canonical_heard r answers \<longleftrightarrow> (\<exists>h older. to_lower h = to_lower (rv_block_hash r) \<and>
     answers = [Heard_block (rv_block_number r) (Some h), Heard_receipt (Some r)] @ older)"

text \<open>A receipt is in sight: it was just found, or it is canonical, not reverted and not final yet.\<close>

definition in_sight :: "confirmation_policy \<Rightarrow> receipt_view \<Rightarrow> answer list \<Rightarrow> bool" where
  "in_sight policy r answers \<longleftrightarrow>
     (\<exists>k. answers = Heard_receipt (Some r) # replicate k (Heard_receipt None)) \<or>
     (\<exists>asked older. answers = asked @ older \<and> canonical_heard r older \<and> rv_status r = Rc_success \<and>
        final_heard policy (rv_block_number r) asked False)"

text \<open>What every outcome says of the answers, from the last back to the first of the wait.\<close>

fun outcome_heard :: "confirmation_policy \<Rightarrow> answer list \<Rightarrow> confirmation_outcome \<Rightarrow> bool" where
  "outcome_heard policy answers (Co_FINALIZED r) \<longleftrightarrow> (\<exists>asked older. answers = asked @ older \<and> canonical_heard r older \<and>
     rv_status r = Rc_success \<and> final_heard policy (rv_block_number r) asked True)"
| "outcome_heard policy answers (Co_REVERTED r) \<longleftrightarrow> canonical_heard r answers \<and> rv_status r = Rc_reverted"
| "outcome_heard policy answers (Co_ORPHANED r) \<longleftrightarrow>
     (\<exists>older. answers = Heard_receipt None # older \<and> in_sight policy r older) \<or>
     (\<exists>c older. answers = [Heard_block (rv_block_number r) c, Heard_receipt (Some r)] @ older \<and>
        (c = None \<or> (\<exists>h. c = Some h \<and> to_lower h \<noteq> to_lower (rv_block_hash r))))"
| "outcome_heard policy answers (Co_INCLUDED r) \<longleftrightarrow> in_sight policy r answers"
| "outcome_heard policy answers Co_PENDING \<longleftrightarrow> (\<exists>k. answers = replicate k (Heard_receipt None))"

lemma is_final_heard:
  assumes "remembers heard hash gw" "is_final gw block policy s = (Inr f, s')"
  shows "\<exists>asked. heard (sys_world s') = asked @ heard (sys_world s) \<and> final_heard policy block asked f"
proof (cases "po_finality_tag policy = Tag_latest")
  case True
  with assms(2) show ?thesis
    by (auto simp: is_final_def Let_def io_simps final_heard_def dest!: remembers_calls [OF assms(1)])
next
  case False
  with assms(2) obtain finalized s1 where fin: "call_world (gw_get_finalized_block_number gw) s = (Inr finalized, s1)"
    by (auto simp: is_final_def Let_def io_simps)
  from remembers_calls(3) [OF assms(1) fin] False assms(2) fin show ?thesis
    by (cases finalized) (auto simp: is_final_def Let_def io_simps final_heard_def dest!: remembers_calls(4) [OF assms(1)])
qed

text \<open>The reading of the clock a state was left with.\<close>

definition last_reading :: "'w sys \<Rightarrow> js_time" where
  "last_reading s = snd (sys_clock s (sys_step s - 1))"

lemma poll_heard:
  assumes heard: "remembers heard hash gw"
  shows "poll_receipt (Suc n) gw hash deadline policy s = (Inr x, s') \<Longrightarrow> clock_forward s \<Longrightarrow> deadline \<le> js_clock s + int n \<Longrightarrow>
    later s s' \<and> (x = None \<longrightarrow> deadline \<le> last_reading s') \<and>
    (\<exists>k. heard (sys_world s') = (case x of None \<Rightarrow> [] | Some r \<Rightarrow> [Heard_receipt (Some r)]) @
       replicate k (Heard_receipt None) @ heard (sys_world s))"
proof (induction n arbitrary: s)
  case 0
  then have "x = None" "s' = s\<lparr>sys_db := db_at_step s, sys_step := Suc (sys_step s)\<rparr>"
    by (auto simp: io_bind_def date_now_run io_ret_def)
  with 0 clock_forward_step [OF 0(2), where d = "db_at_step s"] show ?case
    by (auto simp: later_def last_reading_def js_clock_def intro!: exI [of _ 0])
next
  case (Suc n)
  let ?s = "s\<lparr>sys_db := db_at_step s, sys_step := Suc (sys_step s)\<rparr>"
  note fwd = clock_forward_step [OF Suc.prems(2), where d = "db_at_step s"]
  show ?case
  proof (cases "js_clock s < deadline")
    case False
    with Suc.prems(1) have "x = None" "s' = ?s"
      by (auto simp: io_bind_def date_now_run io_ret_def)
    with False fwd show ?thesis by (auto simp: later_def last_reading_def js_clock_def intro!: exI [of _ 0])
  next
    case True
    with Suc.prems(1) obtain y s1 where call: "call_world (gw_get_transaction_receipt gw hash) ?s = (Inr y, s1)"
      by (auto simp: io_bind_def date_now_run split: prod.splits sum.splits)
    note l1 = call_world_later [OF fwd(1) call]
    note h1 = remembers_calls(1) [OF heard call]
    show ?thesis
    proof (cases y)
      case (Some r)
      with True Suc.prems(1) call have "x = Some r" "s' = s1" by (auto simp: io_bind_def date_now_run io_ret_def)
      with Some h1 l1 fwd(2) show ?thesis by (auto simp: later_def intro!: exI [of _ 0])
    next
      case None
      with True Suc.prems(1) call have rest: "poll_receipt (Suc n) gw hash deadline policy (slept (po_poll_interval_ms policy) s1) = (Inr x, s')"
        by (auto simp: io_bind_def io_then_def date_now_run sleep_run simp del: poll_receipt.simps) (simp add: io_bind_def io_then_def date_now_run sleep_run)
      note passes = round_passes [where ms = "po_poll_interval_ms policy", OF Suc.prems(2) l1]
      from Suc.IH [OF rest] passes Suc.prems(3) obtain k where "later (slept (po_poll_interval_ms policy) s1) s'"
        "x = None \<longrightarrow> deadline \<le> last_reading s'"
        "heard (sys_world s') = (case x of None \<Rightarrow> [] | Some r \<Rightarrow> [Heard_receipt (Some r)]) @
          replicate k (Heard_receipt None) @ heard (sys_world (slept (po_poll_interval_ms policy) s1))" by auto
      with passes h1 None show ?thesis
        by (auto simp: later_def slept_def replicate_app_Cons_same intro!: exI [of _ "Suc k"])
    qed
  qed
qed

text \<open>One round of the second loop: the deadline has passed, the outcome is settled, or the loop goes on later.\<close>

lemma watch_round_calls:
  assumes "watch_round gw hash deadline policy k observed s = (Inr out, s')" "js_clock s < deadline"
  obtains s1 where "call_world (gw_get_transaction_receipt gw hash) (s\<lparr>sys_db := db_at_step s, sys_step := Suc (sys_step s)\<rparr>) = (Inr None, s1)"
      "out = Co_ORPHANED observed" "s' = s1"
  | r c s1 s2 where "call_world (gw_get_transaction_receipt gw hash) (s\<lparr>sys_db := db_at_step s, sys_step := Suc (sys_step s)\<rparr>) = (Inr (Some r), s1)"
      "call_world (gw_get_block_hash_at gw (rv_block_number r)) s1 = (Inr c, s2)"
      "(if (case c of None \<Rightarrow> True | Some h \<Rightarrow> to_lower h \<noteq> to_lower (rv_block_hash r)) then io_ret (Co_ORPHANED r)
        else if rv_status r = Rc_reverted then io_ret (Co_REVERTED r)
        else io_bind (is_final gw (rv_block_number r) policy) (\<lambda>final.
          if final then io_ret (Co_FINALIZED r) else io_then (sleep (po_poll_interval_ms policy)) (k r))) s2 = (Inr out, s')"
proof -
  from assms obtain y s1 where c1: "call_world (gw_get_transaction_receipt gw hash)
      (s\<lparr>sys_db := db_at_step s, sys_step := Suc (sys_step s)\<rparr>) = (Inr y, s1)"
    by (auto simp: watch_round_def io_bind_def date_now_run split: prod.splits sum.splits)
  show thesis
  proof (cases y)
    case None
    with assms c1 have "out = Co_ORPHANED observed" "s' = s1"
      by (auto simp: watch_round_def io_bind_def date_now_run io_ret_def)
    with that(1) c1 None show thesis by blast
  next
    case (Some r)
    with assms c1 obtain c s2 where c2: "call_world (gw_get_block_hash_at gw (rv_block_number r)) s1 = (Inr c, s2)"
      by (auto simp: watch_round_def io_bind_def date_now_run split: prod.splits sum.splits)
    with assms c1 Some show thesis
      by (intro that(2) [of r s1 c s2]) (simp_all add: watch_round_def io_bind_def date_now_run)
  qed
qed

lemma watch_round_heard:
  assumes heard: "remembers heard hash gw" and run: "watch_round gw hash deadline policy k observed s = (Inr out, s')"
    and fwd: "clock_forward s" and before: "heard (sys_world s) = seen @ before" "in_sight policy observed seen"
  obtains (expired) "out = Co_INCLUDED observed" "s' = s\<lparr>sys_db := db_at_step s, sys_step := Suc (sys_step s)\<rparr>" "deadline \<le> js_clock s"
  | (settled) answers where "out \<notin> insert Co_PENDING (range Co_INCLUDED)" "heard (sys_world s') = answers @ before"
      "outcome_heard policy answers out"
  | (again) r t answers where "k r t = (Inr out, s')" "clock_forward t" "js_clock s + 1 \<le> js_clock t"
      "heard (sys_world t) = answers @ before" "in_sight policy r answers"
proof (cases "js_clock s < deadline")
  case False
  with run expired show thesis by (auto simp: watch_round_def io_bind_def date_now_run io_ret_def)
next
  case True
  let ?s = "s\<lparr>sys_db := db_at_step s, sys_step := Suc (sys_step s)\<rparr>"
  note fwd' = clock_forward_step(1) [OF fwd, where d = "db_at_step s" and n = "Suc (sys_step s)"]
  show thesis
  proof (rule watch_round_calls [OF run True])
    fix s1 assume c1: "call_world (gw_get_transaction_receipt gw hash) ?s = (Inr None, s1)" and "out = Co_ORPHANED observed" "s' = s1"
    with before remembers_calls(1) [OF heard c1] show thesis by (intro settled [of "Heard_receipt None # seen"]) auto
  next
    fix r c s1 s2
    assume c1: "call_world (gw_get_transaction_receipt gw hash) ?s = (Inr (Some r), s1)"
      and c2: "call_world (gw_get_block_hash_at gw (rv_block_number r)) s1 = (Inr c, s2)"
      and rest: "(if (case c of None \<Rightarrow> True | Some h \<Rightarrow> to_lower h \<noteq> to_lower (rv_block_hash r)) then io_ret (Co_ORPHANED r)
        else if rv_status r = Rc_reverted then io_ret (Co_REVERTED r)
        else io_bind (is_final gw (rv_block_number r) policy) (\<lambda>final.
          if final then io_ret (Co_FINALIZED r) else io_then (sleep (po_poll_interval_ms policy)) (k r))) s2 = (Inr out, s')"
    let ?seen = "[Heard_block (rv_block_number r) c, Heard_receipt (Some r)] @ seen"
    have seen2: "heard (sys_world s2) = ?seen @ before"
      using remembers_calls(1) [OF heard c1] remembers_calls(2) [OF heard c2] before(1) by simp
    have l1: "later ?s s1" by (rule call_world_later [OF fwd' c1])
    have l2: "later s1 s2" by (rule call_world_later [OF _ c2]) (use l1 in \<open>simp add: later_def\<close>)
    show thesis
    proof (cases "(case c of None \<Rightarrow> True | Some h \<Rightarrow> to_lower h \<noteq> to_lower (rv_block_hash r))")
      case True
      with rest seen2 show thesis by (intro settled [of ?seen]) (auto simp: io_ret_def split: option.splits)
    next
      case False
      then have canonical: "canonical_heard r ?seen" by (cases c) (auto simp: canonical_heard_def)
      show thesis
      proof (cases "rv_status r = Rc_reverted")
        case True
        with rest False seen2 canonical show thesis by (intro settled [of ?seen]) (auto simp: io_ret_def)
      next
        case succeeded: False
        then have success: "rv_status r = Rc_success" by (cases "rv_status r") auto
        from rest False succeeded obtain f s3 where c3: "is_final gw (rv_block_number r) policy s2 = (Inr f, s3)"
          and tail: "(if f then io_ret (Co_FINALIZED r) else io_then (sleep (po_poll_interval_ms policy)) (k r)) s3 = (Inr out, s')"
          by (auto simp: io_bind_Inr)
        from is_final_heard [OF heard c3] seen2 obtain asked where seen3: "heard (sys_world s3) = (asked @ ?seen) @ before"
          and asked: "final_heard policy (rv_block_number r) asked f" by auto
        have "later s2 s3" by (rule is_final_later [OF _ c3]) (use l2 in \<open>simp add: later_def\<close>)
        with l1 l2 have "later ?s s3" by (auto simp: later_def)
        note passes = round_passes [where ms = "po_poll_interval_ms policy", OF fwd this]
        show thesis
        proof (cases f)
          case True
          with tail have out: "out = Co_FINALIZED r" "s' = s3" by (simp_all add: io_ret_def)
          have "outcome_heard policy (asked @ ?seen) out"
            unfolding out outcome_heard.simps
            by (intro exI [of _ asked] exI [of _ ?seen] conjI refl canonical success) (use True asked in simp)
          with out seen3 show thesis by (intro settled [of "asked @ ?seen"]) auto
        next
          case False
          have "in_sight policy r (asked @ ?seen)" unfolding in_sight_def
            by (intro disjI2 exI [of _ asked] exI [of _ ?seen] conjI refl canonical success) (use False asked in simp)
          with False tail seen3 passes show thesis
            by (intro again [of r "slept (po_poll_interval_ms policy) s3" "asked @ ?seen"])
              (simp_all add: io_then_def io_bind_def sleep_run, simp add: slept_def)
        qed
      qed
    qed
  qed
qed

lemma watch_heard:
  assumes heard: "remembers heard hash gw"
  shows "watch_receipt (Suc n) gw hash deadline policy observed s = (Inr out, s') \<Longrightarrow> clock_forward s \<Longrightarrow>
    deadline \<le> js_clock s + int n \<Longrightarrow> heard (sys_world s) = seen @ before \<Longrightarrow> in_sight policy observed seen \<Longrightarrow>
    (out \<in> insert Co_PENDING (range Co_INCLUDED) \<longrightarrow> deadline \<le> last_reading s') \<and>
    (\<exists>new. heard (sys_world s') = new @ before \<and> outcome_heard policy new out)"
proof (induction n arbitrary: s seen observed)
  case 0
  then have "out = Co_INCLUDED observed" "s' = s\<lparr>sys_db := db_at_step s, sys_step := Suc (sys_step s)\<rparr>"
    by (auto simp: watch_round_def io_bind_def date_now_run io_ret_def)
  with 0 show ?case by (auto simp: last_reading_def js_clock_def)
next
  case (Suc n)
  from Suc.prems(1) have "watch_round gw hash deadline policy (watch_receipt (Suc n) gw hash deadline policy) observed s = (Inr out, s')"
    by (simp only: watch_receipt.simps)
  then show ?case
  proof (rule watch_round_heard [OF heard _ Suc.prems(2,4,5)])
    assume "out = Co_INCLUDED observed" "s' = s\<lparr>sys_db := db_at_step s, sys_step := Suc (sys_step s)\<rparr>" "deadline \<le> js_clock s"
    with Suc.prems(4,5) show ?thesis by (auto simp: last_reading_def js_clock_def)
  next
    fix r t answers
    assume rest: "watch_receipt (Suc n) gw hash deadline policy r t = (Inr out, s')" and t: "clock_forward t" "js_clock s + 1 \<le> js_clock t"
      and seen: "heard (sys_world t) = answers @ before" "in_sight policy r answers"
    have "deadline \<le> js_clock t + int n" using Suc.prems(3) t(2) by simp
    from Suc.IH [OF rest t(1) this seen] show ?thesis .
  qed blast
qed

text \<open>
  C4: every outcome of the wait is what the chain last answered. FINALIZED: the last answers are the successful
  receipt, its own block hash at its height, and finality under the policy. REVERTED: the reverted receipt and its
  own block hash. ORPHANED: a receipt that was in sight is gone, or the last answers are the receipt and no block or
  another one at its height. INCLUDED: the deadline has passed with a receipt in sight that is not final; PENDING:
  it has passed and every answer was that there is no receipt. The clock of the process is one that does not go back.
\<close>

theorem await_confirmation_evidence:
  assumes "await_confirmation gw hash policy s = (Inr out, s')" "remembers heard hash gw" "clock_forward s"
  shows "(\<exists>answers. heard (sys_world s') = answers @ heard (sys_world s) \<and> outcome_heard policy answers out) \<and>
    (out \<in> insert Co_PENDING (range Co_INCLUDED) \<longrightarrow> js_clock s + po_timeout_ms policy \<le> last_reading s')"
proof -
  let ?s = "s\<lparr>sys_db := db_at_step s, sys_step := Suc (sys_step s)\<rparr>" and ?d = "js_clock s + po_timeout_ms policy"
  note fwd = clock_forward_step [OF assms(3), where d = "db_at_step s"]
  have d: "?d \<le> js_clock ?s + int (nat (po_timeout_ms policy))" using fwd(2) by linarith
  from assms(1) obtain x s1 where poll: "poll_receipt (rounds policy) gw hash ?d policy ?s = (Inr x, s1)"
    and rest: "(case x of None \<Rightarrow> io_ret Co_PENDING | Some r \<Rightarrow> watch_receipt (rounds policy) gw hash ?d policy r) s1 = (Inr out, s')"
    by (auto simp: await_confirmation_def await_rounds_def Let_def io_bind_def date_now_run split: prod.splits sum.splits)
  from poll_heard [OF assms(2) poll [unfolded rounds_def] fwd(1) d] obtain k where l: "later ?s s1"
    and none: "x = None \<longrightarrow> ?d \<le> last_reading s1"
    and seen: "heard (sys_world s1) = ((case x of None \<Rightarrow> [] | Some r \<Rightarrow> [Heard_receipt (Some r)]) @ replicate k (Heard_receipt None)) @
      heard (sys_world s)" by auto
  show ?thesis
  proof (cases x)
    case None
    with rest none seen show ?thesis by (auto simp: io_ret_def)
  next
    case (Some r)
    let ?seen = "Heard_receipt (Some r) # replicate k (Heard_receipt None)"
    from Some rest have watch: "watch_receipt (Suc (nat (po_timeout_ms policy))) gw hash ?d policy r s1 = (Inr out, s')"
      by (simp add: rounds_def)
    have "clock_forward s1" "?d \<le> js_clock s1 + int (nat (po_timeout_ms policy))" using l d by (auto simp: later_def)
    moreover have "heard (sys_world s1) = ?seen @ heard (sys_world s)" using seen Some by simp
    moreover have "in_sight policy r ?seen" by (auto simp: in_sight_def)
    ultimately have "(out \<in> insert Co_PENDING (range Co_INCLUDED) \<longrightarrow> ?d \<le> last_reading s') \<and>
        (\<exists>new. heard (sys_world s') = new @ heard (sys_world s) \<and> outcome_heard policy new out)"
      by (rule watch_heard [OF assms(2) watch])
    then show ?thesis by blast
  qed
qed

end
