(* ===== verification/ChainWriter.thy ===== *)
theory ChainWriter
  imports Confirmation
begin

text \<open>
  \<open>modules/transactions/chain-writer.ts\<close>: one allowlisted chain write with persist-before-broadcast.
  No database transaction is open across a call to the chain or the signer; each durable step is
  a transaction of its own, with the hook of the operation that asked for the write inside it.
\<close>

subsection \<open>Dependencies, hooks, intents, outcomes\<close>

record 'w chain_env =
  ce_gateway :: "'w gateway"
  ce_signer :: "'w signer_provider"
  ce_chain_id :: int
  ce_signer_request_timeout_ms :: int
  ce_replacement :: replacement_policy
  ce_codec :: transaction_codec
  ce_sha :: "string \<Rightarrow> string"

record 'w write_hooks =
  hk_on_prepared :: "attempt_row \<Rightarrow> (db, unit) tx"
  hk_on_signed :: "attempt_row \<Rightarrow> (db, unit) tx"
  hk_assert_broadcast_allowed :: "('w sys, unit) io"
  hk_on_broadcasting :: "attempt_row \<Rightarrow> (db, unit) tx"
  hk_on_submitted :: "attempt_row \<Rightarrow> string \<Rightarrow> (db, unit) tx"
  hk_on_broadcast_unknown :: "attempt_row \<Rightarrow> string \<Rightarrow> (db, unit) tx"
  hk_on_failed :: "attempt_row \<Rightarrow> string \<Rightarrow> string \<Rightarrow> (db, unit) tx"

text \<open>A hook that is not given does nothing.\<close>

definition no_hooks :: "'w write_hooks" where
  "no_hooks = \<lparr>hk_on_prepared = (\<lambda>_. tx_ret ()), hk_on_signed = (\<lambda>_. tx_ret ()),
     hk_assert_broadcast_allowed = io_ret (), hk_on_broadcasting = (\<lambda>_. tx_ret ()),
     hk_on_submitted = (\<lambda>_ _. tx_ret ()), hk_on_broadcast_unknown = (\<lambda>_ _. tx_ret ()),
     hk_on_failed = (\<lambda>_ _ _. tx_ret ())\<rparr>"

record write_intent =
  wi_purpose :: attempt_purpose
  wi_call :: encoded_call
  wi_operation_id :: "uuid option"
  wi_asset_id :: "uuid option"
  wi_wallet_id :: "uuid option"
  wi_correlation_id :: string
  wi_evidence :: json

datatype write_outcome =
    Wo_SUBMITTED uuid string
  | Wo_SIGNATURE_PENDING uuid string
  | Wo_BROADCAST_UNKNOWN uuid string string
  | Wo_FAILED uuid string string

subsection \<open>Broadcast errors\<close>

datatype broadcast_error_class = ALREADY_KNOWN | DETERMINISTIC_REJECTION | AMBIGUOUS

definition already_known_texts :: "string list" where
  "already_known_texts = [''already known'', ''already imported'', ''transaction already exists'']"

definition rejection_texts :: "string list" where
  "rejection_texts = [''intrinsic gas too low'', ''exceeds block gas limit'', ''invalid sender'', ''rlp'',
     ''invalid signature'', ''insufficient funds'', ''max fee per gas less than block base fee'',
     ''transaction type not supported'']"

definition classify_broadcast_error :: "exn \<Rightarrow> broadcast_error_class" where
  "classify_broadcast_error e =
     (let message = to_lower (message_of_error e)
      in if list_ex (str_includes message) already_known_texts then ALREADY_KNOWN
         else if str_includes message ''nonce too low'' then AMBIGUOUS
         else if list_ex (str_includes message) rejection_texts then DETERMINISTIC_REJECTION
         else AMBIGUOUS)"

text \<open>
  A broadcast error is final only when the node's message names one of the listed rejections
  and neither an already-known transaction nor a nonce that is too low; every other error, an
  unknown one included, stays ambiguous.
\<close>

theorem classify_broadcast_error_spec:
  "(classify_broadcast_error e = DETERMINISTIC_REJECTION \<longleftrightarrow>
      (\<exists>t \<in> set rejection_texts. sublist t (to_lower (message_of_error e))) \<and>
      \<not> sublist ''nonce too low'' (to_lower (message_of_error e)) \<and>
      \<not> (\<exists>t \<in> set already_known_texts. sublist t (to_lower (message_of_error e)))) \<and>
   (classify_broadcast_error e = ALREADY_KNOWN \<longleftrightarrow>
      (\<exists>t \<in> set already_known_texts. sublist t (to_lower (message_of_error e))))"
  by (auto simp: classify_broadcast_error_def Let_def list_ex_iff str_includes_iff)

subsection \<open>Durable steps\<close>

definition request_hash ::
  "(string \<Rightarrow> string) \<Rightarrow> int \<Rightarrow> string \<Rightarrow> string option \<Rightarrow> int \<Rightarrow> string \<Rightarrow> int \<Rightarrow> fee_estimate \<Rightarrow> string" where
  "request_hash sha chain_id from_a to_a nonce data gas_limit fees = canonical_hash sha (JObj
     [(''chainId'', Some (JNum chain_id)), (''from'', Some (JStr (to_lower from_a))),
      (''to'', Some (json_of_opt (map_option to_lower to_a))), (''nonce'', Some (JNum nonce)),
      (''value'', Some (JStr ''0'')), (''data'', Some (JStr (to_lower data))),
      (''gasLimit'', Some (JStr (show_int gas_limit))),
      (''maxFeePerGas'', Some (JStr (show_int (fe_max_fee_per_gas fees)))),
      (''maxPriorityFeePerGas'', Some (JStr (show_int (fe_max_priority_fee_per_gas fees))))])"

text \<open>Nonce reservation, the prepared attempt and the hook commit together.\<close>

definition prepare_attempt_tx ::
  "'w chain_env \<Rightarrow> write_intent \<Rightarrow> 'w write_hooks \<Rightarrow> string \<Rightarrow> int \<Rightarrow> int \<Rightarrow> fee_estimate \<Rightarrow> (db, attempt_row) tx" where
  "prepare_attempt_tx env intent hooks signer_addr chain_nonce gas_limit fees =
     tx_bind (reserve_nonce (ce_chain_id env) signer_addr chain_nonce) (\<lambda>nonce.
     (let fingerprint = intent_fingerprint (ce_sha env)
            \<lparr>ti_chain_id = ce_chain_id env, ti_from = signer_addr, ti_to = ec_to (wi_call intent),
             ti_data = ec_data (wi_call intent), ti_value = ''0'', ti_purpose = attempt_purpose_name (wi_purpose intent),
             ti_operation_id = wi_operation_id intent\<rparr>
      in tx_bind (insert_prepared_attempt
           \<lparr>ia_operation_id = wi_operation_id intent, ia_asset_id = wi_asset_id intent, ia_wallet_id = wi_wallet_id intent,
            ia_purpose = wi_purpose intent, ia_chain_id = ce_chain_id env, ia_from_address = signer_addr,
            ia_to_address = ec_to (wi_call intent), ia_nonce = nonce, ia_data = ec_data (wi_call intent),
            ia_gas_limit = gas_limit, ia_max_fee_per_gas = fe_max_fee_per_gas fees,
            ia_max_priority_fee_per_gas = fe_max_priority_fee_per_gas fees,
            ia_request_hash = request_hash (ce_sha env) (ce_chain_id env) signer_addr (ec_to (wi_call intent)) nonce
              (ec_data (wi_call intent)) gas_limit fees,
            ia_intent_fingerprint = fingerprint, ia_replaces_attempt_id = None, ia_replacement_reason = None,
            ia_replacement_number = None\<rparr>) (\<lambda>prepared.
         tx_then (hk_on_prepared hooks prepared) (tx_ret prepared))))"

definition persist_signed_tx :: "'w write_hooks \<Rightarrow> attempt_row \<Rightarrow> string \<Rightarrow> string \<Rightarrow> uuid \<Rightarrow> (db, unit) tx" where
  "persist_signed_tx hooks attempt signed hash signer_request_id =
     tx_then (persist_signed_attempt (ta_id attempt) signed hash)
     (tx_then (mark_signer_request_signed signer_request_id)
     (hk_on_signed hooks attempt))"

definition broadcasting_tx :: "'w write_hooks \<Rightarrow> attempt_row \<Rightarrow> (db, unit) tx" where
  "broadcasting_tx hooks attempt =
     tx_then (update_attempt_status (ta_id attempt)
       ((status_only At_BROADCASTING)\<lparr>sp_increment_broadcast_attempts := True\<rparr>))
     (hk_on_broadcasting hooks attempt)"

definition submitted_tx :: "'w write_hooks \<Rightarrow> attempt_row \<Rightarrow> string \<Rightarrow> (db, unit) tx" where
  "submitted_tx hooks attempt hash =
     tx_then (update_attempt_status (ta_id attempt) (status_only At_SUBMITTED))
     (hk_on_submitted hooks attempt hash)"

definition broadcast_unknown_tx :: "'w write_hooks \<Rightarrow> attempt_row \<Rightarrow> string \<Rightarrow> (db, unit) tx" where
  "broadcast_unknown_tx hooks attempt reason =
     tx_then (update_attempt_status (ta_id attempt)
       ((status_only At_BROADCAST_UNKNOWN)\<lparr>sp_error_code := Some (Some ''BROADCAST_AMBIGUOUS''),
          sp_error_message := Some (Some reason)\<rparr>))
     (hk_on_broadcast_unknown hooks attempt reason)"

definition fail_attempt_tx :: "'w write_hooks \<Rightarrow> attempt_row \<Rightarrow> string \<Rightarrow> string \<Rightarrow> (db, unit) tx" where
  "fail_attempt_tx hooks attempt code message =
     tx_then (update_attempt_status (ta_id attempt)
       ((status_only At_FAILED)\<lparr>sp_error_code := Some (Some code), sp_error_message := Some (Some message)\<rparr>))
     (hk_on_failed hooks attempt code message)"

subsection \<open>Broadcast\<close>

definition mark_submitted :: "'w write_hooks \<Rightarrow> attempt_row \<Rightarrow> string \<Rightarrow> ('w sys, write_outcome) io" where
  "mark_submitted hooks attempt hash =
     io_then (run_tx (submitted_tx hooks attempt hash)) (io_ret (Wo_SUBMITTED (ta_id attempt) hash))"

definition broadcast_failed ::
  "'w write_hooks \<Rightarrow> attempt_row \<Rightarrow> string \<Rightarrow> exn \<Rightarrow> ('w sys, write_outcome) io" where
  "broadcast_failed hooks attempt hash e =
     (let message = message_of_error e
      in case classify_broadcast_error e of
        ALREADY_KNOWN \<Rightarrow> mark_submitted hooks attempt hash
      | DETERMINISTIC_REJECTION \<Rightarrow>
          io_then (run_tx (fail_attempt_tx hooks attempt ''BROADCAST_REJECTED'' message))
          (io_ret (Wo_FAILED (ta_id attempt) ''BROADCAST_REJECTED'' message))
      | AMBIGUOUS \<Rightarrow>
          io_then (run_tx (broadcast_unknown_tx hooks attempt message))
          (io_ret (Wo_BROADCAST_UNKNOWN (ta_id attempt) hash message)))"

definition broadcast ::
  "'w chain_env \<Rightarrow> attempt_row \<Rightarrow> string \<Rightarrow> string \<Rightarrow> 'w write_hooks \<Rightarrow> ('w sys, write_outcome) io" where
  "broadcast env attempt signed hash hooks =
     io_bind (run_query (find_attempt_by_id (ta_id attempt))) (\<lambda>current.
     if (case current of None \<Rightarrow> True | Some a \<Rightarrow> ta_status a = At_REPLACED)
     then io_ret (Wo_FAILED (ta_id attempt) ''ATTEMPT_SUPERSEDED'' ''the attempt was replaced before this broadcast'')
     else io_bind (io_attempt (call_world (gw_broadcast_raw_transaction (ce_gateway env) signed))) (\<lambda>sent.
       case sent of
         Inr _ \<Rightarrow> mark_submitted hooks attempt hash
       | Inl e \<Rightarrow> broadcast_failed hooks attempt hash e))"

subsection \<open>Settling a signature\<close>

definition unsigned_request_from :: "attempt_row \<Rightarrow> unsigned_request" where
  "unsigned_request_from a =
     \<lparr>utr_attempt_id = ta_id a, utr_chain_id = ta_chain_id a, utr_from = ta_from_address a, utr_to = ta_to_address a,
      utr_nonce = ta_nonce a, utr_value = 0, utr_data = ta_data a, utr_gas_limit = ta_gas_limit a,
      utr_max_fee_per_gas = ta_max_fee_per_gas a, utr_max_priority_fee_per_gas = ta_max_priority_fee_per_gas a\<rparr>"

definition withhold_broadcast :: "'w write_hooks \<Rightarrow> attempt_row \<Rightarrow> exn \<Rightarrow> ('w sys, write_outcome) io" where
  "withhold_broadcast hooks attempt e =
     (let code = error_code_name (code_of_error e); message = message_of_error e
      in io_then (run_tx (fail_attempt_tx hooks attempt code message)) (io_ret (Wo_FAILED (ta_id attempt) code message)))"

definition settle_signed ::
  "'w chain_env \<Rightarrow> attempt_row \<Rightarrow> string \<Rightarrow> string \<Rightarrow> uuid \<Rightarrow> 'w write_hooks \<Rightarrow> ('w sys, write_outcome) io" where
  "settle_signed env attempt signed hash signer_request_id hooks =
     io_then (run_tx (persist_signed_tx hooks attempt signed hash signer_request_id))
     (io_bind (io_attempt (hk_assert_broadcast_allowed hooks)) (\<lambda>allowed.
      case allowed of
        Inl e \<Rightarrow> withhold_broadcast hooks attempt e
      | Inr _ \<Rightarrow> io_then (run_tx (broadcasting_tx hooks attempt)) (broadcast env attempt signed hash hooks)))"

definition settle_signature ::
  "'w chain_env \<Rightarrow> attempt_row \<Rightarrow> unsigned_request \<Rightarrow> signer_state \<Rightarrow> uuid \<Rightarrow> 'w write_hooks \<Rightarrow> ('w sys, write_outcome) io" where
  "settle_signature env attempt r st signer_request_id hooks = (case st of
     Signature_pending i \<Rightarrow> io_ret (Wo_SIGNATURE_PENDING (ta_id attempt) i)
   | Signature_rejected _ reason code \<Rightarrow>
       io_then (run_tx (mark_signer_request_rejected signer_request_id code))
       (io_then (run_tx (fail_attempt_tx hooks attempt (error_code_name SIGNER_REJECTED) (code @ '': '' @ reason)))
       (io_ret (Wo_FAILED (ta_id attempt) (error_code_name SIGNER_REJECTED) reason)))
   | Signature_signed _ _ signed claimed \<Rightarrow>
       (case verify_signed_transaction (ce_codec env) signed r (utr_from r) claimed of
          Inl e \<Rightarrow>
            io_then (run_tx (fail_attempt_tx hooks attempt (error_code_name SIGNED_TRANSACTION_MISMATCH) (message_of_error e)))
            (io_throw e)
        | Inr (hash, recovered) \<Rightarrow> settle_signed env attempt signed hash signer_request_id hooks))"

text \<open>The request to the signer, its durable record, and what follows from the answer.\<close>

definition submit_to_signer ::
  "'w chain_env \<Rightarrow> attempt_row \<Rightarrow> unsigned_request \<Rightarrow> signing_context \<Rightarrow> uuid option \<Rightarrow> 'w write_hooks \<Rightarrow>
   ('w sys, write_outcome) io" where
  "submit_to_signer env attempt r ctx operation_id hooks =
     io_bind (call_world (sg_request_signature (ce_signer env) r ctx)) (\<lambda>st.
     io_bind (run_tx (record_signer_request
        \<lparr>nsr_transaction_attempt_id = ta_id attempt, nsr_operation_id = operation_id, nsr_provider = sg_name (ce_signer env),
         nsr_provider_request_id = provider_request_id st, nsr_status = signer_request_status_of st,
         nsr_request_fingerprint = ta_request_hash attempt\<rparr>)) (\<lambda>signer_request.
     if is_pending st then io_ret (Wo_SIGNATURE_PENDING (ta_id attempt) (provider_request_id st))
     else settle_signature env attempt r st (sr_id signer_request) hooks))"

subsection \<open>A first write\<close>

definition buffered_gas :: "int \<Rightarrow> int" where
  "buffered_gas estimate = estimate * 5 div 4"

definition execute_write :: "'w chain_env \<Rightarrow> write_intent \<Rightarrow> 'w write_hooks \<Rightarrow> ('w sys, write_outcome) io" where
  "execute_write env intent hooks =
     io_bind (call_world (sg_get_signer_address (ce_signer env))) (\<lambda>signer_addr.
     io_then (call_world (gw_get_chain_identity (ce_gateway env)))
     (io_bind (call_world (gw_simulate (ce_gateway env)
        \<lparr>si_from = signer_addr, si_to = ec_to (wi_call intent), si_data = ec_data (wi_call intent), si_value = 0\<rparr>)) (\<lambda>simulation.
      case simulation of
        Sim_failed revert_reason \<Rightarrow> io_throw (app_error SIMULATION_FAILED ''transaction simulation reverted''
          [(''revertReason'', JStr revert_reason), (''purpose'', JStr (attempt_purpose_name (wi_purpose intent)))])
      | Sim_ok gas_estimate \<Rightarrow>
          io_bind (call_world (gw_get_fee_estimate (ce_gateway env))) (\<lambda>fees.
          io_bind (call_world (gw_get_transaction_count (ce_gateway env) signer_addr)) (\<lambda>chain_nonce.
          io_bind (run_tx (prepare_attempt_tx env intent hooks signer_addr chain_nonce (buffered_gas gas_estimate) fees)) (\<lambda>attempt.
          submit_to_signer env attempt
            \<lparr>utr_attempt_id = ta_id attempt, utr_chain_id = ce_chain_id env, utr_from = signer_addr,
             utr_to = ec_to (wi_call intent), utr_nonce = ta_nonce attempt, utr_value = 0, utr_data = ec_data (wi_call intent),
             utr_gas_limit = ta_gas_limit attempt, utr_max_fee_per_gas = ta_max_fee_per_gas attempt,
             utr_max_priority_fee_per_gas = ta_max_priority_fee_per_gas attempt\<rparr>
            \<lparr>sc_purpose = wi_purpose intent, sc_operation_id = wi_operation_id intent, sc_asset_id = wi_asset_id intent,
             sc_correlation_id = wi_correlation_id intent, sc_evidence = wi_evidence intent\<rparr>
            (wi_operation_id intent) hooks))))))"

subsection \<open>Replacements\<close>

record replacement_input =
  rpi_operation_id :: "uuid option"
  rpi_asset_id :: "uuid option"
  rpi_wallet_id :: "uuid option"
  rpi_purpose :: attempt_purpose
  rpi_chain_id :: int
  rpi_from_address :: string
  rpi_to_address :: "string option"
  rpi_nonce :: int
  rpi_data :: string
  rpi_gas_limit :: int
  rpi_fees :: fee_estimate
  rpi_intent_fingerprint :: string
  rpi_reason :: string
  rpi_correlation_id :: string
  rpi_evidence :: json

text \<open>Retire, insert, link: the live-nonce index only ignores retired rows.\<close>

definition replace_attempt_tx ::
  "'w chain_env \<Rightarrow> attempt_row \<Rightarrow> replacement_input \<Rightarrow> 'w write_hooks \<Rightarrow> (db, attempt_row) tx" where
  "replace_attempt_tx env previous input hooks =
     tx_bind (retire_attempt_for_replacement (ta_id previous) (rpi_reason input)) (\<lambda>retired.
     tx_then (tx_guard retired (app_error OPERATION_CONFLICT ''the attempt was already replaced by another dispatcher''
       [(''attemptId'', JStr (ta_id previous))]))
     (tx_bind (insert_prepared_attempt
        \<lparr>ia_operation_id = rpi_operation_id input, ia_asset_id = rpi_asset_id input, ia_wallet_id = rpi_wallet_id input,
         ia_purpose = rpi_purpose input, ia_chain_id = rpi_chain_id input, ia_from_address = rpi_from_address input,
         ia_to_address = rpi_to_address input, ia_nonce = rpi_nonce input, ia_data = rpi_data input,
         ia_gas_limit = rpi_gas_limit input, ia_max_fee_per_gas = fe_max_fee_per_gas (rpi_fees input),
         ia_max_priority_fee_per_gas = fe_max_priority_fee_per_gas (rpi_fees input),
         ia_request_hash = request_hash (ce_sha env) (rpi_chain_id input) (rpi_from_address input) (rpi_to_address input)
           (rpi_nonce input) (rpi_data input) (rpi_gas_limit input) (rpi_fees input),
         ia_intent_fingerprint = rpi_intent_fingerprint input, ia_replaces_attempt_id = Some (ta_id previous),
         ia_replacement_reason = Some (rpi_reason input),
         ia_replacement_number = Some (ta_replacement_number previous + 1)\<rparr>) (\<lambda>inserted.
      tx_then (link_attempt_replacement (ta_id previous) (ta_id inserted))
      (tx_then (hk_on_prepared hooks inserted) (tx_ret inserted)))))"

definition sign_replacement ::
  "'w chain_env \<Rightarrow> attempt_row \<Rightarrow> replacement_input \<Rightarrow> 'w write_hooks \<Rightarrow> ('w sys, write_outcome) io" where
  "sign_replacement env previous input hooks =
     io_bind (run_tx (replace_attempt_tx env previous input hooks)) (\<lambda>attempt.
     submit_to_signer env attempt (unsigned_request_from attempt)
       \<lparr>sc_purpose = rpi_purpose input, sc_operation_id = rpi_operation_id input, sc_asset_id = rpi_asset_id input,
        sc_correlation_id = rpi_correlation_id input, sc_evidence = rpi_evidence input\<rparr>
       (rpi_operation_id input) hooks)"

definition replacement_candidate :: "attempt_row \<Rightarrow> replacement_fields" where
  "replacement_candidate previous =
     \<lparr>rf_chain_id = ta_chain_id previous, rf_from_address = ta_from_address previous, rf_to_address = ta_to_address previous,
      rf_data = ta_data previous, rf_value = show_int (ta_value previous), rf_nonce = ta_nonce previous,
      rf_purpose = ta_purpose previous, rf_operation_id = ta_operation_id previous\<rparr>"

definition fee_replacement_input ::
  "(string \<Rightarrow> string) \<Rightarrow> attempt_row \<Rightarrow> fee_estimate \<Rightarrow> string \<Rightarrow> string \<Rightarrow> replacement_input" where
  "fee_replacement_input sha previous fees reason correlation_id =
     \<lparr>rpi_operation_id = ta_operation_id previous, rpi_asset_id = ta_asset_id previous, rpi_wallet_id = ta_wallet_id previous,
      rpi_purpose = ta_purpose previous, rpi_chain_id = ta_chain_id previous, rpi_from_address = ta_from_address previous,
      rpi_to_address = ta_to_address previous, rpi_nonce = ta_nonce previous, rpi_data = ta_data previous,
      rpi_gas_limit = ta_gas_limit previous, rpi_fees = fees, rpi_intent_fingerprint = fingerprint_of sha previous,
      rpi_reason = reason, rpi_correlation_id = correlation_id,
      rpi_evidence = JObj [(''replacesAttemptId'', Some (JStr (ta_id previous))), (''replacementReason'', Some (JStr reason)),
        (''replacementNumber'', Some (JNum (int (ta_replacement_number previous + 1))))]\<rparr>"

definition replace_fees ::
  "'w chain_env \<Rightarrow> attempt_row \<Rightarrow> fee_estimate \<Rightarrow> string \<Rightarrow> string \<Rightarrow> 'w write_hooks \<Rightarrow> ('w sys, write_outcome) io" where
  "replace_fees env previous fees reason correlation_id hooks =
     (if ta_replacement_number previous \<ge> rp_max_replacements (ce_replacement env)
      then io_throw (app_error REPLACEMENT_LIMIT_REACHED ''replacement limit reached for this transaction''
        [(''attemptId'', JStr (ta_id previous)), (''replacementNumber'', JNum (int (ta_replacement_number previous)))])
      else io_then (io_lift (assert_fee_only_replacement (ce_sha env) previous (replacement_candidate previous)))
        (if fe_max_fee_per_gas fees \<le> ta_max_fee_per_gas previous \<or>
            fe_max_priority_fee_per_gas fees \<le> ta_max_priority_fee_per_gas previous
         then io_throw (app_error REPLACEMENT_INTENT_MISMATCH ''a replacement must raise both fee fields''
           [(''attemptId'', JStr (ta_id previous))])
         else sign_replacement env previous (fee_replacement_input (ce_sha env) previous fees reason correlation_id) hooks))"

definition NONCE_RECOVERY_GAS_LIMIT :: int where
  "NONCE_RECOVERY_GAS_LIMIT = 30000"

definition nonce_recovery_input ::
  "(string \<Rightarrow> string) \<Rightarrow> string \<Rightarrow> attempt_row \<Rightarrow> fee_estimate \<Rightarrow> string \<Rightarrow> string \<Rightarrow> replacement_input" where
  "nonce_recovery_input sha signer_addr blocked fees reason correlation_id =
     \<lparr>rpi_operation_id = None, rpi_asset_id = ta_asset_id blocked, rpi_wallet_id = ta_wallet_id blocked,
      rpi_purpose = P_NONCE_RECOVERY, rpi_chain_id = ta_chain_id blocked, rpi_from_address = signer_addr,
      rpi_to_address = Some signer_addr, rpi_nonce = ta_nonce blocked, rpi_data = ''0x'',
      rpi_gas_limit = NONCE_RECOVERY_GAS_LIMIT, rpi_fees = fees,
      rpi_intent_fingerprint = intent_fingerprint sha
        \<lparr>ti_chain_id = ta_chain_id blocked, ti_from = signer_addr, ti_to = Some signer_addr, ti_data = ''0x'',
         ti_value = ''0'', ti_purpose = ''NONCE_RECOVERY'', ti_operation_id = None\<rparr>,
      rpi_reason = reason, rpi_correlation_id = correlation_id,
      rpi_evidence = JObj [(''recoversAttemptId'', Some (JStr (ta_id blocked))), (''blockedNonce'', Some (JNum (ta_nonce blocked)))]\<rparr>"

definition cancel_nonce ::
  "'w chain_env \<Rightarrow> attempt_row \<Rightarrow> fee_estimate \<Rightarrow> string \<Rightarrow> string \<Rightarrow> 'w write_hooks \<Rightarrow> ('w sys, write_outcome) io" where
  "cancel_nonce env blocked fees reason correlation_id hooks =
     io_bind (call_world (sg_get_signer_address (ce_signer env))) (\<lambda>signer_addr.
     if to_lower signer_addr \<noteq> to_lower (ta_from_address blocked)
     then io_throw (app_error REPLACEMENT_INTENT_MISMATCH ''nonce recovery must be signed by the lane owner''
       [(''lane'', JStr (ta_from_address blocked)), (''signer'', JStr signer_addr)])
     else sign_replacement env blocked
       (nonce_recovery_input (ce_sha env) signer_addr blocked fees reason correlation_id) hooks)"

subsection \<open>Resuming a signature\<close>

definition resume_signature :: "'w chain_env \<Rightarrow> attempt_row \<Rightarrow> 'w write_hooks \<Rightarrow> ('w sys, write_outcome) io" where
  "resume_signature env attempt hooks =
     io_bind (run_query (find_signer_request_for_attempt (ta_id attempt))) (\<lambda>found.
     case found of
       None \<Rightarrow> io_ret (Wo_FAILED (ta_id attempt) (error_code_name SIGNER_REJECTED)
         ''no outstanding signature request for this attempt'')
     | Some signer_request \<Rightarrow>
         if sr_status signer_request \<noteq> Sr_PENDING
         then io_ret (Wo_FAILED (ta_id attempt) (error_code_name SIGNER_REJECTED)
           ''no outstanding signature request for this attempt'')
         else io_bind (run_tx (expire_lapsed_signer_request (sr_id signer_request) (ce_signer_request_timeout_ms env))) (\<lambda>expired.
           if expired
           then io_then (run_tx (fail_attempt_tx hooks attempt (error_code_name SIGNER_REJECTED)
               ''signer did not decide within the permitted window''))
             (io_ret (Wo_FAILED (ta_id attempt) (error_code_name SIGNER_REJECTED) ''signer request expired''))
           else io_bind (call_world (sg_fetch_signature (ce_signer env) (sr_provider_request_id signer_request))) (\<lambda>st.
             io_then (run_tx (touch_signer_request (sr_id signer_request)))
             (if is_pending st
              then io_ret (Wo_SIGNATURE_PENDING (ta_id attempt) (sr_provider_request_id signer_request))
              else settle_signature env attempt (unsigned_request_from attempt) st (sr_id signer_request) hooks))))"

end
