(* ===== verification/Reconciliation.thy ===== *)
theory Reconciliation
  imports Confirmation
begin

text \<open>
  \<open>modules/transactions/reconciliation-service.ts\<close>: the belief recorded in PostgreSQL against the
  canonical state of the chain. Every check is stored as an observation, matched or not, and the
  report is consistent when no check failed.
\<close>

record report =
  rr_consistent :: bool
  rr_findings :: "string list"
  rr_evidence :: json

record check =
  ck_kind :: observation_kind
  ck_matched :: bool
  ck_severity :: observation_severity
  ck_expected :: json
  ck_actual :: json
  ck_finding :: string

record 'w reconciliation_env =
  re_gateway :: "'w gateway"
  re_chain_id :: int

text \<open>\<open>value ?? null\<close>: a JSON null is stored as SQL NULL.\<close>

definition stored_json :: "json \<Rightarrow> json option" where
  "stored_json j = (if j = JNull then None else Some j)"

definition check_observation :: "int \<Rightarrow> operation_row \<Rightarrow> uuid \<Rightarrow> receipt_view \<Rightarrow> check \<Rightarrow> observation_input" where
  "check_observation chain_id operation attempt_id receipt c =
     \<lparr>oi_operation_id = Some (op_id operation), oi_transaction_attempt_id = Some attempt_id, oi_kind = ck_kind c,
      oi_chain_id = chain_id, oi_block_number = Some (rv_block_number receipt), oi_block_hash = Some (rv_block_hash receipt),
      oi_transaction_hash = Some (rv_transaction_hash receipt), oi_matched = ck_matched c, oi_canonical = True,
      oi_severity = (if ck_matched c then INFO else ck_severity c), oi_expected = stored_json (ck_expected c),
      oi_actual = stored_json (ck_actual c), oi_detail = (if ck_matched c then None else Some (ck_finding c))\<rparr>"

text \<open>One check: stored, then added to the findings if it failed.\<close>

definition run_check ::
  "'w reconciliation_env \<Rightarrow> operation_row \<Rightarrow> uuid \<Rightarrow> receipt_view \<Rightarrow> string list \<Rightarrow> check \<Rightarrow> ('w sys, string list) io" where
  "run_check env operation attempt_id receipt findings c =
     io_then (run_tx (record_observation (check_observation (re_chain_id env) operation attempt_id receipt c)))
     (io_ret (if ck_matched c then findings else findings @ [ck_finding c]))"

definition report_of :: "string list \<Rightarrow> json \<Rightarrow> report" where
  "report_of findings evidence = \<lparr>rr_consistent = (findings = []), rr_findings = findings, rr_evidence = evidence\<rparr>"

fun receipt_outcome_name :: "receipt_outcome \<Rightarrow> string" where
  "receipt_outcome_name Rc_success = ''success''"
| "receipt_outcome_name Rc_reverted = ''reverted''"

subsection \<open>Mints\<close>

record mint_reconciliation =
  mr_operation :: operation_row
  mr_attempt_id :: uuid
  mr_contract_address :: string
  mr_recipient :: string
  mr_amount :: int
  mr_operation_reference :: string
  mr_receipt :: receipt_view

definition identity_check :: "int \<Rightarrow> chain_identity \<Rightarrow> check" where
  "identity_check chain_id identity =
     \<lparr>ck_kind = Ob_CHAIN_IDENTITY, ck_matched = (ci_chain_id identity = chain_id), ck_severity = CRITICAL,
      ck_expected = JObj [(''chainId'', Some (JNum chain_id))],
      ck_actual = JObj [(''chainId'', Some (JNum (ci_chain_id identity)))],
      ck_finding = ''RPC endpoint reports a different chain than the operation was built for''\<rparr>"

definition mint_receipt_check :: "receipt_view \<Rightarrow> check" where
  "mint_receipt_check r =
     \<lparr>ck_kind = Ob_RECEIPT, ck_matched = (rv_status r = Rc_success), ck_severity = CRITICAL,
      ck_expected = JObj [(''status'', Some (JStr ''success'')), (''blockNumberPresent'', Some (JBool True))],
      ck_actual = JObj [(''status'', Some (JStr (receipt_outcome_name (rv_status r)))),
        (''blockNumber'', Some (JNum (rv_block_number r))), (''blockHash'', Some (JStr (rv_block_hash r))),
        (''gasUsed'', Some (JStr (show_int (rv_gas_used r))))],
      ck_finding = ''transaction receipt status is reverted''\<rparr>"

definition find_mint_event :: "string \<Rightarrow> mint_event list \<Rightarrow> mint_event option" where
  "find_mint_event reference events = find (\<lambda>e. to_lower (me_operation_reference e) = to_lower reference) events"

definition mint_event_check :: "mint_reconciliation \<Rightarrow> mint_event option \<Rightarrow> check" where
  "mint_event_check input ev =
     \<lparr>ck_kind = Ob_MINT_EVENT,
      ck_matched = (case ev of None \<Rightarrow> False
        | Some e \<Rightarrow> to_lower (me_recipient e) = to_lower (mr_recipient input) \<and> me_amount e = mr_amount input),
      ck_severity = CRITICAL,
      ck_expected = JObj [(''operationReference'', Some (JStr (mr_operation_reference input))),
        (''recipient'', Some (JStr (to_lower (mr_recipient input)))), (''amount'', Some (JStr (show_int (mr_amount input))))],
      ck_actual = (case ev of None \<Rightarrow> JNull
        | Some e \<Rightarrow> JObj [(''operationReference'', Some (JStr (me_operation_reference e))),
            (''recipient'', Some (JStr (to_lower (me_recipient e)))), (''amount'', Some (JStr (show_int (me_amount e)))),
            (''newTotalSupply'', Some (JStr (show_int (me_new_total_supply e))))]),
      ck_finding = (if ev = None then ''no MintExecuted event for this operation reference''
        else ''MintExecuted event does not match the approved recipient/amount'')\<rparr>"

definition reference_check :: "bool \<Rightarrow> check" where
  "reference_check consumed =
     \<lparr>ck_kind = Ob_REFERENCE_CONSUMED, ck_matched = consumed, ck_severity = CRITICAL,
      ck_expected = JObj [(''consumed'', Some (JBool True))], ck_actual = JObj [(''consumed'', Some (JBool consumed))],
      ck_finding = ''operation reference is not marked consumed on chain''\<rparr>"

definition balance_check :: "int \<Rightarrow> int \<Rightarrow> check" where
  "balance_check amount balance =
     \<lparr>ck_kind = Ob_RECIPIENT_BALANCE, ck_matched = (balance \<ge> amount), ck_severity = CRITICAL,
      ck_expected = JObj [(''atLeast'', Some (JStr (show_int amount)))],
      ck_actual = JObj [(''balance'', Some (JStr (show_int balance)))],
      ck_finding = ''recipient balance is smaller than the minted amount''\<rparr>"

definition supply_check :: "token_state \<Rightarrow> check" where
  "supply_check token =
     \<lparr>ck_kind = Ob_TOTAL_SUPPLY, ck_matched = (tk_total_supply token \<le> tk_supply_cap token), ck_severity = CRITICAL,
      ck_expected = JObj [(''atMost'', Some (JStr (show_int (tk_supply_cap token))))],
      ck_actual = JObj [(''totalSupply'', Some (JStr (show_int (tk_total_supply token))))],
      ck_finding = ''total supply exceeds the supply cap''\<rparr>"

definition reconcile_mint :: "'w reconciliation_env \<Rightarrow> mint_reconciliation \<Rightarrow> ('w sys, report) io" where
  "reconcile_mint env input =
     (let gw = re_gateway env; receipt = mr_receipt input; contract = mr_contract_address input;
          run = run_check env (mr_operation input) (mr_attempt_id input) receipt;
          ev = find_mint_event (mr_operation_reference input) (gw_decode_mint_executed_events gw contract (rv_logs receipt))
      in io_bind (call_world (gw_get_chain_identity gw)) (\<lambda>identity.
         io_bind (run [] (identity_check (re_chain_id env) identity)) (\<lambda>f1.
         io_bind (run f1 (mint_receipt_check receipt)) (\<lambda>f2.
         io_bind (run f2 (mint_event_check input ev)) (\<lambda>f3.
         io_bind (call_world (gw_read_reference_consumed gw contract (mr_operation_reference input))) (\<lambda>consumed.
         io_bind (run f3 (reference_check consumed)) (\<lambda>f4.
         io_bind (call_world (gw_read_balance_of gw contract (mr_recipient input))) (\<lambda>balance.
         io_bind (run f4 (balance_check (mr_amount input) balance)) (\<lambda>f5.
         io_bind (call_world (gw_read_token_state gw contract)) (\<lambda>token.
         io_bind (run f5 (supply_check token)) (\<lambda>f6.
         io_ret (report_of f6 (JObj
           [(''mintedAmount'', Some (json_of_opt (map_option (\<lambda>e. show_int (me_amount e)) ev))),
            (''recipientBalance'', Some (JStr (show_int balance))),
            (''totalSupply'', Some (JStr (show_int (tk_total_supply token))))])))))))))))))"

subsection \<open>Deployments\<close>

record expected_token =
  et_symbol :: string
  et_decimals :: int
  et_supply_cap :: int

definition deployment_receipt_check :: "receipt_view \<Rightarrow> check" where
  "deployment_receipt_check r =
     \<lparr>ck_kind = Ob_RECEIPT, ck_matched = (rv_status r = Rc_success \<and> rv_contract_address r \<noteq> None), ck_severity = CRITICAL,
      ck_expected = JObj [(''status'', Some (JStr ''success'')), (''contractAddressPresent'', Some (JBool True))],
      ck_actual = JObj [(''status'', Some (JStr (receipt_outcome_name (rv_status r)))),
        (''contractAddress'', Some (json_of_opt (rv_contract_address r)))],
      ck_finding = ''deployment receipt did not succeed or reported no contract address''\<rparr>"

definition code_check :: "string \<Rightarrow> bool \<Rightarrow> check" where
  "code_check contract present =
     \<lparr>ck_kind = Ob_CONTRACT_CODE, ck_matched = present, ck_severity = CRITICAL,
      ck_expected = JObj [(''codeAt'', Some (JStr contract))], ck_actual = JObj [(''codePresent'', Some (JBool present))],
      ck_finding = ''no contract code found at the deployed address''\<rparr>"

definition metadata_check :: "expected_token \<Rightarrow> token_state \<Rightarrow> check" where
  "metadata_check expected token =
     \<lparr>ck_kind = Ob_TOKEN_METADATA,
      ck_matched = (tk_symbol token = et_symbol expected \<and> tk_decimals token = et_decimals expected \<and>
        tk_supply_cap token = et_supply_cap expected \<and> tk_total_supply token = 0 \<and> \<not> tk_paused token),
      ck_severity = CRITICAL,
      ck_expected = JObj [(''symbol'', Some (JStr (et_symbol expected))), (''decimals'', Some (JNum (et_decimals expected))),
        (''supplyCap'', Some (JStr (show_int (et_supply_cap expected)))), (''totalSupply'', Some (JStr ''0'')),
        (''paused'', Some (JBool False))],
      ck_actual = JObj [(''symbol'', Some (JStr (tk_symbol token))), (''decimals'', Some (JNum (tk_decimals token))),
        (''supplyCap'', Some (JStr (show_int (tk_supply_cap token)))),
        (''totalSupply'', Some (JStr (show_int (tk_total_supply token)))), (''paused'', Some (JBool (tk_paused token)))],
      ck_finding = ''deployed token does not match the requested definition''\<rparr>"

definition reconcile_deployment ::
  "'w reconciliation_env \<Rightarrow> operation_row \<Rightarrow> uuid \<Rightarrow> receipt_view \<Rightarrow> expected_token \<Rightarrow> ('w sys, report) io" where
  "reconcile_deployment env operation attempt_id receipt expected =
     (let gw = re_gateway env; run = run_check env operation attempt_id receipt;
          evidence = JObj [(''contractAddress'', Some (json_of_opt (rv_contract_address receipt)))]
      in io_bind (run [] (deployment_receipt_check receipt)) (\<lambda>f1.
         if f1 \<noteq> [] then io_ret (report_of f1 evidence)
         else case rv_contract_address receipt of
           None \<Rightarrow> io_ret (report_of f1 evidence)
         | Some contract \<Rightarrow>
             io_bind (io_attempt (call_world (gw_assert_contract_deployed gw contract))) (\<lambda>deployed.
             (let present = (case deployed of Inr _ \<Rightarrow> True | Inl _ \<Rightarrow> False)
              in io_bind (run f1 (code_check contract present)) (\<lambda>f2.
                 if \<not> present then io_ret (report_of f2 evidence)
                 else io_bind (call_world (gw_read_token_state gw contract)) (\<lambda>token.
                   io_bind (run f2 (metadata_check expected token)) (\<lambda>f3.
                   io_ret (report_of f3 evidence))))))))"

subsection \<open>Eligibility\<close>

definition eligibility_receipt_check :: "receipt_view \<Rightarrow> check" where
  "eligibility_receipt_check r =
     \<lparr>ck_kind = Ob_RECEIPT, ck_matched = (rv_status r = Rc_success), ck_severity = CRITICAL,
      ck_expected = JObj [(''status'', Some (JStr ''success''))],
      ck_actual = JObj [(''status'', Some (JStr (receipt_outcome_name (rv_status r)))),
        (''blockNumber'', Some (JNum (rv_block_number r)))],
      ck_finding = ''eligibility receipt status is reverted''\<rparr>"

definition window_check :: "int \<Rightarrow> int \<Rightarrow> check" where
  "window_check expected on_chain =
     \<lparr>ck_kind = Ob_ELIGIBILITY_WINDOW, ck_matched = (on_chain = expected), ck_severity = CRITICAL,
      ck_expected = JObj [(''eligibleUntil'', Some (JStr (show_int expected)))],
      ck_actual = JObj [(''eligibleUntil'', Some (JStr (show_int on_chain)))],
      ck_finding = ''on-chain eligibility window does not match the compliance decision''\<rparr>"

definition reconcile_eligibility ::
  "'w reconciliation_env \<Rightarrow> operation_row \<Rightarrow> uuid \<Rightarrow> receipt_view \<Rightarrow> string \<Rightarrow> string \<Rightarrow> int \<Rightarrow> ('w sys, report) io" where
  "reconcile_eligibility env operation attempt_id receipt contract account expected_until =
     (let run = run_check env operation attempt_id receipt
      in io_bind (run [] (eligibility_receipt_check receipt)) (\<lambda>f1.
         io_bind (call_world (gw_read_eligible_until (re_gateway env) contract account)) (\<lambda>on_chain.
         io_bind (run f1 (window_check expected_until on_chain)) (\<lambda>f2.
         io_ret (report_of f2 (JObj [(''account'', Some (JStr account)), (''eligibleUntil'', Some (JStr (show_int on_chain)))]))))))"

subsection \<open>What a consistent report is evidence of\<close>

lemma run_check_Inr:
  "run_check env operation attempt_id receipt findings c s = (Inr f, s') \<Longrightarrow>
     f = (if ck_matched c then findings else findings @ [ck_finding c])"
  by (auto simp: run_check_def io_simps)

lemma report_of_simps [simp]:
  "rr_consistent (report_of f e) \<longleftrightarrow> f = []" "rr_findings (report_of f e) = f" "rr_evidence (report_of f e) = e"
  by (simp_all add: report_of_def)

lemma reconcile_mint_consistent_facts:
  assumes "reconcile_mint env input s = (Inr rep, s')" and "rr_consistent rep"
  shows "rv_status (mr_receipt input) = Rc_success"
    and "\<exists>e \<in> set (gw_decode_mint_executed_events (re_gateway env) (mr_contract_address input) (rv_logs (mr_receipt input))).
      to_lower (me_operation_reference e) = to_lower (mr_operation_reference input) \<and>
      to_lower (me_recipient e) = to_lower (mr_recipient input) \<and> me_amount e = mr_amount input"
    and "\<exists>w w' i. gw_get_chain_identity (re_gateway env) w = (Inr i, w') \<and> ci_chain_id i = re_chain_id env"
    and "\<exists>w w'. gw_read_reference_consumed (re_gateway env) (mr_contract_address input) (mr_operation_reference input) w
      = (Inr True, w')"
    and "\<exists>w w' b. gw_read_balance_of (re_gateway env) (mr_contract_address input) (mr_recipient input) w = (Inr b, w') \<and>
      mr_amount input \<le> b"
    and "\<exists>w w' t. gw_read_token_state (re_gateway env) (mr_contract_address input) w = (Inr t, w') \<and>
      tk_total_supply t \<le> tk_supply_cap t"
proof -
  let ?ev = "find_mint_event (mr_operation_reference input)
    (gw_decode_mint_executed_events (re_gateway env) (mr_contract_address input) (rv_logs (mr_receipt input)))"
  note run = assms(1)[unfolded reconcile_mint_def Let_def]
  note run = run[unfolded io_bind_Inr]
  from run obtain identity f1 f2 f3 consumed f4 balance f5 token f6 s0 s1 s2 s3 s4 s5 s6 s7 s8 s9 where c:
      "call_world (gw_get_chain_identity (re_gateway env)) s = (Inr identity, s0)"
      "call_world (gw_read_reference_consumed (re_gateway env) (mr_contract_address input) (mr_operation_reference input)) s3 = (Inr consumed, s4)"
      "call_world (gw_read_balance_of (re_gateway env) (mr_contract_address input) (mr_recipient input)) s5 = (Inr balance, s6)"
      "call_world (gw_read_token_state (re_gateway env) (mr_contract_address input)) s7 = (Inr token, s8)"
    and k: "run_check env (mr_operation input) (mr_attempt_id input) (mr_receipt input) [] (identity_check (re_chain_id env) identity) s0 = (Inr f1, s1)"
      "run_check env (mr_operation input) (mr_attempt_id input) (mr_receipt input) f1 (mint_receipt_check (mr_receipt input)) s1 = (Inr f2, s2)"
      "run_check env (mr_operation input) (mr_attempt_id input) (mr_receipt input) f2 (mint_event_check input ?ev) s2 = (Inr f3, s3)"
      "run_check env (mr_operation input) (mr_attempt_id input) (mr_receipt input) f3 (reference_check consumed) s4 = (Inr f4, s5)"
      "run_check env (mr_operation input) (mr_attempt_id input) (mr_receipt input) f4 (balance_check (mr_amount input) balance) s6 = (Inr f5, s7)"
      "run_check env (mr_operation input) (mr_attempt_id input) (mr_receipt input) f5 (supply_check token) s8 = (Inr f6, s9)"
    and r: "io_ret (report_of f6 (JObj
           [(''mintedAmount'', Some (json_of_opt (map_option (\<lambda>e. show_int (me_amount e)) ?ev))),
            (''recipientBalance'', Some (JStr (show_int balance))),
            (''totalSupply'', Some (JStr (show_int (tk_total_supply token))))])) s9 = (Inr rep, s')"
    by (elim exE conjE) rule
  from r assms(2) have "f6 = []" by (auto simp: io_ret_iff)
  note f = k[THEN run_check_Inr] this
  have m: "ck_matched (identity_check (re_chain_id env) identity)" "ck_matched (mint_receipt_check (mr_receipt input))"
      "ck_matched (mint_event_check input ?ev)" "ck_matched (reference_check consumed)"
      "ck_matched (balance_check (mr_amount input) balance)" "ck_matched (supply_check token)"
    using f by (auto split: if_splits)
  show "rv_status (mr_receipt input) = Rc_success" using m(2) by (simp add: mint_receipt_check_def)
  show "\<exists>e \<in> set (gw_decode_mint_executed_events (re_gateway env) (mr_contract_address input) (rv_logs (mr_receipt input))).
      to_lower (me_operation_reference e) = to_lower (mr_operation_reference input) \<and>
      to_lower (me_recipient e) = to_lower (mr_recipient input) \<and> me_amount e = mr_amount input"
    using m(3) by (auto simp: mint_event_check_def find_mint_event_def find_Some_iff split: option.splits)
  show "\<exists>w w' i. gw_get_chain_identity (re_gateway env) w = (Inr i, w') \<and> ci_chain_id i = re_chain_id env"
    using c(1)[unfolded call_world_Inr] m(1) by (auto simp: identity_check_def)
  show "\<exists>w w'. gw_read_reference_consumed (re_gateway env) (mr_contract_address input) (mr_operation_reference input) w
      = (Inr True, w')"
    using c(2)[unfolded call_world_Inr] m(4) by (auto simp: reference_check_def)
  show "\<exists>w w' b. gw_read_balance_of (re_gateway env) (mr_contract_address input) (mr_recipient input) w = (Inr b, w') \<and>
      mr_amount input \<le> b"
    using c(3)[unfolded call_world_Inr] m(5) by (auto simp: balance_check_def)
  show "\<exists>w w' t. gw_read_token_state (re_gateway env) (mr_contract_address input) w = (Inr t, w') \<and>
      tk_total_supply t \<le> tk_supply_cap t"
    using c(4)[unfolded call_world_Inr] m(6) by (auto simp: supply_check_def)
qed

text \<open>
  C3: a mint is reported consistent only if the chain answered for this chain id, the receipt
  succeeded, the transaction logged a MintExecuted event with the operation's reference, the
  approved recipient and the approved amount, the reference is consumed, the recipient holds at
  least the amount and the supply is within its cap.
\<close>

theorem reconcile_mint_consistent:
  assumes "reconcile_mint env input s = (Inr rep, s')" and "rr_consistent rep"
  shows "rv_status (mr_receipt input) = Rc_success \<and>
    (\<exists>e \<in> set (gw_decode_mint_executed_events (re_gateway env) (mr_contract_address input) (rv_logs (mr_receipt input))).
      to_lower (me_operation_reference e) = to_lower (mr_operation_reference input) \<and>
      to_lower (me_recipient e) = to_lower (mr_recipient input) \<and> me_amount e = mr_amount input) \<and>
    (\<exists>w w' i. gw_get_chain_identity (re_gateway env) w = (Inr i, w') \<and> ci_chain_id i = re_chain_id env) \<and>
    (\<exists>w w'. gw_read_reference_consumed (re_gateway env) (mr_contract_address input) (mr_operation_reference input) w
      = (Inr True, w')) \<and>
    (\<exists>w w' b. gw_read_balance_of (re_gateway env) (mr_contract_address input) (mr_recipient input) w = (Inr b, w') \<and>
      mr_amount input \<le> b) \<and>
    (\<exists>w w' t. gw_read_token_state (re_gateway env) (mr_contract_address input) w = (Inr t, w') \<and>
      tk_total_supply t \<le> tk_supply_cap t)"
  by (intro conjI reconcile_mint_consistent_facts [OF assms])

end
