(* ===== verification/ComplianceService.thy ===== *)
theory ComplianceService
  imports RegistryServices
begin

text \<open>
  \<open>modules/compliance/compliance-service.ts\<close>: compliance decisions, their withdrawal and expiry,
  and the eligibility operations that mirror them on chain. The provider of
  \<open>ports/compliance-provider.ts\<close> is a record of functions on the abstract world.
\<close>

subsection \<open>The provider\<close>

datatype screening_status = Screening_APPROVED | Screening_REJECTED

fun decision_status_of_screening :: "screening_status \<Rightarrow> decision_status" where
  "decision_status_of_screening Screening_APPROVED = Cd_APPROVED"
| "decision_status_of_screening Screening_REJECTED = Cd_REJECTED"

record screen_request =
  scr_subject_reference :: string
  scr_wallet_address :: string
  scr_chain_id :: int
  scr_asset_id :: "uuid option"

record screen_result =
  scs_status :: screening_status
  scs_provider :: string
  scs_provider_reference :: string
  scs_valid_from :: js_time
  scs_valid_until :: js_time
  scs_decided_at :: js_time
  scs_reason :: "string option"

record eligibility_request =
  er_subject_reference :: string
  er_wallet_address :: string
  er_chain_id :: int
  er_asset_id :: "uuid option"
  er_amount :: string

record eligibility_result =
  es_eligible :: bool
  es_provider :: string
  es_provider_reference :: string
  es_checked_at :: js_time
  es_reason :: "string option"

record 'w compliance_provider =
  cp_name :: string
  cp_screen :: "screen_request \<Rightarrow> 'w \<Rightarrow> (exn + screen_result) \<times> 'w"
  cp_check_eligibility :: "eligibility_request \<Rightarrow> 'w \<Rightarrow> (exn + eligibility_result) \<times> 'w"

subsection \<open>Eligibility operations\<close>

definition clear_live_eligibility_sync :: "uuid \<Rightarrow> uuid \<Rightarrow> (db, unit) tx" where
  "clear_live_eligibility_sync asset_id wallet_id =
     tx_bind (tx_read (find_live_administrative_operation SYNC_ELIGIBILITY asset_id (Some wallet_id))) (\<lambda>live.
     case live of
       None \<Rightarrow> tx_ret ()
     | Some live \<Rightarrow> tx_bind (lock_operation (op_id live)) (\<lambda>locked.
         case locked of
           None \<Rightarrow> tx_ret ()
         | Some operation \<Rightarrow>
             if op_state operation \<noteq> Op_READY
             then tx_throw (app_error OPERATION_CONFLICT ''an eligibility sync for this wallet is already executing''
               [(''operationId'', JStr (op_id operation)), (''state'', JStr (operation_state_name (op_state operation)))])
             else tx_then (transition_operation operation Op_CANCELLED
               (no_patch\<lparr>tp_failure_code := Some (Some ''SUPERSEDED_BY_NEWER_DECISION''),
                  tp_failure_reason := Some (Some ''a newer compliance decision replaced this eligibility sync'')\<rparr>))
               (tx_ret ())))"

record eligibility_sync_input =
  esi_asset_id :: uuid
  esi_chain_id :: int
  esi_wallet :: wallet_row
  esi_decision :: compliance_row
  esi_requested_by :: uuid
  esi_correlation_id :: string

definition eligibility_intent_of :: "eligibility_sync_input \<Rightarrow> eligibility_intent" where
  "eligibility_intent_of input =
     \<lparr>ei_asset_id = esi_asset_id input, ei_chain_id = esi_chain_id input, ei_wallet_id = wa_id (esi_wallet input),
      ei_wallet_address = wa_address (esi_wallet input), ei_compliance_decision_id = cd_id (esi_decision input),
      ei_eligible_until = show_int (eligible_until_for (esi_decision input))\<rparr>"

definition enqueue_eligibility_sync :: "(string \<Rightarrow> string) \<Rightarrow> eligibility_sync_input \<Rightarrow> (db, operation_row) tx" where
  "enqueue_eligibility_sync sha input =
     tx_then (clear_live_eligibility_sync (esi_asset_id input) (wa_id (esi_wallet input)))
     (tx_bind (insert_administrative_operation
        \<lparr>ai_type = SYNC_ELIGIBILITY, ai_organization_id = wa_organization_id (esi_wallet input),
         ai_asset_id = esi_asset_id input, ai_wallet_id = Some (wa_id (esi_wallet input)),
         ai_compliance_decision_id = Some (cd_id (esi_decision input)),
         ai_proposal_hash = hash_eligibility_sync_intent sha (eligibility_intent_of input),
         ai_requested_by = esi_requested_by input, ai_correlation_id = esi_correlation_id input\<rparr>) (\<lambda>operation.
      tx_then (enqueue_outbox (operation_ready_message (op_id operation) (esi_correlation_id input)))
      (tx_ret operation)))"

subsection \<open>Recording a decision\<close>

record record_compliance_input =
  rci_wallet_id :: uuid
  rci_asset_id :: "uuid option"
  rci_subject_reference :: "string option"

definition compliance_event ::
  "actor \<Rightarrow> string \<Rightarrow> string \<Rightarrow> uuid \<Rightarrow> operation_row option \<Rightarrow> (string \<times> json) list \<Rightarrow> audit_event_input" where
  "compliance_event act correlation_id action decision_id operation metadata =
     \<lparr>aei_actor = act, aei_action = action, aei_resource_type = ''compliance_decision'', aei_resource_id = decision_id,
      aei_correlation_id = correlation_id, aei_operation_id = map_option op_id operation,
      aei_metadata = Some (JObj (map (map_prod id Some) metadata))\<rparr>"

definition sync_when_asset ::
  "(string \<Rightarrow> string) \<Rightarrow> asset_row option \<Rightarrow> wallet_row \<Rightarrow> compliance_row \<Rightarrow> uuid \<Rightarrow> string \<Rightarrow> (db, operation_row option) tx" where
  "sync_when_asset sha asset wallet decision requested_by correlation_id = (case asset of
     None \<Rightarrow> tx_ret None
   | Some asset \<Rightarrow> tx_bind (enqueue_eligibility_sync sha
       \<lparr>esi_asset_id = as_id asset, esi_chain_id = as_chain_id asset, esi_wallet = wallet, esi_decision = decision,
        esi_requested_by = requested_by, esi_correlation_id = correlation_id\<rparr>) (\<lambda>operation. tx_ret (Some operation)))"

definition record_compliance_tx ::
  "(string \<Rightarrow> string) \<Rightarrow> request_context \<Rightarrow> record_compliance_input \<Rightarrow> wallet_row \<Rightarrow> asset_row option \<Rightarrow> string \<Rightarrow>
   screen_result \<Rightarrow> (db, compliance_row \<times> uuid option) tx" where
  "record_compliance_tx sha ctx input wallet asset subject_reference screening =
     tx_then (supersede_active_decisions (wa_id wallet) (rci_asset_id input))
     (tx_bind (insert_compliance_decision
        \<lparr>ncd_wallet_id = wa_id wallet, ncd_asset_id = rci_asset_id input,
         ncd_status = decision_status_of_screening (scs_status screening), ncd_subject_reference = subject_reference,
         ncd_provider = scs_provider screening, ncd_provider_reference = scs_provider_reference screening,
         ncd_valid_from = scs_valid_from screening, ncd_valid_until = scs_valid_until screening,
         ncd_decided_at = scs_decided_at screening, ncd_decided_by = ac_id (rc_actor ctx),
         ncd_revoked_at = None, ncd_revocation_reason = None\<rparr>) (\<lambda>decision.
      tx_bind (sync_when_asset sha asset wallet decision (ac_id (rc_actor ctx)) (rc_correlation_id ctx)) (\<lambda>operation.
      tx_then (record_audit_event (compliance_event (rc_actor ctx) (rc_correlation_id ctx) ''compliance.decision_recorded''
        (cd_id decision) operation
        [(''walletId'', JStr (wa_id wallet)), (''assetId'', json_of_opt (rci_asset_id input)),
         (''status'', JStr (decision_status_name (decision_status_of_screening (scs_status screening)))),
         (''provider'', JStr (scs_provider screening)), (''providerReference'', JStr (scs_provider_reference screening)),
         (''validUntil'', JStr (iso_string (scs_valid_until screening))),
         (''eligibilityOperationId'', json_of_opt (map_option op_id operation))]))
      (tx_ret (decision, map_option op_id operation)))))"

definition wallet_of_organization :: "request_context \<Rightarrow> uuid \<Rightarrow> wallet_row option \<Rightarrow> exn + wallet_row" where
  "wallet_of_organization ctx wallet_id found = (case found of
     None \<Rightarrow> Inl (not_found_error ''wallet'' wallet_id)
   | Some wallet \<Rightarrow>
       if wa_organization_id wallet \<noteq> ac_organization_id (rc_actor ctx) then Inl (not_found_error ''wallet'' wallet_id)
       else Inr wallet)"

definition deployed_asset :: "uuid option \<Rightarrow> asset_row option \<Rightarrow> exn + asset_row option" where
  "deployed_asset asset_id found =
     (if (case found of None \<Rightarrow> True | Some asset \<Rightarrow> as_contract_address asset = None)
      then Inl (app_error ASSET_NOT_ACTIVE ''asset has no deployed contract'' [(''assetId'', json_of_opt asset_id)])
      else Inr found)"

definition record_compliance_decision ::
  "(string \<Rightarrow> string) \<Rightarrow> 'w compliance_provider \<Rightarrow> request_context \<Rightarrow> record_compliance_input \<Rightarrow>
   ('w sys, compliance_row \<times> uuid option) io" where
  "record_compliance_decision sha provider ctx input =
     io_then (io_lift (require_role (rc_actor ctx) [COMPLIANCE_OFFICER, ADMIN] ''record a compliance decision''))
     (io_bind (run_query (find_wallet_by_id (rci_wallet_id input))) (\<lambda>found.
      io_bind (io_lift (wallet_of_organization ctx (rci_wallet_id input) found)) (\<lambda>wallet.
      (let subject_reference = (case rci_subject_reference input of None \<Rightarrow> wa_investor_reference wallet | Some s \<Rightarrow> s)
       in io_bind (call_world (cp_screen provider
            \<lparr>scr_subject_reference = subject_reference, scr_wallet_address = wa_address wallet,
             scr_chain_id = wa_chain_id wallet, scr_asset_id = rci_asset_id input\<rparr>)) (\<lambda>screening.
          io_bind (case rci_asset_id input of
              None \<Rightarrow> io_ret None
            | Some asset_id \<Rightarrow>
                if scs_status screening \<noteq> Screening_APPROVED then io_ret None
                else io_bind (run_query (find_asset_by_id asset_id)) (\<lambda>asset. io_lift (deployed_asset (Some asset_id) asset)))
            (\<lambda>asset. run_tx (record_compliance_tx sha ctx input wallet asset subject_reference screening)))))))"

subsection \<open>Revocation\<close>

record revoke_input =
  rvi_wallet_id :: uuid
  rvi_asset_id :: "uuid option"
  rvi_reason :: string

definition insert_revocation ::
  "string \<Rightarrow> request_context \<Rightarrow> revoke_input \<Rightarrow> wallet_row \<Rightarrow> compliance_row option \<Rightarrow> (db, compliance_row) tx" where
  "insert_revocation provider_name ctx input wallet live =
     tx_bind fresh_uuid (\<lambda>reference.
     tx_bind (tx_read app_now) (\<lambda>now.
     insert_compliance_decision
       \<lparr>ncd_wallet_id = wa_id wallet, ncd_asset_id = rvi_asset_id input, ncd_status = Cd_REVOKED,
        ncd_subject_reference = (case live of None \<Rightarrow> wa_investor_reference wallet | Some l \<Rightarrow> cd_subject_reference l),
        ncd_provider = (case live of None \<Rightarrow> provider_name | Some l \<Rightarrow> cd_provider l),
        ncd_provider_reference = ''revocation-'' @ reference,
        ncd_valid_from = now, ncd_valid_until = now + 1000, ncd_decided_at = now,
        ncd_decided_by = ac_id (rc_actor ctx), ncd_revoked_at = Some now, ncd_revocation_reason = Some (rvi_reason input)\<rparr>))"

definition revoke_decision_tx ::
  "(string \<Rightarrow> string) \<Rightarrow> string \<Rightarrow> request_context \<Rightarrow> revoke_input \<Rightarrow> wallet_row \<Rightarrow> asset_row option \<Rightarrow>
   (db, compliance_row \<times> uuid option) tx" where
  "revoke_decision_tx sha provider_name ctx input wallet asset =
     tx_bind (tx_read (find_active_approval (wa_id wallet) (rvi_asset_id input))) (\<lambda>live.
     tx_bind (tx_read (find_latest_revocation (wa_id wallet) (rvi_asset_id input))) (\<lambda>existing.
     case (live, existing) of
       (None, Some revocation) \<Rightarrow>
         tx_bind (tx_read (\<lambda>d. case asset of None \<Rightarrow> None
             | Some asset \<Rightarrow> find_live_administrative_operation SYNC_ELIGIBILITY (as_id asset) (Some (wa_id wallet)) d)) (\<lambda>in_flight.
         tx_ret (revocation, map_option op_id in_flight))
     | _ \<Rightarrow>
         tx_then (tx_when (live \<noteq> None) (supersede_active_decisions (wa_id wallet) (rvi_asset_id input)))
         (tx_bind (insert_revocation provider_name ctx input wallet live) (\<lambda>revocation.
          tx_bind (sync_when_asset sha asset wallet revocation (ac_id (rc_actor ctx)) (rc_correlation_id ctx)) (\<lambda>operation.
          tx_then (record_audit_event (compliance_event (rc_actor ctx) (rc_correlation_id ctx) ''compliance.revoked''
            (cd_id revocation) operation
            [(''walletId'', JStr (wa_id wallet)), (''assetId'', json_of_opt (rvi_asset_id input)),
             (''reason'', JStr (rvi_reason input)), (''supersededDecisionId'', json_of_opt (map_option cd_id live)),
             (''eligibilityOperationId'', json_of_opt (map_option op_id operation))]))
          (tx_ret (revocation, map_option op_id operation)))))))"

definition revoke_decision ::
  "(string \<Rightarrow> string) \<Rightarrow> 'w compliance_provider \<Rightarrow> request_context \<Rightarrow> revoke_input \<Rightarrow>
   ('w sys, compliance_row \<times> uuid option) io" where
  "revoke_decision sha provider ctx input =
     io_then (io_lift (require_role (rc_actor ctx) [COMPLIANCE_OFFICER, ADMIN] ''revoke compliance''))
     (io_bind (run_query (find_wallet_by_id (rvi_wallet_id input))) (\<lambda>found.
      io_bind (io_lift (wallet_of_organization ctx (rvi_wallet_id input) found)) (\<lambda>wallet.
      io_bind (case rvi_asset_id input of
          None \<Rightarrow> io_ret None
        | Some asset_id \<Rightarrow> io_bind (run_query (find_asset_by_id asset_id)) (\<lambda>asset. io_lift (deployed_asset (Some asset_id) asset)))
        (\<lambda>asset. run_tx (revoke_decision_tx sha (cp_name provider) ctx input wallet asset)))))"

subsection \<open>Expiry\<close>

definition expire_decision_tx ::
  "(string \<Rightarrow> string) \<Rightarrow> compliance_row \<Rightarrow> wallet_row \<Rightarrow> asset_row option \<Rightarrow> (db, unit) tx" where
  "expire_decision_tx sha decision wallet asset =
     (let correlation_id = ''compliance-expiry-'' @ cd_id decision;
          deployed = (case asset of None \<Rightarrow> None | Some a \<Rightarrow> if as_contract_address a = None then None else Some a)
      in tx_then (mark_decision_expired (cd_id decision))
         (tx_bind (sync_when_asset sha deployed wallet (decision\<lparr>cd_status := Cd_EXPIRED\<rparr>) (cd_decided_by decision) correlation_id)
            (\<lambda>operation.
          tx_then (record_audit_event (compliance_event (system_actor ''compliance-sweep'') correlation_id ''compliance.expired''
            (cd_id decision) operation
            [(''walletId'', JStr (cd_wallet_id decision)), (''assetId'', json_of_opt (cd_asset_id decision)),
             (''validUntil'', JStr (iso_string (date_of_pg (cd_valid_until decision)))),
             (''eligibilityOperationId'', json_of_opt (map_option op_id operation))]))
          (tx_ret ()))))"

text \<open>One round of the sweep's loop; the result says whether the approval was retired.\<close>

definition expire_one :: "(string \<Rightarrow> string) \<Rightarrow> compliance_row \<Rightarrow> ('w sys, bool) io" where
  "expire_one sha decision =
     io_bind (run_query (find_wallet_by_id (cd_wallet_id decision))) (\<lambda>wallet.
     io_bind (case cd_asset_id decision of None \<Rightarrow> io_ret None | Some a \<Rightarrow> run_query (find_asset_by_id a)) (\<lambda>asset.
     case wallet of
       None \<Rightarrow> io_ret False
     | Some wallet \<Rightarrow> io_then (run_tx (expire_decision_tx sha decision wallet asset)) (io_ret True)))"

definition expire_lapsed_approvals :: "(string \<Rightarrow> string) \<Rightarrow> nat \<Rightarrow> ('w sys, nat) io" where
  "expire_lapsed_approvals sha limit =
     io_bind (run_query (find_lapsed_approvals limit)) (\<lambda>lapsed.
     io_bind (io_map (expire_one sha) lapsed) (\<lambda>done. io_ret (length (filter id done))))"

subsection \<open>The check before execution\<close>

record execution_check =
  ec_wallet_id :: uuid
  ec_wallet_address :: string
  ec_chain_id :: int
  ec_asset_id :: uuid
  ec_amount :: string
  ec_subject_reference :: string

definition assert_eligible_for_execution ::
  "'w compliance_provider \<Rightarrow> execution_check \<Rightarrow> ('w sys, uuid \<times> string) io" where
  "assert_eligible_for_execution provider input =
     io_bind (run_query (find_active_approval (ec_wallet_id input) (Some (ec_asset_id input)))) (\<lambda>found.
     case found of
       None \<Rightarrow> io_throw (app_error COMPLIANCE_NOT_ELIGIBLE ''no valid compliance approval covers this wallet''
         [(''walletId'', JStr (ec_wallet_id input)), (''assetId'', JStr (ec_asset_id input))])
     | Some decision \<Rightarrow>
         io_bind (call_world (cp_check_eligibility provider
           \<lparr>er_subject_reference = ec_subject_reference input, er_wallet_address = ec_wallet_address input,
            er_chain_id = ec_chain_id input, er_asset_id = Some (ec_asset_id input), er_amount = ec_amount input\<rparr>)) (\<lambda>fresh.
         if \<not> es_eligible fresh
         then io_throw (app_error COMPLIANCE_NOT_ELIGIBLE
           (case es_reason fresh of None \<Rightarrow> ''wallet is not eligible at execution time'' | Some r \<Rightarrow> r)
           [(''walletId'', JStr (ec_wallet_id input)), (''provider'', JStr (es_provider fresh))])
         else io_ret (cd_id decision, es_provider_reference fresh)))"

definition find_active_decision :: "uuid \<Rightarrow> uuid option \<Rightarrow> ('w sys, compliance_row option) io" where
  "find_active_decision wallet_id asset_id = run_query (find_active_approval wallet_id asset_id)"

subsection \<open>What the service keeps\<close>

lemma sync_when_asset_keeps:
  "preserves db_ok (sync_when_asset sha asset wallet decision u c)"
  "preserves history_ok (sync_when_asset sha asset wallet decision u c)"
proof -
  have clear: "preserves db_ok (clear_live_eligibility_sync a w)" "preserves history_ok (clear_live_eligibility_sync a w)"
    for a w
    unfolding clear_live_eligibility_sync_def lock_operation_def
    by (intro preserves_intros ok_intros, intro preserves_intros history_intros)
  show "preserves db_ok (sync_when_asset sha asset wallet decision u c)"
    unfolding sync_when_asset_def enqueue_eligibility_sync_def by (intro preserves_intros ok_intros clear)
  show "preserves history_ok (sync_when_asset sha asset wallet decision u c)"
    unfolding sync_when_asset_def enqueue_eligibility_sync_def
    by (intro preserves_intros history_intros clear insert_administrative_operation_history) simp
qed

lemma compliance_tx_keeps:
  "preserves db_ok (record_compliance_tx sha ctx input wallet asset s scr)"
  "preserves history_ok (record_compliance_tx sha ctx input wallet asset s scr)"
  "preserves db_ok (revoke_decision_tx sha n ctx rinput wallet asset)"
  "preserves history_ok (revoke_decision_tx sha n ctx rinput wallet asset)"
  "preserves db_ok (expire_decision_tx sha decision wallet asset)"
  "preserves history_ok (expire_decision_tx sha decision wallet asset)"
  unfolding record_compliance_tx_def revoke_decision_tx_def insert_revocation_def expire_decision_tx_def Let_def
  by (intro preserves_intros ok_intros history_intros sync_when_asset_keeps)+

end
