(* ===== verification/Handlers.thy ===== *)
theory Handlers
  imports Reconciliation MintService ComplianceService
begin

text \<open>
  \<open>modules/operations/handlers\<close>: the type-specific half of executing an operation, behind the
  interface of \<open>operation-handler.ts\<close>. \<open>prepare\<close> re-validates the operation against the current rows
  and the chain and returns the call; \<open>reconcile\<close> judges the receipt; \<open>apply_success\<close> is the effect
  committed with the SUCCEEDED transition.
\<close>

record prepared_chain_write =
  pw_call :: encoded_call
  pw_evidence :: json

record settled_operation =
  so_operation :: operation_row
  so_attempt_id :: uuid
  so_receipt :: receipt_view

text \<open>A method the interface marks optional and the class leaves out does nothing.\<close>

record 'w operation_handler =
  oh_purpose :: attempt_purpose
  oh_prepare :: "operation_row \<Rightarrow> ('w sys, prepared_chain_write) io"
  oh_assert_still_executable :: "operation_row \<Rightarrow> ('w sys, unit) io"
  oh_reconcile :: "settled_operation \<Rightarrow> ('w sys, report) io"
  oh_apply_success :: "settled_operation \<Rightarrow> (db, unit) tx"

record 'w handler_env =
  he_gateway :: "'w gateway"
  he_signer :: "'w signer_provider"
  he_provider :: "'w compliance_provider"
  he_chain_id :: int
  he_mint_deadline_seconds :: int
  he_sha :: "string \<Rightarrow> string"

definition he_reconciliation :: "'w handler_env \<Rightarrow> 'w reconciliation_env" where
  "he_reconciliation env = \<lparr>re_gateway = he_gateway env, re_chain_id = he_chain_id env\<rparr>"

subsection \<open>Mints\<close>

record mint_target =
  mt_asset :: asset_row
  mt_wallet :: wallet_row
  mt_contract_address :: string
  mt_recipient :: string
  mt_amount :: int
  mt_operation_reference :: string

definition find_wallet_of :: "uuid option \<Rightarrow> ('w sys, wallet_row option) io" where
  "find_wallet_of wallet_id = (case wallet_id of None \<Rightarrow> io_ret None | Some i \<Rightarrow> run_query (find_wallet_by_id i))"

definition mint_target_of :: "operation_row \<Rightarrow> asset_row option \<Rightarrow> wallet_row option \<Rightarrow> exn + mint_target" where
  "mint_target_of operation asset wallet =
     (case (asset, wallet, op_amount operation, op_operation_reference operation) of
        (Some a, Some w, Some amount, Some reference) \<Rightarrow>
          (case as_contract_address a of
             Some contract \<Rightarrow> Inr \<lparr>mt_asset = a, mt_wallet = w, mt_contract_address = contract,
               mt_recipient = wa_address w, mt_amount = amount, mt_operation_reference = reference\<rparr>
           | None \<Rightarrow> Inl (app_error ASSET_NOT_ACTIVE ''mint operation is missing its chain target'' []))
      | _ \<Rightarrow> Inl (app_error ASSET_NOT_ACTIVE ''mint operation is missing its chain target'' []))"

definition resolve_mint_target :: "operation_row \<Rightarrow> ('w sys, mint_target) io" where
  "resolve_mint_target operation =
     io_bind (run_query (find_asset_by_id (op_asset_id operation))) (\<lambda>asset.
     io_bind (find_wallet_of (op_wallet_id operation)) (\<lambda>wallet.
     io_lift (mint_target_of operation asset wallet)))"

definition mint_execution_check :: "mint_target \<Rightarrow> execution_check" where
  "mint_execution_check target =
     \<lparr>ec_wallet_id = wa_id (mt_wallet target), ec_wallet_address = wa_address (mt_wallet target),
      ec_chain_id = as_chain_id (mt_asset target), ec_asset_id = as_id (mt_asset target),
      ec_amount = show_int (mt_amount target), ec_subject_reference = wa_investor_reference (mt_wallet target)\<rparr>"

definition consumed_observation :: "int \<Rightarrow> operation_row \<Rightarrow> observation_input" where
  "consumed_observation chain_id operation =
     \<lparr>oi_operation_id = Some (op_id operation), oi_transaction_attempt_id = None, oi_kind = Ob_REFERENCE_CONSUMED,
      oi_chain_id = chain_id, oi_block_number = None, oi_block_hash = None, oi_transaction_hash = None,
      oi_matched = False, oi_canonical = True, oi_severity = CRITICAL,
      oi_expected = Some (JObj [(''consumed'', Some (JBool False))]),
      oi_actual = Some (JObj [(''consumed'', Some (JBool True))]),
      oi_detail = Some ''operation reference was already consumed before this execution attempt''\<rparr>"

text \<open>The approved intent must still describe what is about to happen.\<close>

definition approved_intent_unchanged :: "(string \<Rightarrow> string) \<Rightarrow> operation_row \<Rightarrow> mint_target \<Rightarrow> exn + unit" where
  "approved_intent_unchanged sha operation target =
     (let rebuilt = snd (rebuild_mint_proposal sha operation (mt_asset target) (mt_wallet target))
      in if rebuilt \<noteq> op_proposal_hash operation
         then Inl (app_error OPERATION_CONFLICT ''financial intent changed after approval; refusing to execute''
           [(''expected'', JStr (op_proposal_hash operation)), (''current'', JStr rebuilt)])
         else Inr ())"

definition token_accepts_mint :: "token_state \<Rightarrow> mint_target \<Rightarrow> exn + unit" where
  "token_accepts_mint token target =
     (if tk_paused token then Inl (app_error ASSET_PAUSED ''token contract is paused'' [])
      else if tk_total_supply token + mt_amount target > tk_supply_cap token
      then Inl (app_error SUPPLY_CAP_EXCEEDED ''mint would exceed the on-chain supply cap''
        [(''totalSupply'', JStr (show_int (tk_total_supply token))), (''supplyCap'', JStr (show_int (tk_supply_cap token))),
         (''amount'', JStr (show_int (mt_amount target)))])
      else Inr ())"

definition mint_call_of :: "'w handler_env \<Rightarrow> mint_target \<Rightarrow> js_time \<Rightarrow> encoded_call" where
  "mint_call_of env target now = gw_encode_mint_call (he_gateway env) (mt_contract_address target)
     \<lparr>mc_recipient = mt_recipient target, mc_amount = mt_amount target,
      mc_operation_reference = mt_operation_reference target,
      mc_deadline = now div 1000 + he_mint_deadline_seconds env\<rparr>"

definition prepare_mint :: "'w handler_env \<Rightarrow> operation_row \<Rightarrow> ('w sys, prepared_chain_write) io" where
  "prepare_mint env operation =
     (let gw = he_gateway env
      in io_bind (resolve_mint_target operation) (\<lambda>target.
         io_bind (io_lift (approved_intent_unchanged (he_sha env) operation target)) (\<lambda>_.
         io_bind (assert_eligible_for_execution (he_provider env) (mint_execution_check target)) (\<lambda>eligibility.
         io_bind (call_world (gw_get_chain_identity gw)) (\<lambda>_.
         io_bind (call_world (gw_assert_contract_deployed gw (mt_contract_address target))) (\<lambda>_.
         io_bind (call_world (gw_read_reference_consumed gw (mt_contract_address target) (mt_operation_reference target))) (\<lambda>consumed.
         if consumed
         then io_bind (run_tx (record_observation (consumed_observation (he_chain_id env) operation))) (\<lambda>_.
           io_throw (app_error OPERATION_CONFLICT ''operation reference is already consumed on chain''
             [(''operationReference'', JStr (mt_operation_reference target))]))
         else io_bind (call_world (gw_read_token_state gw (mt_contract_address target))) (\<lambda>token.
           io_bind (io_lift (token_accepts_mint token target)) (\<lambda>_.
           io_bind date_now (\<lambda>now.
           io_ret \<lparr>pw_call = mint_call_of env target now,
             pw_evidence = JObj [(''proposalHash'', Some (JStr (op_proposal_hash operation))),
               (''complianceDecisionId'', Some (JStr (fst eligibility))),
               (''requiredApprovals'', Some (JNum (int (op_required_approvals operation)))),
               (''requestedBy'', Some (JStr (op_requested_by operation)))]\<rparr>))))))))))"

definition assert_mint_still_executable :: "'w handler_env \<Rightarrow> operation_row \<Rightarrow> ('w sys, unit) io" where
  "assert_mint_still_executable env operation =
     io_bind (resolve_mint_target operation) (\<lambda>target.
     io_bind (assert_eligible_for_execution (he_provider env) (mint_execution_check target)) (\<lambda>_. io_ret ()))"

definition reconcile_settled_mint :: "'w handler_env \<Rightarrow> settled_operation \<Rightarrow> ('w sys, report) io" where
  "reconcile_settled_mint env settled =
     io_bind (resolve_mint_target (so_operation settled)) (\<lambda>target.
     reconcile_mint (he_reconciliation env)
       \<lparr>mr_operation = so_operation settled, mr_attempt_id = so_attempt_id settled,
        mr_contract_address = mt_contract_address target, mr_recipient = mt_recipient target,
        mr_amount = mt_amount target, mr_operation_reference = mt_operation_reference target,
        mr_receipt = so_receipt settled\<rparr>)"

definition mint_handler :: "'w handler_env \<Rightarrow> 'w operation_handler" where
  "mint_handler env = \<lparr>oh_purpose = P_MINT, oh_prepare = prepare_mint env,
     oh_assert_still_executable = assert_mint_still_executable env,
     oh_reconcile = reconcile_settled_mint env, oh_apply_success = (\<lambda>_. tx_ret ())\<rparr>"

subsection \<open>Token deployments\<close>

definition provisioning_asset :: "(string \<Rightarrow> string) \<Rightarrow> operation_row \<Rightarrow> asset_row option \<Rightarrow> exn + asset_row" where
  "provisioning_asset sha operation found = (case found of
     None \<Rightarrow> Inl (app_error RESOURCE_NOT_FOUND ''asset disappeared'' [])
   | Some asset \<Rightarrow>
       if as_status asset \<noteq> As_PROVISIONING \<or> as_contract_address asset \<noteq> None
       then Inl (app_error OPERATION_CONFLICT ''asset is no longer awaiting deployment; refusing to deploy a second contract''
         [(''assetId'', JStr (as_id asset)), (''status'', JStr (asset_status_name (as_status asset)))])
       else (let intent_hash = hash_asset_deployment_intent sha asset
             in if intent_hash \<noteq> op_proposal_hash operation
                then Inl (app_error OPERATION_CONFLICT ''asset definition changed after the deployment was requested''
                  [(''expected'', JStr (op_proposal_hash operation)), (''current'', JStr intent_hash)])
                else Inr asset))"

definition prepare_deployment :: "'w handler_env \<Rightarrow> operation_row \<Rightarrow> ('w sys, prepared_chain_write) io" where
  "prepare_deployment env operation =
     io_bind (run_query (find_asset_by_id (op_asset_id operation))) (\<lambda>found.
     io_bind (io_lift (provisioning_asset (he_sha env) operation found)) (\<lambda>asset.
     io_bind (call_world (sg_get_signer_address (he_signer env))) (\<lambda>signer_address.
     io_ret \<lparr>pw_call = gw_encode_token_deployment (he_gateway env)
          \<lparr>td_name = as_name asset, td_symbol = as_symbol asset, td_decimals = as_decimals asset,
           td_supply_cap = as_supply_cap asset, td_admin = signer_address, td_minter = signer_address,
           td_compliance_officer = signer_address, td_pauser = signer_address\<rparr>,
        pw_evidence = JObj [(''assetId'', Some (JStr (as_id asset))), (''symbol'', Some (JStr (as_symbol asset))),
          (''supplyCap'', Some (JStr (show_int (as_supply_cap asset)))),
          (''requestedBy'', Some (JStr (op_requested_by operation)))]\<rparr>)))"

definition reconcile_settled_deployment :: "'w handler_env \<Rightarrow> settled_operation \<Rightarrow> ('w sys, report) io" where
  "reconcile_settled_deployment env settled =
     io_bind (run_query (find_asset_by_id (op_asset_id (so_operation settled)))) (\<lambda>found.
     case found of
       None \<Rightarrow> io_throw (app_error RESOURCE_NOT_FOUND ''asset disappeared'' [])
     | Some asset \<Rightarrow> reconcile_deployment (he_reconciliation env) (so_operation settled) (so_attempt_id settled)
         (so_receipt settled)
         \<lparr>et_symbol = as_symbol asset, et_decimals = as_decimals asset, et_supply_cap = as_supply_cap asset\<rparr>)"

definition apply_deployment :: "settled_operation \<Rightarrow> (db, unit) tx" where
  "apply_deployment settled = (case rv_contract_address (so_receipt settled) of
     None \<Rightarrow> tx_throw (app_error CHAIN_IDENTITY_MISMATCH ''deployment receipt has no contract address'' [])
   | Some contract \<Rightarrow> mark_asset_active (op_asset_id (so_operation settled)) contract
       (rv_transaction_hash (so_receipt settled)))"

definition asset_deployment_handler :: "'w handler_env \<Rightarrow> 'w operation_handler" where
  "asset_deployment_handler env = \<lparr>oh_purpose = P_DEPLOY_TOKEN, oh_prepare = prepare_deployment env,
     oh_assert_still_executable = (\<lambda>_. io_ret ()),
     oh_reconcile = reconcile_settled_deployment env, oh_apply_success = apply_deployment\<rparr>"

subsection \<open>Eligibility writes\<close>

record eligibility_target =
  gt_contract_address :: string
  gt_account :: string
  gt_eligible_until :: int
  gt_decision_id :: uuid

definition eligibility_target_of ::
  "(string \<Rightarrow> string) \<Rightarrow> operation_row \<Rightarrow> asset_row option \<Rightarrow> wallet_row option \<Rightarrow> compliance_row option \<Rightarrow>
   exn + eligibility_target" where
  "eligibility_target_of sha operation asset wallet decision =
     (case (asset, wallet, decision) of
        (Some a, Some w, Some c) \<Rightarrow>
          (case as_contract_address a of
             None \<Rightarrow> Inl (app_error ASSET_NOT_ACTIVE ''eligibility sync is missing its asset, wallet or compliance decision'' [])
           | Some contract \<Rightarrow>
               if cd_status c = Cd_APPROVED \<and> cd_superseded_at c \<noteq> None
               then Inl (app_error COMPLIANCE_NOT_ELIGIBLE
                 ''compliance decision was superseded; refusing to write eligibility on chain''
                 [(''decisionId'', JStr (cd_id c)), (''status'', JStr (decision_status_name (cd_status c)))])
               else if cd_status c = Cd_REJECTED
               then Inl (app_error COMPLIANCE_NOT_ELIGIBLE ''rejected decisions never produce an eligibility write''
                 [(''decisionId'', JStr (cd_id c))])
               else (let until = eligible_until_for c;
                         intent_hash = hash_eligibility_sync_intent sha
                           \<lparr>ei_asset_id = as_id a, ei_chain_id = as_chain_id a, ei_wallet_id = wa_id w,
                            ei_wallet_address = wa_address w, ei_compliance_decision_id = cd_id c,
                            ei_eligible_until = show_int until\<rparr>
                     in if intent_hash \<noteq> op_proposal_hash operation
                        then Inl (app_error OPERATION_CONFLICT ''compliance decision changed after the sync was requested''
                          [(''expected'', JStr (op_proposal_hash operation)), (''current'', JStr intent_hash)])
                        else Inr \<lparr>gt_contract_address = contract, gt_account = wa_address w,
                          gt_eligible_until = until, gt_decision_id = cd_id c\<rparr>))
      | _ \<Rightarrow> Inl (app_error ASSET_NOT_ACTIVE ''eligibility sync is missing its asset, wallet or compliance decision'' []))"

definition resolve_eligibility_target :: "'w handler_env \<Rightarrow> operation_row \<Rightarrow> ('w sys, eligibility_target) io" where
  "resolve_eligibility_target env operation =
     io_bind (run_query (find_asset_by_id (op_asset_id operation))) (\<lambda>asset.
     io_bind (find_wallet_of (op_wallet_id operation)) (\<lambda>wallet.
     io_bind (case op_compliance_decision_id operation of
         None \<Rightarrow> io_ret None | Some i \<Rightarrow> run_query (find_decision_by_id i)) (\<lambda>decision.
     io_lift (eligibility_target_of (he_sha env) operation asset wallet decision))))"

definition prepare_eligibility_sync :: "'w handler_env \<Rightarrow> operation_row \<Rightarrow> ('w sys, prepared_chain_write) io" where
  "prepare_eligibility_sync env operation =
     io_bind (resolve_eligibility_target env operation) (\<lambda>target.
     io_bind (call_world (gw_get_chain_identity (he_gateway env))) (\<lambda>_.
     io_bind (call_world (gw_assert_contract_deployed (he_gateway env) (gt_contract_address target))) (\<lambda>_.
     io_ret \<lparr>pw_call = gw_encode_set_eligibility_call (he_gateway env) (gt_contract_address target)
          \<lparr>se_account = gt_account target, se_eligible_until = gt_eligible_until target\<rparr>,
        pw_evidence = JObj [(''complianceDecisionId'', Some (JStr (gt_decision_id target))),
          (''eligibleUntil'', Some (JStr (show_int (gt_eligible_until target)))),
          (''requestedBy'', Some (JStr (op_requested_by operation)))]\<rparr>)))"

definition reconcile_settled_eligibility :: "'w handler_env \<Rightarrow> settled_operation \<Rightarrow> ('w sys, report) io" where
  "reconcile_settled_eligibility env settled =
     io_bind (resolve_eligibility_target env (so_operation settled)) (\<lambda>target.
     reconcile_eligibility (he_reconciliation env) (so_operation settled) (so_attempt_id settled) (so_receipt settled)
       (gt_contract_address target) (gt_account target) (gt_eligible_until target))"

definition apply_eligibility_sync :: "settled_operation \<Rightarrow> (db, unit) tx" where
  "apply_eligibility_sync settled = (case op_compliance_decision_id (so_operation settled) of
     None \<Rightarrow> tx_ret ()
   | Some decision_id \<Rightarrow> mark_compliance_chain_synced decision_id (rv_transaction_hash (so_receipt settled)))"

definition eligibility_sync_handler :: "'w handler_env \<Rightarrow> 'w operation_handler" where
  "eligibility_sync_handler env = \<lparr>oh_purpose = P_SET_ELIGIBILITY, oh_prepare = prepare_eligibility_sync env,
     oh_assert_still_executable = (\<lambda>_. io_ret ()),
     oh_reconcile = reconcile_settled_eligibility env, oh_apply_success = apply_eligibility_sync\<rparr>"

text \<open>The handlers the container registers, by operation type (\<open>platform/container.ts\<close>).\<close>

fun handler_for :: "'w handler_env \<Rightarrow> operation_type \<Rightarrow> 'w operation_handler" where
  "handler_for env MINT = mint_handler env"
| "handler_for env DEPLOY_ASSET = asset_deployment_handler env"
| "handler_for env SYNC_ELIGIBILITY = eligibility_sync_handler env"

end
