(* ===== verification/OperationExecutor.thy ===== *)
theory OperationExecutor
  imports ChainWriter Handlers
begin

text \<open>
  \<open>modules/operations/operation-executor.ts\<close>: the engine that drives an operation from READY to a
  terminal state. Its hooks move the operation in the same transactions as the attempt; the
  receipt is recorded before it is judged, and SUCCEEDED is committed together with the effect of
  the handler.
\<close>

record 'w executor_env =
  ee_chain :: "'w chain_env"
  ee_handlers :: "'w handler_env"
  ee_confirmation :: confirmation_policy

datatype execution_result =
    Ex_SKIPPED string
  | Ex_SUCCEEDED string
  | Ex_REVERTED string
  | Ex_PENDING operation_state
  | Ex_FAILED string string

definition executor_actor :: actor where
  "executor_actor = system_actor ''operation-executor''"

definition operation_event :: "actor \<Rightarrow> operation_row \<Rightarrow> string \<Rightarrow> (string \<times> json) list \<Rightarrow> audit_event_input" where
  "operation_event act operation action metadata =
     \<lparr>aei_actor = act, aei_action = action, aei_resource_type = ''operation'', aei_resource_id = op_id operation,
      aei_correlation_id = op_correlation_id operation, aei_operation_id = Some (op_id operation),
      aei_metadata = Some (JObj (map (map_prod id Some) metadata))\<rparr>"

definition failure_patch :: "string \<Rightarrow> string \<Rightarrow> transition_patch" where
  "failure_patch code reason =
     no_patch\<lparr>tp_failure_code := Some (Some code), tp_failure_reason := Some (Some reason)\<rparr>"

subsection \<open>Hooks\<close>

definition operation_step :: "uuid \<Rightarrow> operation_state \<Rightarrow> transition_patch \<Rightarrow> (db, unit) tx" where
  "operation_step operation_id to_s patch =
     tx_bind (lock_operation operation_id) (\<lambda>found.
     case found of
       None \<Rightarrow> tx_throw (JsError (''operation '' @ operation_id @ '' disappeared''))
     | Some current \<Rightarrow> tx_then (transition_operation current to_s patch) (tx_ret ()))"

definition not_cancelled :: "operation_row \<Rightarrow> exn + unit" where
  "not_cancelled operation =
     (if op_state operation = Op_CANCELLED
      then Inl (app_error OPERATION_CONFLICT ''operation was cancelled before the signature was broadcast'' [])
      else Inr ())"

definition assert_broadcast_allowed :: "'w executor_env \<Rightarrow> uuid \<Rightarrow> ('w sys, unit) io" where
  "assert_broadcast_allowed env operation_id =
     io_bind (run_query (find_operation_by_id operation_id)) (\<lambda>found.
     case found of
       None \<Rightarrow> io_throw (JsError (''operation '' @ operation_id @ '' disappeared''))
     | Some operation \<Rightarrow>
         io_catch
           (io_then (io_lift (not_cancelled operation))
              (oh_assert_still_executable (handler_for (ee_handlers env) (op_type operation)) operation))
           (\<lambda>e. io_then (run_tx (record_audit_event (operation_event executor_actor operation ''operation.execution_withheld''
              [(''state'', JStr (operation_state_name (op_state operation))),
               (''reason'', JStr (error_code_name (code_of_error e)))])))
              (io_throw e)))"

definition operation_hooks :: "'w executor_env \<Rightarrow> uuid \<Rightarrow> 'w write_hooks" where
  "operation_hooks env operation_id =
     \<lparr>hk_on_prepared = (\<lambda>_. operation_step operation_id Op_SIGNING no_patch),
      hk_on_signed = (\<lambda>_. operation_step operation_id Op_SIGNED no_patch),
      hk_assert_broadcast_allowed = assert_broadcast_allowed env operation_id,
      hk_on_broadcasting = (\<lambda>_. operation_step operation_id Op_BROADCASTING no_patch),
      hk_on_submitted = (\<lambda>_ _. operation_step operation_id Op_SUBMITTED no_patch),
      hk_on_broadcast_unknown = (\<lambda>_ _. operation_step operation_id Op_BROADCAST_UNKNOWN no_patch),
      hk_on_failed = (\<lambda>_ code message. operation_step operation_id Op_FAILED (failure_patch code (take 500 message)))\<rparr>"

text \<open>A replacement moves its operation only where the state machine allows it.\<close>

definition advance_operation :: "uuid \<Rightarrow> operation_state \<Rightarrow> (db, unit) tx" where
  "advance_operation operation_id to_s =
     tx_bind (lock_operation operation_id) (\<lambda>found.
     case found of
       None \<Rightarrow> tx_ret ()
     | Some current \<Rightarrow>
         if \<not> can_transition_operation (op_state current) to_s then tx_ret ()
         else tx_then (transition_operation current to_s no_patch) (tx_ret ()))"

definition replacement_hooks :: "'w executor_env \<Rightarrow> uuid \<Rightarrow> 'w write_hooks" where
  "replacement_hooks env operation_id = no_hooks
     \<lparr>hk_assert_broadcast_allowed := hk_assert_broadcast_allowed (operation_hooks env operation_id),
      hk_on_submitted := (\<lambda>_ _. advance_operation operation_id Op_SUBMITTED),
      hk_on_broadcast_unknown := (\<lambda>_ _. advance_operation operation_id Op_BROADCAST_UNKNOWN)\<rparr>"

subsection \<open>Settlement\<close>

definition receipt_input_of :: "receipt_view \<Rightarrow> receipt_input" where
  "receipt_input_of receipt =
     \<lparr>ri_status = (if rv_status receipt = Rc_success then At_INCLUDED else At_REVERTED),
      ri_block_number = rv_block_number receipt, ri_block_hash = rv_block_hash receipt,
      ri_gas_used = rv_gas_used receipt, ri_receipt_status = (if rv_status receipt = Rc_success then 1 else 0),
      ri_contract_address = rv_contract_address receipt\<rparr>"

definition record_inclusion_tx :: "uuid \<Rightarrow> uuid \<Rightarrow> receipt_view \<Rightarrow> (db, unit) tx" where
  "record_inclusion_tx operation_id attempt_id receipt =
     tx_bind (lock_operation operation_id) (\<lambda>found.
     case found of
       None \<Rightarrow> tx_throw (JsError ''operation disappeared'')
     | Some operation \<Rightarrow>
         tx_then (if op_state operation = Op_SUBMITTED
           then tx_then (transition_operation operation Op_INCLUDED no_patch) (tx_ret ()) else tx_ret ())
         (record_receipt attempt_id (receipt_input_of receipt)))"

definition reorg_observation :: "int \<Rightarrow> uuid \<Rightarrow> uuid \<Rightarrow> receipt_view \<Rightarrow> observation_input" where
  "reorg_observation chain_id operation_id attempt_id receipt =
     \<lparr>oi_operation_id = Some operation_id, oi_transaction_attempt_id = Some attempt_id, oi_kind = Ob_BLOCK_CANONICALITY,
      oi_chain_id = chain_id, oi_block_number = Some (rv_block_number receipt), oi_block_hash = Some (rv_block_hash receipt),
      oi_transaction_hash = Some (rv_transaction_hash receipt), oi_matched = False, oi_canonical = False,
      oi_severity = WARNING,
      oi_expected = Some (JObj [(''canonicalBlockHash'', Some (JStr (rv_block_hash receipt)))]),
      oi_actual = Some (JObj [(''canonical'', Some (JBool False))]),
      oi_detail = Some ''including block is no longer canonical; inclusion evidence retired''\<rparr>"

text \<open>The block left the canonical chain: inclusion evidence is retired, bytes and nonce stay.\<close>

definition reorg_tx :: "int \<Rightarrow> uuid \<Rightarrow> uuid \<Rightarrow> receipt_view \<Rightarrow> (db, unit) tx" where
  "reorg_tx chain_id operation_id attempt_id receipt =
     tx_bind (lock_operation operation_id) (\<lambda>found.
     case found of
       None \<Rightarrow> tx_throw (JsError ''operation disappeared'')
     | Some operation \<Rightarrow>
         tx_bind (invalidate_attempt_observations attempt_id) (\<lambda>invalidated.
         tx_then (clear_attempt_inclusion attempt_id)
         (tx_then (record_observation (reorg_observation chain_id operation_id attempt_id receipt))
         (tx_then (if op_state operation = Op_INCLUDED
           then tx_then (transition_operation operation Op_SUBMITTED no_patch) (tx_ret ()) else tx_ret ())
         (tx_then (record_audit_event (operation_event executor_actor operation ''operation.reorg_observed''
            [(''transactionHash'', JStr (rv_transaction_hash receipt)), (''blockNumber'', JNum (rv_block_number receipt)),
             (''blockHash'', JStr (rv_block_hash receipt)), (''invalidatedObservations'', JNum (int invalidated))]))
         (tx_ret ()))))))"

definition json_fields :: "json \<Rightarrow> (string \<times> json option) list" where
  "json_fields j = (case j of JObj fs \<Rightarrow> fs | _ \<Rightarrow> [])"

text \<open>\<open>{ ...base, ...more }\<close>: a field of the second object takes the place of one of the same name.\<close>

fun put_field :: "string \<times> json option \<Rightarrow> (string \<times> json option) list \<Rightarrow> (string \<times> json option) list" where
  "put_field f [] = [f]"
| "put_field f (g # gs) = (if fst g = fst f then f # gs else g # put_field f gs)"

definition spread :: "(string \<times> json option) list \<Rightarrow> (string \<times> json option) list \<Rightarrow> (string \<times> json option) list" where
  "spread base extra = fold put_field extra base"

definition settled_event :: "operation_row \<Rightarrow> operation_state \<Rightarrow> receipt_view \<Rightarrow> json \<Rightarrow> audit_event_input" where
  "settled_event operation to_s receipt metadata =
     (operation_event executor_actor operation
        (if to_s = Op_SUCCEEDED then ''operation.succeeded'' else ''operation.settled'') [])
     \<lparr>aei_metadata := Some (JObj (spread [(''state'', Some (JStr (operation_state_name to_s))),
        (''type'', Some (JStr (operation_type_name (op_type operation)))),
        (''transactionHash'', Some (JStr (rv_transaction_hash receipt)))] (json_fields metadata)))\<rparr>"

text \<open>Transition, attempt status, the handler's effect and the audit event commit together.\<close>

definition settle_tx ::
  "(settled_operation \<Rightarrow> (db, unit) tx) \<Rightarrow> settled_operation \<Rightarrow> operation_state \<Rightarrow> transition_patch \<Rightarrow>
   attempt_status \<Rightarrow> json \<Rightarrow> (db, unit) tx" where
  "settle_tx apply_success settled to_s patch status metadata =
     tx_bind (lock_operation (op_id (so_operation settled))) (\<lambda>found.
     case found of
       None \<Rightarrow> tx_throw (JsError ''operation disappeared'')
     | Some operation \<Rightarrow>
         if op_state operation = to_s then tx_ret ()
         else tx_then (transition_operation operation to_s patch)
           (tx_then (update_attempt_status (so_attempt_id settled) (status_only status))
           (tx_then (if to_s = Op_SUCCEEDED then apply_success settled else tx_ret ())
           (tx_then (record_audit_event (settled_event operation to_s (so_receipt settled) metadata))
           (tx_ret ())))))"

definition settle_operation ::
  "'w executor_env \<Rightarrow> settled_operation \<Rightarrow> operation_state \<Rightarrow> transition_patch \<Rightarrow> attempt_status \<Rightarrow> json \<Rightarrow>
   ('w sys, unit) io" where
  "settle_operation env settled to_s patch status metadata = run_tx (settle_tx
     (oh_apply_success (handler_for (ee_handlers env) (op_type (so_operation settled)))) settled to_s patch status metadata)"

text \<open>What a final receipt and its reconciliation report decide.\<close>

definition settle_reported ::
  "'w executor_env \<Rightarrow> settled_operation \<Rightarrow> bool \<Rightarrow> string \<Rightarrow> report \<Rightarrow> ('w sys, execution_result) io" where
  "settle_reported env settled reverted hash rep =
     (if reverted
      then io_then (settle_operation env settled Op_REVERTED (failure_patch ''CHAIN_REVERTED'' ''transaction reverted on chain'')
          At_REVERTED (JObj [(''findings'', Some (JArr (map JStr (rr_findings rep))))]))
        (io_ret (Ex_REVERTED hash))
      else if \<not> rr_consistent rep then io_ret (Ex_PENDING Op_INCLUDED)
      else io_then (settle_operation env settled Op_SUCCEEDED no_patch At_CONFIRMED
          (JObj (spread (json_fields (rr_evidence rep)) [(''blockNumber'', Some (JNum (rv_block_number (so_receipt settled))))])))
        (io_ret (Ex_SUCCEEDED hash)))"

definition finalize_receipt ::
  "'w executor_env \<Rightarrow> uuid \<Rightarrow> uuid \<Rightarrow> string \<Rightarrow> confirmation_outcome \<Rightarrow> receipt_view \<Rightarrow> ('w sys, execution_result) io" where
  "finalize_receipt env operation_id attempt_id hash confirmation receipt =
     io_then (run_tx (record_inclusion_tx operation_id attempt_id receipt))
     (case confirmation of
        Co_INCLUDED _ \<Rightarrow> io_ret (Ex_PENDING Op_INCLUDED)
      | _ \<Rightarrow>
        io_bind (run_query (find_operation_by_id operation_id)) (\<lambda>found.
        case found of
          None \<Rightarrow> io_throw (JsError ''operation disappeared'')
        | Some operation \<Rightarrow>
            (let settled = \<lparr>so_operation = operation, so_attempt_id = attempt_id, so_receipt = receipt\<rparr>
             in io_bind (oh_reconcile (handler_for (ee_handlers env) (op_type operation)) settled) (\<lambda>rep.
                settle_reported env settled (confirmation = Co_REVERTED receipt) hash rep))))"

definition settle_confirmation ::
  "'w executor_env \<Rightarrow> uuid \<Rightarrow> uuid \<Rightarrow> string \<Rightarrow> confirmation_outcome \<Rightarrow> ('w sys, execution_result) io" where
  "settle_confirmation env operation_id attempt_id hash confirmation = (case confirmation of
     Co_PENDING \<Rightarrow> io_ret (Ex_PENDING Op_SUBMITTED)
   | Co_ORPHANED receipt \<Rightarrow>
       io_then (run_tx (reorg_tx (ce_chain_id (ee_chain env)) operation_id attempt_id receipt))
         (io_ret (Ex_PENDING Op_SUBMITTED))
   | Co_INCLUDED receipt \<Rightarrow> finalize_receipt env operation_id attempt_id hash confirmation receipt
   | Co_REVERTED receipt \<Rightarrow> finalize_receipt env operation_id attempt_id hash confirmation receipt
   | Co_FINALIZED receipt \<Rightarrow> finalize_receipt env operation_id attempt_id hash confirmation receipt)"

definition observe_and_finalize ::
  "'w executor_env \<Rightarrow> uuid \<Rightarrow> uuid \<Rightarrow> string \<Rightarrow> ('w sys, execution_result) io" where
  "observe_and_finalize env operation_id attempt_id hash =
     io_bind (run_query (find_operation_by_id operation_id)) (\<lambda>existing.
     case existing of
       None \<Rightarrow> io_throw (JsError (''operation '' @ operation_id @ '' disappeared''))
     | Some existing \<Rightarrow>
         if is_terminal_operation_state (op_state existing)
         then io_ret (if op_state existing = Op_SUCCEEDED then Ex_SUCCEEDED hash else Ex_PENDING (op_state existing))
         else io_bind (await_confirmation (ce_gateway (ee_chain env)) hash (ee_confirmation env))
           (settle_confirmation env operation_id attempt_id hash))"

subsection \<open>Execution\<close>

definition follow_outcome :: "'w executor_env \<Rightarrow> uuid \<Rightarrow> write_outcome \<Rightarrow> ('w sys, execution_result) io" where
  "follow_outcome env operation_id out = (case out of
     Wo_FAILED _ code message \<Rightarrow> io_ret (Ex_FAILED code message)
   | Wo_SIGNATURE_PENDING _ _ \<Rightarrow> io_ret (Ex_PENDING Op_SIGNING)
   | Wo_BROADCAST_UNKNOWN _ _ _ \<Rightarrow> io_ret (Ex_PENDING Op_BROADCAST_UNKNOWN)
   | Wo_SUBMITTED attempt_id hash \<Rightarrow> observe_and_finalize env operation_id attempt_id hash)"

definition run_pipeline :: "'w executor_env \<Rightarrow> operation_row \<Rightarrow> ('w sys, execution_result) io" where
  "run_pipeline env operation =
     (let handler = handler_for (ee_handlers env) (op_type operation)
      in io_bind (oh_prepare handler operation) (\<lambda>prepared.
         io_bind (execute_write (ee_chain env)
           \<lparr>wi_purpose = oh_purpose handler, wi_call = pw_call prepared, wi_operation_id = Some (op_id operation),
            wi_asset_id = Some (op_asset_id operation), wi_wallet_id = op_wallet_id operation,
            wi_correlation_id = op_correlation_id operation, wi_evidence = pw_evidence prepared\<rparr>
           (operation_hooks env (op_id operation)))
         (follow_outcome env (op_id operation))))"

definition states_never_overwritten :: "operation_state list" where
  "states_never_overwritten = [Op_BROADCASTING, Op_BROADCAST_UNKNOWN, Op_SUBMITTED, Op_INCLUDED, Op_SUCCEEDED,
     Op_REVERTED, Op_FAILED, Op_CANCELLED]"

definition fail_operation_tx :: "uuid \<Rightarrow> string \<Rightarrow> string \<Rightarrow> (db, unit) tx" where
  "fail_operation_tx operation_id code message =
     tx_bind (lock_operation operation_id) (\<lambda>found.
     case found of
       None \<Rightarrow> tx_ret ()
     | Some current \<Rightarrow>
         if op_state current \<in> set states_never_overwritten then tx_ret ()
         else tx_then (transition_operation current Op_FAILED (failure_patch code (take 500 message)))
           (tx_bind (tx_read (find_latest_attempt_for_operation operation_id)) (\<lambda>latest.
            tx_then (case latest of
                None \<Rightarrow> tx_ret ()
              | Some a \<Rightarrow> if ta_status a = At_PREPARED
                  then update_attempt_status (ta_id a)
                    ((status_only At_FAILED)\<lparr>sp_error_code := Some (Some code), sp_error_message := Some (Some message)\<rparr>)
                  else tx_ret ())
            (tx_then (record_audit_event (operation_event executor_actor current ''operation.failed''
               [(''type'', JStr (operation_type_name (op_type current))), (''failureCode'', JStr code),
                (''failureReason'', JStr (take 500 message))]))
            (tx_ret ())))))"

definition fail_operation :: "operation_row \<Rightarrow> string \<Rightarrow> string \<Rightarrow> ('w sys, unit) io" where
  "fail_operation operation code message =
     io_catch (run_tx (fail_operation_tx (op_id operation) code message)) (\<lambda>_. io_ret ())"

definition execute_operation :: "'w executor_env \<Rightarrow> uuid \<Rightarrow> string \<Rightarrow> ('w sys, execution_result) io" where
  "execute_operation env operation_id worker_id =
     io_bind (run_tx (claim_ready_operation operation_id worker_id)) (\<lambda>claimed.
     case claimed of
       None \<Rightarrow> io_bind (run_query (find_operation_by_id operation_id)) (\<lambda>current.
         io_ret (Ex_SKIPPED (''operation is '' @
           (case current of None \<Rightarrow> ''missing'' | Some c \<Rightarrow> operation_state_name (op_state c)) @ '', not claimable'')))
     | Some operation \<Rightarrow>
         io_catch (run_pipeline env operation) (\<lambda>e.
           (let code = error_code_name (code_of_error e); message = message_of_error e
            in io_then (fail_operation operation code message) (io_ret (Ex_FAILED code message)))))"

definition resume_pending_signature :: "'w executor_env \<Rightarrow> uuid \<Rightarrow> attempt_row \<Rightarrow> ('w sys, execution_result) io" where
  "resume_pending_signature env operation_id attempt =
     io_bind (resume_signature (ee_chain env) attempt (operation_hooks env operation_id)) (follow_outcome env operation_id)"

definition load_attempt :: "uuid \<Rightarrow> ('w sys, attempt_row option) io" where
  "load_attempt attempt_id = run_query (find_attempt_by_id attempt_id)"

end
