(* ===== verification/Maintenance.thy ===== *)
theory Maintenance
  imports OperationExecutor
begin

text \<open>
  The background work of the worker process: the outbox dispatcher
  (\<open>modules/outbox/outbox-dispatcher.ts\<close>), the recovery sweep
  (\<open>modules/transactions/recovery-service.ts\<close>), the replacement sweep
  (\<open>modules/transactions/replacement-service.ts\<close>) and the loop that runs them
  (\<open>worker/runtime.ts\<close>). BullMQ is a function on the abstract world: a job is accepted or the call
  throws.
\<close>

subsection \<open>The queue\<close>

record job_data =
  jd_operation_id :: uuid
  jd_outbox_id :: "uuid option"
  jd_correlation_id :: string

record 'w queue =
  qu_add :: "string \<Rightarrow> job_data \<Rightarrow> string \<Rightarrow> ('w, unit) call"

subsection \<open>The outbox dispatcher\<close>

record dispatcher_options =
  do_batch_size :: nat
  do_retry_after_ms :: "int option"

definition outbox_job :: "outbox_row \<Rightarrow> exn + job_data" where
  "outbox_job row =
     (if ob_topic row \<noteq> OPERATION_READY then Inl (JsError (''unsupported outbox topic '' @ ob_topic row))
      else case json_get (ob_payload row) ''operationId'' of
        Some (JStr operation_id) \<Rightarrow>
          Inr \<lparr>jd_operation_id = operation_id, jd_outbox_id = Some (ob_id row), jd_correlation_id = ob_correlation_id row\<rparr>
      | _ \<Rightarrow> Inl (JsError (''outbox row '' @ ob_id row @ '' has no operationId'')))"

definition publish :: "'w queue \<Rightarrow> outbox_row \<Rightarrow> ('w sys, unit) io" where
  "publish queue row =
     io_bind (io_lift (outbox_job row)) (\<lambda>job.
     call_world (qu_add queue OPERATION_READY job (''outbox-'' @ ob_id row)))"

text \<open>One claimed row: published, or handed back for a later attempt.\<close>

definition dispatch_row :: "'w queue \<Rightarrow> dispatcher_options \<Rightarrow> uuid \<Rightarrow> outbox_row \<Rightarrow> ('w sys, uuid option) io" where
  "dispatch_row queue options claim_token row =
     io_catch (io_then (publish queue row) (io_ret (Some (ob_id row))))
       (\<lambda>e. io_then (run_tx (reschedule_outbox (ob_id row) claim_token (message_of_error e)
            (case do_retry_after_ms options of None \<Rightarrow> 2000 | Some t \<Rightarrow> t)))
          (io_ret None))"

definition dispatched_ids :: "uuid option list \<Rightarrow> uuid list" where
  "dispatched_ids rs = concat (map (\<lambda>r. case r of None \<Rightarrow> [] | Some i \<Rightarrow> [i]) rs)"

definition dispatch_once :: "'w queue \<Rightarrow> dispatcher_options \<Rightarrow> ('w sys, nat) io" where
  "dispatch_once queue options =
     io_bind (run_tx (claim_pending_outbox (do_batch_size options) None None)) (\<lambda>(claim_token, claimed).
     if claimed = [] then io_then (run_query count_outbox_by_status) (io_ret 0)
     else io_bind (io_map (dispatch_row queue options claim_token) claimed) (\<lambda>results.
       io_then (run_tx (mark_outbox_dispatched (dispatched_ids results) claim_token))
       (io_then (run_query count_outbox_by_status) (io_ret (length (dispatched_ids results))))))"

subsection \<open>The recovery sweep\<close>

record 'w recovery_env =
  rv_executor :: "'w executor_env"
  rv_queue :: "'w queue"
  rv_stale_after_ms :: int
  rv_batch_size :: nat

datatype recovery_result = REQUEUED | REBROADCAST | RESOLVED | FAILED_RECOVERY | NOOP

record recovery_summary =
  rs_requeued :: nat
  rs_rebroadcast :: nat
  rs_resolved :: nat
  rs_failed :: nat

definition requeue :: "'w recovery_env \<Rightarrow> operation_row \<Rightarrow> ('w sys, unit) io" where
  "requeue env operation =
     io_bind date_now (\<lambda>now.
     call_world (qu_add (rv_queue env) ''operation.ready''
       \<lparr>jd_operation_id = op_id operation, jd_outbox_id = None, jd_correlation_id = op_correlation_id operation\<rparr>
       (''recovery-'' @ op_id operation @ ''-'' @ show_int now)))"

definition finalize :: "'w recovery_env \<Rightarrow> operation_row \<Rightarrow> ('w sys, bool) io" where
  "finalize env operation =
     io_bind (run_query (find_latest_attempt_for_operation (op_id operation))) (\<lambda>found.
     case found of
       None \<Rightarrow> io_ret False
     | Some attempt \<Rightarrow>
         (case ta_transaction_hash attempt of
            None \<Rightarrow> io_ret False
          | Some hash \<Rightarrow>
              io_bind (observe_and_finalize (rv_executor env) (op_id operation) (ta_id attempt) hash) (\<lambda>result.
              io_ret (case result of Ex_SUCCEEDED _ \<Rightarrow> True | Ex_REVERTED _ \<Rightarrow> True | _ \<Rightarrow> False))))"

definition abandoned_code :: string where
  "abandoned_code = ''ABANDONED_BEFORE_BROADCAST''"

definition abandon_tx :: "uuid \<Rightarrow> attempt_row option \<Rightarrow> (db, unit) tx" where
  "abandon_tx operation_id attempt =
     tx_bind (lock_operation operation_id) (\<lambda>found.
     case found of
       None \<Rightarrow> tx_ret ()
     | Some current \<Rightarrow>
         if op_state current \<noteq> Op_PREPARING \<and> op_state current \<noteq> Op_SIGNING then tx_ret ()
         else tx_then (transition_operation current Op_FAILED
             (failure_patch abandoned_code ''worker died before any transaction was broadcast''))
           (tx_then (case attempt of
               None \<Rightarrow> tx_ret ()
             | Some a \<Rightarrow> update_attempt_status (ta_id a) ((status_only At_FAILED)\<lparr>sp_error_code := Some (Some abandoned_code)\<rparr>))
           (tx_then (record_audit_event (operation_event (system_actor ''recovery-sweep'') current ''operation.failed''
              [(''failureCode'', JStr abandoned_code), (''recoveredBy'', JStr ''sweep'')]))
           (tx_ret ()))))"

text \<open>\<open>abandonUnbroadcast\<close>; \<open>resolve\<close> is \<open>resolveInFlight\<close>, which calls back.\<close>

definition abandon_unbroadcast ::
  "(operation_row \<Rightarrow> ('w sys, recovery_result) io) \<Rightarrow> operation_row \<Rightarrow> ('w sys, bool) io" where
  "abandon_unbroadcast resolve operation =
     io_bind (run_query (find_latest_attempt_for_operation (op_id operation))) (\<lambda>attempt.
     if (case attempt of None \<Rightarrow> False | Some a \<Rightarrow> ta_signed_raw_transaction a \<noteq> None)
     then io_bind (resolve operation) (\<lambda>result. io_ret (result \<noteq> NOOP))
     else io_then (run_tx (abandon_tx (op_id operation) attempt)) (io_ret True))"

definition rebroadcast_tx :: "uuid \<Rightarrow> uuid \<Rightarrow> (db, unit) tx" where
  "rebroadcast_tx operation_id attempt_id =
     tx_bind (lock_operation operation_id) (\<lambda>found.
     case found of
       None \<Rightarrow> tx_ret ()
     | Some current \<Rightarrow>
         tx_then (if op_state current = Op_BROADCAST_UNKNOWN \<or> op_state current = Op_SIGNED
           then tx_then (transition_operation current Op_BROADCASTING no_patch) (tx_ret ()) else tx_ret ())
         (update_attempt_status attempt_id ((status_only At_BROADCASTING)\<lparr>sp_increment_broadcast_attempts := True\<rparr>)))"

text \<open>Moves the operation if it is still BROADCASTING.\<close>

definition leave_broadcasting :: "uuid \<Rightarrow> operation_state \<Rightarrow> (db, unit) tx" where
  "leave_broadcasting operation_id to_s =
     tx_bind (lock_operation operation_id) (\<lambda>found.
     case found of
       None \<Rightarrow> tx_ret ()
     | Some current \<Rightarrow>
         if op_state current = Op_BROADCASTING
         then tx_then (transition_operation current to_s no_patch) (tx_ret ()) else tx_ret ())"

definition recovery_hooks :: "uuid \<Rightarrow> 'w write_hooks" where
  "recovery_hooks operation_id = no_hooks
     \<lparr>hk_on_submitted := (\<lambda>_ _. leave_broadcasting operation_id Op_SUBMITTED),
      hk_on_broadcast_unknown := (\<lambda>_ _. leave_broadcasting operation_id Op_BROADCAST_UNKNOWN)\<rparr>"

definition advance_to_submitted_tx :: "uuid \<Rightarrow> (db, unit) tx" where
  "advance_to_submitted_tx operation_id =
     tx_bind (lock_operation operation_id) (\<lambda>found.
     case found of
       None \<Rightarrow> tx_ret ()
     | Some current \<Rightarrow>
         if op_state current = Op_BROADCAST_UNKNOWN \<or> op_state current = Op_BROADCASTING
         then tx_then (transition_operation current Op_SUBMITTED no_patch) (tx_ret ()) else tx_ret ())"

text \<open>The identical bytes again, or what the chain already knows.\<close>

definition resolve_attempt ::
  "'w recovery_env \<Rightarrow> operation_row \<Rightarrow> attempt_row \<Rightarrow> string \<Rightarrow> string \<Rightarrow> ('w sys, recovery_result) io" where
  "resolve_attempt env operation attempt signed hash =
     (let chain = ee_chain (rv_executor env)
      in if ta_status attempt = At_REPLACED then io_ret NOOP
         else io_bind (call_world (gw_get_transaction_receipt (ce_gateway chain) hash)) (\<lambda>receipt.
           case receipt of
             Some _ \<Rightarrow> io_then (run_tx (advance_to_submitted_tx (op_id operation)))
               (io_bind (finalize env operation) (\<lambda>done. io_ret (if done then RESOLVED else NOOP)))
           | None \<Rightarrow> io_then (run_tx (rebroadcast_tx (op_id operation) (ta_id attempt)))
               (io_then (broadcast chain attempt signed hash (recovery_hooks (op_id operation))) (io_ret REBROADCAST))))"

text \<open>
  The two methods call each other. The number bounds the depth; \<open>recovery_depth_enough\<close> in theory
  Guarantees shows that one level is all a recovery of an operation nobody else gives an attempt can need.
\<close>

fun resolve_in_flight :: "nat \<Rightarrow> 'w recovery_env \<Rightarrow> operation_row \<Rightarrow> ('w sys, recovery_result) io" where
  "resolve_in_flight 0 env operation = io_throw (JsError ''recovery does not settle'')"
| "resolve_in_flight (Suc n) env operation =
     io_bind (run_query (find_latest_attempt_for_operation (op_id operation))) (\<lambda>found.
     case found of
       Some attempt \<Rightarrow>
         (case (ta_signed_raw_transaction attempt, ta_transaction_hash attempt) of
            (Some signed, Some hash) \<Rightarrow> resolve_attempt env operation attempt signed hash
          | _ \<Rightarrow> io_bind (abandon_unbroadcast (resolve_in_flight n env) operation) (\<lambda>gone.
              io_ret (if gone then FAILED_RECOVERY else NOOP)))
     | None \<Rightarrow> io_bind (abandon_unbroadcast (resolve_in_flight n env) operation) (\<lambda>gone.
              io_ret (if gone then FAILED_RECOVERY else NOOP)))"

definition resume_signing :: "'w recovery_env \<Rightarrow> operation_row \<Rightarrow> ('w sys, recovery_result option) io" where
  "resume_signing env operation =
     io_bind (run_query (find_latest_attempt_for_operation (op_id operation))) (\<lambda>found.
     case found of
       None \<Rightarrow> io_ret None
     | Some attempt \<Rightarrow>
         if ta_signed_raw_transaction attempt \<noteq> None then io_ret None
         else io_bind (run_query (find_signer_request_for_attempt (ta_id attempt))) (\<lambda>request.
           if (case request of None \<Rightarrow> True | Some r \<Rightarrow> sr_status r \<noteq> Sr_PENDING) then io_ret None
           else io_bind (resume_pending_signature (rv_executor env) (op_id operation) attempt) (\<lambda>result.
             io_ret (Some (if result = Ex_PENDING Op_SIGNING then NOOP
               else case result of Ex_FAILED _ _ \<Rightarrow> FAILED_RECOVERY | _ \<Rightarrow> RESOLVED)))))"

definition abandoned_as_failed ::
  "'w recovery_env \<Rightarrow> nat \<Rightarrow> operation_row \<Rightarrow> ('w sys, recovery_result) io" where
  "abandoned_as_failed env depth operation =
     io_bind (abandon_unbroadcast (resolve_in_flight depth env) operation) (\<lambda>gone.
     io_ret (if gone then FAILED_RECOVERY else NOOP))"

definition recover_one :: "nat \<Rightarrow> 'w recovery_env \<Rightarrow> operation_row \<Rightarrow> ('w sys, recovery_result) io" where
  "recover_one depth env operation = (case op_state operation of
     Op_READY \<Rightarrow> io_then (requeue env operation) (io_ret REQUEUED)
   | Op_SIGNING \<Rightarrow> io_bind (resume_signing env operation) (\<lambda>resumed.
       case resumed of Some r \<Rightarrow> io_ret r | None \<Rightarrow> abandoned_as_failed env depth operation)
   | Op_PREPARING \<Rightarrow> abandoned_as_failed env depth operation
   | Op_SIGNED \<Rightarrow> resolve_in_flight depth env operation
   | Op_BROADCASTING \<Rightarrow> resolve_in_flight depth env operation
   | Op_BROADCAST_UNKNOWN \<Rightarrow> resolve_in_flight depth env operation
   | Op_SUBMITTED \<Rightarrow> io_bind (finalize env operation) (\<lambda>done. io_ret (if done then RESOLVED else NOOP))
   | Op_INCLUDED \<Rightarrow> io_bind (finalize env operation) (\<lambda>done. io_ret (if done then RESOLVED else NOOP))
   | _ \<Rightarrow> io_ret NOOP)"

definition count_result :: "exn + recovery_result \<Rightarrow> recovery_summary \<Rightarrow> recovery_summary" where
  "count_result r s = (case r of
     Inr REQUEUED \<Rightarrow> s\<lparr>rs_requeued := rs_requeued s + 1\<rparr>
   | Inr REBROADCAST \<Rightarrow> s\<lparr>rs_rebroadcast := rs_rebroadcast s + 1\<rparr>
   | Inr RESOLVED \<Rightarrow> s\<lparr>rs_resolved := rs_resolved s + 1\<rparr>
   | Inr FAILED_RECOVERY \<Rightarrow> s\<lparr>rs_failed := rs_failed s + 1\<rparr>
   | _ \<Rightarrow> s)"

definition RECOVERY_DEPTH :: nat where
  "RECOVERY_DEPTH = 2"

definition recovery_sweep :: "'w recovery_env \<Rightarrow> ('w sys, recovery_summary) io" where
  "recovery_sweep env =
     io_bind date_now (\<lambda>now.
     io_bind (run_query (find_stale_operations (now - rv_stale_after_ms env) (rv_batch_size env))) (\<lambda>stale.
     io_bind (io_map (\<lambda>operation. io_attempt (recover_one RECOVERY_DEPTH env operation)) stale) (\<lambda>results.
     io_ret (fold count_result results \<lparr>rs_requeued = 0, rs_rebroadcast = 0, rs_resolved = 0, rs_failed = 0\<rparr>))))"

end
