(* ===== verification/Replacement.thy ===== *)
theory Replacement
  imports Maintenance
begin

text \<open>
  \<open>modules/transactions/replacement-service.ts\<close>: fee replacement of stuck transactions and recovery
  of a blocked nonce lane, both at the nonce that blocks; and the sweep of \<open>worker/runtime.ts\<close> that
  runs every maintenance task in turn.
\<close>

record 'w replacement_env =
  pe_executor :: "'w executor_env"
  pe_profile :: chain_profile

definition STUCK_REASON :: string where
  "STUCK_REASON = ''STUCK_NO_INCLUSION''"

definition RECOVERY_REASON :: string where
  "RECOVERY_REASON = ''NONCE_LANE_RECOVERY''"

definition pe_chain :: "'w replacement_env \<Rightarrow> 'w chain_env" where
  "pe_chain env = ee_chain (pe_executor env)"

definition pe_gateway :: "'w replacement_env \<Rightarrow> 'w gateway" where
  "pe_gateway env = ce_gateway (pe_chain env)"

definition replacement_bump :: "'w replacement_env \<Rightarrow> int" where
  "replacement_bump env = rp_fee_bump_percent (pf_replacement (pe_profile env))"

fun outcome_attempt :: "write_outcome \<Rightarrow> uuid" where
  "outcome_attempt (Wo_SUBMITTED i h) = i"
| "outcome_attempt (Wo_SIGNATURE_PENDING i p) = i"
| "outcome_attempt (Wo_BROADCAST_UNKNOWN i h r) = i"
| "outcome_attempt (Wo_FAILED i c m) = i"

fun outcome_kind :: "write_outcome \<Rightarrow> string" where
  "outcome_kind (Wo_SUBMITTED i h) = ''SUBMITTED''"
| "outcome_kind (Wo_SIGNATURE_PENDING i p) = ''SIGNATURE_PENDING''"
| "outcome_kind (Wo_BROADCAST_UNKNOWN i h r) = ''BROADCAST_UNKNOWN''"
| "outcome_kind (Wo_FAILED i c m) = ''FAILED''"

definition attempt_event :: "attempt_row \<Rightarrow> string \<Rightarrow> (string \<times> json) list \<Rightarrow> audit_event_input" where
  "attempt_event attempt action metadata =
     \<lparr>aei_actor = system_actor ''replacement-sweep'', aei_action = action, aei_resource_type = ''transaction_attempt'',
      aei_resource_id = ta_id attempt, aei_correlation_id = ta_id attempt, aei_operation_id = ta_operation_id attempt,
      aei_metadata = Some (JObj (map (map_prod id Some) metadata))\<rparr>"

subsection \<open>Stuck transactions\<close>

text \<open>Whether the operation behind the attempt, if it has one, can still use a replacement.\<close>

definition replaceable_operation :: "attempt_row \<Rightarrow> ('w sys, bool) io" where
  "replaceable_operation attempt = (case ta_operation_id attempt of
     None \<Rightarrow> io_ret True
   | Some i \<Rightarrow> io_bind (run_query (find_operation_by_id i)) (\<lambda>found.
       io_ret (case found of None \<Rightarrow> False | Some operation \<Rightarrow> \<not> is_terminal_operation_state (op_state operation))))"

definition replaced_event :: "attempt_row \<Rightarrow> fee_estimate \<Rightarrow> write_outcome \<Rightarrow> audit_event_input" where
  "replaced_event attempt fees out = attempt_event attempt ''transaction.replaced''
     [(''replacementAttemptId'', JStr (outcome_attempt out)),
      (''replacementNumber'', JNum (int (ta_replacement_number attempt + 1))),
      (''nonce'', JNum (ta_nonce attempt)), (''reason'', JStr STUCK_REASON),
      (''previousMaxFeePerGas'', JStr (show_int (ta_max_fee_per_gas attempt))),
      (''maxFeePerGas'', JStr (show_int (fe_max_fee_per_gas fees))), (''outcome'', JStr (outcome_kind out))]"

definition replacement_done ::
  "'w replacement_env \<Rightarrow> attempt_row \<Rightarrow> fee_estimate \<Rightarrow> write_outcome \<Rightarrow> ('w sys, bool) io" where
  "replacement_done env attempt fees out =
     io_then (run_tx (record_audit_event (replaced_event attempt fees out)))
     (case (out, ta_operation_id attempt) of
        (Wo_SUBMITTED attempt_id hash, Some operation_id) \<Rightarrow>
          io_then (observe_and_finalize (pe_executor env) operation_id attempt_id hash) (io_ret True)
      | _ \<Rightarrow> io_ret True)"

definition replace_one :: "'w replacement_env \<Rightarrow> attempt_row \<Rightarrow> ('w sys, bool) io" where
  "replace_one env attempt = (case ta_transaction_hash attempt of
     None \<Rightarrow> io_ret False
   | Some hash \<Rightarrow>
       io_bind (call_world (gw_get_transaction_receipt (pe_gateway env) hash)) (\<lambda>receipt.
       if receipt \<noteq> None then io_ret False
       else io_bind (replaceable_operation attempt) (\<lambda>replaceable.
         if \<not> replaceable then io_ret False
         else io_bind (call_world (gw_get_fee_estimate (pe_gateway env))) (\<lambda>current.
           (let fees = bump_fees attempt current (replacement_bump env);
                hooks = (case ta_operation_id attempt of None \<Rightarrow> no_hooks
                  | Some i \<Rightarrow> replacement_hooks (pe_executor env) i)
            in io_bind (io_attempt (replace_fees (pe_chain env) attempt fees STUCK_REASON (ta_id attempt) hooks)) (\<lambda>result.
               case result of
                 Inl _ \<Rightarrow> io_ret False
               | Inr out \<Rightarrow> replacement_done env attempt fees out))))))"

definition replace_stuck_transactions :: "'w replacement_env \<Rightarrow> ('w sys, nat) io" where
  "replace_stuck_transactions env =
     (let policy = pf_replacement (pe_profile env)
      in io_bind (run_query (find_stuck_attempts (pf_chain_id (pe_profile env)) (rp_stuck_after_ms policy)
           (rp_max_replacements policy) 10)) (\<lambda>stuck.
         io_bind (io_map (replace_one env) stuck) (\<lambda>done. io_ret (length (filter id done)))))"

subsection \<open>Blocked lanes\<close>

definition is_abandoned :: "attempt_row \<Rightarrow> bool" where
  "is_abandoned attempt \<longleftrightarrow> ta_status attempt = At_FAILED \<and> ta_block_number attempt = None"

definition recovery_observation :: "uuid \<Rightarrow> attempt_row \<Rightarrow> receipt_view \<Rightarrow> observation_input" where
  "recovery_observation attempt_id attempt receipt =
     (let succeeded = (rv_status receipt = Rc_success)
      in \<lparr>oi_operation_id = None, oi_transaction_attempt_id = Some attempt_id, oi_kind = Ob_RECEIPT,
          oi_chain_id = ta_chain_id attempt, oi_block_number = Some (rv_block_number receipt),
          oi_block_hash = Some (rv_block_hash receipt), oi_transaction_hash = Some (rv_transaction_hash receipt),
          oi_matched = succeeded, oi_canonical = True, oi_severity = (if succeeded then INFO else WARNING),
          oi_expected = Some (JObj [(''status'', Some (JStr ''success'')), (''nonce'', Some (JNum (ta_nonce attempt)))]),
          oi_actual = Some (JObj [(''status'', Some (JStr (receipt_outcome_name (rv_status receipt)))),
            (''blockNumber'', Some (JNum (rv_block_number receipt)))]),
          oi_detail = (if succeeded then None else Some ''nonce recovery transaction reverted'')\<rparr>)"

definition confirm_recovery_tx :: "uuid \<Rightarrow> attempt_row \<Rightarrow> receipt_view \<Rightarrow> bool \<Rightarrow> (db, unit) tx" where
  "confirm_recovery_tx attempt_id attempt receipt final =
     tx_then (record_receipt attempt_id (receipt_input_of receipt))
     (tx_then (record_observation (recovery_observation attempt_id attempt receipt))
     (if final \<and> rv_status receipt = Rc_success
      then update_attempt_status attempt_id (status_only At_CONFIRMED) else tx_ret ()))"

definition confirm_receipt :: "uuid \<Rightarrow> receipt_view \<Rightarrow> bool \<Rightarrow> ('w sys, unit) io" where
  "confirm_receipt attempt_id receipt final =
     io_bind (run_query (find_attempt_by_id attempt_id)) (\<lambda>found.
     case found of
       None \<Rightarrow> io_ret ()
     | Some attempt \<Rightarrow> run_tx (confirm_recovery_tx attempt_id attempt receipt final))"

definition confirm_recovery :: "'w replacement_env \<Rightarrow> uuid \<Rightarrow> string \<Rightarrow> ('w sys, unit) io" where
  "confirm_recovery env attempt_id hash =
     io_bind (await_confirmation (pe_gateway env) hash (ee_confirmation (pe_executor env))) (\<lambda>confirmation.
     case confirmation of
       Co_PENDING \<Rightarrow> io_ret ()
     | Co_ORPHANED _ \<Rightarrow> io_ret ()
     | Co_INCLUDED receipt \<Rightarrow> confirm_receipt attempt_id receipt False
     | Co_REVERTED receipt \<Rightarrow> confirm_receipt attempt_id receipt False
     | Co_FINALIZED receipt \<Rightarrow> confirm_receipt attempt_id receipt True)"

definition confirm_submitted :: "'w replacement_env \<Rightarrow> write_outcome \<Rightarrow> ('w sys, bool) io" where
  "confirm_submitted env out = (case out of
     Wo_SUBMITTED attempt_id hash \<Rightarrow> io_then (confirm_recovery env attempt_id hash) (io_ret True)
   | _ \<Rightarrow> io_ret False)"

text \<open>A hash is stored whenever bytes are, so the empty text below stands for a case that cannot be.\<close>

definition resume_recovery :: "'w replacement_env \<Rightarrow> attempt_row \<Rightarrow> ('w sys, bool) io" where
  "resume_recovery env recovery =
     (if ta_status recovery = At_FAILED then io_ret False
      else io_bind (case ta_signed_raw_transaction recovery of
          None \<Rightarrow> resume_signature (pe_chain env) recovery no_hooks
        | Some signed \<Rightarrow> broadcast (pe_chain env) recovery signed
            (case ta_transaction_hash recovery of None \<Rightarrow> '''' | Some h \<Rightarrow> h) no_hooks)
        (confirm_submitted env))"

definition recovered_event :: "attempt_row \<Rightarrow> write_outcome \<Rightarrow> audit_event_input" where
  "recovered_event blocking out = attempt_event blocking ''transaction.nonce_recovered''
     [(''recoveryAttemptId'', JStr (outcome_attempt out)), (''nonce'', JNum (ta_nonce blocking)),
      (''blockedBy'', JStr (attempt_status_name (ta_status blocking))), (''outcome'', JStr (outcome_kind out))]"

definition recover_nonce :: "'w replacement_env \<Rightarrow> attempt_row \<Rightarrow> ('w sys, bool) io" where
  "recover_nonce env blocking =
     io_bind (call_world (gw_get_fee_estimate (pe_gateway env))) (\<lambda>current.
     (let fees = bump_fees blocking current (replacement_bump env)
      in io_bind (io_attempt (cancel_nonce (pe_chain env) blocking fees RECOVERY_REASON (ta_id blocking) no_hooks)) (\<lambda>result.
         case result of
           Inl _ \<Rightarrow> io_ret False
         | Inr out \<Rightarrow>
             io_then (run_tx (record_audit_event (recovered_event blocking out))) (confirm_submitted env out))))"

definition recover_blocked_lane :: "'w replacement_env \<Rightarrow> ('w sys, nat) io" where
  "recover_blocked_lane env =
     (let chain_id = pf_chain_id (pe_profile env)
      in io_bind (call_world (sg_get_signer_address (ce_signer (pe_chain env)))) (\<lambda>signer_addr.
         io_bind (run_query (read_reserved_nonce chain_id signer_addr)) (\<lambda>reserved.
         case reserved of
           None \<Rightarrow> io_ret 0
         | Some next \<Rightarrow>
             io_bind (call_world (gw_get_transaction_count (pe_gateway env) signer_addr)) (\<lambda>chain_nonce.
             if chain_nonce \<ge> next then io_ret 0
             else io_bind (run_query (find_live_attempt_at_nonce chain_id signer_addr chain_nonce)) (\<lambda>blocking.
               case blocking of
                 None \<Rightarrow> io_ret 0
               | Some blocking \<Rightarrow>
                   if ta_purpose blocking = P_NONCE_RECOVERY
                   then io_bind (resume_recovery env blocking) (\<lambda>done. io_ret (if done then 1 else 0))
                   else if \<not> is_abandoned blocking then io_ret 0
                   else io_bind (recover_nonce env blocking) (\<lambda>done. io_ret (if done then 1 else 0)))))))"

definition replacement_sweep :: "'w replacement_env \<Rightarrow> ('w sys, nat \<times> nat) io" where
  "replacement_sweep env =
     io_bind (replace_stuck_transactions env) (\<lambda>replaced.
     io_bind (recover_blocked_lane env) (\<lambda>recovered. io_ret (replaced, recovered)))"

subsection \<open>The worker's sweep\<close>

record 'w worker_env =
  we_recovery :: "'w recovery_env"
  we_replacement :: "'w replacement_env"

text \<open>One tick of the interval timer; a failure of any part is logged and ends the tick.\<close>

definition worker_sweep :: "'w worker_env \<Rightarrow> ('w sys, unit) io" where
  "worker_sweep env =
     io_catch
       (io_then (recovery_sweep (we_recovery env))
       (io_then (replacement_sweep (we_replacement env))
       (io_then (expire_lapsed_approvals (ce_sha (ee_chain (rv_executor (we_recovery env)))) 25)
       (io_then (run_query count_open_findings_by_severity)
       (io_then (run_query count_pending_signer_requests)
       (io_then (run_query count_operations_by_state) (io_ret ())))))))
       (\<lambda>_. io_ret ())"

end
