(* ===== verification/Workflow.thy ===== *)
theory Workflow
  imports TwoPerson Replacement
begin

text \<open>
  The system as a whole: the transactions the program commits, the database states they reach in
  any interleaving, and what holds in all of them. \<open>program_tx\<close> has one rule for each transaction body
  of the modules; a step of the system commits one of them or moves the clocks.
\<close>

subsection \<open>The transactions of the program\<close>

text \<open>What a hook of the executor, of a replacement or of the recovery sweep does inside a step.\<close>

inductive hook_tx :: "(db, unit) tx \<Rightarrow> bool" where
  hook_none: "hook_tx (tx_ret ())"
| hook_step: "to_s \<noteq> Op_READY \<Longrightarrow> hook_tx (operation_step i to_s patch)"
| hook_advance: "to_s \<noteq> Op_READY \<Longrightarrow> hook_tx (advance_operation i to_s)"
| hook_leave: "to_s \<noteq> Op_READY \<Longrightarrow> hook_tx (leave_broadcasting i to_s)"

definition program_hooks :: "'w write_hooks \<Rightarrow> bool" where
  "program_hooks hooks \<longleftrightarrow>
     (\<forall>a. hook_tx (hk_on_prepared hooks a)) \<and> (\<forall>a. hook_tx (hk_on_signed hooks a)) \<and>
     (\<forall>a. hook_tx (hk_on_broadcasting hooks a)) \<and> (\<forall>a h. hook_tx (hk_on_submitted hooks a h)) \<and>
     (\<forall>a r. hook_tx (hk_on_broadcast_unknown hooks a r)) \<and> (\<forall>a c m. hook_tx (hk_on_failed hooks a c m))"

text \<open>A transaction whose result is not looked at.\<close>

definition tx_void :: "(db, 'a) tx \<Rightarrow> (db, unit) tx" where
  "tx_void m = tx_then m (tx_ret ())"

inductive program_tx :: "'w executor_env \<Rightarrow> (db, unit) tx \<Rightarrow> bool" for env :: "'w executor_env" where
  tx_query: "program_tx env (tx_ret ())"
| tx_uuid: "program_tx env (tx_void fresh_uuid)"
| tx_upsert_user: "program_tx env (tx_void (upsert_user_row user))"
| tx_clear_roles: "program_tx env (tx_void (clear_user_roles user_id))"
| tx_insert_roles: "program_tx env (tx_void (insert_user_roles user_id roles))"
| tx_create_asset: "program_tx env (tx_void (create_asset_tx sha chain ctx asset_input cap))"
| tx_request_deployment: "program_tx env (tx_void (request_deployment_tx sha ctx asset))"
| tx_register_wallet: "program_tx env (tx_void (register_wallet_tx chain ctx wallet_input))"
| tx_claim_key: "program_tx env (tx_void (claim_idempotency_key identity h))"
| tx_mint: "program_tx env (tx_void (idempotent_work i (mint_work sha ctx asset wallet cd amount)))"
| tx_release_key: "program_tx env (tx_void (release_idempotency_key i))"
| tx_decision: "program_tx env (tx_void (record_decision_tx sha ctx decision_input))"
| tx_compliance: "program_tx env (tx_void (record_compliance_tx sha ctx compliance_input wallet asset_opt subj screening))"
| tx_revoke: "program_tx env (tx_void (revoke_decision_tx sha name ctx revoke_in wallet asset_opt))"
| tx_expire: "program_tx env (tx_void (expire_decision_tx sha cd wallet asset_opt))"
| tx_claim_operation: "program_tx env (tx_void (claim_ready_operation i worker))"
| tx_prepare: "program_hooks (hooks :: 'w write_hooks) \<Longrightarrow>
    program_tx env (tx_void (prepare_attempt_tx (ee_chain env) intent hooks addr n gas fees))"
| tx_signer_request: "program_tx env (tx_void (record_signer_request req))"
| tx_signer_rejected: "program_tx env (tx_void (mark_signer_request_rejected i code))"
| tx_signer_expired: "program_tx env (tx_void (expire_lapsed_signer_request i t))"
| tx_signer_touched: "program_tx env (tx_void (touch_signer_request i))"
| tx_persist_signed: "program_hooks (hooks :: 'w write_hooks) \<Longrightarrow> program_tx env (tx_void (persist_signed_tx hooks a raw hash i))"
| tx_broadcasting: "program_hooks (hooks :: 'w write_hooks) \<Longrightarrow> program_tx env (tx_void (broadcasting_tx hooks a))"
| tx_submitted: "program_hooks (hooks :: 'w write_hooks) \<Longrightarrow> program_tx env (tx_void (submitted_tx hooks a hash))"
| tx_broadcast_unknown: "program_hooks (hooks :: 'w write_hooks) \<Longrightarrow> program_tx env (tx_void (broadcast_unknown_tx hooks a reason))"
| tx_fail_attempt: "program_hooks (hooks :: 'w write_hooks) \<Longrightarrow> program_tx env (tx_void (fail_attempt_tx hooks a code message))"
| tx_replace: "program_hooks (hooks :: 'w write_hooks) \<Longrightarrow>
    program_tx env (tx_void (replace_attempt_tx (ee_chain env) a replacement_in hooks))"
| tx_observation: "program_tx env (tx_void (record_observation observation))"
| tx_audit: "program_tx env (tx_void (record_audit_event event))"
| tx_inclusion: "program_tx env (tx_void (record_inclusion_tx i a_id receipt))"
| tx_reorg: "program_tx env (tx_void (reorg_tx chain i a_id receipt))"
| tx_settle: "to_s \<noteq> Op_READY \<Longrightarrow>
    program_tx env (tx_void (settle_tx (oh_apply_success (handler_for (ee_handlers env) ty)) settled to_s patch status metadata))"
| tx_fail_operation: "program_tx env (tx_void (fail_operation_tx i code message))"
| tx_outbox_claim: "program_tx env (tx_void (claim_pending_outbox n lease now_input))"
| tx_outbox_reschedule: "program_tx env (tx_void (reschedule_outbox i token err t))"
| tx_outbox_dispatched: "program_tx env (tx_void (mark_outbox_dispatched ids token))"
| tx_abandon: "program_tx env (tx_void (abandon_tx i attempt_opt))"
| tx_rebroadcast: "program_tx env (tx_void (rebroadcast_tx i a_id))"
| tx_advance: "program_tx env (tx_void (advance_to_submitted_tx i))"
| tx_confirm_recovery: "program_tx env (tx_void (confirm_recovery_tx a_id a receipt final))"

subsection \<open>Reachable states\<close>

inductive db_step :: "'w executor_env \<Rightarrow> db \<Rightarrow> db \<Rightarrow> bool" for env :: "'w executor_env" where
  step_commit: "program_tx env m \<Longrightarrow> m d = Inr ((), d') \<Longrightarrow> db_step env d d'"
| step_clock: "db_step env d (d\<lparr>db_now := t, app_now := t'\<rparr>)"

inductive reachable :: "'w executor_env \<Rightarrow> db \<Rightarrow> bool" for env :: "'w executor_env" where
  reach_empty: "reachable env (empty_db src)"
| reach_step: "reachable env d \<Longrightarrow> db_step env d d' \<Longrightarrow> reachable env d'"

inductive_cases db_stepE: "db_step env d d'"

definition db_steps :: "'w executor_env \<Rightarrow> db \<Rightarrow> db \<Rightarrow> bool" where
  "db_steps env = (db_step env)\<^sup>*\<^sup>*"

lemma reachable_steps: "db_steps env d d' \<Longrightarrow> reachable env d \<Longrightarrow> reachable env d'"
  unfolding db_steps_def by (induction rule: rtranclp_induct) (auto intro: reach_step)

lemma db_steps_step: "db_step env d d' \<Longrightarrow> db_steps env d d'"
  by (simp add: db_steps_def r_into_rtranclp)

lemma db_steps_trans: "db_steps env d d' \<Longrightarrow> db_steps env d' d'' \<Longrightarrow> db_steps env d d''"
  unfolding db_steps_def by (rule rtranclp_trans)

inductive_simps hook_tx_none: "hook_tx (tx_ret ())"

lemma reachable_invariant:
  assumes "reachable env d" and "\<And>src. P (empty_db src)"
    and "\<And>m. program_tx env m \<Longrightarrow> preserves P m" and "\<And>d t t'. P d \<Longrightarrow> P (d\<lparr>db_now := t, app_now := t'\<rparr>)"
  shows "P d"
  using assms(1)
proof induction
  case (reach_step d d')
  from reach_step.hyps(2) show ?case
    by (rule db_stepE) (use reach_step.IH assms(3,4) in \<open>auto dest: preservesD\<close>)
qed (rule assms(2))

lemma preserves_void: "preserves P (tx_void m) \<longleftrightarrow> preserves P m"
  by (auto simp: preserves_def tx_void_def tx_simps)

text \<open>A query changes nothing, whatever it returns.\<close>

lemma tx_void_read: "tx_void (tx_read f) = tx_ret ()"
  by (auto simp: tx_void_def tx_then_def tx_bind_def tx_read_def tx_ret_def)

subsection \<open>Invariants of the workflow\<close>

text \<open>
  An invariant that does not look at the side tables nor at attempts is kept by every transaction
  if it is kept by the few that create operations, decide on them or move them.
\<close>

locale workflow_predicate = chain_side_tables +
  assumes transition: "to_s \<noteq> Op_READY \<Longrightarrow> preserves P (transition_operation operation to_s patch)"
    and claim: "preserves P (claim_ready_operation i worker)"
    and administrative: "ai_type administrative_in \<noteq> MINT \<Longrightarrow> preserves P (insert_administrative_operation administrative_in)"
    and mint: "preserves P (mint_work sha ctx asset wallet cd amount)"
    and decision: "preserves P (record_decision_tx sha ctx decision_input)"
begin

lemmas workflow_intros = preserves_intros chain_side_intros transition claim administrative mint decision

lemma keeps_lock: "preserves P (lock_operation i)"
  by (simp add: lock_operation_def preserves_read)

lemma keeps_step: "to_s \<noteq> Op_READY \<Longrightarrow> preserves P (operation_step i to_s patch)"
  unfolding operation_step_def by (intro workflow_intros keeps_lock)

lemma keeps_advance: "to_s \<noteq> Op_READY \<Longrightarrow> preserves P (advance_operation i to_s)"
  unfolding advance_operation_def by (intro workflow_intros keeps_lock)

lemma keeps_leave: "to_s \<noteq> Op_READY \<Longrightarrow> preserves P (leave_broadcasting i to_s)"
  unfolding leave_broadcasting_def by (intro workflow_intros keeps_lock)

lemma keeps_hook: "hook_tx m \<Longrightarrow> preserves P m"
  by (cases rule: hook_tx.cases) (auto intro: keeps_step keeps_advance keeps_leave preserves_ret)

lemma keeps_hooks:
  assumes "program_hooks hooks"
  shows "preserves P (hk_on_prepared hooks a)" "preserves P (hk_on_signed hooks a)"
    "preserves P (hk_on_broadcasting hooks a)" "preserves P (hk_on_submitted hooks a h)"
    "preserves P (hk_on_broadcast_unknown hooks a r)" "preserves P (hk_on_failed hooks a c m)"
  using assms by (auto simp: program_hooks_def intro: keeps_hook)

lemma keeps_writer:
  assumes "program_hooks hooks"
  shows "preserves P (prepare_attempt_tx env intent hooks addr n gas fees)"
    "preserves P (persist_signed_tx hooks a raw hash i)" "preserves P (broadcasting_tx hooks a)"
    "preserves P (submitted_tx hooks a hash)" "preserves P (broadcast_unknown_tx hooks a reason)"
    "preserves P (fail_attempt_tx hooks a code message)" "preserves P (replace_attempt_tx env a input hooks)"
  unfolding prepare_attempt_tx_def persist_signed_tx_def broadcasting_tx_def submitted_tx_def
    broadcast_unknown_tx_def fail_attempt_tx_def replace_attempt_tx_def Let_def
  by (intro workflow_intros keeps_hooks [OF assms])+

lemma keeps_effect: "preserves P (oh_apply_success (handler_for env ty) settled)"
  by (cases ty) (auto simp: mint_handler_def asset_deployment_handler_def eligibility_sync_handler_def
      apply_deployment_def apply_eligibility_sync_def preserves_ret
      intro!: workflow_intros split: option.splits)

lemma keeps_executor:
  "preserves P (record_inclusion_tx i a_id receipt)" "preserves P (reorg_tx chain i a_id receipt)"
  "to_s \<noteq> Op_READY \<Longrightarrow> preserves P (settle_tx (oh_apply_success (handler_for env ty)) settled to_s patch status metadata)"
  "preserves P (fail_operation_tx i code message)"
  unfolding record_inclusion_tx_def reorg_tx_def settle_tx_def fail_operation_tx_def
  by (intro workflow_intros keeps_lock keeps_effect; simp)+

lemma keeps_maintenance:
  "preserves P (abandon_tx i attempt_opt)" "preserves P (rebroadcast_tx i a_id)"
  "preserves P (advance_to_submitted_tx i)" "preserves P (confirm_recovery_tx a_id a receipt final)"
  unfolding abandon_tx_def rebroadcast_tx_def advance_to_submitted_tx_def confirm_recovery_tx_def
  by (intro workflow_intros keeps_lock; simp)+

lemma keeps_services:
  "preserves P (create_asset_tx sha chain ctx asset_input cap)" "preserves P (request_deployment_tx sha ctx asset)"
  "preserves P (register_wallet_tx chain ctx wallet_input)"
  "preserves P (idempotent_work i (mint_work sha ctx asset wallet cd amount))"
  unfolding create_asset_tx_def request_deployment_tx_def enqueue_deployment_def register_wallet_tx_def idempotent_work_def
  by (intro workflow_intros; simp)+

lemma keeps_sync: "preserves P (sync_when_asset sha asset_opt wallet cd u c)"
  unfolding sync_when_asset_def enqueue_eligibility_sync_def clear_live_eligibility_sync_def
  by (intro workflow_intros keeps_lock; simp)

lemma keeps_compliance:
  "preserves P (record_compliance_tx sha ctx input wallet asset_opt subj screening)"
  "preserves P (revoke_decision_tx sha name ctx revoke_in wallet asset_opt)"
  "preserves P (expire_decision_tx sha cd wallet asset_opt)"
  unfolding record_compliance_tx_def revoke_decision_tx_def insert_revocation_def expire_decision_tx_def Let_def
  by (intro workflow_intros keeps_sync)+

lemma keeps_program: "program_tx env m \<Longrightarrow> preserves P m"
  by (induction rule: program_tx.induct)
    (auto simp: preserves_void intro: workflow_intros keeps_services keeps_compliance keeps_writer keeps_executor
      keeps_maintenance)

lemma step_keeps: "db_step env d d' \<Longrightarrow> P d \<Longrightarrow> P d'"
  by (erule db_stepE) (auto simp: clock dest: keeps_program intro: preservesD)

lemma steps_keep: "db_steps env d d' \<Longrightarrow> P d \<Longrightarrow> P d'"
  unfolding db_steps_def by (induction rule: rtranclp_induct) (auto intro: step_keeps)

end

text \<open>
  A predicate that every single statement keeps, whatever table it writes, is kept by the
  transactions that create operations and decide on them.
\<close>

locale statement_predicate = chain_side_tables + operation_side_tables
begin

lemmas statement_intros = preserves_intros chain_side_intros operation_side_intros

lemma keeps_mint_work: "preserves P (mint_work sha ctx asset wallet cd amount)"
  unfolding mint_work_def Let_def by (intro statement_intros)

lemma keeps_outcome: "preserves P (apply_outcome ctx q r outcome)"
  unfolding apply_outcome_def by (cases outcome) (simp_all, (intro statement_intros)+)

lemma keeps_decision: "preserves P (record_decision_tx sha ctx input)"
  unfolding record_decision_tx_def supersede_changed_request_def record_and_tally_def insert_decision_or_explain_def
    lock_approval_request_def lock_operation_def Let_def
  by (intro statement_intros keeps_outcome)

end

sublocale statement_predicate \<subseteq> workflow_predicate
  by unfold_locales (auto intro: operation_side_intros keeps_mint_work keeps_decision)

text \<open>Such a predicate that holds of the empty database holds of every reachable one.\<close>

locale workflow_invariant = workflow_predicate +
  assumes empty: "P (empty_db src)"
begin

lemma reachable_keeps: "reachable env d \<Longrightarrow> P d"
  by (rule reachable_invariant [where P = P]) (auto simp: clock intro: empty keeps_program)

end

end
