(* ===== verification/Invariants.thy ===== *)
theory Invariants
  imports Workflow
begin

text \<open>
  The three invariants of the workflow hold in every reachable state: the constraints of the
  schema, the agreement of each operation with its recorded timeline, and the two-person rule.
\<close>

subsection \<open>Schema constraints\<close>

interpretation ok_flow: statement_predicate db_ok
  by unfold_locales

interpretation ok_flow: workflow_invariant db_ok
  by unfold_locales (rule db_ok_empty)

subsection \<open>Timelines\<close>

lemma history_insert_request: "preserves history_ok (insert_approval_request i)"
  unfolding insert_approval_request_def by (intro preserves_intros history_ok_writes)

lemma history_close_request: "preserves history_ok (close_approval_request i s)"
  unfolding close_approval_request_def by (intro preserves_intros history_ok_writes)

lemma history_insert_decision: "preserves history_ok (insert_approval_decision i)"
  unfolding insert_approval_decision_def by (intro preserves_intros history_ok_writes)

lemmas history_approval_tables = history_insert_request history_close_request history_insert_decision

lemma history_create:
  assumes "no_state v = s" "initial_state_of (no_type v) = s" "\<And>row. preserves history_ok (k row)"
  shows "preserves history_ok (tx_bind (insert_operation i v) (\<lambda>row. tx_then (record_operation_transition (op_id row) None s) (k row)))"
  using history_ok_create [of v k i] assms by simp

lemma mint_work_history: "preserves history_ok (mint_work sha ctx asset wallet cd amount)"
  unfolding mint_work_def Let_def
  by (intro preserves_bind [OF history_ok_fresh_uuid] history_create preserves_intros history_intros history_approval_tables)
    (simp_all add: new_mint_operation_def Let_def initial_state_of_def)

lemma record_decision_history: "preserves history_ok (record_decision_tx sha ctx input)"
proof -
  have outcome: "preserves history_ok (apply_outcome ctx q r outcome)" for q r outcome
    unfolding apply_outcome_def
    by (cases outcome) (simp_all, (intro preserves_intros history_intros history_approval_tables)+)
  show ?thesis
    unfolding record_decision_tx_def supersede_changed_request_def record_and_tally_def insert_decision_or_explain_def
      lock_approval_request_def lock_operation_def Let_def
    by (intro preserves_intros history_intros history_approval_tables outcome)
qed

interpretation history_flow: workflow_invariant history_ok
  by unfold_locales
    (auto intro: history_intros insert_administrative_operation_history mint_work_history record_decision_history
      simp: history_ok_def empty_db_def table_ok_def operation_rules_def)

subsection \<open>Two persons\<close>

interpretation two_person_flow: workflow_invariant two_person_ok
  by unfold_locales
    (auto intro: two_person_intros two_person_transition two_person_administrative mint_work_two_person
      record_decision_two_person simp: two_person_ok_def empty_db_def table_ok_def
        operation_rules_def approval_request_rules_def)

lemma reachable_schema_facts:
  assumes "reachable env d"
  shows "db_ok d"
    and "a \<in> set (transaction_attempts d) \<Longrightarrow> b \<in> set (transaction_attempts d) \<Longrightarrow>
      ta_status a \<noteq> At_REPLACED \<Longrightarrow> ta_status b \<noteq> At_REPLACED \<Longrightarrow> ta_chain_id a = ta_chain_id b \<Longrightarrow>
      ta_from_address a = ta_from_address b \<Longrightarrow> ta_nonce a = ta_nonce b \<Longrightarrow> a = b"
    and "a \<in> set (transaction_attempts d) \<Longrightarrow> ta_status a \<in> {At_BROADCASTING, At_BROADCAST_UNKNOWN, At_SUBMITTED} \<Longrightarrow>
      ta_signed_raw_transaction a \<noteq> None \<and> ta_transaction_hash a \<noteq> None"
proof -
  show ok: "db_ok d" using assms by (rule ok_flow.reachable_keeps)
  then have rules: "table_ok attempt_rules (transaction_attempts d)"
    by (simp add: db_ok_def attempt_table_def)
  show "a = b" if "a \<in> set (transaction_attempts d)" "b \<in> set (transaction_attempts d)"
      "ta_status a \<noteq> At_REPLACED" "ta_status b \<noteq> At_REPLACED" "ta_chain_id a = ta_chain_id b"
      "ta_from_address a = ta_from_address b" "ta_nonce a = ta_nonce b"
    using table_ok_unique [OF rules, of "''transaction_attempts_live_nonce_key''"
      "\<lambda>r r'. ta_status r \<noteq> At_REPLACED \<and> ta_status r' \<noteq> At_REPLACED \<and> same_nonce_slot r r'" a b] that
    by (auto simp: attempt_rules_def same_nonce_slot_def)
  show "ta_signed_raw_transaction a \<noteq> None \<and> ta_transaction_hash a \<noteq> None"
    if "a \<in> set (transaction_attempts d)" "ta_status a \<in> {At_BROADCASTING, At_BROADCAST_UNKNOWN, At_SUBMITTED}"
    using table_ok_check [OF rules, of "''transaction_attempts_broadcast_requires_bytes''"
        "\<lambda>r. ta_status r \<in> {At_PREPARED, At_FAILED} \<or> ta_signed_raw_transaction r \<noteq> None" a]
      table_ok_check [OF rules, of "''transaction_attempts_signed_pair''"
        "\<lambda>r. (ta_signed_raw_transaction r = None) = (ta_transaction_hash r = None)" a] that
    by (auto simp: attempt_rules_def)
qed

text \<open>
  In every state the program can reach, whatever the interleaving of requests, workers and
  sweeps, every constraint of the database schema holds; in particular two attempts that are not
  retired never hold the same nonce of a signer on a chain, and an attempt that is in flight has its
  signed bytes and hash stored.
\<close>

theorem reachable_schema:
  assumes "reachable env d"
  shows "db_ok d \<and>
    (\<forall>a \<in> set (transaction_attempts d). \<forall>b \<in> set (transaction_attempts d).
       ta_status a \<noteq> At_REPLACED \<longrightarrow> ta_status b \<noteq> At_REPLACED \<longrightarrow> ta_chain_id a = ta_chain_id b \<longrightarrow>
       ta_from_address a = ta_from_address b \<longrightarrow> ta_nonce a = ta_nonce b \<longrightarrow> a = b) \<and>
    (\<forall>a \<in> set (transaction_attempts d). ta_status a \<in> {At_BROADCASTING, At_BROADCAST_UNKNOWN, At_SUBMITTED} \<longrightarrow>
       ta_signed_raw_transaction a \<noteq> None \<and> ta_transaction_hash a \<noteq> None)"
  using reachable_schema_facts [OF assms] by blast

lemma reachable_history_facts:
  assumes "reachable env d" and "r \<in> set (operations d)"
  shows "\<exists>ss. history_of (op_id r) (operation_transitions d) = initial_state_of (op_type r) # ss \<and>
      operation_machine.path (initial_state_of (op_type r) # ss) \<and>
      last (initial_state_of (op_type r) # ss) = op_state r"
    and "op_state r = Op_SUCCEEDED \<Longrightarrow>
      set [Op_SIGNED, Op_BROADCASTING, Op_INCLUDED] \<subseteq> set (history_of (op_id r) (operation_transitions d))"
proof -
  from history_flow.reachable_keeps [OF assms(1)] assms(2)
  show h: "\<exists>ss. history_of (op_id r) (operation_transitions d) = initial_state_of (op_type r) # ss \<and>
      operation_machine.path (initial_state_of (op_type r) # ss) \<and>
      last (initial_state_of (op_type r) # ss) = op_state r"
    by (auto simp: history_ok_def timeline_ok_def)
  show "set [Op_SIGNED, Op_BROADCASTING, Op_INCLUDED] \<subseteq> set (history_of (op_id r) (operation_transitions d))"
    if "op_state r = Op_SUCCEEDED"
  proof -
    from h that obtain ss where ss: "history_of (op_id r) (operation_transitions d) = initial_state_of (op_type r) # ss"
        "operation_machine.path (initial_state_of (op_type r) # ss)"
        "last (initial_state_of (op_type r) # ss) = Op_SUCCEEDED"
      by auto
    have "initial_state_of (op_type r) \<in> {Op_PENDING_APPROVAL, Op_READY}" by (simp add: initial_state_of_def)
    from succeeded_path [OF ss(2) this ss(3)] show ?thesis unfolding ss(1) by simp
  qed
qed

text \<open>
  C5: in every reachable state the durable timeline of each operation is a path of the state
  machine that begins where its type begins and ends at the state the row has; a SUCCEEDED
  operation was SIGNED, BROADCASTING and INCLUDED before.
\<close>

theorem reachable_history:
  assumes "reachable env d" and "r \<in> set (operations d)"
  shows "(\<exists>ss. history_of (op_id r) (operation_transitions d) = initial_state_of (op_type r) # ss \<and>
      operation_machine.path (initial_state_of (op_type r) # ss) \<and>
      last (initial_state_of (op_type r) # ss) = op_state r) \<and>
    (op_state r = Op_SUCCEEDED \<longrightarrow>
      set [Op_SIGNED, Op_BROADCASTING, Op_INCLUDED] \<subseteq> set (history_of (op_id r) (operation_transitions d)))"
  using reachable_history_facts [OF assms] by blast

text \<open>
  C1: no mint ever leaves PENDING_APPROVAL towards execution without two persons. In every reachable
  state a MINT operation that is not pending, cancelled or failed has an APPROVED request for its
  exact proposal hash, all decisions on it approve that hash, at least two different approvers made
  them, and none of them is the requester.
\<close>

theorem reachable_two_person:
  assumes "reachable env d" and "r \<in> set (operations d)" and "op_type r = MINT"
    and "op_state r \<notin> {Op_PENDING_APPROVAL, Op_CANCELLED, Op_FAILED}"
  shows "\<exists>q \<in> set (approval_requests d). ar_operation_id q = op_id r \<and> ar_state q = Ar_APPROVED \<and>
      ar_proposal_hash q = op_proposal_hash r \<and>
      (\<forall>x \<in> set (decisions_on (ar_id q) d). ad_decision x = APPROVE \<and> ad_proposal_hash x = op_proposal_hash r \<and>
         ad_approver_id x \<noteq> op_requested_by r) \<and>
      2 \<le> card (ad_approver_id ` set (decisions_on (ar_id q) d))"
  using two_person_flow.reachable_keeps [OF assms(1)] assms(2,3,4)
  by (auto simp: two_person_ok_def gated_def approved_by_two_def)

end
