(* ===== verification/Programs.thy ===== *)
theory Programs
  imports Invariants
begin

text \<open>
  Every program of the modules commits only steps of the system: run from a reachable database, with
  other processes that keep the database reachable, it leaves the database reachable. The
  invariants of the workflow therefore hold during every request, job and sweep.
\<close>

lemma reachable_clock: "reachable env (d\<lparr>db_now := t, app_now := t'\<rparr>) = reachable env d"
proof
  assume "reachable env (d\<lparr>db_now := t, app_now := t'\<rparr>)"
  from reach_step [OF this step_clock [where t = "db_now d" and t' = "app_now d"]] show "reachable env d" by simp
qed (rule reach_step [OF _ step_clock])

lemma onward_clock: "db_steps env d0 (d\<lparr>db_now := t, app_now := t'\<rparr>) = db_steps env d0 d"
proof
  assume "db_steps env d0 (d\<lparr>db_now := t, app_now := t'\<rparr>)"
  from db_steps_trans [OF this db_steps_step [OF step_clock [where t = "db_now d" and t' = "app_now d"]]]
  show "db_steps env d0 d" by simp
qed (rule db_steps_trans [OF _ db_steps_step [OF step_clock]])

lemma program_hooks_given:
  "program_hooks no_hooks" "program_hooks (operation_hooks env i)" "program_hooks (replacement_hooks env i)"
  "program_hooks (recovery_hooks i)"
  by (auto simp: program_hooks_def no_hooks_def operation_hooks_def replacement_hooks_def recovery_hooks_def
      intro: hook_tx.intros)

abbreviation stays :: "'w executor_env \<Rightarrow> (db \<Rightarrow> bool) \<Rightarrow> ('w sys, 'a) io \<Rightarrow> bool" where
  "stays env P m \<equiv> io_within (sys_keeps P) m"

text \<open>
  What holds of every program holds for any predicate that the steps of the system keep: reachability
  is one, and so is being a later state than a given one.
\<close>

locale step_closed = db_invariant +
  fixes env :: "'w executor_env"
  assumes commit: "program_tx env m \<Longrightarrow> preserves P m"
begin

lemma steps_run_tx: "program_tx env (tx_void m) \<Longrightarrow> stays env P (run_tx m)"
  by (intro within_run_tx) (metis commit preserves_void)

lemmas steps_intros = keeps.within_intros keeps_call_world steps_run_tx within_run_query within_date_now within_js_uuid

subsection \<open>Requests of the API\<close>

lemma steps_idempotent:
  "stays env P (execute_idempotent sha identity request (mint_work sha' ctx asset wallet cd amount))"
  unfolding execute_idempotent_def Let_def by (intro steps_intros program_tx.intros)

lemma steps_requests:
  "stays env P (create_asset sha chain ctx asset_in)" "stays env P (request_deployment sha ctx i)"
  "stays env P (register_wallet chain ctx wallet_in)" "stays env P (request_mint sha ctx mint_in)"
  "stays env P (record_approval_decision sha ctx approval_in)"
  "stays env P (record_compliance_decision sha provider ctx compliance_in)"
  "stays env P (revoke_decision sha provider ctx revoke_in)"
  "stays env P (expire_lapsed_approvals sha n)"
  unfolding create_asset_def request_deployment_def register_wallet_def request_mint_def record_approval_decision_def
    record_compliance_decision_def revoke_decision_def expire_lapsed_approvals_def expire_one_def
    require_active_asset_def get_asset_def bigint_or_throw_def Let_def
  by (intro steps_intros steps_idempotent program_tx.intros)+

subsection \<open>Writing to the chain\<close>

lemma steps_confirmation:
  "stays env P (sleep ms)" "stays env P (is_final gw b policy)" "stays env P (poll_receipt n gw hash t policy)"
proof -
  show sleep: "stays env P (sleep ms)" for ms
    by (simp add: sleep_def io_within_def sys_keeps_def)
  show "stays env P (is_final gw b policy)"
    unfolding is_final_def Let_def by (intro steps_intros)
  show "stays env P (poll_receipt n gw hash t policy)"
    by (induction n) (simp_all, intro steps_intros, intro steps_intros sleep)
qed

lemma steps_watch: "stays env P (watch_receipt n gw hash t policy r)"
  by (induction n arbitrary: r)
    (simp_all add: watch_round_def, intro steps_intros, intro steps_intros steps_confirmation)

lemma steps_await: "stays env P (await_confirmation gw hash policy)"
  unfolding await_confirmation_def await_rounds_def Let_def by (intro steps_intros steps_confirmation steps_watch)

lemma steps_broadcast:
  assumes "program_hooks hooks"
  shows "stays env P (broadcast chain a raw hash hooks)"
  unfolding broadcast_def broadcast_failed_def mark_submitted_def Let_def
  by (intro steps_intros program_tx.intros assms)
    (rename_tac e, case_tac "classify_broadcast_error e"; simp; intro steps_intros program_tx.intros assms)

lemma steps_settle:
  assumes "program_hooks hooks" "stays env P (hk_assert_broadcast_allowed hooks)"
  shows "stays env P (settle_signature chain a r st i hooks)"
proof -
  have signed: "stays env P (settle_signed chain a raw hash i hooks)" for raw hash
    unfolding settle_signed_def withhold_broadcast_def Let_def
    by (intro steps_intros steps_broadcast program_tx.intros assms)
  show ?thesis
    unfolding settle_signature_def
    by (cases st) (simp_all, (intro steps_intros signed program_tx.intros assms)+)
qed

lemma steps_submit_to_signer:
  assumes "program_hooks hooks" "stays env P (hk_assert_broadcast_allowed hooks)"
  shows "stays env P (submit_to_signer chain a r c i hooks)"
  unfolding submit_to_signer_def by (intro steps_intros steps_settle program_tx.intros assms)

lemma steps_writes:
  assumes "program_hooks hooks" "stays env P (hk_assert_broadcast_allowed hooks)"
  shows "stays env P (execute_write (ee_chain env) intent hooks)"
    "stays env P (replace_fees (ee_chain env) a fees reason corr hooks)"
    "stays env P (cancel_nonce (ee_chain env) a fees reason corr hooks)"
    "stays env P (resume_signature (ee_chain env) a hooks)"
proof -
  show "stays env P (execute_write (ee_chain env) intent hooks)"
    unfolding execute_write_def
    by (intro steps_intros steps_submit_to_signer program_tx.intros assms)
      (rename_tac sim, case_tac sim; simp; intro steps_intros steps_submit_to_signer program_tx.intros assms)
  have replace: "stays env P (sign_replacement (ee_chain env) a input hooks)" for input
    unfolding sign_replacement_def by (intro steps_intros steps_submit_to_signer program_tx.intros assms)
  show "stays env P (replace_fees (ee_chain env) a fees reason corr hooks)"
    "stays env P (cancel_nonce (ee_chain env) a fees reason corr hooks)"
    "stays env P (resume_signature (ee_chain env) a hooks)"
    unfolding replace_fees_def cancel_nonce_def resume_signature_def
    by (intro steps_intros replace steps_settle program_tx.intros assms)+
qed

subsection \<open>Handlers and the executor\<close>

lemma steps_eligible: "stays env P (assert_eligible_for_execution provider input)"
  unfolding assert_eligible_for_execution_def by (intro steps_intros)

lemma steps_resolve:
  "stays env P (resolve_mint_target operation)" "stays env P (resolve_eligibility_target he operation)"
  unfolding resolve_mint_target_def resolve_eligibility_target_def find_wallet_of_def
  by (intro steps_intros)+

lemma steps_check: "stays env P (run_check re operation i receipt f c)"
  unfolding run_check_def by (intro steps_intros program_tx.intros)

lemma steps_reconcile:
  "stays env P (reconcile_mint re input)" "stays env P (reconcile_deployment re operation i receipt expected)"
  "stays env P (reconcile_eligibility re operation i receipt contract account until)"
  unfolding reconcile_mint_def reconcile_deployment_def reconcile_eligibility_def Let_def
  by (intro steps_intros steps_check)+

lemma steps_handler:
  "stays env P (oh_prepare (handler_for he ty) operation)"
  "stays env P (oh_assert_still_executable (handler_for he ty) operation)"
  "stays env P (oh_reconcile (handler_for he ty) settled)"
  by (cases ty; simp add: mint_handler_def asset_deployment_handler_def eligibility_sync_handler_def
      prepare_mint_def prepare_deployment_def prepare_eligibility_sync_def assert_mint_still_executable_def
      reconcile_settled_mint_def reconcile_settled_deployment_def reconcile_settled_eligibility_def Let_def;
      intro steps_intros steps_resolve steps_eligible steps_reconcile program_tx.intros)+

lemma steps_allowed: "stays env P (assert_broadcast_allowed env' i)"
  unfolding assert_broadcast_allowed_def by (intro steps_intros steps_handler program_tx.intros)

lemma steps_hooks:
  "stays env P (hk_assert_broadcast_allowed no_hooks)"
  "stays env P (hk_assert_broadcast_allowed (operation_hooks env' i))"
  "stays env P (hk_assert_broadcast_allowed (replacement_hooks env' i))"
  "stays env P (hk_assert_broadcast_allowed (recovery_hooks i))"
  by (simp_all add: no_hooks_def operation_hooks_def replacement_hooks_def recovery_hooks_def steps_allowed keeps.within_ret)

lemma steps_settle_operation:
  "to_s \<noteq> Op_READY \<Longrightarrow> stays env P (settle_operation env settled to_s patch status metadata)"
  unfolding settle_operation_def by (intro steps_run_tx program_tx.intros)

lemma steps_settle_reported: "stays env P (settle_reported env settled reverted hash rep)"
  unfolding settle_reported_def by (intro steps_intros steps_settle_operation) simp_all

lemma steps_finalize_receipt: "stays env P (finalize_receipt env i a_id hash c receipt)"
  unfolding finalize_receipt_def Let_def
  by (cases c; simp; intro steps_intros steps_handler steps_settle_reported program_tx.intros)

lemma steps_observe: "stays env P (observe_and_finalize env i a_id hash)"
  unfolding observe_and_finalize_def settle_confirmation_def
  by (intro steps_intros steps_await)
    (rename_tac c, case_tac c; simp; intro steps_intros steps_finalize_receipt program_tx.intros)

lemma steps_follow: "stays env P (follow_outcome env i out)"
  unfolding follow_outcome_def by (cases out; simp; intro steps_intros steps_observe)

lemma steps_execute: "stays env P (execute_operation env i worker)"
  unfolding execute_operation_def run_pipeline_def fail_operation_def Let_def
  by (intro steps_intros steps_handler steps_writes steps_follow steps_hooks program_hooks_given program_tx.intros)

lemma steps_resume: "stays env P (resume_pending_signature env i a)"
  unfolding resume_pending_signature_def
  by (intro steps_intros steps_writes steps_follow steps_hooks program_hooks_given)

subsection \<open>Sweeps\<close>

lemma steps_dispatch: "stays env P (dispatch_once queue options)"
  unfolding dispatch_once_def dispatch_row_def publish_def by (intro steps_intros program_tx.intros)

lemma steps_finalize: "rv_executor renv = env \<Longrightarrow> stays env P (finalize renv operation)"
  unfolding finalize_def by (intro steps_intros) (simp add: steps_observe)

lemma steps_resolve_attempt:
  "rv_executor renv = env \<Longrightarrow> stays env P (resolve_attempt renv operation a raw hash)"
  unfolding resolve_attempt_def Let_def
  by (intro steps_intros steps_broadcast steps_finalize program_hooks_given program_tx.intros)

lemma steps_abandon: "(\<And>r. stays env P (resolve r)) \<Longrightarrow> stays env P (abandon_unbroadcast resolve operation)"
  unfolding abandon_unbroadcast_def by (intro steps_intros program_tx.intros)

lemma steps_resolve_in_flight: "rv_executor renv = env \<Longrightarrow> stays env P (resolve_in_flight n renv operation)"
  by (induction n arbitrary: operation)
    (simp_all, intro steps_intros, intro steps_intros steps_resolve_attempt steps_abandon)

lemma steps_recovery:
  assumes "rv_executor renv = env"
  shows "stays env P (recovery_sweep renv)"
proof -
  have resume: "stays env P (resume_pending_signature (rv_executor renv) i a)" for i a
    unfolding assms by (rule steps_resume)
  have one: "stays env P (recover_one n renv operation)" for n operation
    unfolding recover_one_def resume_signing_def abandoned_as_failed_def requeue_def
    by (cases "op_state operation"; simp;
        intro steps_intros steps_finalize steps_resolve_in_flight steps_abandon resume assms)
  show ?thesis unfolding recovery_sweep_def by (intro steps_intros one)
qed

lemma steps_replacement:
  assumes "pe_executor penv = env"
  shows "stays env P (replacement_sweep penv)"
proof -
  have chain: "pe_chain penv = ee_chain env" by (simp add: pe_chain_def assms)
  have observe: "stays env P (observe_and_finalize (pe_executor penv) i a_id hash)" for i a_id hash
    unfolding assms by (rule steps_observe)
  have hooks: "program_hooks (case x of None \<Rightarrow> no_hooks | Some i \<Rightarrow> replacement_hooks e i)"
    "stays env P (hk_assert_broadcast_allowed (case x of None \<Rightarrow> no_hooks | Some i \<Rightarrow> replacement_hooks e i))"
    for x and e :: "'w executor_env"
    by (auto simp: program_hooks_given steps_hooks split: option.split)
  have finished: "stays env P (replacement_done penv a fees out)" for a fees out
    unfolding replacement_done_def
    by (cases out; cases "ta_operation_id a"; simp; intro steps_intros observe program_tx.intros)
  have one: "stays env P (replace_one penv a)" for a
    unfolding replace_one_def replaceable_operation_def Let_def chain
    by (intro steps_intros finished steps_writes hooks)
  have confirm: "stays env P (confirm_submitted penv out)" for out
    unfolding confirm_submitted_def confirm_recovery_def confirm_receipt_def
    by (cases out; simp; intro steps_intros steps_await; rename_tac c; case_tac c; simp; intro steps_intros program_tx.intros)
  have lane: "stays env P (recover_blocked_lane penv)"
    unfolding recover_blocked_lane_def resume_recovery_def recover_nonce_def Let_def chain
    by (intro steps_intros confirm steps_writes steps_broadcast steps_hooks program_hooks_given program_tx.intros)
  show ?thesis
    unfolding replacement_sweep_def replace_stuck_transactions_def Let_def by (intro steps_intros one lane)
qed

lemma steps_worker:
  assumes "rv_executor (we_recovery wenv) = env" "pe_executor (we_replacement wenv) = env"
  shows "stays env P (worker_sweep wenv)"
  unfolding worker_sweep_def by (intro steps_intros steps_recovery steps_replacement steps_requests assms)

end

text \<open>Both predicates are kept by every step, hence by every program.\<close>

lemma reachable_commit: "program_tx env m \<Longrightarrow> preserves (reachable env) m"
  by (rule preservesI) (auto intro: reach_step step_commit)

lemma onward_commit: "program_tx env m \<Longrightarrow> preserves (db_steps env d0) m"
  by (rule preservesI) (simp add: db_steps_trans [OF _ db_steps_step [OF step_commit]])

lemma uuid_commit: "(\<And>m. program_tx env m \<Longrightarrow> preserves P m) \<Longrightarrow> preserves P fresh_uuid"
  using preserves_void tx_uuid by blast

interpretation reach: step_closed "reachable env" env for env
  by unfold_locales (rule reachable_clock, rule uuid_commit [OF reachable_commit], assumption, rule reachable_commit)

interpretation onward: step_closed "db_steps env d0" env for env d0
  by unfold_locales (rule onward_clock, rule uuid_commit [OF onward_commit], assumption, rule onward_commit)

lemmas stays_reachable = reach.program_keeps [OF _ prod.collapse [symmetric]]

lemma onward_steps:
  assumes "io_within (sys_keeps (db_steps env (sys_db s))) m" "\<And>n d. db_steps env d (sys_others s n d)"
  shows "db_steps env (sys_db s) (sys_db (snd (m s)))"
  by (rule onward.program_keeps [OF assms(1) prod.collapse [symmetric]])
    (auto simp: db_steps_def intro: assms(2) [unfolded db_steps_def] rtranclp_trans)

end
