(* ===== verification/HandlerFacts.thy ===== *)
theory HandlerFacts
  imports Handlers
begin

text \<open>
  What a prepared chain write guarantees: a mint is only prepared for the proposal the approvers
  signed off on, with compliance checked afresh and the chain ready to take it; an eligibility
  window is only granted by a live approval.
\<close>

subsection \<open>Mints\<close>

lemma mint_target_of_Inr:
  "mint_target_of operation asset wallet = Inr t \<longleftrightarrow>
     asset = Some (mt_asset t) \<and> wallet = Some (mt_wallet t) \<and> op_amount operation = Some (mt_amount t) \<and>
     op_operation_reference operation = Some (mt_operation_reference t) \<and>
     as_contract_address (mt_asset t) = Some (mt_contract_address t) \<and> mt_recipient t = wa_address (mt_wallet t)"
  by (cases t) (auto simp: mint_target_of_def split: option.splits)

text \<open>
  What a program that only reads finds: before every query the other processes may commit and the clocks
  move on.
\<close>

fun after_reads :: "nat \<Rightarrow> 'w sys \<Rightarrow> 'w sys" where
  "after_reads 0 s = s"
| "after_reads (Suc k) s =
     (let t = after_reads k s in t\<lparr>sys_db := db_at_step t, sys_step := Suc (sys_step t)\<rparr>)"

definition found_at :: "'w sys \<Rightarrow> nat \<Rightarrow> db" where
  "found_at s k = db_at_step (after_reads k s)"

lemma after_reads_world: "(after_reads k s)\<lparr>sys_world := w\<rparr> = after_reads k (s\<lparr>sys_world := w\<rparr>)"
proof (induction k)
  case (Suc k)
  show ?case by (simp add: Let_def db_at_step_def Suc.IH [symmetric])
qed simp

lemma after_reads_fields [simp]: "sys_world (after_reads k s) = sys_world s"
  by (induction k) (simp_all add: Let_def)

lemma found_at_world [simp]: "found_at (s\<lparr>sys_world := w\<rparr>) k = found_at s k"
  by (simp add: found_at_def db_at_step_def flip: after_reads_world)

lemma read_run: "run_query f (after_reads k s) = (Inr (f (found_at s k)), after_reads (Suc k) s)"
  by (simp add: run_query_iff found_at_def Let_def)

lemma read_first: "run_query f s = (Inr (f (found_at s 0)), after_reads (Suc 0) s)"
  using read_run [of f 0 s] by simp

lemma call_between: "call_world f (after_reads k s) = (Inr a, s') \<longleftrightarrow>
    (\<exists>w. f (sys_world s) = (Inr a, w) \<and> s' = after_reads k (s\<lparr>sys_world := w\<rparr>))"
  by (simp add: call_world_Inr after_reads_world)

lemma last_found: "sys_db (after_reads (Suc k) s) = found_at s k"
  by (simp add: Let_def found_at_def)

declare after_reads.simps [simp del]

lemma resolve_mint_target_run:
  assumes "resolve_mint_target operation s = (Inr t, s')"
  shows "find_asset_by_id (op_asset_id operation) (found_at s 0) = Some (mt_asset t) \<and>
    (\<exists>i. op_wallet_id operation = Some i \<and> find_wallet_by_id i (found_at s 1) = Some (mt_wallet t)) \<and>
    op_amount operation = Some (mt_amount t) \<and> op_operation_reference operation = Some (mt_operation_reference t) \<and>
    as_contract_address (mt_asset t) = Some (mt_contract_address t) \<and> mt_recipient t = wa_address (mt_wallet t) \<and>
    s' = after_reads 2 s"
proof (cases "op_wallet_id operation")
  case None
  with assms show ?thesis
    by (auto simp: resolve_mint_target_def find_wallet_of_def io_bind_def io_ret_def io_lift_def read_first mint_target_of_Inr
        split: sum.splits)
next
  case (Some i)
  have "resolve_mint_target operation s = io_bind (find_wallet_of (op_wallet_id operation)) (\<lambda>wallet.
      io_lift (mint_target_of operation (find_asset_by_id (op_asset_id operation) (found_at s 0)) wallet)) (after_reads (Suc 0) s)"
    by (simp add: resolve_mint_target_def io_bind_def read_first)
  with assms Some have "mint_target_of operation (find_asset_by_id (op_asset_id operation) (found_at s 0))
      (find_wallet_by_id i (found_at s 1)) = Inr t \<and> s' = after_reads 2 s"
    by (simp add: find_wallet_of_def io_bind_def io_lift_def io_ret_def io_throw_def read_run
        numeral_2_eq_2 split: sum.splits)
  with Some show ?thesis by (simp add: mint_target_of_Inr)
qed

text \<open>The approval of a wallet for an asset that the database holds at its own time.\<close>

definition approval_covers :: "compliance_row \<Rightarrow> uuid \<Rightarrow> uuid \<Rightarrow> db \<Rightarrow> bool" where
  "approval_covers c wallet_id asset_id d \<longleftrightarrow> c \<in> set (compliance_decisions d) \<and> cd_wallet_id c = wallet_id \<and>
     cd_status c = Cd_APPROVED \<and> cd_superseded_at c = None \<and> cd_valid_from c \<le> db_now d \<and> db_now d < cd_valid_until c \<and>
     cd_asset_id c \<in> {None, Some asset_id}"

lemma find_active_approval_covers:
  "find_active_approval w (Some a) d = Some c \<Longrightarrow> approval_covers c w a d"
  by (auto simp: find_active_approval_def approval_covers_def approval_in_force_def dest!: select_latest_Some)

lemma assert_eligible_run:
  assumes "assert_eligible_for_execution provider input (after_reads k s) = (Inr e, s')"
  shows "\<exists>c fresh w. approval_covers c (ec_wallet_id input) (ec_asset_id input) (found_at s k) \<and> es_eligible fresh \<and>
    cp_check_eligibility provider
      \<lparr>er_subject_reference = ec_subject_reference input, er_wallet_address = ec_wallet_address input,
       er_chain_id = ec_chain_id input, er_asset_id = Some (ec_asset_id input), er_amount = ec_amount input\<rparr> (sys_world s) = (Inr fresh, w) \<and>
    fst e = cd_id c \<and> s' = after_reads (Suc k) (s\<lparr>sys_world := w\<rparr>)"
proof -
  let ?request = "\<lparr>er_subject_reference = ec_subject_reference input, er_wallet_address = ec_wallet_address input,
    er_chain_id = ec_chain_id input, er_asset_id = Some (ec_asset_id input), er_amount = ec_amount input\<rparr>"
  from assms obtain c where c: "find_active_approval (ec_wallet_id input) (Some (ec_asset_id input)) (found_at s k) = Some c"
    by (auto simp: assert_eligible_for_execution_def io_bind_def io_throw_def read_run split: option.splits)
  with assms obtain fresh s1 where call: "call_world (cp_check_eligibility provider ?request) (after_reads (Suc k) s) = (Inr fresh, s1)"
    by (auto simp: assert_eligible_for_execution_def io_bind_def read_run split: prod.splits sum.splits)
  with assms c have "es_eligible fresh" "fst e = cd_id c" "s' = s1"
    by (auto simp: assert_eligible_for_execution_def io_bind_def io_throw_def io_ret_def read_run split: if_splits)
  with find_active_approval_covers [OF c] call [unfolded call_between] show ?thesis by auto
qed

text \<open>
  What a mint was checked against, step by step: the rows of asset and wallet, the approved hash, an approval of
  the wallet in the database at the moment of the check, then, in this order and with nothing else asked, the
  provider and the chain.
\<close>

definition mint_checked :: "'w handler_env \<Rightarrow> operation_row \<Rightarrow> mint_target \<Rightarrow> compliance_row \<Rightarrow> 'w sys \<Rightarrow> 'w \<Rightarrow> bool" where
  "mint_checked env operation t c s w \<longleftrightarrow>
     find_asset_by_id (op_asset_id operation) (found_at s 0) = Some (mt_asset t) \<and>
     (\<exists>i. op_wallet_id operation = Some i \<and> find_wallet_by_id i (found_at s 1) = Some (mt_wallet t)) \<and>
     op_amount operation = Some (mt_amount t) \<and> op_operation_reference operation = Some (mt_operation_reference t) \<and>
     as_contract_address (mt_asset t) = Some (mt_contract_address t) \<and> mt_recipient t = wa_address (mt_wallet t) \<and>
     snd (rebuild_mint_proposal (he_sha env) operation (mt_asset t) (mt_wallet t)) = op_proposal_hash operation \<and>
     approval_covers c (wa_id (mt_wallet t)) (as_id (mt_asset t)) (found_at s 2) \<and>
     (\<exists>fresh identity token w1 w2 w3 w4.
        cp_check_eligibility (he_provider env)
          \<lparr>er_subject_reference = wa_investor_reference (mt_wallet t), er_wallet_address = mt_recipient t,
           er_chain_id = as_chain_id (mt_asset t), er_asset_id = Some (as_id (mt_asset t)), er_amount = show_int (mt_amount t)\<rparr>
          (sys_world s) = (Inr fresh, w1) \<and> es_eligible fresh \<and>
        gw_get_chain_identity (he_gateway env) w1 = (Inr identity, w2) \<and>
        gw_assert_contract_deployed (he_gateway env) (mt_contract_address t) w2 = (Inr (), w3) \<and>
        gw_read_reference_consumed (he_gateway env) (mt_contract_address t) (mt_operation_reference t) w3 = (Inr False, w4) \<and>
        gw_read_token_state (he_gateway env) (mt_contract_address t) w4 = (Inr token, w) \<and>
        \<not> tk_paused token \<and> tk_total_supply token + mt_amount t \<le> tk_supply_cap token)"

lemma prepare_mint_checked:
  assumes "prepare_mint env operation s = (Inr prepared, s')"
  shows "\<exists>t c. mint_checked env operation t c s (sys_world s') \<and> pw_call prepared = mint_call_of env t (app_now (found_at s 3)) \<and>
    pw_evidence prepared = JObj [(''proposalHash'', Some (JStr (op_proposal_hash operation))),
      (''complianceDecisionId'', Some (JStr (cd_id c))),
      (''requiredApprovals'', Some (JNum (int (op_required_approvals operation)))),
      (''requestedBy'', Some (JStr (op_requested_by operation)))] \<and>
    sys_db s' = found_at s 3"
proof -
  note run = assms [unfolded prepare_mint_def Let_def]
  note run = run [unfolded io_bind_Inr]
  from run obtain t s1 s2 e s3 identity s4 u s5 consumed s6 where
      r: "resolve_mint_target operation s = (Inr t, s1)"
        "io_lift (approved_intent_unchanged (he_sha env) operation t) s1 = (Inr (), s2)"
        "assert_eligible_for_execution (he_provider env) (mint_execution_check t) s2 = (Inr e, s3)"
        "call_world (gw_get_chain_identity (he_gateway env)) s3 = (Inr identity, s4)"
        "call_world (gw_assert_contract_deployed (he_gateway env) (mt_contract_address t)) s4 = (Inr u, s5)"
        "call_world (gw_read_reference_consumed (he_gateway env) (mt_contract_address t) (mt_operation_reference t)) s5 = (Inr consumed, s6)"
    and k: "(if consumed
         then io_bind (run_tx (record_observation (consumed_observation (he_chain_id env) operation))) (\<lambda>_.
           io_throw (app_error OPERATION_CONFLICT ''operation reference is already consumed on chain''
             [(''operationReference'', JStr (mt_operation_reference t))]))
         else io_bind (call_world (gw_read_token_state (he_gateway env) (mt_contract_address t))) (\<lambda>token.
           io_bind (io_lift (token_accepts_mint token t)) (\<lambda>_.
           io_bind date_now (\<lambda>now.
           io_ret \<lparr>pw_call = mint_call_of env t now,
             pw_evidence = JObj [(''proposalHash'', Some (JStr (op_proposal_hash operation))),
               (''complianceDecisionId'', Some (JStr (fst e))),
               (''requiredApprovals'', Some (JNum (int (op_required_approvals operation)))),
               (''requestedBy'', Some (JStr (op_requested_by operation)))]\<rparr>)))) s6 = (Inr prepared, s')"
    by (elim exE conjE) (rule that; assumption?; simp)
  note target = resolve_mint_target_run [OF r(1)]
  have hash: "snd (rebuild_mint_proposal (he_sha env) operation (mt_asset t) (mt_wallet t)) = op_proposal_hash operation"
    and s2: "s2 = after_reads 2 s"
    using r(2) target by (auto simp: io_simps approved_intent_unchanged_def Let_def split: if_splits)
  from assert_eligible_run [OF r(3) [unfolded s2]] obtain c fresh w1 where
      c: "approval_covers c (wa_id (mt_wallet t)) (as_id (mt_asset t)) (found_at s 2)" "es_eligible fresh" "fst e = cd_id c"
    and p: "cp_check_eligibility (he_provider env)
          \<lparr>er_subject_reference = wa_investor_reference (mt_wallet t), er_wallet_address = mt_recipient t,
           er_chain_id = as_chain_id (mt_asset t), er_asset_id = Some (as_id (mt_asset t)), er_amount = show_int (mt_amount t)\<rparr>
          (sys_world s) = (Inr fresh, w1)"
    and s3: "s3 = after_reads 3 (s\<lparr>sys_world := w1\<rparr>)"
    using target by (auto simp: mint_execution_check_def numeral_3_eq_3 numeral_2_eq_2)
  from r(4) [unfolded s3 call_between] obtain w2 where
      w2: "gw_get_chain_identity (he_gateway env) w1 = (Inr identity, w2)" "s4 = after_reads 3 (s\<lparr>sys_world := w2\<rparr>)" by auto
  from r(5) [unfolded w2(2) call_between] obtain w3 where
      w3: "gw_assert_contract_deployed (he_gateway env) (mt_contract_address t) w2 = (Inr u, w3)" "s5 = after_reads 3 (s\<lparr>sys_world := w3\<rparr>)" by auto
  from r(6) [unfolded w3(2) call_between] obtain w4 where
      w4: "gw_read_reference_consumed (he_gateway env) (mt_contract_address t) (mt_operation_reference t) w3 = (Inr consumed, w4)"
      "s6 = after_reads 3 (s\<lparr>sys_world := w4\<rparr>)" by auto
  have unused: "\<not> consumed" using k by (auto simp: io_simps)
  with k w4(2) obtain token w5 where
      w5: "gw_read_token_state (he_gateway env) (mt_contract_address t) w4 = (Inr token, w5)"
      "token_accepts_mint token t = Inr ()"
    and last: "io_bind date_now (\<lambda>now.
           io_ret \<lparr>pw_call = mint_call_of env t now,
             pw_evidence = JObj [(''proposalHash'', Some (JStr (op_proposal_hash operation))),
               (''complianceDecisionId'', Some (JStr (fst e))),
               (''requiredApprovals'', Some (JNum (int (op_required_approvals operation)))),
               (''requestedBy'', Some (JStr (op_requested_by operation)))]\<rparr>) (after_reads 3 (s\<lparr>sys_world := w5\<rparr>)) = (Inr prepared, s')"
    by (auto simp: io_simps io_bind_Inr call_between)
  from last have result: "pw_call prepared = mint_call_of env t (app_now (found_at s 3))" "sys_world s' = w5" "sys_db s' = found_at s 3"
      "pw_evidence prepared = JObj [(''proposalHash'', Some (JStr (op_proposal_hash operation))),
        (''complianceDecisionId'', Some (JStr (cd_id c))),
        (''requiredApprovals'', Some (JNum (int (op_required_approvals operation)))),
        (''requestedBy'', Some (JStr (op_requested_by operation)))]"
    by (auto simp: date_now_def io_bind_def io_ret_def read_run c(3) last_found [of 3, simplified])
  have "\<not> tk_paused token \<and> tk_total_supply token + mt_amount t \<le> tk_supply_cap token"
    using w5(2) by (auto simp: token_accepts_mint_def split: if_splits)
  with target hash c p w2(1) w3(1) w4(1) w5(1) unused result(2) have "mint_checked env operation t c s (sys_world s')"
    unfolding mint_checked_def by (intro conjI exI [of _ fresh] exI [of _ identity] exI [of _ token] exI [of _ w1] exI [of _ w2]
      exI [of _ w3] exI [of _ w4]) auto
  with result show ?thesis by blast
qed

text \<open>
  C2: if a mint is prepared, the asset and the wallet are the rows the database held, and with the amount and the
  reference of the operation they still give the hash it was approved with; at the moment of the check the
  database held an approval of this wallet for this asset, neither superseded nor outside its window; then the
  provider, asked about this wallet and amount, said eligible, and the chain, asked right after it, that the reference
  is not consumed, the token not paused and its cap not exceeded. The call is the mint of that amount to that wallet,
  and the evidence names that approval. Any other proposal with the approved hash is the same proposal, or exhibits
  a collision of the hash function.
\<close>

theorem prepare_mint_sound:
  assumes "prepare_mint env operation s = (Inr prepared, s')"
  shows "\<exists>t c. mint_checked env operation t c s (sys_world s') \<and> pw_call prepared = mint_call_of env t (app_now (found_at s 3)) \<and>
    pw_evidence prepared = JObj [(''proposalHash'', Some (JStr (op_proposal_hash operation))),
      (''complianceDecisionId'', Some (JStr (cd_id c))),
      (''requiredApprovals'', Some (JNum (int (op_required_approvals operation)))),
      (''requestedBy'', Some (JStr (op_requested_by operation)))] \<and>
    (\<forall>p. hash_mint_proposal (he_sha env) p = op_proposal_hash operation \<longrightarrow>
      same_proposal p (fst (rebuild_mint_proposal (he_sha env) operation (mt_asset t) (mt_wallet t))) \<or>
      (\<exists>x y. hash_collision (he_sha env) x y))"
proof -
  from prepare_mint_checked [OF assms] obtain t c where t: "mint_checked env operation t c s (sys_world s')"
      "pw_call prepared = mint_call_of env t (app_now (found_at s 3))"
      "pw_evidence prepared = JObj [(''proposalHash'', Some (JStr (op_proposal_hash operation))),
        (''complianceDecisionId'', Some (JStr (cd_id c))),
        (''requiredApprovals'', Some (JNum (int (op_required_approvals operation)))),
        (''requestedBy'', Some (JStr (op_requested_by operation)))]" by blast
  have "snd (rebuild_mint_proposal (he_sha env) operation (mt_asset t) (mt_wallet t)) =
      hash_mint_proposal (he_sha env) (fst (rebuild_mint_proposal (he_sha env) operation (mt_asset t) (mt_wallet t)))"
    by (simp add: rebuild_mint_proposal_def Let_def)
  with t(1) have "hash_mint_proposal (he_sha env) (fst (rebuild_mint_proposal (he_sha env) operation (mt_asset t) (mt_wallet t)))
      = op_proposal_hash operation"
    by (simp add: mint_checked_def)
  with t show ?thesis by (metis hash_mint_proposal_cases)
qed

end
