(* ===== verification/Evaluation.thy ===== *)
theory Evaluation
  imports Programs HandlerFacts
begin

text \<open>
  Running the model: equations with which the simplifier executes a service on a concrete state,
  one effect at a time. The congruence rules keep it from looking inside a continuation before the
  step in front of it is done, and a definition of an effect is unfolded only when it is applied to
  a state. Hash functions are left as they are, so a run does not depend on what they compute.
\<close>

subsection \<open>Effects applied to a state\<close>

lemma io_runs:
  "io_ret a s = (Inr a, s)"
  "io_throw e s = (Inl e, s)"
  "io_bind m k s = (case m s of (r, s') \<Rightarrow> (case r of Inl e \<Rightarrow> (Inl e, s') | Inr a \<Rightarrow> k a s'))"
  "io_then m n s = (case m s of (r, s') \<Rightarrow> (case r of Inl e \<Rightarrow> (Inl e, s') | Inr a \<Rightarrow> n s'))"
  "io_catch m h s = (case m s of (r, s') \<Rightarrow> (case r of Inl e \<Rightarrow> h e s' | Inr a \<Rightarrow> (Inr a, s')))"
  "io_attempt m s = (case m s of (r, s') \<Rightarrow> (Inr r, s'))"
  "io_when c u s = (if c then u s else (Inr (), s))"
  "io_guard c e s = (if c then (Inr (), s) else (Inl e, s))"
  "io_lift r s = (r, s)"
  by (auto simp: io_run split: prod.split sum.split)

text \<open>What is stored is evaluated before it is stored, so a stored state need not be looked at again.\<close>

lemma sys_runs:
  "run_tx t s = (let d0 = db_at_step s; k = Suc (sys_step s) in case t d0 of
     Inl e \<Rightarrow> (Inl e, s\<lparr>sys_db := d0, sys_step := k\<rparr>)
   | Inr x \<Rightarrow> (case x of (a, d) \<Rightarrow> (Inr a, s\<lparr>sys_db := d, sys_step := k\<rparr>)))"
  "run_query f s = (let d0 = db_at_step s; k = Suc (sys_step s) in (Inr (f d0), s\<lparr>sys_db := d0, sys_step := k\<rparr>))"
  "call_world g s = (case g (sys_world s) of (r, w) \<Rightarrow> (r, s\<lparr>sys_world := w\<rparr>))"
  "sleep n s = (let k = Suc (sys_step s) in (Inr (), s\<lparr>sys_step := k, sys_clock := delayed (max 1 n) (sys_clock s)\<rparr>))"
  by (simp_all add: run_tx_def run_query_def tx_read_def call_world_def sleep_def Let_def)

lemma step_run:
  "db_at_step s = (let d = sys_others s (sys_step s) (sys_db s) in
     case sys_clock s (sys_step s) of (t, t') \<Rightarrow> d\<lparr>db_now := t, app_now := t'\<rparr>)"
  by (simp add: db_at_step_def Let_def case_prod_beta)

lemma table_runs:
  "write_table tb rows d = (let rs = rows in case find (\<lambda>r. \<not> rule_holds rs r) (t_rules tb) of
     Some r \<Rightarrow> Inl (rule_error r) | None \<Rightarrow> Inr ((), t_put tb rs d))"
  "fresh_uuid d = (let i = uuid_source d (uuid_next d); k = Suc (uuid_next d) in Inr (i, d\<lparr>uuid_next := k\<rparr>))"
  by (simp_all add: write_table_def fresh_uuid_def Let_def)

lemma state_congs:
  "db_ext a1 a2 a3 a4 a5 a6 a7 a8 a9 a10 a11 a12 a13 a14 a15 a16 a17 a18 a19 a20 m =
     db_ext a1 a2 a3 a4 a5 a6 a7 a8 a9 a10 a11 a12 a13 a14 a15 a16 a17 a18 a19 a20 m"
  "sys_ext b1 b2 b3 b4 b5 n = sys_ext b1 b2 b3 b4 b5 n"
  by simp_all

lemma tx_runs:
  "tx_ret a d = Inr (a, d)"
  "tx_throw e d = Inl e"
  "tx_bind m k d = (case m d of Inl e \<Rightarrow> Inl e | Inr x \<Rightarrow> (case x of (a, d') \<Rightarrow> k a d'))"
  "tx_then m n d = (case m d of Inl e \<Rightarrow> Inl e | Inr x \<Rightarrow> (case x of (a, d') \<Rightarrow> n d'))"
  "tx_read f d = Inr (f d, d)"
  "tx_guard c e d = (if c then Inr ((), d) else Inl e)"
  "tx_when c u d = (if c then u d else Inr ((), d))"
  "tx_lift r d = (case r of Inl e \<Rightarrow> Inl e | Inr a \<Rightarrow> Inr (a, d))"
  "tx_catch m h d = (case m d of Inl e \<Rightarrow> h e d | Inr x \<Rightarrow> Inr x)"
  by (simp_all add: tx_run)

lemma run_congs:
  "s = s' \<Longrightarrow> io_bind m k s = io_bind m k s'" "s = s' \<Longrightarrow> io_then m n s = io_then m n s'"
  "s = s' \<Longrightarrow> io_catch m h s = io_catch m h s'" "s = s' \<Longrightarrow> io_attempt m s = io_attempt m s'"
  "s = s' \<Longrightarrow> run_tx t s = run_tx t s'" "s = s' \<Longrightarrow> run_query f s = run_query f s'"
  "s = s' \<Longrightarrow> call_world g s = call_world g s'" "s = s' \<Longrightarrow> io_map f xs s = io_map f xs s'"
  "d = d' \<Longrightarrow> tx_bind a b d = tx_bind a b d'" "d = d' \<Longrightarrow> tx_then a c d = tx_then a c d'"
  by simp_all

text \<open>Methods of the handlers and hooks, without unfolding the others.\<close>

lemma handler_methods:
  "oh_purpose (mint_handler e) = P_MINT" "oh_prepare (mint_handler e) = prepare_mint e"
  "oh_assert_still_executable (mint_handler e) = assert_mint_still_executable e"
  "oh_reconcile (mint_handler e) = reconcile_settled_mint e" "oh_apply_success (mint_handler e) = (\<lambda>_. tx_ret ())"
  "oh_purpose (asset_deployment_handler e) = P_DEPLOY_TOKEN" "oh_prepare (asset_deployment_handler e) = prepare_deployment e"
  "oh_assert_still_executable (asset_deployment_handler e) = (\<lambda>_. io_ret ())"
  "oh_reconcile (asset_deployment_handler e) = reconcile_settled_deployment e"
  "oh_apply_success (asset_deployment_handler e) = apply_deployment"
  "oh_purpose (eligibility_sync_handler e) = P_SET_ELIGIBILITY"
  "oh_prepare (eligibility_sync_handler e) = prepare_eligibility_sync e"
  "oh_assert_still_executable (eligibility_sync_handler e) = (\<lambda>_. io_ret ())"
  "oh_reconcile (eligibility_sync_handler e) = reconcile_settled_eligibility e"
  "oh_apply_success (eligibility_sync_handler e) = apply_eligibility_sync"
  by (simp_all add: mint_handler_def asset_deployment_handler_def eligibility_sync_handler_def)

lemma hook_methods:
  "hk_on_prepared (operation_hooks x i) = (\<lambda>_. operation_step i Op_SIGNING no_patch)"
  "hk_on_signed (operation_hooks x i) = (\<lambda>_. operation_step i Op_SIGNED no_patch)"
  "hk_assert_broadcast_allowed (operation_hooks x i) = assert_broadcast_allowed x i"
  "hk_on_broadcasting (operation_hooks x i) = (\<lambda>_. operation_step i Op_BROADCASTING no_patch)"
  "hk_on_submitted (operation_hooks x i) = (\<lambda>_ _. operation_step i Op_SUBMITTED no_patch)"
  "hk_on_broadcast_unknown (operation_hooks x i) = (\<lambda>_ _. operation_step i Op_BROADCAST_UNKNOWN no_patch)"
  "hk_on_failed (operation_hooks x i) = (\<lambda>_ c m. operation_step i Op_FAILED (failure_patch c (take 500 m)))"
  by (simp_all add: operation_hooks_def)

text \<open>The bounded loops, for a bound that is a numeral.\<close>

lemma loop_runs:
  "watch_receipt (numeral n) gw h d p r s = watch_round gw h d p (watch_receipt (pred_numeral n) gw h d p) r s"
  by (simp add: numeral_eq_Suc)

lemma poll_runs:
  "poll_receipt (numeral n) gw h d p s =
     (io_bind date_now (\<lambda>now.
      if now < d
      then io_bind (call_world (gw_get_transaction_receipt gw h)) (\<lambda>receipt.
        case receipt of
          Some r \<Rightarrow> io_ret (Some r)
        | None \<Rightarrow> io_then (sleep (po_poll_interval_ms p)) (poll_receipt (pred_numeral n) gw h d p))
      else io_ret None)) s"
  by (simp add: numeral_eq_Suc)

lemmas function_runs = watch_receipt.simps [THEN fun_cong] poll_receipt.simps [THEN fun_cong] io_map.simps [THEN fun_cong]
  tx_for_each.simps [THEN fun_cong] resolve_in_flight.simps [THEN fun_cong]

subsection \<open>The definitions of the model\<close>

lemmas effect_runs =
  insert_into_def [THEN fun_cong] update_in_def [THEN fun_cong] insert_all_def [THEN fun_cong] delete_from_def [THEN
  fun_cong] insert_on_conflict_do_nothing_def [THEN fun_cong] insert_on_conflict_do_update_def [THEN fun_cong]
  record_operation_transition_def [THEN fun_cong] insert_operation_def [THEN fun_cong]
  insert_administrative_operation_def [THEN fun_cong] lock_operation_def [THEN fun_cong] transition_operation_def [THEN
  fun_cong] claim_ready_operation_def [THEN fun_cong] release_claim_def [THEN fun_cong] reserve_nonce_def [THEN
  fun_cong] insert_prepared_attempt_def [THEN fun_cong] update_attempts_def [THEN fun_cong] persist_signed_attempt_def
  [THEN fun_cong] update_attempt_status_def [THEN fun_cong] record_receipt_def [THEN fun_cong]
  clear_attempt_inclusion_def [THEN fun_cong] retire_attempt_for_replacement_def [THEN fun_cong]
  link_attempt_replacement_def [THEN fun_cong] record_observation_def [THEN fun_cong]
  invalidate_attempt_observations_def [THEN fun_cong] insert_approval_request_def [THEN fun_cong]
  lock_approval_request_def [THEN fun_cong] close_approval_request_def [THEN fun_cong] insert_approval_decision_def
  [THEN fun_cong] enqueue_outbox_def [THEN fun_cong] claim_pending_outbox_def [THEN fun_cong] mark_outbox_dispatched_def
  [THEN fun_cong] reschedule_outbox_def [THEN fun_cong] claim_idempotency_key_def [THEN fun_cong]
  complete_idempotency_key_def [THEN fun_cong] release_idempotency_key_def [THEN fun_cong] record_signer_request_def
  [THEN fun_cong] mark_signer_request_signed_def [THEN fun_cong] mark_signer_request_rejected_def [THEN fun_cong]
  expire_lapsed_signer_request_def [THEN fun_cong] touch_signer_request_def [THEN fun_cong] record_audit_event_def [THEN
  fun_cong] insert_provisioning_asset_def [THEN fun_cong] mark_asset_active_def [THEN fun_cong] mark_asset_failed_def
  [THEN fun_cong] insert_wallet_def [THEN fun_cong] upsert_user_row_def [THEN fun_cong] clear_user_roles_def [THEN
  fun_cong] insert_user_roles_def [THEN fun_cong] supersede_active_decisions_def [THEN fun_cong]
  insert_compliance_decision_def [THEN fun_cong] mark_compliance_chain_synced_def [THEN fun_cong]
  mark_compliance_chain_sync_failed_def [THEN fun_cong] mark_decision_expired_def [THEN fun_cong] enqueue_deployment_def
  [THEN fun_cong] create_asset_tx_def [THEN fun_cong] create_asset_def [THEN fun_cong] get_asset_def [THEN fun_cong]
  request_deployment_tx_def [THEN fun_cong] request_deployment_def [THEN fun_cong] require_active_asset_def [THEN
  fun_cong] find_by_symbol_def [THEN fun_cong] register_wallet_tx_def [THEN fun_cong] register_wallet_def [THEN
  fun_cong] get_wallet_def [THEN fun_cong] find_by_address_def [THEN fun_cong] query_audit_def [THEN fun_cong]
  idempotent_work_def [THEN fun_cong] execute_idempotent_def [THEN fun_cong] mint_work_def [THEN fun_cong]
  request_mint_def [THEN fun_cong] get_operation_def [THEN fun_cong] insert_decision_or_explain_def [THEN fun_cong]
  apply_outcome_def [THEN fun_cong] record_and_tally_def [THEN fun_cong] supersede_changed_request_def [THEN fun_cong]
  record_decision_tx_def [THEN fun_cong] record_approval_decision_def [THEN fun_cong] clear_live_eligibility_sync_def
  [THEN fun_cong] enqueue_eligibility_sync_def [THEN fun_cong] sync_when_asset_def [THEN fun_cong]
  record_compliance_tx_def [THEN fun_cong] record_compliance_decision_def [THEN fun_cong] insert_revocation_def [THEN
  fun_cong] revoke_decision_tx_def [THEN fun_cong] revoke_decision_def [THEN fun_cong] expire_decision_tx_def [THEN
  fun_cong] expire_one_def [THEN fun_cong] expire_lapsed_approvals_def [THEN fun_cong] assert_eligible_for_execution_def
  [THEN fun_cong] find_active_decision_def [THEN fun_cong] is_final_def [THEN fun_cong] watch_round_def [THEN fun_cong]
  await_rounds_def [THEN fun_cong] await_confirmation_def [THEN fun_cong] prepare_attempt_tx_def [THEN fun_cong]
  persist_signed_tx_def [THEN fun_cong] broadcasting_tx_def [THEN fun_cong] submitted_tx_def [THEN fun_cong]
  broadcast_unknown_tx_def [THEN fun_cong] fail_attempt_tx_def [THEN fun_cong] mark_submitted_def [THEN fun_cong]
  broadcast_failed_def [THEN fun_cong] broadcast_def [THEN fun_cong] withhold_broadcast_def [THEN fun_cong]
  settle_signed_def [THEN fun_cong] settle_signature_def [THEN fun_cong] submit_to_signer_def [THEN fun_cong]
  execute_write_def [THEN fun_cong] replace_attempt_tx_def [THEN fun_cong] sign_replacement_def [THEN fun_cong]
  replace_fees_def [THEN fun_cong] cancel_nonce_def [THEN fun_cong] resume_signature_def [THEN fun_cong] run_check_def
  [THEN fun_cong] reconcile_mint_def [THEN fun_cong] reconcile_deployment_def [THEN fun_cong] reconcile_eligibility_def
  [THEN fun_cong] find_wallet_of_def [THEN fun_cong] resolve_mint_target_def [THEN fun_cong] prepare_mint_def [THEN
  fun_cong] assert_mint_still_executable_def [THEN fun_cong] reconcile_settled_mint_def [THEN fun_cong]
  prepare_deployment_def [THEN fun_cong] reconcile_settled_deployment_def [THEN fun_cong] apply_deployment_def [THEN
  fun_cong] resolve_eligibility_target_def [THEN fun_cong] prepare_eligibility_sync_def [THEN fun_cong]
  reconcile_settled_eligibility_def [THEN fun_cong] apply_eligibility_sync_def [THEN fun_cong] operation_step_def [THEN
  fun_cong] assert_broadcast_allowed_def [THEN fun_cong] advance_operation_def [THEN fun_cong] record_inclusion_tx_def
  [THEN fun_cong] reorg_tx_def [THEN fun_cong] settle_tx_def [THEN fun_cong] settle_operation_def [THEN fun_cong]
  settle_reported_def [THEN fun_cong] finalize_receipt_def [THEN fun_cong] settle_confirmation_def [THEN fun_cong]
  observe_and_finalize_def [THEN fun_cong] follow_outcome_def [THEN fun_cong] run_pipeline_def [THEN fun_cong]
  fail_operation_tx_def [THEN fun_cong] fail_operation_def [THEN fun_cong] execute_operation_def [THEN fun_cong]
  resume_pending_signature_def [THEN fun_cong] load_attempt_def [THEN fun_cong] publish_def [THEN fun_cong]
  dispatch_row_def [THEN fun_cong] dispatch_once_def [THEN fun_cong] requeue_def [THEN fun_cong] finalize_def [THEN
  fun_cong] abandon_tx_def [THEN fun_cong] abandon_unbroadcast_def [THEN fun_cong] rebroadcast_tx_def [THEN fun_cong]
  leave_broadcasting_def [THEN fun_cong] advance_to_submitted_tx_def [THEN fun_cong] resolve_attempt_def [THEN fun_cong]
  resume_signing_def [THEN fun_cong] abandoned_as_failed_def [THEN fun_cong] recover_one_def [THEN fun_cong]
  recovery_sweep_def [THEN fun_cong] replaceable_operation_def [THEN fun_cong] replacement_done_def [THEN fun_cong]
  replace_one_def [THEN fun_cong] replace_stuck_transactions_def [THEN fun_cong] confirm_recovery_tx_def [THEN fun_cong]
  confirm_receipt_def [THEN fun_cong] confirm_recovery_def [THEN fun_cong] confirm_submitted_def [THEN fun_cong]
  resume_recovery_def [THEN fun_cong] recover_nonce_def [THEN fun_cong] recover_blocked_lane_def [THEN fun_cong]
  replacement_sweep_def [THEN fun_cong] worker_sweep_def [THEN fun_cong]

lemmas value_runs =
  lower_char_def to_lower_def starts_with_def js_white_def trim_def digit_of_def read_digits1_def js_bigint_def
  select_first_def update_where_def delete_where_def order_by_def new_app_error_def app_error_def validation_error_def
  unauthorized_error_def forbidden_error_def not_found_error_def invalid_state_transition_error_def
  chain_unavailable_error_def is_unique_violation_def is_check_violation_def constraint_name_def has_no_keys_def
  zod_issues_def operation_states_def terminal_operation_states_def chain_inflight_states_def
  is_terminal_operation_state_def can_transition_operation_def assert_operation_transition_def is_operation_state_def
  before_broadcast_def required_mint_approvals_def can_transition_approval_request_def
  assert_approval_request_transition_def is_approval_request_open_def evaluate_approval_outcome_def app_roles_def
  is_app_role_def system_actor_def has_role_def has_any_role_def require_role_def pg_of_date_def date_of_pg_def
  empty_db_def user_rules_def user_table_def user_role_rules_def user_role_table_def asset_rules_def asset_table_def
  wallet_rules_def wallet_table_def cd_live_def compliance_rules_def compliance_table_def op_live_def
  operation_rules_def operation_table_def transition_log_table_def approval_request_rules_def approval_request_table_def
  approval_decision_rules_def approval_decision_table_def same_idempotency_scope_def idempotency_rules_def
  idempotency_table_def outbox_rules_def outbox_table_def audit_rules_def audit_table_def same_lane_def
  signer_nonce_rules_def signer_nonce_table_def same_nonce_slot_def attempt_rules_def attempt_table_def
  observation_rules_def observation_table_def signer_request_rules_def signer_request_table_def
  operation_with_defaults_def find_live_administrative_operation_def find_operation_by_id_def list_operation_history_def
  find_stale_operations_def find_unclaimed_ready_operations_def count_operations_by_state_def
  find_operations_for_asset_def find_in_flight_operations_def no_patch_def patched_def apply_transition_def
  history_of_def initial_state_of_def read_reserved_nonce_def prepared_attempt_def status_only_def
  apply_attempt_status_def find_attempt_by_id_def find_latest_attempt_for_operation_def list_attempts_for_operation_def
  find_live_attempt_at_nonce_def find_stuck_attempts_def observation_of_def list_open_findings_def
  count_open_findings_by_severity_def list_observations_def eligible_until_for_def json_of_opt_def intent_of_def
  replacement_intent_def mismatch_def assert_fee_only_replacement_def bump_scale_def bump_fees_def
  find_approval_request_by_id_def find_open_approval_request_for_operation_def list_decisions_def OPERATION_READY_def
  DEFAULT_CLAIM_LEASE_MS_def outbox_due_def claim_candidates_def claim_outbox_row_def count_outbox_by_status_def
  find_outbox_for_aggregate_def find_idempotency_record_def find_signer_request_for_attempt_def
  count_pending_signer_requests_def before_cursor_def list_audit_events_def count_audit_events_for_operation_def
  find_asset_by_id_def find_asset_by_symbol_def find_wallet_by_id_def find_wallet_by_address_def load_roles_def
  find_user_by_subject_def find_user_by_id_def to_actor_def approval_in_force_def find_active_approval_def
  find_latest_revocation_def find_lapsed_approvals_def find_decision_by_id_def operation_ready_message_def
  bigint_or_throw_def active_asset_check_def audit_limit_def cursor_of_def audit_page_def replay_outcome_def
  fresh_outcome_def MINT_IDEMPOTENCY_SCOPE_def mint_snapshot_def new_mint_operation_def mint_requested_event_def
  mint_amount_def mint_wallet_check_def rebuild_mint_proposal_def approval_event_def approvers_def tally_def
  eligibility_intent_of_def compliance_event_def wallet_of_organization_def deployed_asset_def evaluate_policy_def
  settle_def signed_mismatch_def str_of_int_opt_def str_of_opt_def parsed_mismatch_def verify_signed_transaction_def
  ANVIL_CHAIN_ID_def finality_tag_for_def label_for_def chain_profile_from_def profiles_get_def
  resolve_chain_profiles_def rounds_def delayed_def chain_canonical_def already_known_texts_def rejection_texts_def
  classify_broadcast_error_def unsigned_request_from_def buffered_gas_def replacement_candidate_def
  fee_replacement_input_def NONCE_RECOVERY_GAS_LIMIT_def nonce_recovery_input_def check_observation_def report_of_def
  identity_check_def mint_receipt_check_def find_mint_event_def mint_event_check_def reference_check_def
  balance_check_def supply_check_def deployment_receipt_check_def code_check_def metadata_check_def
  eligibility_receipt_check_def window_check_def he_reconciliation_def mint_target_of_def mint_execution_check_def
  consumed_observation_def approved_intent_unchanged_def token_accepts_mint_def mint_call_of_def provisioning_asset_def
  eligibility_target_of_def executor_actor_def operation_event_def failure_patch_def not_cancelled_def
  receipt_input_of_def reorg_observation_def json_fields_def spread_def put_field.simps settled_event_def states_never_overwritten_def
  outbox_job_def dispatched_ids_def abandoned_code_def count_result_def RECOVERY_DEPTH_def STUCK_REASON_def
  RECOVERY_REASON_def pe_chain_def pe_gateway_def replacement_bump_def attempt_event_def replaced_event_def
  is_abandoned_def recovery_observation_def recovered_event_def

lemmas runs = io_runs sys_runs step_run table_runs tx_runs date_now_def js_uuid_def handler_methods hook_methods loop_runs poll_runs function_runs
  effect_runs value_runs Let_def numeral_2_eq_2 [symmetric]

end
