(* ===== verification/Scenario.thy ===== *)
theory Scenario
  imports Evaluation
begin

text \<open>
  A small closed world in which the whole program runs: a chain that includes what it accepts at
  once, a signer that signs deterministically and a provider that approves. Runs of the modelled
  services in it are the concrete inputs of the witness theorems: an asset is created, its token
  deployed, a wallet registered and approved, a mint requested, approved twice and executed.
\<close>

subsection \<open>Chain, signer and provider\<close>

record demo_world =
  dw_sent :: "string list"

definition demo_deploy_bytes :: string where "demo_deploy_bytes = ''0x02d''"
definition demo_mint_bytes :: string where "demo_mint_bytes = ''0x02m''"
definition demo_signer_address :: string where "demo_signer_address = ''0xa''"
definition demo_token :: string where "demo_token = ''0xc''"
definition demo_recipient :: string where "demo_recipient = ''0xb''"

definition demo_receipt :: "string \<Rightarrow> receipt_view" where
  "demo_receipt hash = \<lparr>rv_transaction_hash = hash, rv_status = Rc_success, rv_block_number = 7, rv_block_hash = ''0xf'',
     rv_gas_used = 21000, rv_contract_address = (if hash = ''0x1'' then Some demo_token else None),
     rv_logs = [\<lparr>lv_address = demo_token, lv_topics = [], lv_data = '''', lv_log_index = 0\<rparr>]\<rparr>"

definition demo_hash :: "string \<Rightarrow> string" where
  "demo_hash bytes = (if bytes = demo_deploy_bytes then ''0x1'' else ''0x2'')"

text \<open>Any hash function would do: the runs below do not look into it.\<close>

definition demo_sha :: "string \<Rightarrow> string" where
  "demo_sha s = s"

text \<open>The operation the mint below gets, and its single-use reference.\<close>

definition demo_reference :: string where
  "demo_reference = derive_operation_reference demo_sha ''u17''"

definition demo_gateway :: "demo_world gateway" where
  "demo_gateway =
     \<lparr>gw_get_chain_identity = (\<lambda>w. (Inr \<lparr>ci_chain_id = 31337, ci_latest_block_number = 7\<rparr>, w)),
      gw_assert_contract_deployed = (\<lambda>_ w. (Inr (), w)),
      gw_get_fee_estimate = (\<lambda>w. (Inr \<lparr>fe_max_fee_per_gas = 30, fe_max_priority_fee_per_gas = 2\<rparr>, w)),
      gw_get_transaction_count = (\<lambda>_ w. (Inr (int (length (dw_sent w))), w)),
      gw_encode_token_deployment = (\<lambda>_. \<lparr>ec_to = None, ec_data = ''0x6''\<rparr>),
      gw_encode_mint_call = (\<lambda>a _. \<lparr>ec_to = Some a, ec_data = ''0x4''\<rparr>),
      gw_encode_set_eligibility_call = (\<lambda>a _. \<lparr>ec_to = Some a, ec_data = ''0x5''\<rparr>),
      gw_simulate = (\<lambda>_ w. (Inr (Sim_ok 80), w)),
      gw_broadcast_raw_transaction = (\<lambda>b w. (Inr (demo_hash b), w\<lparr>dw_sent := b # dw_sent w\<rparr>)),
      gw_get_transaction_receipt = (\<lambda>h w. (Inr (if h \<in> set (map demo_hash (dw_sent w)) then Some (demo_receipt h) else None), w)),
      gw_get_latest_block_number = (\<lambda>w. (Inr 7, w)),
      gw_get_block_hash_at = (\<lambda>_ w. (Inr (Some ''0xf''), w)),
      gw_get_finalized_block_number = (\<lambda>w. (Inr (Some 7), w)),
      gw_decode_mint_executed_events = (\<lambda>_ _. [\<lparr>me_operation_reference = demo_reference, me_recipient = demo_recipient,
         me_amount = 5, me_new_total_supply = 5\<rparr>]),
      gw_read_token_state = (\<lambda>_ w. (Inr \<lparr>tk_paused = False, tk_total_supply = 0, tk_supply_cap = 100, tk_decimals = 0,
         tk_symbol = ''T''\<rparr>, w)),
      gw_read_balance_of = (\<lambda>_ _ w. (Inr 5, w)),
      gw_read_reference_consumed = (\<lambda>_ _ w. (Inr (demo_mint_bytes \<in> set (dw_sent w)), w)),
      gw_read_eligible_until = (\<lambda>_ _ w. (Inr 0, w))\<rparr>"

definition demo_signer :: "demo_world signer_provider" where
  "demo_signer = \<lparr>sg_name = ''demo'', sg_get_signer_address = (\<lambda>w. (Inr demo_signer_address, w)),
     sg_request_signature = (\<lambda>r _ w. (let b = (if utr_to r = None then demo_deploy_bytes else demo_mint_bytes)
       in (Inr (Signature_signed (utr_attempt_id r) demo_signer_address b (demo_hash b)), w))),
     sg_fetch_signature = (\<lambda>i w. (Inr (Signature_pending i), w))\<rparr>"

definition demo_codec :: transaction_codec where
  "demo_codec = \<lparr>tc_parse = (\<lambda>b. Some \<lparr>pt_type = ''eip1559'', pt_chain_id = Some 31337,
       pt_nonce = Some (if b = demo_deploy_bytes then 0 else 1),
       pt_to = (if b = demo_deploy_bytes then None else Some demo_token), pt_value = None,
       pt_data = Some (if b = demo_deploy_bytes then ''0x6'' else ''0x4''), pt_gas = Some 100,
       pt_max_fee_per_gas = Some 30, pt_max_priority_fee_per_gas = Some 2\<rparr>),
     tc_recover = (\<lambda>_. Some demo_signer_address), tc_keccak256 = demo_hash\<rparr>"

definition demo_provider :: "demo_world compliance_provider" where
  "demo_provider = \<lparr>cp_name = ''demo'',
     cp_screen = (\<lambda>_ w. (Inr \<lparr>scs_status = Screening_APPROVED, scs_provider = ''demo'', scs_provider_reference = ''s1'',
        scs_valid_from = 0, scs_valid_until = 1000000, scs_decided_at = 0, scs_reason = None\<rparr>, w)),
     cp_check_eligibility = (\<lambda>_ w. (Inr \<lparr>es_eligible = True, es_provider = ''demo'', es_provider_reference = ''e1'',
        es_checked_at = 0, es_reason = None\<rparr>, w))\<rparr>"

definition demo_replacement :: replacement_policy where
  "demo_replacement = \<lparr>rp_stuck_after_ms = 1000, rp_max_replacements = 3, rp_fee_bump_percent = 12\<rparr>"

definition demo_chain :: "demo_world chain_env" where
  "demo_chain = \<lparr>ce_gateway = demo_gateway, ce_signer = demo_signer, ce_chain_id = 31337,
     ce_signer_request_timeout_ms = 1000, ce_replacement = demo_replacement, ce_codec = demo_codec, ce_sha = demo_sha\<rparr>"

definition demo_handlers :: "demo_world handler_env" where
  "demo_handlers = \<lparr>he_gateway = demo_gateway, he_signer = demo_signer, he_provider = demo_provider,
     he_chain_id = 31337, he_mint_deadline_seconds = 60, he_sha = demo_sha\<rparr>"

definition demo_policy :: confirmation_policy where
  "demo_policy = \<lparr>po_confirmations = 1, po_finality_tag = Tag_latest, po_timeout_ms = 50, po_poll_interval_ms = 200\<rparr>"

definition demo_executor :: "demo_world executor_env" where
  "demo_executor = \<lparr>ee_chain = demo_chain, ee_handlers = demo_handlers, ee_confirmation = demo_policy\<rparr>"

subsection \<open>Running the demo\<close>

lemma digits:
  "digit 0 = CHR ''0''" "digit 1 = CHR ''1''" "digit (Suc 0) = CHR ''1''" "digit 2 = CHR ''2''" "digit 3 = CHR ''3''"
  "digit 4 = CHR ''4''" "digit 5 = CHR ''5''" "digit 6 = CHR ''6''" "digit 7 = CHR ''7''" "digit 8 = CHR ''8''"
  "digit 9 = CHR ''9''"
  by code_simp+

lemma demo_gateway_methods:
  "gw_get_chain_identity demo_gateway = (\<lambda>w. (Inr \<lparr>ci_chain_id = 31337, ci_latest_block_number = 7\<rparr>, w))"
  "gw_assert_contract_deployed demo_gateway = (\<lambda>_ w. (Inr (), w))"
  "gw_get_fee_estimate demo_gateway = (\<lambda>w. (Inr \<lparr>fe_max_fee_per_gas = 30, fe_max_priority_fee_per_gas = 2\<rparr>, w))"
  "gw_get_transaction_count demo_gateway = (\<lambda>_ w. (Inr (int (length (dw_sent w))), w))"
  "gw_encode_token_deployment demo_gateway = (\<lambda>_. \<lparr>ec_to = None, ec_data = ''0x6''\<rparr>)"
  "gw_encode_mint_call demo_gateway = (\<lambda>a _. \<lparr>ec_to = Some a, ec_data = ''0x4''\<rparr>)"
  "gw_simulate demo_gateway = (\<lambda>_ w. (Inr (Sim_ok 80), w))"
  "gw_broadcast_raw_transaction demo_gateway = (\<lambda>b w. (Inr (demo_hash b), w\<lparr>dw_sent := b # dw_sent w\<rparr>))"
  "gw_get_transaction_receipt demo_gateway =
     (\<lambda>h w. (Inr (if h \<in> set (map demo_hash (dw_sent w)) then Some (demo_receipt h) else None), w))"
  "gw_get_latest_block_number demo_gateway = (\<lambda>w. (Inr 7, w))"
  "gw_get_block_hash_at demo_gateway = (\<lambda>_ w. (Inr (Some ''0xf''), w))"
  "gw_decode_mint_executed_events demo_gateway = (\<lambda>_ _. [\<lparr>me_operation_reference = demo_reference,
     me_recipient = demo_recipient, me_amount = 5, me_new_total_supply = 5\<rparr>])"
  "gw_read_token_state demo_gateway = (\<lambda>_ w. (Inr \<lparr>tk_paused = False, tk_total_supply = 0, tk_supply_cap = 100,
     tk_decimals = 0, tk_symbol = ''T''\<rparr>, w))"
  "gw_read_balance_of demo_gateway = (\<lambda>_ _ w. (Inr 5, w))"
  "gw_read_reference_consumed demo_gateway = (\<lambda>_ _ w. (Inr (demo_mint_bytes \<in> set (dw_sent w)), w))"
  by (simp_all add: demo_gateway_def)

lemma demo_env_fields:
  "ee_chain demo_executor = demo_chain" "ee_handlers demo_executor = demo_handlers" "ee_confirmation demo_executor = demo_policy"
  "ce_gateway demo_chain = demo_gateway" "ce_signer demo_chain = demo_signer" "ce_chain_id demo_chain = 31337"
  "ce_signer_request_timeout_ms demo_chain = 1000" "ce_replacement demo_chain = demo_replacement"
  "ce_codec demo_chain = demo_codec" "ce_sha demo_chain = demo_sha"
  "he_gateway demo_handlers = demo_gateway" "he_signer demo_handlers = demo_signer" "he_provider demo_handlers = demo_provider"
  "he_chain_id demo_handlers = 31337" "he_mint_deadline_seconds demo_handlers = 60" "he_sha demo_handlers = demo_sha"
  by (simp_all add: demo_executor_def demo_chain_def demo_handlers_def)

lemma demo_signer_methods:
  "sg_name demo_signer = ''demo''" "sg_get_signer_address demo_signer = (\<lambda>w. (Inr demo_signer_address, w))"
  "sg_request_signature demo_signer = (\<lambda>r _ w. (let b = (if utr_to r = None then demo_deploy_bytes else demo_mint_bytes)
     in (Inr (Signature_signed (utr_attempt_id r) demo_signer_address b (demo_hash b)), w)))"
  by (simp_all add: demo_signer_def)

lemma demo_codec_methods:
  "tc_parse demo_codec = (\<lambda>b. Some \<lparr>pt_type = ''eip1559'', pt_chain_id = Some 31337,
     pt_nonce = Some (if b = demo_deploy_bytes then 0 else 1),
     pt_to = (if b = demo_deploy_bytes then None else Some demo_token), pt_value = None,
     pt_data = Some (if b = demo_deploy_bytes then ''0x6'' else ''0x4''), pt_gas = Some 100,
     pt_max_fee_per_gas = Some 30, pt_max_priority_fee_per_gas = Some 2\<rparr>)"
  "tc_recover demo_codec = (\<lambda>_. Some demo_signer_address)" "tc_keccak256 demo_codec = demo_hash"
  by (simp_all add: demo_codec_def)

lemma demo_provider_methods:
  "cp_screen demo_provider = (\<lambda>_ w. (Inr \<lparr>scs_status = Screening_APPROVED, scs_provider = ''demo'',
     scs_provider_reference = ''s1'', scs_valid_from = 0, scs_valid_until = 1000000, scs_decided_at = 0, scs_reason = None\<rparr>, w))"
  "cp_check_eligibility demo_provider = (\<lambda>_ w. (Inr \<lparr>es_eligible = True, es_provider = ''demo'',
     es_provider_reference = ''e1'', es_checked_at = 0, es_reason = None\<rparr>, w))"
  by (simp_all add: demo_provider_def)

text \<open>Time stamps of the demo are below a day.\<close>

definition demo_uuid :: "nat \<Rightarrow> uuid" where
  "demo_uuid n = CHR ''u'' # show_nat n"

lemma demo_uuids:
  "demo_uuid 0 = ''u0''" "demo_uuid (Suc 0) = ''u1''" "demo_uuid (numeral k) = CHR ''u'' # show_nat (numeral k)"
  by (simp_all add: demo_uuid_def show_nat.simps [of 0] show_nat.simps [of "Suc 0"] digits)

lemmas demo_runs = digits demo_uuids show_nat.simps [of "numeral k" for k] show_nat.simps [of 0] show_nat.simps [of "Suc 0"]
  demo_gateway_methods demo_env_fields demo_signer_methods demo_codec_methods demo_provider_methods demo_policy_def
  demo_hash_def demo_receipt_def demo_deploy_bytes_def demo_mint_bytes_def demo_signer_address_def demo_token_def
  demo_recipient_def

text \<open>Characters are left as they are.\<close>

lemma char_cong: "Char b0 b1 b2 b3 b4 b5 b6 b7 = Char b0 b1 b2 b3 b4 b5 b6 b7"
  by (rule refl)

text \<open>The fingerprints that are compared later.\<close>

definition demo_deployment_hash :: string where
  "demo_deployment_hash = canonical_hash demo_sha (JObj [(''kind'', Some (JStr ''DEPLOY_ASSET'')), (''assetId'', Some (JStr ''u0'')),
     (''chainId'', Some (JNum 31337)), (''symbol'', Some (JStr ''T'')), (''name'', Some (JStr ''N'')),
     (''decimals'', Some (JNum 0)), (''supplyCap'', Some (JStr (show_int 100)))])"

definition demo_mint_hash :: string where
  "demo_mint_hash = hash_mint_proposal demo_sha \<lparr>mp_asset_id = ''u0'', mp_chain_id = 31337, mp_contract_address = ''0xc'',
     mp_wallet_id = ''u10'', mp_recipient_address = ''0xb'', mp_amount = ''5'', mp_operation_reference = demo_reference,
     mp_policy_version = 1, mp_required_approvals = 2\<rparr>"

lemma demo_mint_hash:
  "mp_asset_id p = ''u0'' \<Longrightarrow> mp_chain_id p = 31337 \<Longrightarrow> mp_contract_address p = ''0xc'' \<Longrightarrow> mp_wallet_id p = ''u10'' \<Longrightarrow>
   mp_recipient_address p = ''0xb'' \<Longrightarrow> mp_amount p = ''5'' \<Longrightarrow> mp_operation_reference p = demo_reference \<Longrightarrow>
   mp_policy_version p = 1 \<Longrightarrow> mp_required_approvals p = 2 \<Longrightarrow> hash_mint_proposal demo_sha p = demo_mint_hash"
  unfolding demo_mint_hash_def by (cases p) simp

lemma demo_deployment_hash:
  "as_id a = ''u0'' \<Longrightarrow> as_chain_id a = 31337 \<Longrightarrow> as_symbol a = ''T'' \<Longrightarrow> as_name a = ''N'' \<Longrightarrow> as_decimals a = 0 \<Longrightarrow>
   as_supply_cap a = 100 \<Longrightarrow> hash_asset_deployment_intent demo_sha a = demo_deployment_hash"
  by (simp add: hash_asset_deployment_intent_def deployment_intent_json_def demo_deployment_hash_def)

declare run_congs [cong] state_congs [cong] let_weak_cong [cong] char_cong [cong] runs [simp] demo_runs [simp]
declare watch_receipt.simps [simp del] poll_receipt.simps [simp del] io_map.simps [simp del] tx_for_each.simps [simp del]
  resolve_in_flight.simps [simp del] demo_deployment_hash [simp] demo_mint_hash [simp] demo_reference_def [symmetric, simp]
  show_int_def [simp]

subsection \<open>The run\<close>

definition demo_start :: "demo_world sys" where
  "demo_start = \<lparr>sys_db = empty_db demo_uuid, sys_world = \<lparr>dw_sent = []\<rparr>, sys_step = 0,
     sys_clock = (\<lambda>n. (int n * 1000, int n)), sys_others = (\<lambda>_ d. d)\<rparr>"

definition demo_ctx :: "string \<Rightarrow> app_role \<Rightarrow> request_context" where
  "demo_ctx who r = \<lparr>rc_actor = \<lparr>ac_type = USER, ac_id = who, ac_organization_id = ''o'', ac_roles = [r]\<rparr>,
     rc_correlation_id = ''c'', rc_request_id = ''r''\<rparr>"

definition demo_created :: "demo_world sys" where
  "demo_created = snd (create_asset demo_sha 31337 (demo_ctx ''i'' ISSUER)
     \<lparr>ca_symbol = ''T'', ca_name = ''N'', ca_decimals = 0, ca_supply_cap = ''100''\<rparr> demo_start)"

lemmas demo_created_run = demo_created_def [unfolded demo_start_def demo_ctx_def, simplified]

definition demo_deployed :: "demo_world sys" where
  "demo_deployed = snd (execute_operation demo_executor ''u1'' ''w'' demo_created)"

lemmas demo_deployed_run = demo_deployed_def [unfolded demo_created_run, simplified]

definition demo_registered :: "demo_world sys" where
  "demo_registered = snd (register_wallet 31337 (demo_ctx ''i'' ISSUER)
     \<lparr>rw_address = demo_recipient, rw_investor_reference = ''v'', rw_label = None\<rparr> demo_deployed)"

lemmas demo_registered_run = demo_registered_def [unfolded demo_deployed_run demo_ctx_def, simplified]

definition demo_screened :: "demo_world sys" where
  "demo_screened = snd (record_compliance_decision demo_sha demo_provider (demo_ctx ''k'' COMPLIANCE_OFFICER)
     \<lparr>rci_wallet_id = ''u10'', rci_asset_id = Some ''u0'', rci_subject_reference = None\<rparr> demo_registered)"

lemmas demo_screened_run = demo_screened_def [unfolded demo_registered_run demo_ctx_def, simplified]

definition demo_requested :: "demo_world sys" where
  "demo_requested = snd (request_mint demo_sha (demo_ctx ''i'' ISSUER)
     \<lparr>rm_asset_id = ''u0'', rm_wallet_id = ''u10'', rm_amount = ''5'', rm_idempotency_key = ''key''\<rparr> demo_screened)"

lemmas demo_requested_run = demo_requested_def [unfolded demo_screened_run demo_ctx_def, simplified]

definition demo_approved1 :: "demo_world sys" where
  "demo_approved1 = snd (record_approval_decision demo_sha (demo_ctx ''a'' APPROVER)
     \<lparr>rai_approval_request_id = ''u18'', rai_decision = APPROVE, rai_comment = None\<rparr> demo_requested)"

lemmas demo_approved1_run = demo_approved1_def [unfolded demo_requested_run demo_ctx_def, simplified]

definition demo_approved :: "demo_world sys" where
  "demo_approved = snd (record_approval_decision demo_sha (demo_ctx ''b'' APPROVER)
     \<lparr>rai_approval_request_id = ''u18'', rai_decision = APPROVE, rai_comment = None\<rparr> demo_approved1)"

lemmas demo_approved_run = demo_approved_def [unfolded demo_approved1_run demo_ctx_def, simplified]

definition demo_minted :: "(exn + execution_result) \<times> demo_world sys" where
  "demo_minted = execute_operation demo_executor ''u17'' ''w'' demo_approved"

lemmas demo_minted_run = demo_minted_def [unfolded demo_approved_run, simplified]

lemma demo_outcomes:
  "fst demo_minted = Inr (Ex_SUCCEEDED ''0x2'')"
  "map (\<lambda>r. (op_id r, op_type r, op_state r)) (operations (sys_db (snd demo_minted))) =
     [(''u1'', DEPLOY_ASSET, Op_SUCCEEDED), (''u13'', SYNC_ELIGIBILITY, Op_READY), (''u17'', MINT, Op_SUCCEEDED)]"
  unfolding demo_minted_run by simp_all

lemma demo_others:
  "sys_others demo_start = (\<lambda>_ d. d)" "sys_others demo_created = (\<lambda>_ d. d)" "sys_others demo_deployed = (\<lambda>_ d. d)"
  "sys_others demo_registered = (\<lambda>_ d. d)" "sys_others demo_screened = (\<lambda>_ d. d)" "sys_others demo_requested = (\<lambda>_ d. d)"
  "sys_others demo_approved1 = (\<lambda>_ d. d)" "sys_others demo_approved = (\<lambda>_ d. d)"
  unfolding demo_start_def demo_created_run demo_deployed_run demo_registered_run demo_screened_run demo_requested_run
    demo_approved1_run demo_approved_run by (rule sys.select_convs)+

declare run_congs [cong del] state_congs [cong del] let_weak_cong [cong del] char_cong [cong del] runs [simp del] demo_runs [simp del]
declare watch_receipt.simps [simp] poll_receipt.simps [simp] io_map.simps [simp] tx_for_each.simps [simp]
  resolve_in_flight.simps [simp] demo_deployment_hash [simp del] demo_mint_hash [simp del]
  demo_reference_def [symmetric, simp del] show_int_def [simp del]

subsection \<open>Every state of the run is reachable\<close>

lemma demo_start_reachable: "reachable demo_executor (sys_db demo_start)"
  by (simp add: demo_start_def reach_empty)

lemma demo_reachable:
  "reachable demo_executor (sys_db demo_created)" "reachable demo_executor (sys_db demo_deployed)"
  "reachable demo_executor (sys_db demo_registered)" "reachable demo_executor (sys_db demo_screened)"
  "reachable demo_executor (sys_db demo_requested)" "reachable demo_executor (sys_db demo_approved1)"
  "reachable demo_executor (sys_db demo_approved)" "reachable demo_executor (sys_db (snd demo_minted))"
proof -
  note request = reach.steps_requests [where env = demo_executor, THEN stays_reachable]
  note execute = reach.steps_execute [where env = demo_executor, THEN stays_reachable]
  show 1: "reachable demo_executor (sys_db demo_created)"
    unfolding demo_created_def by (rule request(1)) (simp_all add: demo_start_reachable demo_others)
  show 2: "reachable demo_executor (sys_db demo_deployed)"
    unfolding demo_deployed_def by (rule execute) (simp_all add: 1 demo_others)
  show 3: "reachable demo_executor (sys_db demo_registered)"
    unfolding demo_registered_def by (rule request(3)) (simp_all add: 2 demo_others)
  show 4: "reachable demo_executor (sys_db demo_screened)"
    unfolding demo_screened_def by (rule request(6)) (simp_all add: 3 demo_others)
  show 5: "reachable demo_executor (sys_db demo_requested)"
    unfolding demo_requested_def by (rule request(4)) (simp_all add: 4 demo_others)
  show 6: "reachable demo_executor (sys_db demo_approved1)"
    unfolding demo_approved1_def by (rule request(5)) (simp_all add: 5 demo_others)
  show 7: "reachable demo_executor (sys_db demo_approved)"
    unfolding demo_approved_def by (rule request(5)) (simp_all add: 6 demo_others)
  show "reachable demo_executor (sys_db (snd demo_minted))"
    unfolding demo_minted_def by (rule execute) (simp_all add: 7 demo_others)
qed

end
