(* ===== verification/Witnesses.thy ===== *)
theory Witnesses
  imports Scenario
begin

text \<open>
  The properties with hypotheses applied to concrete inputs: mostly to states of the demo run of
  \<open>Scenario\<close>, where the modelled services have created, approved and executed a mint.
\<close>

declare run_congs [cong] state_congs [cong] let_weak_cong [cong] char_cong [cong]

subsection \<open>Pure rules\<close>

definition demo_attempt_input :: insert_attempt_input where
  "demo_attempt_input = \<lparr>ia_operation_id = Some ''u17'', ia_asset_id = Some ''u0'', ia_wallet_id = Some ''u10'',
     ia_purpose = P_MINT, ia_chain_id = 31337, ia_from_address = demo_signer_address, ia_to_address = Some demo_token,
     ia_nonce = 1, ia_data = ''0x4'', ia_gas_limit = 100, ia_max_fee_per_gas = 30, ia_max_priority_fee_per_gas = 2,
     ia_request_hash = ''h'', ia_intent_fingerprint = ''f'', ia_replaces_attempt_id = None, ia_replacement_reason = None,
     ia_replacement_number = None\<rparr>"

definition demo_attempt :: attempt_row where
  "demo_attempt = prepared_attempt ''t'' 0 demo_attempt_input"

theorem bump_fees_strictly_raises_witness:
  "30 < fe_max_fee_per_gas (bump_fees demo_attempt \<lparr>fe_max_fee_per_gas = 10, fe_max_priority_fee_per_gas = 9\<rparr> 12) \<and>
   9 \<le> fe_max_priority_fee_per_gas (bump_fees demo_attempt \<lparr>fe_max_fee_per_gas = 10, fe_max_priority_fee_per_gas = 9\<rparr> 12)"
  using bump_fees_strictly_raises [of demo_attempt 12 "\<lparr>fe_max_fee_per_gas = 10, fe_max_priority_fee_per_gas = 9\<rparr>"]
  by (simp add: demo_attempt_def prepared_attempt_def demo_attempt_input_def)

definition demo_config :: chain_config where
  "demo_config = \<lparr>cfg_evm_chain_id = 31337, cfg_evm_rpc_url = ''http://anvil'', cfg_evm_confirmations = 1,
     cfg_testnet_rpc_url = Some ''http://sepolia'', cfg_testnet_chain_id = Some 11155111, cfg_testnet_confirmations = 3,
     cfg_replacement = demo_replacement\<rparr>"

theorem profile_lookup_sound_witness:
  "\<exists>ps. resolve_chain_profiles demo_config = Inr ps \<and> profiles_get ps 31337 = Inr (ps_active ps) \<and>
     (\<exists>p. profiles_get ps 11155111 = Inr p \<and> pf_chain_id p = 11155111 \<and> pf_finality_tag p \<noteq> Tag_latest)"
proof -
  obtain ps where ps: "resolve_chain_profiles demo_config = Inr ps"
    by (simp add: resolve_chain_profiles_def demo_config_def Let_def chain_profile_from_def)
  then obtain p where p: "profiles_get ps 11155111 = Inr p"
    by (auto simp: resolve_chain_profiles_def demo_config_def Let_def chain_profile_from_def profiles_get_def)
  from profile_lookup_sound [OF ps] p have "profiles_get ps (cfg_evm_chain_id demo_config) = Inr (ps_active ps)"
      "pf_chain_id p = 11155111" "pf_finality_tag p \<noteq> Tag_latest"
    by (auto simp: ANVIL_CHAIN_ID_def)
  with ps p show ?thesis by (auto simp: demo_config_def)
qed

subsection \<open>Confirmation and reconciliation\<close>

text \<open>The demo chain after it included both transactions.\<close>

definition demo_included :: "demo_world sys" where
  "demo_included = demo_start\<lparr>sys_world := \<lparr>dw_sent = [demo_mint_bytes, demo_deploy_bytes]\<rparr>\<rparr>"

lemma demo_confirmation: "fst (await_confirmation demo_gateway ''0x2'' demo_policy demo_included) = Inr (Co_FINALIZED (demo_receipt ''0x2''))"
  by (simp add: demo_included_def demo_start_def runs demo_runs
      del: watch_receipt.simps poll_receipt.simps)

text \<open>A chain that has the transaction in its seventh block, and writes down what it answers.\<close>

definition demo_listening :: "answer list gateway" where
  "demo_listening =
     \<lparr>gw_get_chain_identity = (\<lambda>w. (Inr \<lparr>ci_chain_id = 31337, ci_latest_block_number = 7\<rparr>, w)),
      gw_assert_contract_deployed = (\<lambda>_ w. (Inr (), w)),
      gw_get_fee_estimate = (\<lambda>w. (Inr \<lparr>fe_max_fee_per_gas = 30, fe_max_priority_fee_per_gas = 2\<rparr>, w)),
      gw_get_transaction_count = (\<lambda>_ w. (Inr 0, w)),
      gw_encode_token_deployment = (\<lambda>_. \<lparr>ec_to = None, ec_data = ''0x6''\<rparr>),
      gw_encode_mint_call = (\<lambda>a _. \<lparr>ec_to = Some a, ec_data = ''0x4''\<rparr>),
      gw_encode_set_eligibility_call = (\<lambda>a _. \<lparr>ec_to = Some a, ec_data = ''0x5''\<rparr>),
      gw_simulate = (\<lambda>_ w. (Inr (Sim_ok 80), w)),
      gw_broadcast_raw_transaction = (\<lambda>b w. (Inr (demo_hash b), w)),
      gw_get_transaction_receipt = (\<lambda>h w. (let r = (if h = ''0x2'' then Some (demo_receipt h) else None) in (Inr r, Heard_receipt r # w))),
      gw_get_latest_block_number = (\<lambda>w. (Inr 7, Heard_latest 7 # w)),
      gw_get_block_hash_at = (\<lambda>b w. (Inr (Some ''0xf''), Heard_block b (Some ''0xf'') # w)),
      gw_get_finalized_block_number = (\<lambda>w. (Inr (Some 7), Heard_finalized (Some 7) # w)),
      gw_decode_mint_executed_events = (\<lambda>_ _. []),
      gw_read_token_state = (\<lambda>_ w. (Inr \<lparr>tk_paused = False, tk_total_supply = 0, tk_supply_cap = 100, tk_decimals = 0,
         tk_symbol = ''T''\<rparr>, w)),
      gw_read_balance_of = (\<lambda>_ _ w. (Inr 5, w)),
      gw_read_reference_consumed = (\<lambda>_ _ w. (Inr False, w)),
      gw_read_eligible_until = (\<lambda>_ _ w. (Inr 0, w))\<rparr>"

definition demo_waiting :: "answer list sys" where
  "demo_waiting = \<lparr>sys_db = empty_db demo_uuid, sys_world = [], sys_step = 0,
     sys_clock = (\<lambda>n. (int n * 1000, int n)), sys_others = (\<lambda>_ d. d)\<rparr>"

lemma demo_listening_methods:
  "gw_get_transaction_receipt demo_listening =
     (\<lambda>h w. (let r = (if h = ''0x2'' then Some (demo_receipt h) else None) in (Inr r, Heard_receipt r # w)))"
  "gw_get_latest_block_number demo_listening = (\<lambda>w. (Inr 7, Heard_latest 7 # w))"
  "gw_get_block_hash_at demo_listening = (\<lambda>b w. (Inr (Some ''0xf''), Heard_block b (Some ''0xf'') # w))"
  "gw_get_finalized_block_number demo_listening = (\<lambda>w. (Inr (Some 7), Heard_finalized (Some 7) # w))"
  by (simp_all add: demo_listening_def)

lemma demo_waited:
  "fst (await_confirmation demo_listening ''0x2'' demo_policy demo_waiting) = Inr (Co_FINALIZED (demo_receipt ''0x2''))"
  "fst (await_confirmation demo_listening ''0x9'' (demo_policy\<lparr>po_timeout_ms := 3\<rparr>) demo_waiting) = Inr Co_PENDING"
  by (simp_all add: demo_waiting_def runs demo_runs demo_listening_methods del: watch_receipt.simps poll_receipt.simps)

lemma demo_listening_remembers: "remembers id hash demo_listening"
  by (auto simp: remembers_def demo_listening_methods Let_def)

theorem await_confirmation_evidence_witness:
  "\<exists>s' t'. await_confirmation demo_listening ''0x2'' demo_policy demo_waiting = (Inr (Co_FINALIZED (demo_receipt ''0x2'')), s') \<and>
     (\<exists>latest h older. sys_world s' = [Heard_latest latest, Heard_block 7 (Some h), Heard_receipt (Some (demo_receipt ''0x2''))] @ older \<and> 7 \<le> latest) \<and>
     await_confirmation demo_listening ''0x9'' (demo_policy\<lparr>po_timeout_ms := 3\<rparr>) demo_waiting = (Inr Co_PENDING, t') \<and>
     set (sys_world t') \<subseteq> {Heard_receipt None} \<and> 3 \<le> last_reading t'"
proof -
  have fwd: "clock_forward demo_waiting" and start: "js_clock demo_waiting = 0" "sys_world demo_waiting = []"
    by (simp_all add: clock_forward_def demo_waiting_def js_clock_def)
  from demo_waited obtain s' t' where
    run: "await_confirmation demo_listening ''0x2'' demo_policy demo_waiting = (Inr (Co_FINALIZED (demo_receipt ''0x2'')), s')"
    and late: "await_confirmation demo_listening ''0x9'' (demo_policy\<lparr>po_timeout_ms := 3\<rparr>) demo_waiting = (Inr Co_PENDING, t')"
    by (metis prod.collapse)
  have policy: "po_finality_tag demo_policy = Tag_latest" "po_confirmations demo_policy = 1"
    "rv_block_number (demo_receipt ''0x2'') = 7" by (simp_all add: demo_policy_def demo_receipt_def)
  have "\<exists>latest h older. sys_world s' = [Heard_latest latest, Heard_block 7 (Some h), Heard_receipt (Some (demo_receipt ''0x2''))] @ older \<and> 7 \<le> latest"
    using await_confirmation_evidence [OF run demo_listening_remembers fwd] start policy
    by (auto simp: final_heard_def canonical_heard_def)
  moreover have "set (sys_world t') \<subseteq> {Heard_receipt None} \<and> 3 \<le> last_reading t'"
    using await_confirmation_evidence [OF late demo_listening_remembers fwd] start by auto
  ultimately show ?thesis using run late by blast
qed

theorem await_rounds_enough_witness:
  "await_rounds (Suc 60) demo_gateway ''0x9'' demo_policy demo_start =
   await_confirmation demo_gateway ''0x9'' demo_policy demo_start"
  by (rule await_rounds_enough) (simp_all add: clock_forward_def demo_start_def demo_policy_def)

definition demo_mint_reconciliation :: mint_reconciliation where
  "demo_mint_reconciliation = \<lparr>mr_operation = operation_with_defaults ''u17'' 0 \<lparr>no_type = MINT, no_state = Op_INCLUDED,
       no_organization_id = ''o'', no_asset_id = ''u0'', no_wallet_id = Some ''u10'', no_amount = Some 5,
       no_operation_reference = Some demo_reference, no_compliance_decision_id = None, no_proposal_hash = demo_mint_hash,
       no_required_approvals = 2, no_requested_by = ''i'', no_correlation_id = ''c''\<rparr>,
     mr_attempt_id = ''u26'', mr_contract_address = demo_token, mr_recipient = demo_recipient, mr_amount = 5,
     mr_operation_reference = demo_reference, mr_receipt = demo_receipt ''0x2''\<rparr>"

lemma demo_reconciled:
  "\<exists>rep s'. reconcile_mint (he_reconciliation demo_handlers) demo_mint_reconciliation demo_included = (Inr rep, s') \<and> rr_consistent rep"
  by (simp add: demo_mint_reconciliation_def demo_included_def demo_start_def runs demo_runs)

theorem reconcile_mint_consistent_witness:
  "rv_status (demo_receipt ''0x2'') = Rc_success \<and>
   (\<exists>w w'. gw_read_reference_consumed demo_gateway demo_token demo_reference w = (Inr True, w'))"
proof -
  obtain rep s' where "reconcile_mint (he_reconciliation demo_handlers) demo_mint_reconciliation demo_included = (Inr rep, s')"
      "rr_consistent rep"
    using demo_reconciled by blast
  from reconcile_mint_consistent [OF this] show ?thesis
    by (simp add: demo_mint_reconciliation_def he_reconciliation_def demo_env_fields)
qed

text \<open>The approved mint of the demo is prepared.\<close>

definition demo_mint_operation :: operation_row where
  "demo_mint_operation = the (find_operation_by_id ''u17'' (sys_db demo_approved))"

lemma demo_prepared: "\<exists>prepared s'. prepare_mint demo_handlers demo_mint_operation demo_approved = (Inr prepared, s')"
  unfolding demo_mint_operation_def demo_approved_run
  by (simp add: runs demo_runs demo_mint_hash demo_reference_def [symmetric] show_int_def)

theorem prepare_mint_sound_witness:
  "\<exists>t c (prepared :: prepared_chain_write) w. mint_checked demo_handlers demo_mint_operation t c demo_approved w \<and>
     pw_call prepared = mint_call_of demo_handlers t (app_now (found_at demo_approved 3))"
proof -
  obtain prepared s' where "prepare_mint demo_handlers demo_mint_operation demo_approved = (Inr prepared, s')"
    using demo_prepared by blast
  from prepare_mint_sound [OF this] show ?thesis by blast
qed

declare run_congs [cong del] state_congs [cong del] let_weak_cong [cong del] char_cong [cong del]

subsection \<open>Reachable states\<close>

text \<open>The executed mint.\<close>

lemma demo_minted_row:
  "\<exists>r. r \<in> set (operations (sys_db (snd demo_minted))) \<and> op_type r = MINT \<and> op_state r = Op_SUCCEEDED"
proof -
  have "(''u17'', MINT, Op_SUCCEEDED) \<in> set (map (\<lambda>r. (op_id r, op_type r, op_state r)) (operations (sys_db (snd demo_minted))))"
    unfolding demo_outcomes(2) by simp
  then show ?thesis by auto
qed

theorem reachable_history_witness:
  "\<exists>r. r \<in> set (operations (sys_db (snd demo_minted))) \<and>
     set [Op_SIGNED, Op_BROADCASTING, Op_INCLUDED] \<subseteq> set (history_of (op_id r) (operation_transitions (sys_db (snd demo_minted))))"
  using demo_minted_row reachable_history [OF demo_reachable(8)] by blast

theorem reachable_two_person_witness:
  "\<exists>r (q :: approval_request_row). r \<in> set (operations (sys_db (snd demo_minted))) \<and> ar_operation_id q = op_id r \<and> ar_state q = Ar_APPROVED \<and>
     2 \<le> card (ad_approver_id ` set (decisions_on (ar_id q) (sys_db (snd demo_minted))))"
proof -
  from demo_minted_row obtain r where r: "r \<in> set (operations (sys_db (snd demo_minted)))" "op_type r = MINT"
      "op_state r = Op_SUCCEEDED" by blast
  then have "op_state r \<notin> {Op_PENDING_APPROVAL, Op_CANCELLED, Op_FAILED}" by simp
  from reachable_two_person [OF demo_reachable(8) r(1,2) this] r(1) show ?thesis by blast
qed

definition demo_recovery :: "demo_world recovery_env" where
  "demo_recovery = \<lparr>rv_executor = demo_executor, rv_queue = \<lparr>qu_add = (\<lambda>_ _ _ w. (Inr (), w))\<rparr>, rv_stale_after_ms = 5,
     rv_batch_size = 10\<rparr>"

end
