(* ===== verification/Ledger.thy ===== *)
theory Ledger
  imports Invariants
begin

text \<open>
  What the program never takes back. The audit trail, the timelines of the operations and the approval
  decisions only grow, nonce lanes only advance, and an operation that has ended stays as it ended.
\<close>

subsection \<open>Tables that only grow\<close>

definition extends :: "db \<Rightarrow> db \<Rightarrow> bool" where
  "extends d0 d \<longleftrightarrow> prefix (audit_events d0) (audit_events d) \<and>
     prefix (operation_transitions d0) (operation_transitions d) \<and>
     prefix (approval_decisions d0) (approval_decisions d)"

lemma extends_refl: "extends d d"
  by (simp add: extends_def)

lemma extends_append:
  "extends d0 d \<Longrightarrow> extends d0 (d\<lparr>audit_events := audit_events d @ xs\<rparr>)"
  "extends d0 d \<Longrightarrow> extends d0 (d\<lparr>operation_transitions := operation_transitions d @ ts\<rparr>)"
  "extends d0 d \<Longrightarrow> extends d0 (d\<lparr>approval_decisions := approval_decisions d @ ds\<rparr>)"
  by (simp_all add: extends_def prefix_prefix)

lemma extends_statements:
  "preserves (extends d0) (record_audit_event i)" "preserves (extends d0) (record_operation_transition u f t)"
  "preserves (extends d0) (insert_approval_decision v)" "preserves (extends d0) (reserve_nonce c s n)"
proof -
  have uuid: "preserves (extends d0) fresh_uuid" by (auto simp: preserves_def fresh_uuid_def extends_def)
  show "preserves (extends d0) (record_audit_event i)"
    unfolding record_audit_event_def
    by (intro preserves_intros uuid audit_t.preserves_insert) (simp add: audit_table_def extends_append)
  show "preserves (extends d0) (record_operation_transition u f t)"
    unfolding record_operation_transition_def
    by (intro preserves_intros transition_log_t.preserves_insert) (simp add: transition_log_table_def extends_append)
  show "preserves (extends d0) (insert_approval_decision v)"
    unfolding insert_approval_decision_def
    by (intro preserves_intros uuid approval_decision_t.preserves_insert) (simp add: approval_decision_table_def extends_append)
  show "preserves (extends d0) (reserve_nonce c s n)"
    by (rule keeps_reserve_statement) (simp add: extends_def table_defs)
qed

interpretation extends: chain_side_tables "extends d0" for d0
  by unfold_locales
    (fact extends_statements | (simp add: extends_def table_defs preserves_def fresh_uuid_def)[1] | (auto simp: extends_def preserves_def fresh_uuid_def)[1])+

interpretation extends: operation_side_tables "extends d0" for d0
  by unfold_locales (fact extends_statements | (simp add: extends_def table_defs)[1])+

interpretation extends: statement_predicate "extends d0" for d0
  by unfold_locales

lemma steps_extend: "db_steps env d d' \<Longrightarrow> extends d d'"
  by (rule extends.steps_keep [OF _ extends_refl])

subsection \<open>Nonce lanes\<close>

definition lane_at :: "int \<Rightarrow> string \<Rightarrow> signer_nonce_row \<Rightarrow> bool" where
  "lane_at chain_id signer r \<longleftrightarrow> sn_chain_id r = chain_id \<and> sn_signer_address r = to_lower signer"

text \<open>Every nonce below \<open>n\<close> of the lane has been given out, or was used before the lane began.\<close>

definition lane_past :: "int \<Rightarrow> string \<Rightarrow> int \<Rightarrow> db \<Rightarrow> bool" where
  "lane_past chain_id signer n d \<longleftrightarrow> (\<exists>r \<in> set (signer_nonces d). lane_at chain_id signer r) \<and>
     (\<forall>r \<in> set (signer_nonces d). lane_at chain_id signer r \<longrightarrow> n \<le> sn_next_nonce r)"

lemma lane_at_update [simp]: "lane_at c s (r\<lparr>sn_next_nonce := x, sn_updated_at := y\<rparr>) = lane_at c s r"
  by (simp add: lane_at_def)

lemma reserve_nonce_Inr:
  assumes "reserve_nonce c s n d = Inr (k, d')"
  shows "\<exists>rows row at. (rows = signer_nonces d \<and> (\<exists>r \<in> set rows. lane_at c s r) \<or>
      (\<forall>r \<in> set (signer_nonces d). \<not> lane_at c s r) \<and> (\<exists>new. rows = signer_nonces d @ [new] \<and> lane_at c s new \<and> sn_next_nonce new = n)) \<and>
    row \<in> set rows \<and> lane_at c s row \<and> n \<le> sn_next_nonce row \<and> k = sn_next_nonce row \<and>
    signer_nonces d' = update_where (lane_at c s) (\<lambda>r. r\<lparr>sn_next_nonce := k + 1, sn_updated_at := at\<rparr>) rows"
proof -
  let ?new = "\<lparr>sn_chain_id = c, sn_signer_address = to_lower s, sn_next_nonce = n, sn_updated_at = db_now d\<rparr>"
  have lane: "(\<lambda>r. sn_chain_id r = c \<and> sn_signer_address r = to_lower s) = lane_at c s"
    by (simp add: fun_eq_iff lane_at_def)
  have same: "same_lane r ?new = lane_at c s r" for r by (simp add: same_lane_def lane_at_def)
  from assms obtain u d1 row where new: "insert_on_conflict_do_nothing signer_nonce_table same_lane ?new d = Inr (u, d1)"
    and row: "select_first (lane_at c s) (signer_nonces d1) = Some row" "n \<le> sn_next_nonce row" "k = sn_next_nonce row"
    and d': "signer_nonces d' = update_where (lane_at c s)
      (\<lambda>r. r\<lparr>sn_next_nonce := k + 1, sn_updated_at := pg_of_date (app_now d1)\<rparr>) (signer_nonces d1)"
    unfolding reserve_nonce_def Let_def lane
    by (auto simp: tx_simps signer_nonce_table_def split: option.splits if_splits)
  have "signer_nonces d1 = signer_nonces d \<and> (\<exists>r \<in> set (signer_nonces d). lane_at c s r) \<or>
      (\<forall>r \<in> set (signer_nonces d). \<not> lane_at c s r) \<and> signer_nonces d1 = signer_nonces d @ [?new]"
    using new unfolding insert_on_conflict_do_nothing_def
    by (auto simp: tx_simps signer_nonce_table_def same list_ex_iff split: if_splits)
  then have "signer_nonces d1 = signer_nonces d \<and> (\<exists>r \<in> set (signer_nonces d1). lane_at c s r) \<or>
      (\<forall>r \<in> set (signer_nonces d). \<not> lane_at c s r) \<and> (\<exists>new. signer_nonces d1 = signer_nonces d @ [new] \<and> lane_at c s new \<and> sn_next_nonce new = n)"
    by (rule disj_forward) (simp, simp add: lane_at_def)
  with row d' select_first_Some [OF row(1)] show ?thesis by blast
qed

lemma reserve_nonce_facts:
  assumes "reserve_nonce c s n d = Inr (k, d')"
  shows "lane_past c s (k + 1) d'" and "n \<le> k" and "lane_past c s m d \<Longrightarrow> m \<le> k"
    and "lane_past c' s' m d \<Longrightarrow> lane_past c' s' m d'"
proof -
  from reserve_nonce_Inr [OF assms] obtain rows row at where
    rows: "rows = signer_nonces d \<and> (\<exists>r \<in> set rows. lane_at c s r) \<or>
      (\<forall>r \<in> set (signer_nonces d). \<not> lane_at c s r) \<and> (\<exists>new. rows = signer_nonces d @ [new] \<and> lane_at c s new \<and> sn_next_nonce new = n)"
    and row: "row \<in> set rows" "lane_at c s row" "n \<le> sn_next_nonce row" "k = sn_next_nonce row"
    and d': "signer_nonces d' = update_where (lane_at c s) (\<lambda>r. r\<lparr>sn_next_nonce := k + 1, sn_updated_at := at\<rparr>) rows"
    by blast
  show past: "lane_past c s (k + 1) d'"
    unfolding lane_past_def d' set_update_where using row(1,2)
    by (intro conjI ballI impI bexI [OF _ imageI [OF row(1)]]) auto
  show "n \<le> k" using row by simp
  show mine: "m \<le> k" if "lane_past c s m d"
    using that rows row by (auto simp: lane_past_def)
  have sub: "set (signer_nonces d) \<subseteq> set rows" using rows by auto
  show "lane_past c' s' m d'" if p: "lane_past c' s' m d"
  proof (cases "c' = c \<and> to_lower s' = to_lower s")
    case True
    then have "lane_at c' s' = lane_at c s" by (simp add: lane_at_def fun_eq_iff)
    with p past mine show ?thesis by (auto simp: lane_past_def)
  next
    case False
    then have other: "lane_at c' s' r \<Longrightarrow> \<not> lane_at c s r" for r by (auto simp: lane_at_def)
    have "lane_at c' s' r \<Longrightarrow> r \<in> set rows \<Longrightarrow> r \<in> set (signer_nonces d)" for r
      using rows other by auto
    moreover obtain x where "x \<in> set rows" "lane_at c' s' x" using p sub by (auto simp: lane_past_def)
    moreover have "y \<in> set rows \<and> lane_at c' s' y"
      if "y \<in> set (signer_nonces d')" "lane_at c' s' y" for y
      using that other unfolding d' set_update_where by (auto split: if_splits)
    moreover have "x \<in> set (signer_nonces d')"
      unfolding d' set_update_where using \<open>x \<in> set rows\<close> other [OF \<open>lane_at c' s' x\<close>] by (metis (mono_tags, lifting) image_eqI)
    ultimately show ?thesis using p unfolding lane_past_def by metis
  qed
qed

lemma reserve_nonce_read:
  assumes "reserve_nonce c s n d = Inr (k, d')"
  shows "read_reserved_nonce c s d' = Some (k + 1)"
proof -
  from reserve_nonce_Inr [OF assms] obtain rows row at where row: "row \<in> set rows" "lane_at c s row"
    and d': "signer_nonces d' = update_where (lane_at c s) (\<lambda>r. r\<lparr>sn_next_nonce := k + 1, sn_updated_at := at\<rparr>) rows"
    by blast
  have lane: "(\<lambda>r. sn_chain_id r = c \<and> sn_signer_address r = to_lower s) = lane_at c s"
    by (simp add: fun_eq_iff lane_at_def)
  have all: "lane_at c s x \<Longrightarrow> x \<in> set (signer_nonces d') \<Longrightarrow> sn_next_nonce x = k + 1" for x
    unfolding d' set_update_where by auto
  have "row\<lparr>sn_next_nonce := k + 1, sn_updated_at := at\<rparr> \<in> set (signer_nonces d')"
    unfolding d' set_update_where using row by (intro image_eqI [OF _ row(1)]) simp
  then obtain x where x: "select_first (lane_at c s) (signer_nonces d') = Some x"
    using row(2) by (cases "select_first (lane_at c s) (signer_nonces d')") (auto simp: select_first_None)
  with all select_first_Some [OF x] show ?thesis by (simp add: read_reserved_nonce_def lane)
qed

text \<open>A lane never goes back, in any step of the system.\<close>

lemma lane_statements:
  "preserves (lane_past c s n) (record_audit_event i)" "preserves (lane_past c s n) (reserve_nonce c' s' n')"
proof -
  show "preserves (lane_past c s n) (record_audit_event i)"
    by (rule keeps_audit_statement) (auto simp: lane_past_def audit_table_def preserves_def fresh_uuid_def)
  show "preserves (lane_past c s n) (reserve_nonce c' s' n')"
    by (rule preservesI) (rule reserve_nonce_facts(4))
qed

interpretation lane: chain_side_tables "lane_past c s n" for c s n
  by unfold_locales
    (fact lane_statements | (simp add: lane_past_def table_defs preserves_def fresh_uuid_def)[1] | (auto simp: lane_past_def preserves_def fresh_uuid_def)[1])+

interpretation lane: operation_side_tables "lane_past c s n" for c s n
  by unfold_locales
    ((intro keeps_log_statement keeps_decision_statement)?; auto simp: lane_past_def table_defs preserves_def fresh_uuid_def)+

interpretation lane: statement_predicate "lane_past c s n" for c s n
  by unfold_locales

subsection \<open>An operation becomes ready once\<close>

text \<open>After its first READY no timeline shows READY again.\<close>

definition ready_once :: "operation_state list \<Rightarrow> bool" where
  "ready_once h \<longleftrightarrow> Op_READY \<notin> set (tl (dropWhile (\<lambda>s. s = Op_PENDING_APPROVAL) h))"

definition ready_ok :: "db \<Rightarrow> bool" where
  "ready_ok d \<longleftrightarrow> history_ok d \<and> (\<forall>i. ready_once (history_of i (operation_transitions d)))"

lemma ready_once_append: "ready_once h \<Longrightarrow> s \<noteq> Op_READY \<Longrightarrow> ready_once (h @ [s])"
  unfolding ready_once_def by (induction h) (auto split: if_splits)

lemma ready_once_first: "h = [] \<or> h = [Op_PENDING_APPROVAL] \<Longrightarrow> ready_once (h @ [s])"
  by (auto simp: ready_once_def split: if_splits)

lemma ready_ok_log:
  assumes "ready_ok d" "history_ok d'" "operation_transitions d' = operation_transitions d @ [t]"
    and "ot_to_state t \<noteq> Op_READY \<or> history_of (ot_operation_id t) (operation_transitions d) \<in> {[], [Op_PENDING_APPROVAL]}"
  shows "ready_ok d'"
  using assms by (auto simp: ready_ok_def history_of_append intro: ready_once_append ready_once_first)

lemma ready_once_count: "ready_once h \<Longrightarrow> count_list h Op_READY \<le> 1"
proof -
  assume "ready_once h"
  have "count_list h Op_READY = count_list (dropWhile (\<lambda>s. s = Op_PENDING_APPROVAL) h) Op_READY"
    by (induction h) auto
  also have "\<dots> \<le> 1"
    using \<open>ready_once h\<close> unfolding ready_once_def
    by (cases "dropWhile (\<lambda>s. s = Op_PENDING_APPROVAL) h") (auto simp: count_list_0_iff simp del: dropWhile_eq_Nil_conv)
  finally show ?thesis .
qed

text \<open>PENDING_APPROVAL is only ever the first state.\<close>

lemma pending_path: "operation_machine.path (s # ss) \<Longrightarrow> last (s # ss) = Op_PENDING_APPROVAL \<Longrightarrow> ss = []"
proof (induction ss arbitrary: s)
  case (Cons t ss)
  then have "ss = []" "t \<in> set (allowed_operation_transitions s)" by auto
  with Cons.prems show ?case by (cases s) auto
qed simp

lemma pending_history:
  assumes "history_ok d" "r \<in> set (operations d)" "op_state r = Op_PENDING_APPROVAL"
  shows "history_of (op_id r) (operation_transitions d) = [Op_PENDING_APPROVAL]"
proof -
  from assms obtain ss where ss: "history_of (op_id r) (operation_transitions d) = initial_state_of (op_type r) # ss"
      "operation_machine.path (initial_state_of (op_type r) # ss)"
      "last (initial_state_of (op_type r) # ss) = Op_PENDING_APPROVAL"
    by (auto simp: history_ok_def timeline_ok_def)
  from pending_path [OF ss(2,3)] ss(1,3) show ?thesis by simp
qed

lemma ready_transition:
  assumes "to_s \<noteq> Op_READY \<or> op_state operation = Op_PENDING_APPROVAL"
  shows "preserves ready_ok (transition_operation operation to_s patch)"
proof (rule preservesI)
  fix d row d'
  assume ok: "ready_ok d" and tr: "transition_operation operation to_s patch d = Inr (row, d')"
  from ok have h: "history_ok d" by (simp add: ready_ok_def)
  from transition_operation_row [OF tr] obtain r where r: "r \<in> set (operations d)" "op_id r = op_id operation"
      "op_state r = op_state operation" by blast
  from tr obtain t where "operation_transitions d' = operation_transitions d @ [t]" "ot_operation_id t = op_id operation"
      "ot_to_state t = to_s"
    unfolding transition_operation_Inr by auto
  moreover have "history_of (op_id operation) (operation_transitions d) = [Op_PENDING_APPROVAL]" if "to_s = Op_READY"
    using pending_history [OF h r(1)] r assms that by simp
  ultimately show "ready_ok d'"
    using preservesD [OF transition_operation_history tr h] by (intro ready_ok_log [OF ok]) auto
qed

lemma ready_administrative:
  assumes "ai_type input \<noteq> MINT"
  shows "preserves ready_ok (insert_administrative_operation input)"
proof (rule preservesI)
  fix d row d'
  assume ok: "ready_ok d" and run: "insert_administrative_operation input d = Inr (row, d')"
  from ok have h: "history_ok d" by (simp add: ready_ok_def)
  from run obtain t where t: "operation_transitions d' = operation_transitions d @ [t]" "ot_operation_id t = op_id row"
    and ops: "operations d' = operations d @ [row]" and tb: "table_ok operation_rules (operations d @ [row])"
    by (auto simp: insert_administrative_operation_def insert_operation_def tx_simps fresh_uuid_def
        record_operation_transition_Inr operation_table_def)
  have "op_id r \<noteq> op_id row" if "r \<in> set (operations d)" for r
    using operation_rules_new [OF tb that] .
  then have "history_of (op_id row) (operation_transitions d) = []"
    using h by (force simp: history_ok_def history_of_def filter_empty_conv)
  with t show "ready_ok d'"
    by (intro ready_ok_log [OF ok preservesD [OF insert_administrative_operation_history [OF assms] run h] t(1)]) auto
qed

text \<open>The other tables do not matter.\<close>

lemma ready_statements:
  "preserves ready_ok (record_audit_event i)" "preserves ready_ok (reserve_nonce c s n)"
  by (intro keeps_audit_statement keeps_reserve_statement;
      auto simp: ready_ok_def history_ok_def table_defs preserves_def fresh_uuid_def)+

interpretation ready: chain_side_tables ready_ok
  by unfold_locales
    (fact ready_statements |
     (auto simp: ready_ok_def history_ok_def table_defs preserves_def fresh_uuid_def)[1])+

lemma ready_approvals:
  "preserves ready_ok (insert_approval_request i)" "preserves ready_ok (close_approval_request j s)"
  "preserves ready_ok (insert_approval_decision v)"
  unfolding insert_approval_request_def close_approval_request_def insert_approval_decision_def
  by (intro preserves_intros ready.uuid approval_request_t.preserves_frame approval_decision_t.preserves_frame;
      simp add: ready_ok_def history_ok_def table_defs)+

lemmas ready_intros = preserves_intros ready.chain_side_intros ready_approvals

lemma ready_claim: "preserves ready_ok (claim_ready_operation i w)"
  unfolding claim_ready_operation_def lock_operation_def by (intro preserves_intros ready_transition) simp

lemma ready_mint_work: "preserves ready_ok (mint_work sha ctx asset wallet cd amount)"
proof (rule preservesI)
  fix d res d'
  assume ok: "ready_ok d" and run: "mint_work sha ctx asset wallet cd amount d = Inr (res, d')"
  then have h: "history_ok d'" by (auto simp: ready_ok_def intro: preservesD [OF mint_work_history])
  from run obtain t where "operation_transitions d' = operation_transitions d @ [t]" "ot_to_state t = Op_PENDING_APPROVAL"
    by (auto simp: mint_work_def Let_def tx_simps fresh_uuid_def insert_operation_def record_operation_transition_Inr
        insert_approval_request_def record_audit_event_def table_defs)
  with ready_ok_log [OF ok h] show "ready_ok d'" by simp
qed

lemma ready_outcome:
  "op_state operation = Op_PENDING_APPROVAL \<Longrightarrow> preserves ready_ok (apply_outcome ctx q operation outcome)"
  unfolding apply_outcome_def by (cases outcome) (simp_all, (intro ready_intros ready_transition; simp)+)

lemma ready_decision: "preserves ready_ok (record_decision_tx sha ctx input)"
proof -
  have tally: "preserves ready_ok (record_and_tally ctx input q operation)"
    if "op_state operation = Op_PENDING_APPROVAL" for q operation
    unfolding record_and_tally_def insert_decision_or_explain_def
    by (intro ready_intros ready_outcome that)
  show ?thesis
    unfolding record_decision_tx_def supersede_changed_request_def lock_approval_request_def lock_operation_def Let_def
    by (intro preserves_bind preserves_read preserves_option preserves_if_cond)
      (simp_all, (intro ready_intros tally; assumption?)+)
qed

interpretation ready_flow: workflow_invariant ready_ok
  by unfold_locales
    (auto intro: ready_transition ready_claim ready_administrative ready_mint_work ready_decision
      simp: ready_ok_def history_ok_def empty_db_def table_ok_def operation_rules_def ready_once_def history_of_def)

subsection \<open>What follows for the program\<close>

text \<open>
  C23: the audit trail, the timelines of the operations and the approval decisions are append-only.
  Whatever the program does next, every row they hold stays, unchanged and in its place.
\<close>

theorem ledgers_only_grow:
  assumes "db_steps env d d'"
  shows "prefix (audit_events d) (audit_events d') \<and> prefix (operation_transitions d) (operation_transitions d') \<and>
    prefix (approval_decisions d) (approval_decisions d')"
  using steps_extend [OF assms] by (simp add: extends_def)

lemma history_prefix: "prefix ts ts' \<Longrightarrow> prefix (history_of i ts) (history_of i ts')"
  by (auto simp: prefix_def history_of_def)

lemma terminal_last:
  assumes "operation_machine.path (h @ ss)" "h \<noteq> []" "last h \<in> set terminal_operation_states"
  shows "ss = []"
proof -
  from assms(1,2) have "operation_machine.path (last h # ss)"
  proof (induction h)
    case (Cons a h)
    then show ?case by (cases h) (auto dest: operation_machine.path_Cons_D)
  qed simp
  with assms(3) show ?thesis using operation_machine.terminal_absorbing by blast
qed

lemma ended_operations_facts:
  assumes "reachable env d" and "db_steps env d d'"
    and "r \<in> set (operations d)" and "op_state r \<in> set terminal_operation_states"
  shows "\<exists>r' \<in> set (operations d'). op_id r' = op_id r \<and> op_state r' = op_state r \<and>
    history_of (op_id r) (operation_transitions d') = history_of (op_id r) (operation_transitions d)"
proof -
  let ?h = "history_of (op_id r) (operation_transitions d)" and ?h' = "history_of (op_id r) (operation_transitions d')"
  have ok: "history_ok d" "history_ok d'"
    using assms(1,2) by (auto intro: history_flow.reachable_keeps reachable_steps)
  from ok(1) assms(3) obtain ss where h: "?h = initial_state_of (op_type r) # ss" "last ?h = op_state r"
    by (auto simp: history_ok_def timeline_ok_def)
  obtain xs where h': "?h' = ?h @ xs"
    using history_prefix [of "operation_transitions d" "operation_transitions d'" "op_id r"] steps_extend [OF assms(2)]
    by (auto simp: extends_def prefix_def)
  then have "?h' \<noteq> []" using h(1) by simp
  then obtain t where "t \<in> set (operation_transitions d')" "ot_operation_id t = op_id r"
    by (auto simp: history_of_def filter_empty_conv)
  with ok(2) obtain r' where r': "r' \<in> set (operations d')" "op_id r' = op_id r" by (auto simp: history_ok_def)
  from ok(2) r'(1) have "timeline_ok (operation_transitions d') r'" by (simp add: history_ok_def)
  then have path: "operation_machine.path ?h'" "last ?h' = op_state r'" using r'(2) by (auto simp: timeline_ok_def)
  have "xs = []" using terminal_last [of ?h xs] path(1) h h' assms(4) by auto
  then have "?h' = ?h" using h' by simp
  with r' path(2) h(2) show ?thesis by auto
qed

text \<open>
  C21: an operation that has ended stays as it ended. Once a reachable state has it SUCCEEDED, REVERTED,
  FAILED or CANCELLED, every later state has it in the same state with the same timeline.
\<close>

theorem ended_operations_stay:
  assumes "reachable env d" and "db_steps env d d'"
    and "r \<in> set (operations d)" and "op_state r \<in> set terminal_operation_states"
  shows "\<exists>r' \<in> set (operations d'). op_id r' = op_id r \<and> op_state r' = op_state r \<and>
    history_of (op_id r) (operation_transitions d') = history_of (op_id r) (operation_transitions d)"
  by (rule ended_operations_facts [OF assms])

text \<open>A state whose only way in is from \<open>p\<close> occurs at most as often as \<open>p\<close>.\<close>

lemma count_after:
  assumes "operation_machine.path (s # ss)" "\<And>a. m \<in> set (allowed_operation_transitions a) \<Longrightarrow> a = p"
  shows "count_list ss m \<le> count_list (s # ss) p"
  using assms(1)
proof (induction ss arbitrary: s)
  case (Cons t ss)
  then have "count_list ss m \<le> count_list (t # ss) p" "t \<in> set (allowed_operation_transitions s)" by auto
  moreover from this(2) assms(2) have "t = m \<Longrightarrow> s = p" by blast
  moreover have "count_list (t # ss) m = (if t = m then 1 else 0) + count_list ss m"
    "count_list (s # t # ss) p = (if s = p then 1 else 0) + count_list (t # ss) p" by simp_all
  ultimately show ?case by - (cases "t = m"; cases "s = p"; simp del: count_list.simps)
qed simp

lemma executed_once_facts:
  assumes "reachable env d" and "r \<in> set (operations d)"
  shows "count_list (history_of (op_id r) (operation_transitions d)) Op_READY \<le> 1 \<and>
    count_list (history_of (op_id r) (operation_transitions d)) Op_PREPARING \<le> 1 \<and>
    count_list (history_of (op_id r) (operation_transitions d)) Op_SIGNING \<le> 1 \<and>
    count_list (history_of (op_id r) (operation_transitions d)) Op_SIGNED \<le> 1"
proof -
  let ?h = "history_of (op_id r) (operation_transitions d)"
  from reachable_history_facts(1) [OF assms] obtain s ss where h: "?h = s # ss" and path: "operation_machine.path (s # ss)"
      and s: "s \<in> {Op_PENDING_APPROVAL, Op_READY}" by (auto simp: initial_state_of_def)
  have "ready_once (s # ss)" using ready_flow.reachable_keeps [OF assms(1)] h by (metis ready_ok_def)
  then have ready: "count_list (s # ss) Op_READY \<le> 1" by (rule ready_once_count)
  note after = count_after [OF path]
  have only: "Op_PREPARING \<in> set (allowed_operation_transitions a) \<Longrightarrow> a = Op_READY"
    "Op_SIGNING \<in> set (allowed_operation_transitions a) \<Longrightarrow> a = Op_PREPARING"
    "Op_SIGNED \<in> set (allowed_operation_transitions a) \<Longrightarrow> a = Op_SIGNING" for a
    by (cases a; simp)+
  have "count_list (s # ss) Op_PREPARING \<le> 1" using after [of Op_PREPARING Op_READY] only(1) ready s by auto
  moreover from this have "count_list (s # ss) Op_SIGNING \<le> 1" using after [of Op_SIGNING Op_PREPARING] only(2) s by auto
  moreover from this have "count_list (s # ss) Op_SIGNED \<le> 1" using after [of Op_SIGNED Op_SIGNING] only(3) s by auto
  ultimately show ?thesis using ready h by simp
qed

text \<open>
  C13: an operation is executed at most once. Its timeline shows READY once at most, so a worker takes
  it at most once whatever duplicates the queue delivers, and it is prepared, sent for signing and
  signed at most once. The machine allows a way back from PREPARING to READY, for a worker that releases its
  claim, but no program takes it: a worker that stops while preparing leaves the operation where it is.
\<close>

theorem executed_at_most_once:
  assumes "reachable env d" and "r \<in> set (operations d)"
  shows "count_list (history_of (op_id r) (operation_transitions d)) Op_READY \<le> 1 \<and>
    count_list (history_of (op_id r) (operation_transitions d)) Op_PREPARING \<le> 1 \<and>
    count_list (history_of (op_id r) (operation_transitions d)) Op_SIGNING \<le> 1 \<and>
    count_list (history_of (op_id r) (operation_transitions d)) Op_SIGNED \<le> 1"
  by (rule executed_once_facts [OF assms])

text \<open>
  C14: no nonce of a signer lane is ever given out twice. After one reservation of a lane, any number of
  steps of the system later, the next one is strictly greater; it is never below what the chain has
  already counted, and the lane points just behind it.
\<close>

theorem nonce_never_reused:
  assumes "reserve_nonce c s n d1 = Inr (k, d2)" and "db_steps env d2 d3"
    and "reserve_nonce c s' n' d3 = Inr (k', d4)" and "to_lower s' = to_lower s"
  shows "k < k' \<and> n \<le> k \<and> n' \<le> k' \<and> read_reserved_nonce c s d4 = Some (k' + 1)"
proof -
  have same: "lane_past c s = lane_past c s'" using assms(4) by (simp add: fun_eq_iff lane_past_def lane_at_def)
  have "lane_past c s (k + 1) d3"
    by (rule lane.steps_keep [OF assms(2) reserve_nonce_facts(1) [OF assms(1)]])
  then have "k + 1 \<le> k'" using reserve_nonce_facts(3) [OF assms(3)] same by simp
  moreover have "read_reserved_nonce c s d4 = Some (k' + 1)"
    using reserve_nonce_read [OF assms(3)] assms(4) by (simp add: read_reserved_nonce_def)
  ultimately show ?thesis using reserve_nonce_facts(2) [OF assms(1)] reserve_nonce_facts(2) [OF assms(3)] by simp
qed

end
