(* ===== verification/Delivery.thy ===== *)
theory Delivery
  imports Maintenance
begin

text \<open>
  Requests and messages are handled once. A request repeated under its idempotency key gets the stored
  answer of the first one; an outbox row belongs to one dispatcher while its lease runs, and reaches
  the queue when the queue accepts it.
\<close>

subsection \<open>Idempotency keys\<close>

definition identity_of :: "idempotency_identity \<Rightarrow> idempotency_row \<Rightarrow> bool" where
  "identity_of identity r \<longleftrightarrow> ik_scope r = ii_scope identity \<and> ik_organization_id r = ii_organization_id identity \<and>
     ik_actor_id r = ii_actor_id identity \<and> ik_idempotency_key r = ii_idempotency_key identity"

lemma find_idempotency_identity:
  "find_idempotency_record identity d = find (identity_of identity) (idempotency_keys d)"
  by (simp add: find_idempotency_record_def select_first_def identity_of_def [abs_def])

lemma find_update_where:
  "find P xs = Some x \<Longrightarrow> (\<And>y. P (f y) = P y) \<Longrightarrow> find P (update_where q f xs) = Some (if q x then f x else x)"
  by (induction xs) (auto simp: update_where_def split: if_splits)

text \<open>The claim: the winner finds its new row under the key, every other request the row that is there.\<close>

lemma claim_key_facts:
  assumes "claim_idempotency_key identity h d = Inr ((claimed, rec), d')"
  shows "find_idempotency_record identity d' = Some rec"
    and "claimed \<Longrightarrow> find_idempotency_record identity d = None \<and> ik_request_hash rec = h \<and> ik_status rec = Ik_IN_PROGRESS"
    and "\<not> claimed \<Longrightarrow> find_idempotency_record identity d = Some rec \<and> d' = d\<lparr>uuid_next := uuid_next d'\<rparr>"
proof -
  define new where "new = \<lparr>ik_id = uuid_source d (uuid_next d), ik_scope = ii_scope identity,
      ik_organization_id = ii_organization_id identity, ik_actor_id = ii_actor_id identity,
      ik_idempotency_key = ii_idempotency_key identity, ik_request_hash = h, ik_status = Ik_IN_PROGRESS,
      ik_response_status = None, ik_response_body = None, ik_resource_type = None, ik_resource_id = None,
      ik_created_at = db_now d, ik_completed_at = None\<rparr>"
  have new: "identity_of identity new" "ik_request_hash new = h" "ik_status new = Ik_IN_PROGRESS"
    by (simp_all add: new_def identity_of_def)
  have same: "same_idempotency_scope r new = identity_of identity r" for r
    by (simp add: same_idempotency_scope_def identity_of_def new_def)
  have none: "find (identity_of identity) rows = None \<longleftrightarrow> \<not> list_ex (identity_of identity) rows" for rows
    by (auto simp: find_None_iff list_ex_iff)
  have "(if list_ex (identity_of identity) (idempotency_keys d)
      then \<not> claimed \<and> find_idempotency_record identity d = Some rec \<and> d' = d\<lparr>uuid_next := Suc (uuid_next d)\<rparr>
      else claimed \<and> rec = new \<and> idempotency_keys d' = idempotency_keys d @ [new])"
    using assms
    unfolding claim_idempotency_key_def insert_on_conflict_do_nothing_def
    by (auto simp: tx_simps fresh_uuid_def same new_def [symmetric] idempotency_table_def find_idempotency_record_def
        split: if_splits option.splits)
  then show "find_idempotency_record identity d' = Some rec"
    and "claimed \<Longrightarrow> find_idempotency_record identity d = None \<and> ik_request_hash rec = h \<and> ik_status rec = Ik_IN_PROGRESS"
    and "\<not> claimed \<Longrightarrow> find_idempotency_record identity d = Some rec \<and> d' = d\<lparr>uuid_next := uuid_next d'\<rparr>"
    using new by (auto simp: find_idempotency_identity find_append none [symmetric] split: if_splits)
qed

lemma claim_key_taken:
  assumes "find_idempotency_record identity d = Some rec"
  shows "\<exists>n. claim_idempotency_key identity h d = Inr ((False, rec), d\<lparr>uuid_next := n\<rparr>)"
proof -
  from assms have "rec \<in> set (idempotency_keys d)" "identity_of identity rec"
    by (auto simp: find_idempotency_identity find_Some_iff)
  with assms show ?thesis
    by (auto simp: claim_idempotency_key_def fresh_uuid_def insert_on_conflict_do_nothing_def tx_run idempotency_table_def
        list_ex_iff same_idempotency_scope_def identity_of_def find_idempotency_record_def select_first_def)
qed

lemma io_catch_Inr:
  "io_catch m h s = (Inr a, s') \<longleftrightarrow> m s = (Inr a, s') \<or> (\<exists>e s1. m s = (Inl e, s1) \<and> h e s1 = (Inr a, s'))"
  by (auto simp: io_catch_def split: prod.splits sum.splits)

lemma find_at_step:
  assumes "\<And>n d. find_idempotency_record identity (sys_others s n d) = find_idempotency_record identity d"
  shows "find_idempotency_record identity (db_at_step s) = find_idempotency_record identity (sys_db s)"
  using assms [of "sys_step s" "sys_db s"] by (simp add: db_at_step_def find_idempotency_record_def)

lemma complete_key_find:
  assumes "complete_idempotency_key i result d = Inr (u, d')" "find_idempotency_record identity d = Some rec" "ik_id rec = i"
  shows "\<exists>rec'. find_idempotency_record identity d' = Some rec' \<and> ik_request_hash rec' = ik_request_hash rec \<and>
    ik_status rec' = Ik_COMPLETED \<and> ik_response_status rec' = Some (ir_status result) \<and>
    ik_response_body rec' = Some (ir_body result) \<and> ik_resource_type rec' = Some (ir_resource_type result) \<and>
    ik_resource_id rec' = Some (ir_resource_id result)"
proof -
  from assms(1) obtain f where d': "idempotency_keys d' = update_where (\<lambda>r. ik_id r = i) f (idempotency_keys d)"
    and f: "f = (\<lambda>r. r\<lparr>ik_status := Ik_COMPLETED, ik_response_status := Some (ir_status result),
      ik_response_body := Some (ir_body result), ik_resource_type := Some (ir_resource_type result),
      ik_resource_id := Some (ir_resource_id result), ik_completed_at := Some (pg_of_date (app_now d))\<rparr>)"
    by (auto simp: complete_idempotency_key_def tx_simps idempotency_table_def)
  have "identity_of identity (f r) = identity_of identity r" for r by (simp add: f identity_of_def)
  from find_update_where [where f = f, OF assms(2) [unfolded find_idempotency_identity] this] assms(3)
  show ?thesis by (simp add: find_idempotency_identity d' f)
qed

text \<open>After a request that answered, its key holds the answer.\<close>

lemma answer_stored:
  assumes others: "\<And>n d. find_idempotency_record identity (sys_others s n d) = find_idempotency_record identity d"
    and work: "\<And>d r d'. work d = Inr (r, d') \<Longrightarrow> idempotency_keys d' = idempotency_keys d"
    and run: "execute_idempotent sha identity request work s = (Inr out, s')"
  shows "\<exists>rec. find_idempotency_record identity (sys_db s') = Some rec \<and> ik_request_hash rec = canonical_hash sha request \<and>
    replay_outcome (ii_idempotency_key identity) (canonical_hash sha request) rec = Inr (out\<lparr>io_replayed := True\<rparr>)"
    and "sys_others s' = sys_others s"
proof -
  let ?h = "canonical_hash sha request"
  from run obtain claimed rec d1 s1 where claim: "claim_idempotency_key identity ?h (db_at_step s) = Inr ((claimed, rec), d1)"
    and s1: "s1 = s\<lparr>sys_db := d1, sys_step := Suc (sys_step s)\<rparr>"
    and rest: "(if \<not> claimed then io_lift (replay_outcome (ii_idempotency_key identity) ?h rec)
         else io_catch
           (io_bind (run_tx (idempotent_work (ik_id rec) work)) (\<lambda>result. io_ret (fresh_outcome result)))
           (\<lambda>e. io_then (io_catch (run_tx (release_idempotency_key (ik_id rec))) (\<lambda>_. io_ret ()))
                (io_throw e))) s1 = (Inr out, s')"
    unfolding execute_idempotent_def Let_def by (auto simp: io_simps run_tx_Inr split: prod.splits)
  have found: "find_idempotency_record identity (sys_db s1) = Some rec" using claim_key_facts(1) [OF claim] by (simp add: s1)
  have "(\<exists>rec. find_idempotency_record identity (sys_db s') = Some rec \<and> ik_request_hash rec = ?h \<and>
      replay_outcome (ii_idempotency_key identity) ?h rec = Inr (out\<lparr>io_replayed := True\<rparr>)) \<and> sys_others s' = sys_others s"
  proof (cases claimed)
    case False
    with rest have "replay_outcome (ii_idempotency_key identity) ?h rec = Inr out" "s' = s1" by (auto simp: io_simps)
    with found show ?thesis by (auto simp: s1 replay_outcome_def split: if_splits)
  next
    case True
    have find1: "find_idempotency_record identity (db_at_step s1) = Some rec"
      using find_at_step [of identity s1] others found by (simp add: s1)
    from rest True obtain result d2 d3 where "work (db_at_step s1) = Inr (result, d2)"
        and complete: "complete_idempotency_key (ik_id rec) result d2 = Inr ((), d3)"
        and out: "out = fresh_outcome result" and s': "s' = s1\<lparr>sys_db := d3, sys_step := Suc (sys_step s1)\<rparr>"
      by (auto simp: io_catch_Inr io_simps run_tx_Inr idempotent_work_def tx_simps)
    then have "find_idempotency_record identity d2 = Some rec" using work find1 by (simp add: find_idempotency_record_def)
    from complete_key_find [OF complete this refl] obtain rec' where
      "find_idempotency_record identity d3 = Some rec'" "ik_request_hash rec' = ik_request_hash rec"
      "ik_status rec' = Ik_COMPLETED" "ik_response_status rec' = Some (ir_status result)"
      "ik_response_body rec' = Some (ir_body result)" "ik_resource_type rec' = Some (ir_resource_type result)"
      "ik_resource_id rec' = Some (ir_resource_id result)" by blast
    with claim_key_facts(2) [OF claim True] show ?thesis
      by (intro conjI exI [of _ rec']) (simp_all add: s' s1 out replay_outcome_def fresh_outcome_def)
  qed
  then show "\<exists>rec. find_idempotency_record identity (sys_db s') = Some rec \<and> ik_request_hash rec = ?h \<and>
      replay_outcome (ii_idempotency_key identity) ?h rec = Inr (out\<lparr>io_replayed := True\<rparr>)"
    and "sys_others s' = sys_others s" by simp_all
qed

text \<open>
  C18: a request that was answered is answered the same way again. Under the same key the same payload
  gets the stored answer, marked as replayed, and a different payload gets a conflict; neither
  touches a row of the database or the outside world, whatever work the repeated request carries. Only
  other processes that leave this key alone are assumed.
\<close>

theorem answered_request_replays:
  assumes others: "\<And>n d. find_idempotency_record identity (sys_others s n d) = find_idempotency_record identity d"
    and work: "\<And>d r d'. work d = Inr (r, d') \<Longrightarrow> idempotency_keys d' = idempotency_keys d"
    and first: "execute_idempotent sha identity request work s = (Inr out, s')"
  shows "\<exists>n. execute_idempotent sha identity again work' s' =
    (if canonical_hash sha again = canonical_hash sha request then Inr (out\<lparr>io_replayed := True\<rparr>)
     else Inl (app_error IDEMPOTENCY_CONFLICT ''idempotency key was already used with a different request payload''
       [(''idempotencyKey'', JStr (ii_idempotency_key identity))]),
     s'\<lparr>sys_db := (db_at_step s')\<lparr>uuid_next := n\<rparr>, sys_step := Suc (sys_step s')\<rparr>)"
proof -
  note stored = answer_stored [where identity = identity and s = s and work = work and sha = sha and request = request
      and out = out and s' = s']
  have "\<exists>rec. find_idempotency_record identity (sys_db s') = Some rec \<and> ik_request_hash rec = canonical_hash sha request \<and>
    replay_outcome (ii_idempotency_key identity) (canonical_hash sha request) rec = Inr (out\<lparr>io_replayed := True\<rparr>)"
    by (rule stored(1)) (fact others work first)+
  moreover have "sys_others s' = sys_others s" by (rule stored(2)) (fact others work first)+
  ultimately obtain rec where
    rec: "find_idempotency_record identity (sys_db s') = Some rec" "ik_request_hash rec = canonical_hash sha request"
    and replay: "replay_outcome (ii_idempotency_key identity) (canonical_hash sha request) rec = Inr (out\<lparr>io_replayed := True\<rparr>)"
    and "sys_others s' = sys_others s" by blast
  then have "find_idempotency_record identity (db_at_step s') = Some rec" using find_at_step [of identity s'] others by simp
  from claim_key_taken [OF this, of "canonical_hash sha again"] obtain n where
    "claim_idempotency_key identity (canonical_hash sha again) (db_at_step s') =
      Inr ((False, rec), (db_at_step s')\<lparr>uuid_next := n\<rparr>)" by blast
  with rec replay show ?thesis
    by (intro exI [of _ n]) (auto simp: execute_idempotent_def Let_def io_run run_tx_def replay_outcome_def split: if_splits)
qed

subsection \<open>Leases on outbox rows\<close>

lemma outbox_ids_distinct:
  assumes "table_ok outbox_rules rows"
  shows "distinct (map ob_id rows)"
proof -
  from assms have "i < j \<Longrightarrow> j < length rows \<Longrightarrow> ob_id (rows ! i) \<noteq> ob_id (rows ! j)" for i j
    by (auto simp: outbox_rules_def table_ok_def sorted_wrt_iff_nth_less)
  then show ?thesis by (force simp: distinct_conv_nth nat_neq_iff)
qed

lemma outbox_ids:
  "table_ok outbox_rules rows \<Longrightarrow> r \<in> set rows \<Longrightarrow> r' \<in> set rows \<Longrightarrow> ob_id r = ob_id r' \<Longrightarrow> r = r'"
  by (drule outbox_ids_distinct) (auto simp: distinct_map dest: inj_onD)

lemma candidates_set:
  "i \<in> set (claim_candidates n t d) \<Longrightarrow>
   \<exists>r \<in> set (outbox d). ob_id r = i \<and> outbox_due (case t of None \<Rightarrow> db_now d | Some t \<Rightarrow> pg_of_date t) (db_now d) r"
  by (auto simp: claim_candidates_def Let_def order_by_def dest!: in_set_takeD)

lemma claim_outbox_row_keeps [simp]:
  "ob_id (claim_outbox_row tok e r) = ob_id r" "ob_topic (claim_outbox_row tok e r) = ob_topic r"
  "ob_payload (claim_outbox_row tok e r) = ob_payload r" "ob_correlation_id (claim_outbox_row tok e r) = ob_correlation_id r"
  "ob_status (claim_outbox_row tok e r) = Ob_CLAIMED" "ob_claim_token (claim_outbox_row tok e r) = Some tok"
  "ob_claim_expires_at (claim_outbox_row tok e r) = Some e"
  by (simp_all add: claim_outbox_row_def)

lemma claim_candidates_uuid [simp]: "claim_candidates n t (d\<lparr>uuid_next := k\<rparr>) = claim_candidates n t d"
  by (cases t) (simp_all add: claim_candidates_def)

lemma claim_outbox_Inr:
  assumes "claim_pending_outbox n lease t d = Inr ((tok, rows), d')"
  defines "e \<equiv> db_now d + (case lease of None \<Rightarrow> DEFAULT_CLAIM_LEASE_MS | Some ms \<Rightarrow> ms) * 1000"
    and "c \<equiv> claim_candidates n t d"
  shows "rows = map (claim_outbox_row tok e) (filter (\<lambda>r. ob_id r \<in> set c) (outbox d))"
    and "outbox d' = update_where (\<lambda>r. ob_id r \<in> set c) (claim_outbox_row tok e) (outbox d)"
    and "table_ok outbox_rules (outbox d')" and "db_now d' = db_now d"
  using assms(1)
  by (auto simp: claim_pending_outbox_def tx_simps fresh_uuid_def outbox_table_def e_def c_def)

text \<open>
  C19: while a lease runs, its rows belong to one dispatcher. A batch is at most the asked size and takes
  only rows that are due; as long as the claimed rows stay as they are and their lease has not run
  out, no other claim gets any of them.
\<close>

theorem outbox_claims_are_exclusive:
  assumes first: "claim_pending_outbox n lease t d1 = Inr ((tok, rows), d2)"
    and kept: "set rows \<subseteq> set (outbox d3)"
    and running: "db_now d3 < db_now d1 + (case lease of None \<Rightarrow> DEFAULT_CLAIM_LEASE_MS | Some ms \<Rightarrow> ms) * 1000"
    and second: "claim_pending_outbox n' lease' t' d3 = Inr ((tok', rows'), d4)"
  shows "ob_id ` set rows \<inter> ob_id ` set rows' = {} \<and> length rows \<le> n \<and> length rows' \<le> n'"
proof (intro conjI)
  note first = claim_outbox_Inr [OF first] and second = claim_outbox_Inr [OF second]
  have size: "length (filter (\<lambda>r. ob_id r \<in> set (claim_candidates n t d)) (outbox d)) \<le> n"
    if ok: "table_ok outbox_rules (update_where p (claim_outbox_row k e) (outbox d))" for n t d p k e
  proof -
    have "distinct (map ob_id (outbox d))"
      using outbox_ids_distinct [OF ok] by (simp add: map_update_where)
    then have "distinct (map ob_id (filter (\<lambda>r. ob_id r \<in> set (claim_candidates n t d)) (outbox d)))"
      by (simp add: distinct_map_filter)
    then have "length (filter (\<lambda>r. ob_id r \<in> set (claim_candidates n t d)) (outbox d)) =
        card (ob_id ` set (filter (\<lambda>r. ob_id r \<in> set (claim_candidates n t d)) (outbox d)))"
      by (metis distinct_card length_map list.set_map)
    also have "\<dots> \<le> card (set (claim_candidates n t d))" by (intro card_mono) auto
    also have "\<dots> \<le> length (claim_candidates n t d)" by (rule card_length)
    also have "\<dots> \<le> n" by (simp add: claim_candidates_def Let_def)
    finally show ?thesis .
  qed
  show "length rows \<le> n" using size first(2,3) by (simp add: first(1))
  show "length rows' \<le> n'" using size second(2,3) by (simp add: second(1))
  have ids: "distinct (map ob_id (outbox d3))"
    using outbox_ids_distinct [OF second(3)] by (simp add: second(2) map_update_where)
  have "ob_id r \<noteq> ob_id r'" if r: "r \<in> set rows" and r': "r' \<in> set rows'" for r r'
  proof
    assume eq: "ob_id r = ob_id r'"
    from r' obtain q where q: "q \<in> set (outbox d3)" "ob_id q = ob_id r'"
        "outbox_due (case t' of None \<Rightarrow> db_now d3 | Some t \<Rightarrow> pg_of_date t) (db_now d3) q"
      unfolding second(1) by (auto dest: candidates_set)
    have "q = r" using ids q(1) subsetD [OF kept r] q(2) eq
      by (intro inj_onD [where f = ob_id and A = "set (outbox d3)"]) (simp_all add: distinct_map)
    with q(3) r running show False unfolding first(1) by (auto simp: outbox_due_def)
  qed
  then show "ob_id ` set rows \<inter> ob_id ` set rows' = {}" by blast
qed

subsection \<open>Delivery\<close>

lemma outbox_rules_iff:
  "table_ok outbox_rules rows \<longleftrightarrow> distinct (map ob_id rows) \<and>
     (\<forall>r \<in> set rows. (ob_status r = Ob_CLAIMED) = (ob_claim_token r \<noteq> None \<and> ob_claim_expires_at r \<noteq> None))"
proof -
  have "sorted_wrt (\<lambda>r r'. ob_id r \<noteq> ob_id r') rows \<longleftrightarrow> distinct (map ob_id rows)"
    by (induction rows) auto
  then show ?thesis by (auto simp: table_ok_def outbox_rules_def list_all_iff)
qed

lemma outbox_ok_update:
  assumes "table_ok outbox_rules rows" "\<And>r. ob_id (f r) = ob_id r"
    "\<And>r. (ob_status (f r) = Ob_CLAIMED) = (ob_claim_token (f r) \<noteq> None \<and> ob_claim_expires_at (f r) \<noteq> None)"
  shows "table_ok outbox_rules (update_where p f rows)"
  using assms by (auto simp: outbox_rules_iff map_update_where set_update_where)

lemma claimed_length:
  assumes "table_ok outbox_rules (outbox d)"
  shows "length (filter (\<lambda>r. ob_id r \<in> set (claim_candidates n t d)) (outbox d)) = length (claim_candidates n t d)"
proof -
  let ?c = "claim_candidates n t d" and ?rows = "filter (\<lambda>r. ob_id r \<in> set (claim_candidates n t d)) (outbox d)"
  from assms have ids: "distinct (map ob_id (outbox d))" by (rule outbox_ids_distinct)
  let ?due = "filter (outbox_due (case t of None \<Rightarrow> db_now d | Some t \<Rightarrow> pg_of_date t) (db_now d)) (outbox d)"
  have "distinct (map ob_id (order_by ob_available_at (sort_key ob_id ?due)))"
    using ids by (simp add: order_by_def distinct_map inj_on_def)
  then have "distinct (take n (map ob_id (order_by ob_available_at (sort_key ob_id ?due))))"
    by (rule distinct_take)
  then have "distinct ?c" by (simp add: claim_candidates_def Let_def take_map)
  moreover have "distinct (map ob_id ?rows)" using ids by (rule distinct_map_filter)
  moreover have "ob_id ` set ?rows = set ?c" by (auto dest: candidates_set)
  ultimately show ?thesis by (metis distinct_card length_map list.set_map)
qed

text \<open>The job of a row, as the queue receives it.\<close>

definition accepts_jobs :: "'w queue \<Rightarrow> ('w \<Rightarrow> (job_data \<times> string) list) \<Rightarrow> bool" where
  "accepts_jobs queue log \<longleftrightarrow> (\<forall>job i w. \<exists>w'. qu_add queue OPERATION_READY job i w = (Inr (), w') \<and> log w' = log w @ [(job, i)])"

lemma outbox_job_claimed [simp]: "outbox_job (claim_outbox_row tok e r) = outbox_job r"
  by (simp add: outbox_job_def split: option.split json.split)

lemma dispatch_row_accepted:
  assumes "accepts_jobs queue log" "outbox_job r = Inr job"
  shows "\<exists>w'. dispatch_row queue options tok r s = (Inr (Some (ob_id r)), s\<lparr>sys_world := w'\<rparr>) \<and>
    log w' = log (sys_world s) @ [(job, ''outbox-'' @ ob_id r)]"
proof -
  from assms(1) obtain w' where "qu_add queue OPERATION_READY job (''outbox-'' @ ob_id r) (sys_world s) = (Inr (), w')"
    "log w' = log (sys_world s) @ [(job, ''outbox-'' @ ob_id r)]" unfolding accepts_jobs_def by blast
  with assms(2) show ?thesis
    by (intro exI [of _ w']) (simp add: dispatch_row_def publish_def io_run call_world_def)
qed

lemma dispatch_rows_accepted:
  assumes "accepts_jobs queue log" "\<forall>r \<in> set rows. outbox_job r = Inr (job r)"
  shows "\<exists>w'. io_map (dispatch_row queue options tok) rows s = (Inr (map (\<lambda>r. Some (ob_id r)) rows), s\<lparr>sys_world := w'\<rparr>) \<and>
    log w' = log (sys_world s) @ map (\<lambda>r. (job r, ''outbox-'' @ ob_id r)) rows"
  using assms(2)
proof (induction rows arbitrary: s)
  case Nil
  then show ?case by (intro exI [of _ "sys_world s"]) (simp add: io_run)
next
  case (Cons r rows)
  from dispatch_row_accepted [OF assms(1), of r "job r" options tok s] Cons.prems obtain w1 where
    1: "dispatch_row queue options tok r s = (Inr (Some (ob_id r)), s\<lparr>sys_world := w1\<rparr>)"
      "log w1 = log (sys_world s) @ [(job r, ''outbox-'' @ ob_id r)]" by auto
  from Cons.IH [of "s\<lparr>sys_world := w1\<rparr>"] Cons.prems obtain w2 where
    "io_map (dispatch_row queue options tok) rows (s\<lparr>sys_world := w1\<rparr>) =
      (Inr (map (\<lambda>r. Some (ob_id r)) rows), s\<lparr>sys_world := w2\<rparr>)"
    "log w2 = log w1 @ map (\<lambda>r. (job r, ''outbox-'' @ ob_id r)) rows" by auto
  with 1 show ?case by (intro exI [of _ w2]) (simp add: io_run)
qed

lemma dispatched_ids_all: "dispatched_ids (map (\<lambda>r. Some (ob_id r)) rows) = map ob_id rows"
  by (induction rows) (simp_all add: dispatched_ids_def)

text \<open>A row as a successful dispatch leaves it.\<close>

definition delivered_row :: "pg_time \<Rightarrow> outbox_row \<Rightarrow> outbox_row" where
  "delivered_row now r =
     r\<lparr>ob_status := Ob_DISPATCHED, ob_attempts := ob_attempts r + 1, ob_dispatched_at := Some now,
       ob_last_error := None, ob_claim_token := None, ob_claim_expires_at := None\<rparr>"

lemma claim_outbox_run:
  assumes "table_ok outbox_rules (outbox d)"
  shows "\<exists>tok e d'. claim_pending_outbox n None None d =
      Inr ((tok, map (claim_outbox_row tok e) (filter (\<lambda>r. ob_id r \<in> set (claim_candidates n None d)) (outbox d))), d') \<and>
    outbox d' = update_where (\<lambda>r. ob_id r \<in> set (claim_candidates n None d)) (claim_outbox_row tok e) (outbox d)"
proof -
  have "table_ok outbox_rules (update_where p (claim_outbox_row tok e) (outbox d))" for p tok e
    using assms by (rule outbox_ok_update) simp_all
  then show ?thesis
    by (auto simp: claim_pending_outbox_def tx_simps fresh_uuid_def outbox_table_def)
qed

lemma mark_claimed_run:
  assumes "table_ok outbox_rules rows" "outbox d = update_where (\<lambda>r. ob_id r \<in> set ids) (claim_outbox_row tok e) rows"
    "ids \<noteq> []"
  shows "\<exists>d'. mark_outbox_dispatched ids tok d = Inr ((), d') \<and>
    outbox d' = update_where (\<lambda>r. ob_id r \<in> set ids) (delivered_row (db_now d)) rows"
proof -
  let ?f = "\<lambda>r. r\<lparr>ob_status := Ob_DISPATCHED, ob_dispatched_at := Some (db_now d), ob_last_error := None,
    ob_claim_token := None, ob_claim_expires_at := None\<rparr>"
  let ?p = "\<lambda>r. ob_id r \<in> set ids \<and> ob_claim_token r = Some tok"
  have "?f (claim_outbox_row tok e r) = delivered_row (db_now d) r" for r
    by (simp add: claim_outbox_row_def delivered_row_def)
  then have "update_where ?p ?f (outbox d) = update_where (\<lambda>r. ob_id r \<in> set ids) (delivered_row (db_now d)) rows"
    unfolding assms(2) by (simp add: update_where_def)
  moreover have "table_ok outbox_rules \<dots>"
    using assms(1) by (rule outbox_ok_update) (simp_all add: delivered_row_def)
  ultimately show ?thesis using assms(3) by (auto simp: mark_outbox_dispatched_def tx_simps outbox_table_def)
qed

text \<open>
  C20: what is due is delivered. When the queue takes every job and the rows name operations, one
  round of the dispatcher succeeds, hands the queue exactly one job per due row of the batch, under the
  job id made from the row's id, and leaves these rows DISPATCHED and all the others as they were.
\<close>

theorem dispatch_delivers:
  assumes queue: "accepts_jobs queue log"
    and ok: "table_ok outbox_rules (outbox (sys_db s))"
    and others: "\<And>n d. outbox (sys_others s n d) = outbox d"
    and jobs: "\<And>r. r \<in> set (outbox (sys_db s)) \<Longrightarrow> outbox_job r = Inr (job r)"
    and ids: "ids = claim_candidates (do_batch_size options) None (db_at_step s)"
  shows "\<exists>s' now. dispatch_once queue options s = (Inr (length ids), s') \<and>
    log (sys_world s') = log (sys_world s) @
      map (\<lambda>r. (job r, ''outbox-'' @ ob_id r)) (filter (\<lambda>r. ob_id r \<in> set ids) (outbox (sys_db s))) \<and>
    outbox (sys_db s') = update_where (\<lambda>r. ob_id r \<in> set ids) (delivered_row now) (outbox (sys_db s))"
proof -
  have at: "outbox (db_at_step t) = outbox (sys_db t)" if "sys_others t = sys_others s" for t
    using others [of "sys_step t" "sys_db t"] that by (simp add: db_at_step_def)
  let ?rows = "filter (\<lambda>r. ob_id r \<in> set ids) (outbox (sys_db s))"
  have len: "length ?rows = length ids"
    using claimed_length [of "db_at_step s" "do_batch_size options" None] ok at [OF refl] by (simp add: ids)
  obtain tok e d1 where claim: "claim_pending_outbox (do_batch_size options) None None (db_at_step s) =
      Inr ((tok, map (claim_outbox_row tok e) ?rows), d1)"
    and d1: "outbox d1 = update_where (\<lambda>r. ob_id r \<in> set ids) (claim_outbox_row tok e) (outbox (sys_db s))"
    using claim_outbox_run [of "db_at_step s" "do_batch_size options"] ok at [OF refl] by (auto simp: ids)
  define s1 where "s1 = s\<lparr>sys_db := d1, sys_step := Suc (sys_step s)\<rparr>"
  have claimed: "run_tx (claim_pending_outbox (do_batch_size options) None None) s =
      (Inr (tok, map (claim_outbox_row tok e) ?rows), s1)"
    by (simp add: run_tx_def claim s1_def)
  show ?thesis
  proof (cases "?rows = []")
    case True
    then have "ids = []" using len by simp
    then show ?thesis
      using claimed True d1 at [of s1]
      by (intro exI) (auto simp: dispatch_once_def io_run run_query_def run_tx_def tx_read_def update_where_def s1_def)
  next
    case False
    let ?job = "\<lambda>r. case outbox_job r of Inr j \<Rightarrow> j"
    have "\<forall>r \<in> set (map (claim_outbox_row tok e) ?rows). outbox_job r = Inr (?job r)" using jobs by auto
    from dispatch_rows_accepted [OF queue this, of options tok s1] obtain w where
      rows: "io_map (dispatch_row queue options tok) (map (claim_outbox_row tok e) ?rows) s1 =
        (Inr (map (\<lambda>r. Some (ob_id r)) (map (claim_outbox_row tok e) ?rows)), s1\<lparr>sys_world := w\<rparr>)"
      and log: "log w = log (sys_world s) @ map (\<lambda>r. (?job r, ''outbox-'' @ ob_id r)) (map (claim_outbox_row tok e) ?rows)"
      by (auto simp: s1_def)
    have sent: "map (\<lambda>r. (?job r, ''outbox-'' @ ob_id r)) (map (claim_outbox_row tok e) ?rows) =
        map (\<lambda>r. (job r, ''outbox-'' @ ob_id r)) ?rows"
      using jobs by auto
    define s2 where "s2 = s1\<lparr>sys_world := w\<rparr>"
    have mark: "\<exists>d2. mark_outbox_dispatched (map ob_id ?rows) tok (db_at_step s2) = Inr ((), d2) \<and>
        outbox d2 = update_where (\<lambda>r. ob_id r \<in> set (map ob_id ?rows)) (delivered_row (db_now (db_at_step s2))) (outbox (sys_db s))"
    proof (rule mark_claimed_run [where e = e])
      show "outbox (db_at_step s2) = update_where (\<lambda>r. ob_id r \<in> set (map ob_id ?rows)) (claim_outbox_row tok e) (outbox (sys_db s))"
        using at [of s2] d1 by (auto simp: s2_def s1_def update_where_def)
    qed (use ok False in simp_all)
    have same: "update_where (\<lambda>r. ob_id r \<in> set (map ob_id ?rows)) f (outbox (sys_db s)) =
        update_where (\<lambda>r. ob_id r \<in> set ids) f (outbox (sys_db s))" for f
      by (auto simp: update_where_def)
    from mark obtain d2 where mark: "mark_outbox_dispatched (map ob_id ?rows) tok (db_at_step s2) = Inr ((), d2)"
      and d2: "outbox d2 = update_where (\<lambda>r. ob_id r \<in> set ids) (delivered_row (db_now (db_at_step s2))) (outbox (sys_db s))"
      unfolding same by blast
    define s3 where "s3 = s2\<lparr>sys_db := d2, sys_step := Suc (sys_step s2)\<rparr>"
    define s4 where "s4 = s3\<lparr>sys_db := db_at_step s3, sys_step := Suc (sys_step s3)\<rparr>"
    have "dispatched_ids (map (\<lambda>r. Some (ob_id r)) (map (claim_outbox_row tok e) ?rows)) = map ob_id ?rows"
      unfolding dispatched_ids_all by simp
    then have "dispatch_once queue options s = (Inr (length ids), s4)"
      using claimed rows mark len False
      by (simp add: dispatch_once_def io_run run_query_def run_tx_def tx_read_def s2_def [symmetric] s3_def [symmetric] s4_def)
    moreover have "log (sys_world s4) = log (sys_world s) @ map (\<lambda>r. (job r, ''outbox-'' @ ob_id r)) ?rows"
      using log sent by (simp add: s4_def s3_def s2_def)
    moreover have "outbox (sys_db s4) = outbox d2"
      using at [of s3] by (simp add: s4_def s3_def s2_def s1_def)
    ultimately show ?thesis using d2 by (intro exI [of _ s4] exI [of _ "db_now (db_at_step s2)"]) simp
  qed
qed

end
