(* ===== verification/Guarantees.thy ===== *)
theory Guarantees
  imports Replacement
begin

text \<open>
  What the write path guarantees at its turning points: what a reported success rests on, what a failure
  may not touch, and that the recovery of an operation ends.
\<close>

subsection \<open>Success\<close>

lemma settle_reported_success:
  assumes "settle_reported env settled reverted hash rep s = (Inr (Ex_SUCCEEDED h), s')"
  shows "h = hash \<and> \<not> reverted \<and> rr_consistent rep"
  using assms by (auto simp: settle_reported_def io_simps split: if_splits)

lemma finalize_receipt_success:
  assumes "finalize_receipt env i a_id hash c receipt s = (Inr (Ex_SUCCEEDED h), s')"
  shows "h = hash \<and> c \<noteq> Co_REVERTED receipt \<and> (\<forall>r. c \<noteq> Co_INCLUDED r) \<and>
    (\<exists>operation rep s1 s2. op_id operation = i \<and> rr_consistent rep \<and>
       oh_reconcile (handler_for (ee_handlers env) (op_type operation))
         \<lparr>so_operation = operation, so_attempt_id = a_id, so_receipt = receipt\<rparr> s1 = (Inr rep, s2))"
proof -
  have included: "\<forall>r. c \<noteq> Co_INCLUDED r"
    using assms by (auto simp: finalize_receipt_def io_simps)
  let ?settled = "\<lambda>operation. \<lparr>so_operation = operation, so_attempt_id = a_id, so_receipt = receipt\<rparr>"
  from assms included have "io_then (run_tx (record_inclusion_tx i a_id receipt))
      (io_bind (run_query (find_operation_by_id i)) (\<lambda>found. case found of
         None \<Rightarrow> io_throw (JsError ''operation disappeared'')
       | Some operation \<Rightarrow>
           io_bind (oh_reconcile (handler_for (ee_handlers env) (op_type operation)) (?settled operation))
             (\<lambda>rep. settle_reported env (?settled operation) (c = Co_REVERTED receipt) hash rep))) s = (Inr (Ex_SUCCEEDED h), s')"
    unfolding finalize_receipt_def Let_def by (cases c) simp_all
  then obtain s0 where "io_bind (run_query (find_operation_by_id i)) (\<lambda>found. case found of
         None \<Rightarrow> io_throw (JsError ''operation disappeared'')
       | Some operation \<Rightarrow>
           io_bind (oh_reconcile (handler_for (ee_handlers env) (op_type operation)) (?settled operation))
             (\<lambda>rep. settle_reported env (?settled operation) (c = Co_REVERTED receipt) hash rep)) s0 = (Inr (Ex_SUCCEEDED h), s')"
    by (auto simp only: io_then_Inr)
  then obtain found s1 where found: "found = find_operation_by_id i (db_at_step s0)"
    and rest: "(case found of
         None \<Rightarrow> io_throw (JsError ''operation disappeared'')
       | Some operation \<Rightarrow>
           io_bind (oh_reconcile (handler_for (ee_handlers env) (op_type operation)) (?settled operation))
             (\<lambda>rep. settle_reported env (?settled operation) (c = Co_REVERTED receipt) hash rep)) s1 = (Inr (Ex_SUCCEEDED h), s')"
    by (auto simp only: io_bind_Inr run_query_iff Inr_inject)
  from rest obtain operation where op: "found = Some operation"
    by (cases found) (simp_all add: io_throw_iff)
  with rest obtain rep s2 where
    "oh_reconcile (handler_for (ee_handlers env) (op_type operation)) (?settled operation) s1 = (Inr rep, s2)"
    "settle_reported env (?settled operation) (c = Co_REVERTED receipt) hash rep s2 = (Inr (Ex_SUCCEEDED h), s')"
    by (auto simp only: option.case io_bind_Inr)
  moreover from op found have "op_id operation = i" by (metis find_operation_by_id_Some)
  ultimately show ?thesis using included settle_reported_success by blast
qed

text \<open>
  C8: a success is backed by the chain and by the books. When following a hash ends in success, either the
  operation had already succeeded, or during the wait the chain reported a successful receipt for the hash
  whose block is canonical and final under the policy, and the reconciliation of the handler over
  exactly this receipt found nothing that disagrees.
\<close>

theorem success_is_backed:
  assumes "observe_and_finalize env i a_id hash s = (Inr (Ex_SUCCEEDED h), s')"
  shows "h = hash \<and>
    ((\<exists>operation. find_operation_by_id i (db_at_step s) = Some operation \<and> op_state operation = Op_SUCCEEDED) \<or>
     (\<exists>receipt operation rep s1 s2. outcome_evidence (ce_gateway (ee_chain env)) hash (ee_confirmation env) (Co_FINALIZED receipt) \<and>
        op_id operation = i \<and> rr_consistent rep \<and>
        oh_reconcile (handler_for (ee_handlers env) (op_type operation))
          \<lparr>so_operation = operation, so_attempt_id = a_id, so_receipt = receipt\<rparr> s1 = (Inr rep, s2)))"
proof -
  from assms obtain existing where existing: "find_operation_by_id i (db_at_step s) = Some existing"
    by (auto simp: observe_and_finalize_def io_simps run_query_iff split: option.splits)
  show ?thesis
  proof (cases "is_terminal_operation_state (op_state existing)")
    case True
    with assms existing show ?thesis
      by (auto simp: observe_and_finalize_def io_simps run_query_iff split: if_splits)
  next
    case False
    with assms existing obtain c s1 s2 where
      wait: "await_confirmation (ce_gateway (ee_chain env)) hash (ee_confirmation env) s1 = (Inr c, s2)"
      and settle: "settle_confirmation env i a_id hash c s2 = (Inr (Ex_SUCCEEDED h), s')"
      by (auto simp: observe_and_finalize_def io_simps run_query_iff)
    from settle obtain receipt where c: "c = Co_INCLUDED receipt \<or> c = Co_REVERTED receipt \<or> c = Co_FINALIZED receipt"
      and fin: "finalize_receipt env i a_id hash c receipt s2 = (Inr (Ex_SUCCEEDED h), s')"
      by (cases c) (auto simp: settle_confirmation_def io_simps)
    from finalize_receipt_success [OF fin] c have "c = Co_FINALIZED receipt" by auto
    with finalize_receipt_success [OF fin] await_confirmation_backed [OF wait] show ?thesis by blast
  qed
qed

subsection \<open>Failure\<close>

lemma audit_event_rows:
  "record_audit_event event d = Inr (u, d') \<Longrightarrow> operations d' = operations d \<and> transaction_attempts d' = transaction_attempts d"
  by (auto simp: record_audit_event_def tx_simps fresh_uuid_def audit_table_def)

lemma attempt_status_rows:
  "update_attempt_status i p d = Inr (u, d') \<Longrightarrow>
   operations d' = operations d \<and> (\<exists>f. transaction_attempts d' = update_where (\<lambda>r. ta_id r = i) f (transaction_attempts d))"
  by (auto simp: update_attempt_status_def update_attempts_def tx_simps attempt_table_def)

lemma latest_attempt_Some:
  "find_latest_attempt_for_operation i d = Some a \<Longrightarrow> a \<in> set (transaction_attempts d)"
  by (auto simp: find_latest_attempt_for_operation_def dest!: select_latest_Some)

lemma fail_operation_rows:
  assumes "fail_operation_tx i code message d = Inr ((), d')" "find_operation_by_id i d = Some operation"
    and "op_state operation \<notin> set states_never_overwritten"
  shows "operations d' = update_where (\<lambda>r. op_id r = i \<and> op_state r = op_state operation)
      (apply_transition Op_FAILED (pg_of_date (app_now d)) (failure_patch code (take 500 message))) (operations d)"
    and "a \<in> set (transaction_attempts d) \<Longrightarrow>
      \<forall>b \<in> set (transaction_attempts d). ta_id b = ta_id a \<longrightarrow> ta_status b \<noteq> At_PREPARED \<Longrightarrow> a \<in> set (transaction_attempts d')"
proof -
  let ?mark = "\<lambda>latest. case latest of None \<Rightarrow> tx_ret ()
    | Some b \<Rightarrow> if ta_status b = At_PREPARED
        then update_attempt_status (ta_id b)
          ((status_only At_FAILED)\<lparr>sp_error_code := Some (Some code), sp_error_message := Some (Some message)\<rparr>)
        else tx_ret ()"
  from assms obtain row d1 d2 event au where
    step: "transition_operation operation Op_FAILED (failure_patch code (take 500 message)) d = Inr (row, d1)"
    and mark: "?mark (find_latest_attempt_for_operation i d1) d1 = Inr ((), d2)"
    and audit: "record_audit_event event d2 = Inr (au, d')"
    by (auto simp: fail_operation_tx_def tx_simps lock_operation_def)
  from step assms(2) have d1: "transaction_attempts d1 = transaction_attempts d"
    "operations d1 = update_where (\<lambda>r. op_id r = i \<and> op_state r = op_state operation)
      (apply_transition Op_FAILED (pg_of_date (app_now d)) (failure_patch code (take 500 message))) (operations d)"
    by (auto simp: transition_operation_Inr dest: find_operation_by_id_Some)
  from mark have d2: "operations d2 = operations d1"
    "transaction_attempts d2 = transaction_attempts d1 \<or>
     (\<exists>b f. b \<in> set (transaction_attempts d1) \<and> ta_status b = At_PREPARED \<and>
        transaction_attempts d2 = update_where (\<lambda>r. ta_id r = ta_id b) f (transaction_attempts d1))"
    by (auto simp: tx_simps dest: attempt_status_rows latest_attempt_Some split: option.splits if_splits)
  from audit_event_rows [OF audit] d1 d2(1)
  show "operations d' = update_where (\<lambda>r. op_id r = i \<and> op_state r = op_state operation)
      (apply_transition Op_FAILED (pg_of_date (app_now d)) (failure_patch code (take 500 message))) (operations d)" by simp
  assume a: "a \<in> set (transaction_attempts d)"
    "\<forall>b \<in> set (transaction_attempts d). ta_id b = ta_id a \<longrightarrow> ta_status b \<noteq> At_PREPARED"
  from d2(2) audit_event_rows [OF audit] d1(1) a show "a \<in> set (transaction_attempts d')"
    by (fastforce simp: update_where_def)
qed

text \<open>
  C15: declaring a failure never touches what may be on the chain or has ended. If the operation is being
  broadcast, may have been, was submitted, is included or is in a terminal state, the failure leaves the whole
  database as it is; otherwise exactly this operation becomes FAILED, with the code and at most 500 characters
  of the message, and no attempt that was ever signed is changed.
\<close>

theorem failing_spares_the_chain:
  assumes "fail_operation_tx i code message d = Inr ((), d')" "find_operation_by_id i d = Some operation"
  shows "if op_state operation \<in> {Op_BROADCASTING, Op_BROADCAST_UNKNOWN, Op_SUBMITTED, Op_INCLUDED, Op_SUCCEEDED,
        Op_REVERTED, Op_FAILED, Op_CANCELLED}
    then d' = d
    else operations d' = update_where (\<lambda>r. op_id r = i \<and> op_state r = op_state operation)
         (apply_transition Op_FAILED (pg_of_date (app_now d)) (failure_patch code (take 500 message))) (operations d) \<and>
       (\<forall>a \<in> set (transaction_attempts d).
          (\<forall>b \<in> set (transaction_attempts d). ta_id b = ta_id a \<longrightarrow> ta_status b \<noteq> At_PREPARED) \<longrightarrow>
          a \<in> set (transaction_attempts d'))"
proof (cases "op_state operation \<in> set states_never_overwritten")
  case True
  with assms show ?thesis
    by (auto simp: fail_operation_tx_def tx_simps lock_operation_def states_never_overwritten_def)
next
  case False
  then have "op_state operation \<notin> {Op_BROADCASTING, Op_BROADCAST_UNKNOWN, Op_SUBMITTED, Op_INCLUDED, Op_SUCCEEDED,
        Op_REVERTED, Op_FAILED, Op_CANCELLED}" by (simp add: states_never_overwritten_def)
  with fail_operation_rows [OF assms False] show ?thesis by simp
qed

subsection \<open>Recovery ends\<close>

text \<open>Nobody else touches the newest attempt of the operation while it is recovered.\<close>

definition latest_stays :: "uuid \<Rightarrow> attempt_row option \<Rightarrow> 'w sys \<Rightarrow> bool" where
  "latest_stays i found s \<longleftrightarrow>
     (\<forall>n d. find_latest_attempt_for_operation i (sys_others s n d) = find_latest_attempt_for_operation i d) \<and>
     find_latest_attempt_for_operation i (sys_db s) = found"

lemma latest_at_step: "latest_stays i found s \<Longrightarrow> find_latest_attempt_for_operation i (db_at_step s) = found"
  by (simp add: latest_stays_def db_at_step_def find_latest_attempt_for_operation_def)

lemma latest_after_query:
  "latest_stays i found s \<Longrightarrow> run_query f s = (r, s') \<Longrightarrow> latest_stays i found s'"
  using latest_at_step [of i found s] by (auto simp: latest_stays_def run_query_def run_tx_def tx_read_def)

lemma query_latest:
  "latest_stays i found s \<Longrightarrow>
   \<exists>s'. run_query (find_latest_attempt_for_operation i) s = (Inr found, s') \<and> latest_stays i found s'"
  using latest_at_step latest_after_query by (fastforce simp: run_query_def run_tx_def tx_read_def)

definition paired :: "attempt_row option \<Rightarrow> bool" where
  "paired found \<longleftrightarrow> (\<forall>a. found = Some a \<longrightarrow> (ta_signed_raw_transaction a = None) = (ta_transaction_hash a = None))"

lemma latest_paired:
  assumes "table_ok attempt_rules (transaction_attempts d)"
  shows "paired (find_latest_attempt_for_operation i d)"
  using table_ok_check [OF assms, of "''transaction_attempts_signed_pair''"
      "\<lambda>r. (ta_signed_raw_transaction r = None) = (ta_transaction_hash r = None)"]
  by (auto simp: paired_def attempt_rules_def dest: latest_attempt_Some)

text \<open>With one newest attempt throughout, abandoning calls back only to resolve, and resolving only to abandon.\<close>

lemma abandon_unsigned:
  assumes "latest_stays (op_id operation) found s" "\<forall>a. found = Some a \<longrightarrow> ta_signed_raw_transaction a = None"
  shows "abandon_unbroadcast resolve operation s = abandon_unbroadcast resolve' operation s"
  using query_latest [OF assms(1)] assms(2) by (auto simp: abandon_unbroadcast_def io_run split: option.splits)

lemma resolve_depth:
  assumes "latest_stays (op_id operation) found s" "paired found" "0 < n" "0 < m"
  shows "resolve_in_flight n env operation s = resolve_in_flight m env operation s"
proof -
  from query_latest [OF assms(1)] obtain s1 where
    read: "run_query (find_latest_attempt_for_operation (op_id operation)) s = (Inr found, s1)"
    and s1: "latest_stays (op_id operation) found s1" by blast
  show ?thesis
  proof (cases "\<forall>a. found = Some a \<longrightarrow> ta_signed_raw_transaction a = None")
    case True
    from abandon_unsigned [OF s1 True] have
      "abandon_unbroadcast (resolve_in_flight (n - 1) env) operation s1 = abandon_unbroadcast (resolve_in_flight (m - 1) env) operation s1" .
    with True read assms(3,4) show ?thesis
      by (cases n; cases m) (auto simp: io_run split: option.splits)
  next
    case False
    with assms(2) obtain a signed hash where "found = Some a" "ta_signed_raw_transaction a = Some signed"
      "ta_transaction_hash a = Some hash" by (auto simp: paired_def)
    with read assms(3,4) show ?thesis by (cases n; cases m) (simp_all add: io_run)
  qed
qed

lemma abandon_depth:
  assumes "latest_stays (op_id operation) found s" "paired found" "0 < n" "0 < m"
  shows "abandoned_as_failed env n operation s = abandoned_as_failed env m operation s"
proof -
  from query_latest [OF assms(1)] obtain s1 where
    read: "run_query (find_latest_attempt_for_operation (op_id operation)) s = (Inr found, s1)"
    and s1: "latest_stays (op_id operation) found s1" by blast
  from resolve_depth [OF s1 assms(2-4)] read show ?thesis
    by (simp add: abandoned_as_failed_def abandon_unbroadcast_def io_run)
qed

lemma resume_signing_stays:
  assumes "latest_stays (op_id operation) found s" "resume_signing env operation s = (Inr None, s')"
  shows "latest_stays (op_id operation) found s'"
proof -
  from query_latest [OF assms(1)] obtain s1 where
    "run_query (find_latest_attempt_for_operation (op_id operation)) s = (Inr found, s1)"
    "latest_stays (op_id operation) found s1" by blast
  with assms(2) show ?thesis
    by (auto simp: resume_signing_def io_simps dest: latest_after_query split: option.splits if_splits)
qed

text \<open>
  C22: the recovery of an operation ends. Resolving the bytes of an operation and abandoning it call each
  other; on attempts that satisfy the schema, and while nobody else gives the operation another attempt, one
  level of that recursion is enough: any larger bound gives the same result and the same state as the
  one the sweep uses.
\<close>

theorem recovery_depth_enough:
  assumes "\<And>k d. find_latest_attempt_for_operation (op_id operation) (sys_others s k d) = find_latest_attempt_for_operation (op_id operation) d"
    and "table_ok attempt_rules (transaction_attempts (sys_db s))" and "0 < n"
  shows "recover_one n env operation s = recover_one RECOVERY_DEPTH env operation s"
proof -
  let ?found = "find_latest_attempt_for_operation (op_id operation) (sys_db s)"
  have stays: "latest_stays (op_id operation) ?found s" using assms(1) by (simp add: latest_stays_def)
  have ok: "paired ?found" by (rule latest_paired [OF assms(2)])
  have depth: "0 < RECOVERY_DEPTH" by (simp add: RECOVERY_DEPTH_def)
  have signing: "io_bind (resume_signing env operation) (\<lambda>r. case r of Some r \<Rightarrow> io_ret r | None \<Rightarrow> abandoned_as_failed env n operation) s =
    io_bind (resume_signing env operation) (\<lambda>r. case r of Some r \<Rightarrow> io_ret r | None \<Rightarrow> abandoned_as_failed env RECOVERY_DEPTH operation) s"
  proof (cases "resume_signing env operation s")
    case (Pair r s')
    show ?thesis
    proof (cases "r = Inr None")
      case True
      with Pair abandon_depth [OF resume_signing_stays [OF stays] ok assms(3) depth] show ?thesis by (simp add: io_run)
    next
      case False
      with Pair show ?thesis by (auto simp: io_run split: sum.split option.split)
    qed
  qed
  show ?thesis
    using abandon_depth [OF stays ok assms(3) depth] resolve_depth [OF stays ok assms(3) depth] signing
    by (cases "op_state operation") (simp_all add: recover_one_def)
qed

end
