(* ===== verification/Sending.thy ===== *)
theory Sending
  imports Workflow
begin

text \<open>
  What leaves the process: the chain writer hands the node only bytes that were verified against the
  committed request and stored with their hash, and at most once per settled signature.
\<close>

subsection \<open>Effects that call nobody\<close>

definition same_world :: "'w sys \<Rightarrow> 'w sys \<Rightarrow> bool" where
  "same_world s s' \<longleftrightarrow> sys_world s' = sys_world s"

interpretation quiet: state_relation same_world
  by unfold_locales (simp_all add: same_world_def)

lemma quiet_run_tx: "io_within same_world (run_tx m)"
  by (auto simp: io_within_def same_world_def run_tx_def split: sum.split)

lemma quiet_run_query: "io_within same_world (run_query f)"
  unfolding run_query_def by (rule quiet_run_tx)

lemmas quiet_intros = quiet.within_intros quiet_run_tx quiet_run_query

lemma quiet_after: "io_within same_world m \<Longrightarrow> m s = (r, s') \<Longrightarrow> sys_world s' = sys_world s"
  by (metis io_within_def same_world_def snd_conv)

lemma quiet_submitted: "io_within same_world (mark_submitted hooks a hash)"
  unfolding mark_submitted_def by (intro quiet_intros)

lemma quiet_failed: "io_within same_world (broadcast_failed hooks a hash e)"
  unfolding broadcast_failed_def Let_def
  by (cases "classify_broadcast_error e"; simp; intro quiet_intros quiet_submitted)

lemma quiet_withheld: "io_within same_world (withhold_broadcast hooks a e)"
  unfolding withhold_broadcast_def Let_def by (intro quiet_intros)

subsection \<open>Storing\<close>

lemma hook_attempts: "hook_tx m \<Longrightarrow> preserves (\<lambda>d. transaction_attempts d = rows) m"
proof (induction rule: hook_tx.induct)
  have step: "preserves (\<lambda>d. transaction_attempts d = rows) (transition_operation operation to_s patch)" for operation to_s patch
    by (rule preservesI) (auto simp: transition_operation_Inr)
  have lock: "preserves (\<lambda>d. transaction_attempts d = rows) (lock_operation i)" for i
    by (simp add: lock_operation_def preserves_read)
  note intros = preserves_intros step lock
  show "preserves (\<lambda>d. transaction_attempts d = rows) (tx_ret ())" by (intro intros)
  show "preserves (\<lambda>d. transaction_attempts d = rows) (operation_step i to_s patch)" for i to_s patch
    unfolding operation_step_def by (intro intros)
  show "preserves (\<lambda>d. transaction_attempts d = rows) (advance_operation i to_s)" for i to_s
    unfolding advance_operation_def by (intro intros)
  show "preserves (\<lambda>d. transaction_attempts d = rows) (leave_broadcasting i to_s)" for i to_s
    unfolding leave_broadcasting_def by (intro intros)
qed

lemma persisted_rows:
  assumes "program_hooks hooks" "persist_signed_tx hooks attempt raw hash i d = Inr (u, d')"
    and "a \<in> set (transaction_attempts d')" "ta_id a = ta_id attempt"
  shows "ta_signed_raw_transaction a = Some (to_lower raw) \<and> ta_transaction_hash a = Some (to_lower hash)"
proof -
  let ?f = "\<lambda>r. r\<lparr>ta_signed_raw_transaction := Some (to_lower raw), ta_transaction_hash := Some (to_lower hash), ta_status := At_SIGNED\<rparr>"
  from assms(2) obtain d1 d2 where d1: "persist_signed_attempt (ta_id attempt) raw hash d = Inr ((), d1)"
    and d2: "mark_signer_request_signed i d1 = Inr ((), d2)" and hook: "hk_on_signed hooks attempt d2 = Inr (u, d')"
    by (auto simp: persist_signed_tx_def tx_simps)
  from d2 have "transaction_attempts d2 = transaction_attempts d1"
    by (auto simp: mark_signer_request_signed_def tx_simps signer_request_table_def)
  moreover have "transaction_attempts d' = transaction_attempts d2"
    using assms(1) hook hook_attempts [of "hk_on_signed hooks attempt" "transaction_attempts d2"]
    by (auto simp: program_hooks_def dest: preservesD)
  moreover from d1 have "\<forall>a \<in> set (transaction_attempts d1). ta_id a = ta_id attempt \<longrightarrow>
      ta_signed_raw_transaction a = Some (to_lower raw) \<and> ta_transaction_hash a = Some (to_lower hash)"
    by (auto simp: persist_signed_attempt_def update_attempts_def tx_simps attempt_table_def update_where_def)
  ultimately show ?thesis using assms(3,4) by simp
qed

subsection \<open>Sending\<close>

lemma broadcast_sends:
  assumes sends: "\<And>b w r w'. gw_broadcast_raw_transaction (ce_gateway env) b w = (r, w') \<Longrightarrow> log w' = log w @ [b]"
    and run: "broadcast env a raw hash hooks s = (r, s')"
  shows "log (sys_world s') = log (sys_world s) \<or> log (sys_world s') = log (sys_world s) @ [raw]"
proof -
  obtain current s1 where read: "run_query (find_attempt_by_id (ta_id a)) s = (Inr current, s1)"
    and s1: "sys_world s1 = sys_world s" by (auto simp: run_query_def run_tx_def tx_read_def)
  obtain sent w where call: "gw_broadcast_raw_transaction (ce_gateway env) raw (sys_world s1) = (sent, w)" by (rule prod.exhaust)
  show ?thesis
  proof (cases "case current of None \<Rightarrow> True | Some a \<Rightarrow> ta_status a = At_REPLACED")
    case True
    with run read s1 show ?thesis by (auto simp: broadcast_def io_run)
  next
    case False
    with run read call have "(case sent of Inr _ \<Rightarrow> mark_submitted hooks a hash | Inl e \<Rightarrow> broadcast_failed hooks a hash e)
        (s1\<lparr>sys_world := w\<rparr>) = (r, s')"
      by (auto simp: broadcast_def io_run call_world_def split: sum.splits)
    then have "sys_world s' = w"
      by (cases sent) (auto dest: quiet_after [OF quiet_submitted] quiet_after [OF quiet_failed])
    with sends [OF call] s1 show ?thesis by simp
  qed
qed

lemma settle_signed_sends:
  assumes "\<And>b w r w'. gw_broadcast_raw_transaction (ce_gateway env) b w = (r, w') \<Longrightarrow> log w' = log w @ [b]"
    and "\<And>t r t'. hk_assert_broadcast_allowed hooks t = (r, t') \<Longrightarrow> log (sys_world t') = log (sys_world t)"
    and run: "settle_signed env attempt raw hash i hooks s = (out, s')"
  shows "log (sys_world s') = log (sys_world s) \<or> log (sys_world s') = log (sys_world s) @ [raw] \<and>
    (\<exists>d. persist_signed_tx hooks attempt raw hash i (db_at_step s) = Inr ((), d))"
proof -
  obtain p s1 where persist: "run_tx (persist_signed_tx hooks attempt raw hash i) s = (p, s1)" by (rule prod.exhaust)
  have s1: "sys_world s1 = sys_world s" by (rule quiet_after [OF quiet_run_tx persist])
  obtain allowed s2 where allow: "hk_assert_broadcast_allowed hooks s1 = (allowed, s2)" by (rule prod.exhaust)
  have s2: "log (sys_world s2) = log (sys_world s)" using assms(2) [OF allow] s1 by simp
  obtain b s3 where mark: "run_tx (broadcasting_tx hooks attempt) s2 = (b, s3)" by (rule prod.exhaust)
  have s3: "log (sys_world s3) = log (sys_world s)" using quiet_after [OF quiet_run_tx mark] s2 by simp
  consider (unsaved) e where "p = Inl e" | (refused) e where "p = Inr ()" "allowed = Inl e"
    | (unmarked) e where "p = Inr ()" "allowed = Inr ()" "b = Inl e" | (sent) "p = Inr ()" "allowed = Inr ()" "b = Inr ()"
    by (cases p; cases allowed; cases b) auto
  then show ?thesis
  proof cases
    case unsaved
    with run persist s1 show ?thesis by (simp add: settle_signed_def io_run)
  next
    case refused
    with run persist allow have "withhold_broadcast hooks attempt e s2 = (out, s')" by (simp add: settle_signed_def io_run)
    with s2 show ?thesis by (auto dest: quiet_after [OF quiet_withheld])
  next
    case unmarked
    with run persist allow mark s3 show ?thesis by (simp add: settle_signed_def io_run)
  next
    case sent
    with run persist allow mark have "broadcast env attempt raw hash hooks s3 = (out, s')" by (simp add: settle_signed_def io_run)
    from broadcast_sends [where log = log, OF _ this] assms(1) s3 sent persist show ?thesis by (auto simp: run_tx_Inr)
  qed
qed

text \<open>Without verified bytes nothing is sent.\<close>

lemma unverified_quiet:
  assumes "\<forall>i signer raw claimed. st = Signature_signed i signer raw claimed \<longrightarrow>
    (\<exists>e. verify_signed_transaction (ce_codec env) raw request (utr_from request) claimed = Inl e)"
  shows "io_within same_world (settle_signature env attempt request st signer_request_id hooks)"
proof (cases st)
  case (Signature_signed i signer raw claimed)
  with assms obtain e where "verify_signed_transaction (ce_codec env) raw request (utr_from request) claimed = Inl e" by blast
  with Signature_signed show ?thesis by (simp add: settle_signature_def quiet_intros)
qed (auto simp: settle_signature_def intro!: quiet_intros)

text \<open>
  C9: only verified bytes are sent, only after they are stored, and at most once. Whatever the signer answers,
  settling its answer either sends nothing or sends one transaction: exactly the bytes of the answer, after they
  were proved to encode the committed request, and after a committed transaction has put them and their
  hash into every row of the attempt.
\<close>

theorem only_verified_stored_bytes_are_sent:
  assumes "program_hooks hooks"
    and "\<And>b w r w'. gw_broadcast_raw_transaction (ce_gateway env) b w = (r, w') \<Longrightarrow> log w' = log w @ [b]"
    and "\<And>t r t'. hk_assert_broadcast_allowed hooks t = (r, t') \<Longrightarrow> log (sys_world t') = log (sys_world t)"
    and "settle_signature env attempt request st signer_request_id hooks s = (out, s')"
  shows "log (sys_world s') = log (sys_world s) \<or>
    (\<exists>i signer raw claimed hash recovered d. st = Signature_signed i signer raw claimed \<and>
       verify_signed_transaction (ce_codec env) raw request (utr_from request) claimed = Inr (hash, recovered) \<and>
       persist_signed_tx hooks attempt raw hash signer_request_id (db_at_step s) = Inr ((), d) \<and>
       (\<forall>a \<in> set (transaction_attempts d). ta_id a = ta_id attempt \<longrightarrow>
          ta_signed_raw_transaction a = Some (to_lower raw) \<and> ta_transaction_hash a = Some (to_lower hash)) \<and>
       log (sys_world s') = log (sys_world s) @ [raw])"
proof (cases "\<exists>i signer raw claimed v. st = Signature_signed i signer raw claimed \<and>
    verify_signed_transaction (ce_codec env) raw request (utr_from request) claimed = Inr v")
  case False
  then have "io_within same_world (settle_signature env attempt request st signer_request_id hooks)"
    by (intro unverified_quiet) (metis sum.exhaust)
  from quiet_after [OF this assms(4)] show ?thesis by simp
next
  case True
  then obtain i signer raw claimed hash recovered where signed: "st = Signature_signed i signer raw claimed"
    "verify_signed_transaction (ce_codec env) raw request (utr_from request) claimed = Inr (hash, recovered)" by auto
  with assms(4) have "settle_signed env attempt raw hash signer_request_id hooks s = (out, s')"
    by (simp add: settle_signature_def)
  with settle_signed_sends [where log = log, OF _ _ this] assms(2,3)
  consider "log (sys_world s') = log (sys_world s)"
    | d where "log (sys_world s') = log (sys_world s) @ [raw]"
        "persist_signed_tx hooks attempt raw hash signer_request_id (db_at_step s) = Inr ((), d)" by blast
  then show ?thesis
  proof cases
    case 2
    with persisted_rows [OF assms(1) 2(2)] signed show ?thesis by (intro disjI2 exI conjI) auto
  qed simp
qed

end
