(* ===== verification/MockCompliance.thy ===== *)
theory MockCompliance
  imports ComplianceService
begin

text \<open>
  \<open>adapters/compliance/mock-compliance-provider.ts\<close>: the deterministic provider of the development
  setup, with its deny list, its in-memory set of forced wallets and its screening counter; and the
  contract of a provider, that what it screens it also admits at execution time.
\<close>

record mock_state =
  mk_forced :: "string set"
  mk_screenings :: nat
  mk_now :: js_time

definition mock_name :: string where
  "mock_name = ''mock-local''"

definition MOCK_VALIDITY_MS :: int where
  "MOCK_VALIDITY_MS = 365 * 24 * 60 * 60 * 1000"

definition force_ineligible :: "string \<Rightarrow> mock_state \<Rightarrow> mock_state" where
  "force_ineligible wallet_address w = w\<lparr>mk_forced := insert (to_lower wallet_address) (mk_forced w)\<rparr>"

definition clear_forced_ineligible :: "string \<Rightarrow> mock_state \<Rightarrow> mock_state" where
  "clear_forced_ineligible wallet_address w = w\<lparr>mk_forced := mk_forced w - {to_lower wallet_address}\<rparr>"

definition is_blocked :: "mock_state \<Rightarrow> string \<Rightarrow> string \<Rightarrow> bool" where
  "is_blocked w subject_reference wallet_address \<longleftrightarrow>
     str_includes (to_lower subject_reference) ''blocked'' \<or> to_lower wallet_address \<in> mk_forced w"

text \<open>The digest is SHA-256 of the joined fields, a parameter as everywhere.\<close>

definition mock_reference :: "(string \<Rightarrow> string) \<Rightarrow> string \<Rightarrow> string \<Rightarrow> int \<Rightarrow> string" where
  "mock_reference sha subject_reference wallet_address chain_id =
     ''mock-'' @ take 24 (sha (mock_name @ '':'' @ subject_reference @ '':'' @ wallet_address @ '':'' @ show_int chain_id))"

definition screening_reference :: "(string \<Rightarrow> string) \<Rightarrow> screen_request \<Rightarrow> nat \<Rightarrow> string" where
  "screening_reference sha r n = mock_reference sha (scr_subject_reference r) (scr_wallet_address r) (scr_chain_id r) @
     ''-'' @ show_nat n"

definition mock_screen :: "(string \<Rightarrow> string) \<Rightarrow> int \<Rightarrow> screen_request \<Rightarrow> mock_state \<Rightarrow> (exn + screen_result) \<times> mock_state" where
  "mock_screen sha validity_ms r = (\<lambda>w.
     let blocked = is_blocked w (scr_subject_reference r) (scr_wallet_address r); n = mk_screenings w + 1
     in (Inr \<lparr>scs_status = (if blocked then Screening_REJECTED else Screening_APPROVED), scs_provider = mock_name,
          scs_provider_reference = screening_reference sha r n, scs_valid_from = mk_now w,
          scs_valid_until = mk_now w + validity_ms, scs_decided_at = mk_now w,
          scs_reason = (if blocked then Some ''subject reference is on the local mock deny list'' else None)\<rparr>,
        w\<lparr>mk_screenings := n\<rparr>))"

definition mock_check_eligibility ::
  "(string \<Rightarrow> string) \<Rightarrow> eligibility_request \<Rightarrow> mock_state \<Rightarrow> (exn + eligibility_result) \<times> mock_state" where
  "mock_check_eligibility sha r = (\<lambda>w.
     let blocked = is_blocked w (er_subject_reference r) (er_wallet_address r)
     in (Inr \<lparr>es_eligible = (\<not> blocked), es_provider = mock_name,
          es_provider_reference = mock_reference sha (er_subject_reference r) (er_wallet_address r) (er_chain_id r),
          es_checked_at = mk_now w,
          es_reason = (if blocked then Some ''subject is not eligible at execution time'' else None)\<rparr>, w))"

definition mock_compliance_provider :: "(string \<Rightarrow> string) \<Rightarrow> int \<Rightarrow> mock_state compliance_provider" where
  "mock_compliance_provider sha validity_ms = \<lparr>cp_name = mock_name, cp_screen = mock_screen sha validity_ms,
     cp_check_eligibility = mock_check_eligibility sha\<rparr>"

subsection \<open>The contract of a provider\<close>

text \<open>
  What the service relies on: a screening leaves a window that is not empty and starts when it was decided,
  names the provider, and agrees with the check at execution time as long as nothing
  else touches the provider; two screenings never share a reference.
\<close>

locale screening_contract =
  fixes provider :: "'w compliance_provider" and later :: "'w \<Rightarrow> 'w \<Rightarrow> bool"
  assumes window: "cp_screen provider r w = (Inr s, w') \<Longrightarrow> scs_valid_from s < scs_valid_until s \<and> scs_decided_at s = scs_valid_from s"
    and named: "cp_screen provider r w = (Inr s, w') \<Longrightarrow> scs_provider s = cp_name provider"
    and agrees: "cp_screen provider r w = (Inr s, w') \<Longrightarrow> cp_check_eligibility provider q w' = (Inr e, w'') \<Longrightarrow>
      er_subject_reference q = scr_subject_reference r \<Longrightarrow> er_wallet_address q = scr_wallet_address r \<Longrightarrow>
      (scs_status s = Screening_APPROVED) = es_eligible e"
    and later_screen: "cp_screen provider r w = (Inr s, w') \<Longrightarrow> later w w'"
    and later_refl: "later w w"
    and later_trans: "later u v \<Longrightarrow> later v w \<Longrightarrow> later u w"
    and fresh: "cp_screen provider r w = (Inr s, w') \<Longrightarrow> later w' u \<Longrightarrow> cp_screen provider r' u = (Inr s', u') \<Longrightarrow>
      scs_provider_reference s \<noteq> scs_provider_reference s'"
begin

text \<open>Screening one subject again gives a second decision under its own reference.\<close>

lemma rescreening:
  assumes "cp_screen provider r w = (Inr s, w')" "cp_screen provider r' w' = (Inr s', w'')" "cp_screen provider r'' w'' = (Inr s'', v)"
  shows "distinct [scs_provider_reference s, scs_provider_reference s', scs_provider_reference s'']"
  using fresh [OF assms(1) later_refl assms(2)] fresh [OF assms(2) later_refl assms(3)] fresh [OF assms(1) later_screen [OF assms(2)] assms(3)] by simp

end

lemma dash_no_digit: "CHR ''-'' \<notin> set (show_nat n)"
  by (auto dest: show_nat_digits simp: is_digit_def)

lemma after_last_dash:
  assumes "x @ CHR ''-'' # show_nat m = y @ CHR ''-'' # show_nat n"
  shows "m = n"
proof -
  have "takeWhile (\<lambda>c. c \<noteq> CHR ''-'') (rev (z @ CHR ''-'' # show_nat k)) = rev (show_nat k)" for z k
  proof -
    have "takeWhile (\<lambda>c. c \<noteq> CHR ''-'') (rev (show_nat k) @ CHR ''-'' # rev z) = rev (show_nat k)"
      using dash_no_digit [of k] by (subst takeWhile_append2) auto
    then show ?thesis by simp
  qed
  from this [of x m] this [of y n] assms show ?thesis by simp
qed

lemma screening_reference_counter:
  "screening_reference sha r m = screening_reference sha q n \<Longrightarrow> m = n"
  unfolding screening_reference_def by (rule after_last_dash) simp

interpretation mock: screening_contract "mock_compliance_provider sha MOCK_VALIDITY_MS"
  "\<lambda>u v. mk_screenings u \<le> mk_screenings v" for sha
  by unfold_locales
    (auto simp: mock_compliance_provider_def mock_screen_def mock_check_eligibility_def is_blocked_def Let_def
      MOCK_VALIDITY_MS_def dest!: screening_reference_counter split: if_splits)

text \<open>
  C40: screening and the check at execution time agree. For one subject, wallet and state of the provider a
  screening approves exactly when the wallet would still be admitted at execution, which is when neither the
  deny list nor a forced wallet blocks it; and no two screenings of one process share a reference.
\<close>

theorem mock_screening_agrees:
  assumes "cp_screen (mock_compliance_provider sha MOCK_VALIDITY_MS) r w = (Inr s, w')"
    and "cp_check_eligibility (mock_compliance_provider sha MOCK_VALIDITY_MS) q w' = (Inr e, w'')"
    and "er_subject_reference q = scr_subject_reference r" "er_wallet_address q = scr_wallet_address r"
    and "mk_screenings w' \<le> mk_screenings u" "cp_screen (mock_compliance_provider sha MOCK_VALIDITY_MS) r' u = (Inr s', u')"
  shows "(scs_status s = Screening_APPROVED) = es_eligible e \<and>
    es_eligible e = (\<not> str_includes (to_lower (scr_subject_reference r)) ''blocked'' \<and> to_lower (scr_wallet_address r) \<notin> mk_forced w) \<and>
    scs_provider_reference s \<noteq> scs_provider_reference s'"
proof (intro conjI)
  show "es_eligible e = (\<not> str_includes (to_lower (scr_subject_reference r)) ''blocked'' \<and> to_lower (scr_wallet_address r) \<notin> mk_forced w)"
    using assms(1-4)
    by (auto simp: mock_compliance_provider_def mock_screen_def mock_check_eligibility_def is_blocked_def Let_def)
qed (rule mock.agrees [OF assms(1-4)], rule mock.fresh [OF assms(1,5,6)])

subsection \<open>A counter that does not survive a restart\<close>

lemma insert_same_reference_fails:
  assumes "row \<in> set (compliance_decisions d)" "cd_provider row = ncd_provider input"
    "cd_provider_reference row = ncd_provider_reference input"
  shows "insert_compliance_decision input d \<noteq> Inr (x, d')"
proof
  assume "insert_compliance_decision input d = Inr (x, d')"
  then obtain new where ok: "table_ok compliance_rules (compliance_decisions d @ [new])"
    and new: "cd_provider new = ncd_provider input" "cd_provider_reference new = ncd_provider_reference input"
    by (auto simp: insert_compliance_decision_def tx_simps fresh_uuid_def compliance_table_def)
  from assms(1) obtain i where i: "i < length (compliance_decisions d)" "compliance_decisions d ! i = row"
    by (auto simp: in_set_conv_nth)
  from table_ok_unique_nth [OF ok, of "''compliance_decisions_provider_ref_key''" _ i "length (compliance_decisions d)"] i assms(2,3) new
  show False by (simp add: compliance_rules_def nth_append)
qed

text \<open>
  C31: a restarted process cannot screen a subject again. The references of the provider count the
  screenings of one process from one; the decision of an earlier process with the same count already holds the
  reference, it is unique in the database, and recording the new decision fails.
\<close>

theorem rescreening_after_restart_fails:
  assumes "cp_screen (mock_compliance_provider sha validity_ms) r w = (Inr s, w')"
    and "row \<in> set (compliance_decisions d)" "cd_provider row = scs_provider s"
    and "cd_provider_reference row = scs_provider_reference s"
    and "mk_screenings restarted = mk_screenings w"
    and "cp_screen (mock_compliance_provider sha validity_ms) r restarted = (Inr s', w'')"
  shows "record_compliance_tx sha ctx input wallet asset subject_reference s' d \<noteq> Inr (x, d')"
proof
  assume run: "record_compliance_tx sha ctx input wallet asset subject_reference s' d = Inr (x, d')"
  have same: "scs_provider s' = scs_provider s" "scs_provider_reference s' = scs_provider_reference s"
    using assms(1,5,6) by (auto simp: mock_compliance_provider_def mock_screen_def Let_def)
  from run obtain d1 y d2 where d1: "supersede_active_decisions (wa_id wallet) (rci_asset_id input) d = Inr ((), d1)"
    and ins: "insert_compliance_decision
      \<lparr>ncd_wallet_id = wa_id wallet, ncd_asset_id = rci_asset_id input,
       ncd_status = decision_status_of_screening (scs_status s'), ncd_subject_reference = subject_reference,
       ncd_provider = scs_provider s', ncd_provider_reference = scs_provider_reference s',
       ncd_valid_from = scs_valid_from s', ncd_valid_until = scs_valid_until s', ncd_decided_at = scs_decided_at s',
       ncd_decided_by = ac_id (rc_actor ctx), ncd_revoked_at = None, ncd_revocation_reason = None\<rparr> d1 = Inr (y, d2)"
    by (auto simp: record_compliance_tx_def tx_bind_Inr tx_then_Inr)
  from d1 obtain p f where "compliance_decisions d1 = update_where p f (compliance_decisions d)"
      and f: "\<And>q. cd_provider (f q) = cd_provider q \<and> cd_provider_reference (f q) = cd_provider_reference q"
    by (auto simp: supersede_active_decisions_def tx_simps compliance_table_def)
  then obtain row' where "row' \<in> set (compliance_decisions d1)" "cd_provider row' = cd_provider row"
      "cd_provider_reference row' = cd_provider_reference row"
    using assms(2) by (cases "p row") (auto simp: set_update_where)
  with insert_same_reference_fails [of row' d1] ins assms(3,4) same show False by fastforce
qed

end
