(* ===== verification/Migrations.thy ===== *)
theory Migrations
  imports Errors
begin

text \<open>
  \<open>db/migrator.ts\<close>: the migrations that build the schema, each applied once, in the order of their
  names, in a transaction with the record of its checksum. The advisory lock makes a run exclusive, so
  a run is one step; executing the text of a migration is PostgreSQL's and a parameter.
\<close>

record migration_file =
  mf_name :: string
  mf_sql :: string
  mf_checksum :: string

record 'd migrated =
  md_schema :: 'd
  md_applied :: "(string \<times> string) list"

definition ends_with :: "string \<Rightarrow> string \<Rightarrow> bool" where
  "ends_with s t \<longleftrightarrow> length t \<le> length s \<and> drop (length s - length t) s = t"

text \<open>The files of the directory, by name and content.\<close>

definition load_migrations :: "(string \<Rightarrow> string) \<Rightarrow> (string \<times> string) list \<Rightarrow> migration_file list" where
  "load_migrations sha files = map (\<lambda>(name, sql). \<lparr>mf_name = name, mf_sql = sql, mf_checksum = sha sql\<rparr>)
     (sort_key fst (filter (\<lambda>(name, sql). ends_with name ''.sql'') files))"

text \<open>\<open>BEGIN\<close>, the migration, its record, \<open>COMMIT\<close>; an error rolls both back.\<close>

definition apply_migration ::
  "(string \<Rightarrow> 'd \<Rightarrow> exn + 'd) \<Rightarrow> migration_file \<Rightarrow> 'd migrated \<Rightarrow> (exn + unit) \<times> 'd migrated" where
  "apply_migration exec m st = (case exec (mf_sql m) (md_schema st) of
     Inl e \<Rightarrow> (Inl e, st)
   | Inr d \<Rightarrow>
       if mf_name m \<in> fst ` set (md_applied st) then (Inl (PgError UNIQUE_VIOLATION ''schema_migrations_pkey''), st)
       else (Inr (), st\<lparr>md_schema := d, md_applied := md_applied st @ [(mf_name m, mf_checksum m)]\<rparr>))"

definition checksum_error :: "migration_file \<Rightarrow> exn" where
  "checksum_error m = JsError (''migration '' @ mf_name m @ '' changed after being applied (checksum mismatch)'')"

fun apply_pending ::
  "(string \<Rightarrow> 'd \<Rightarrow> exn + 'd) \<Rightarrow> (string \<times> string) list \<Rightarrow> migration_file list \<Rightarrow> string list \<Rightarrow> 'd migrated \<Rightarrow>
   (exn + string list) \<times> 'd migrated" where
  "apply_pending exec existing [] applied st = (Inr applied, st)"
| "apply_pending exec existing (m # ms) applied st = (case map_of existing (mf_name m) of
     Some previous \<Rightarrow>
       if previous \<noteq> mf_checksum m then (Inl (checksum_error m), st)
       else apply_pending exec existing ms applied st
   | None \<Rightarrow> (case apply_migration exec m st of
       (Inl e, st') \<Rightarrow> (Inl e, st')
     | (Inr _, st') \<Rightarrow> apply_pending exec existing ms (applied @ [mf_name m]) st'))"

definition run_migrations ::
  "(string \<Rightarrow> 'd \<Rightarrow> exn + 'd) \<Rightarrow> (string \<Rightarrow> string) \<Rightarrow> (string \<times> string) list \<Rightarrow> 'd migrated \<Rightarrow>
   (exn + string list) \<times> 'd migrated" where
  "run_migrations exec sha files st = apply_pending exec (md_applied st) (load_migrations sha files) [] st"

definition reset_database :: "'d \<Rightarrow> 'd migrated \<Rightarrow> 'd migrated" where
  "reset_database fresh st = st\<lparr>md_schema := fresh, md_applied := []\<rparr>"

subsection \<open>What a run does\<close>

definition pending_migrations :: "(string \<times> string) list \<Rightarrow> migration_file list \<Rightarrow> migration_file list" where
  "pending_migrations existing ms = filter (\<lambda>m. mf_name m \<notin> fst ` set existing) ms"

fun exec_all :: "(string \<Rightarrow> 'd \<Rightarrow> exn + 'd) \<Rightarrow> migration_file list \<Rightarrow> 'd \<Rightarrow> exn + 'd" where
  "exec_all exec [] d = Inr d"
| "exec_all exec (m # ms) d = (case exec (mf_sql m) d of Inl e \<Rightarrow> Inl e | Inr d' \<Rightarrow> exec_all exec ms d')"

text \<open>After a run the state is the old one with the first of the pending migrations applied, all of them on success.\<close>

lemma apply_pending_prefix:
  assumes "apply_pending exec existing ms applied st = (r, st')"
  shows "\<exists>k \<le> length (pending_migrations existing ms). let done = take k (pending_migrations existing ms) in
    exec_all exec done (md_schema st) = Inr (md_schema st') \<and>
    md_applied st' = md_applied st @ map (\<lambda>m. (mf_name m, mf_checksum m)) done \<and>
    (\<forall>names. r = Inr names \<longrightarrow> k = length (pending_migrations existing ms) \<and> names = applied @ map mf_name done \<and>
      (\<forall>m \<in> set ms. \<forall>c. map_of existing (mf_name m) = Some c \<longrightarrow> c = mf_checksum m))"
  using assms
proof (induction ms arbitrary: applied st)
  case Nil
  then show ?case by (auto simp: pending_migrations_def)
next
  case (Cons m ms)
  show ?case
  proof (cases "map_of existing (mf_name m)")
    case None
    then have new: "mf_name m \<notin> fst ` set existing" by (simp add: map_of_eq_None_iff)
    show ?thesis
    proof (cases "fst (apply_migration exec m st)")
      case (Inl e)
      with Cons.prems None have "r = Inl e" "st' = st"
        by (auto simp: apply_migration_def split: sum.splits if_splits)
      then show ?thesis by (intro exI [of _ 0]) (simp add: Let_def)
    next
      case (Inr u)
      then obtain d where d: "exec (mf_sql m) (md_schema st) = Inr d" "mf_name m \<notin> fst ` set (md_applied st)"
        by (auto simp: apply_migration_def split: sum.splits if_splits)
      define st1 where "st1 = st\<lparr>md_schema := d, md_applied := md_applied st @ [(mf_name m, mf_checksum m)]\<rparr>"
      with d have 1: "apply_migration exec m st = (Inr (), st1)" "exec (mf_sql m) (md_schema st) = Inr d"
          "md_schema st1 = d" "md_applied st1 = md_applied st @ [(mf_name m, mf_checksum m)]"
        by (simp_all add: apply_migration_def)
      with Cons.prems None have "apply_pending exec existing ms (applied @ [mf_name m]) st1 = (r, st')" by simp
      from Cons.IH [OF this] obtain k where k: "k \<le> length (pending_migrations existing ms)"
        "exec_all exec (take k (pending_migrations existing ms)) (md_schema st1) = Inr (md_schema st')"
        "md_applied st' = md_applied st1 @ map (\<lambda>m. (mf_name m, mf_checksum m)) (take k (pending_migrations existing ms))"
        "\<forall>names. r = Inr names \<longrightarrow> k = length (pending_migrations existing ms) \<and>
           names = (applied @ [mf_name m]) @ map mf_name (take k (pending_migrations existing ms)) \<and>
           (\<forall>m \<in> set ms. \<forall>c. map_of existing (mf_name m) = Some c \<longrightarrow> c = mf_checksum m)"
        unfolding Let_def by blast
      have "pending_migrations existing (m # ms) = m # pending_migrations existing ms"
        using new by (simp add: pending_migrations_def)
      with k 1 None show ?thesis by (intro exI [of _ "Suc k"]) (auto simp: Let_def)
    qed
  next
    case (Some c)
    then have "pending_migrations existing (m # ms) = pending_migrations existing ms"
      by (auto simp: pending_migrations_def dest: map_of_SomeD intro: rev_image_eqI)
    with Some Cons show ?thesis
      by (cases "c = mf_checksum m") (auto simp: Let_def intro!: exI [of _ 0])
  qed
qed

lemma apply_pending_none:
  assumes "\<forall>m \<in> set ms. map_of existing (mf_name m) = Some (mf_checksum m)"
  shows "apply_pending exec existing ms applied st = (Inr applied, st)"
  using assms by (induction ms) auto

text \<open>
  C30: a migration is applied once. Whatever happens in a run, the database ends with a prefix of the
  pending migrations applied in the order of their names, each together with its record; a run that
  succeeds has applied all of them and returns their names, and repeating it applies nothing and changes
  nothing.
\<close>

theorem migrations_applied_once:
  assumes "run_migrations exec sha files st = (r, st')" "distinct (map fst files)"
  shows "(\<exists>k. let done = take k (pending_migrations (md_applied st) (load_migrations sha files)) in
      exec_all exec done (md_schema st) = Inr (md_schema st') \<and>
      md_applied st' = md_applied st @ map (\<lambda>m. (mf_name m, mf_checksum m)) done) \<and>
    (\<forall>names. r = Inr names \<longrightarrow>
      names = map mf_name (pending_migrations (md_applied st) (load_migrations sha files)) \<and>
      run_migrations exec sha files st' = (Inr [], st'))"
proof -
  let ?ms = "load_migrations sha files" and ?entry = "\<lambda>m. (mf_name m, mf_checksum m)"
  let ?pending = "pending_migrations (md_applied st) ?ms"
  from apply_pending_prefix [OF assms(1) [unfolded run_migrations_def]] obtain k where
    k: "exec_all exec (take k ?pending) (md_schema st) = Inr (md_schema st')"
      "md_applied st' = md_applied st @ map ?entry (take k ?pending)"
    and ok: "\<And>names. r = Inr names \<Longrightarrow> k = length ?pending \<and> names = map mf_name (take k ?pending) \<and>
      (\<forall>m \<in> set ?ms. \<forall>c. map_of (md_applied st) (mf_name m) = Some c \<longrightarrow> c = mf_checksum m)"
    unfolding Let_def by auto
  have "distinct (map fst (sort_key fst (filter (\<lambda>(name, sql). ends_with name ''.sql'') files)))"
    using assms(2) by (simp add: distinct_map distinct_map_filter inj_on_def)
  then have "distinct (map mf_name ?ms)" by (simp add: load_migrations_def o_def case_prod_beta')
  then have names: "distinct (map fst (map ?entry ?pending))"
    by (simp add: pending_migrations_def distinct_map_filter o_def)
  have "run_migrations exec sha files st' = (Inr [], st')" if r: "r = Inr ns" for ns
    unfolding run_migrations_def
  proof (rule apply_pending_none, rule ballI)
    fix m assume m: "m \<in> set ?ms"
    show "map_of (md_applied st') (mf_name m) = Some (mf_checksum m)"
    proof (cases "map_of (md_applied st) (mf_name m)")
      case None
      then have "?entry m \<in> set (map ?entry ?pending)" using m by (auto simp: pending_migrations_def map_of_eq_None_iff)
      then have "map_of (map ?entry ?pending) (mf_name m) = Some (mf_checksum m)" using names by (simp add: map_of_eq_Some_iff)
      with None ok [OF r] show ?thesis by (simp add: k(2) map_add_def)
    next
      case (Some c)
      with ok [OF r] m have "c = mf_checksum m" by blast
      moreover from Some have "mf_name m \<in> fst ` set (md_applied st)" by (metis domI dom_map_of_conv_image_fst)
      then have "map_of (map ?entry ?pending) (mf_name m) = None"
        by (force simp: map_of_eq_None_iff pending_migrations_def)
      ultimately show ?thesis using Some ok [OF r] by (simp add: k(2) map_add_def)
    qed
  qed
  with k ok show ?thesis unfolding Let_def by (intro conjI exI [of _ k]) auto
qed

end
