(* ===== verification/ViemGateway.thy ===== *)
theory ViemGateway
  imports Confirmation
begin

text \<open>
  \<open>adapters/evm/viem-evm-gateway.ts\<close>: the gateway over the viem client. The client and the ABI codec are
  parameters; what the adapter adds is here: the chain it insists on, the errors it turns into
  answers, the order of the fees, and the logs it takes as mint events. Timers and counters are left out.
\<close>

subsection \<open>The client\<close>

text \<open>
  What a thrown viem error shows: its class name, whether it is a \<open>BaseError\<close>, the contract revert that
  \<open>walk\<close> finds in its causes, and its texts.
\<close>

record contract_revert =
  cv_error_name :: "string option"
  cv_reason :: "string option"
  cv_short_message :: string

record viem_error =
  ve_name :: string
  ve_is_base :: bool
  ve_revert :: "contract_revert option"
  ve_short_message :: "string option"
  ve_message :: string
  ve_meta_messages :: "string list option"

type_synonym ('w, 'a) rpc_call = "'w \<Rightarrow> (viem_error + 'a) \<times> 'w"

record viem_log =
  vl_address :: string
  vl_topics :: "string list"
  vl_data :: string
  vl_log_index :: "nat option"

record viem_receipt =
  vr_transaction_hash :: string
  vr_status :: receipt_outcome
  vr_block_number :: int
  vr_block_hash :: string
  vr_gas_used :: int
  vr_contract_address :: "string option"
  vr_logs :: "viem_log list"

record 'w viem_client =
  vc_get_chain_id :: "('w, int) rpc_call"
  vc_get_block_number :: "('w, int) rpc_call"
  vc_get_code :: "string \<Rightarrow> ('w, string option) rpc_call"
  vc_estimate_fees_per_gas :: "('w, int option \<times> int option) rpc_call"
  vc_get_transaction_count :: "string \<Rightarrow> ('w, int) rpc_call"
  vc_estimate_gas :: "simulate_input \<Rightarrow> ('w, int) rpc_call"
  vc_send_raw_transaction :: "string \<Rightarrow> ('w, string) rpc_call"
  vc_get_transaction_receipt :: "string \<Rightarrow> ('w, viem_receipt) rpc_call"
  vc_get_block_hash :: "int \<Rightarrow> ('w, string option) rpc_call"
  vc_get_finalized_block :: "('w, int) rpc_call"
  vc_read_bool :: "string \<Rightarrow> string \<Rightarrow> string list \<Rightarrow> ('w, bool) rpc_call"
  vc_read_int :: "string \<Rightarrow> string \<Rightarrow> string list \<Rightarrow> ('w, int) rpc_call"
  vc_read_text :: "string \<Rightarrow> string \<Rightarrow> string list \<Rightarrow> ('w, string) rpc_call"

text \<open>\<open>encodeDeployData\<close>, \<open>encodeFunctionData\<close> and \<open>decodeEventLog\<close> on the ABI of the token.\<close>

record abi_codec =
  ab_encode_deploy :: "token_deployment \<Rightarrow> string"
  ab_encode_mint :: "mint_call \<Rightarrow> string"
  ab_encode_set_eligibility :: "set_eligibility_call \<Rightarrow> string"
  ab_decode_event :: "string \<Rightarrow> string list \<Rightarrow> (string \<times> mint_event) option"

subsection \<open>Errors\<close>

text \<open>\<open>rpc(method, fn)\<close>: any failure is an unavailable chain.\<close>

definition rpc :: "string \<Rightarrow> ('w, 'a) rpc_call \<Rightarrow> ('w, 'a) call" where
  "rpc method_name fn = (\<lambda>w. case fn w of
     (Inl e, w') \<Rightarrow> (Inl (chain_unavailable_error (''EVM RPC call '' @ method_name @ '' failed'')), w')
   | (Inr a, w') \<Rightarrow> (Inr a, w'))"

definition is_not_found :: "viem_error \<Rightarrow> bool" where
  "is_not_found e \<longleftrightarrow> ve_name e = ''TransactionReceiptNotFoundError'' \<or> ve_name e = ''TransactionNotFoundError''"

definition word_char :: "char \<Rightarrow> bool" where
  "word_char c \<longleftrightarrow> is_digit c \<or> (let n = (of_char c :: nat) in (65 \<le> n \<and> n \<le> 90) \<or> (97 \<le> n \<and> n \<le> 122) \<or> n = 95)"

text \<open>\<open>/Error:\s*([A-Za-z0-9_]+)\(/\<close>, the first match.\<close>

fun match_custom_error :: "string \<Rightarrow> string option" where
  "match_custom_error [] = None"
| "match_custom_error (c # s) =
     (let rest = dropWhile js_white (drop 6 (c # s)); name = takeWhile word_char rest
      in if starts_with (c # s) ''Error:'' \<and> name \<noteq> [] \<and> starts_with (drop (length name) rest) ''(''
         then Some name else match_custom_error s)"

definition line_break :: "char \<Rightarrow> bool" where
  "line_break c \<longleftrightarrow> of_char c \<in> {10, 13 :: nat}"

definition reason_prefix :: string where
  "reason_prefix = ''reverted with the following reason:''"

text \<open>
  \<open>/reverted with the following reason:\s*(.+)/i\<close>, the first match; on white space only, the group is the
  last character that is not a line break.
\<close>

fun match_reason :: "string \<Rightarrow> string option" where
  "match_reason [] = None"
| "match_reason (c # s) =
     (let rest = drop (length reason_prefix) (c # s); body = dropWhile js_white rest
      in if \<not> starts_with (to_lower (c # s)) reason_prefix then match_reason s
         else if body \<noteq> [] then Some (takeWhile (\<lambda>c. \<not> line_break c) body)
         else (case rev (filter (\<lambda>c. \<not> line_break c) rest) of [] \<Rightarrow> match_reason s | x # _ \<Rightarrow> Some [x]))"

definition extract_error_name :: "string \<Rightarrow> string" where
  "extract_error_name text = (case match_custom_error text of
     Some name \<Rightarrow> name
   | None \<Rightarrow> (case match_reason text of Some reason \<Rightarrow> trim reason | None \<Rightarrow> ''execution reverted''))"

definition join_space :: "string list \<Rightarrow> string" where
  "join_space parts = (case parts of [] \<Rightarrow> [] | p # ps \<Rightarrow> concat (p # map (\<lambda>q. '' '' @ q) ps))"

text \<open>The reason of an error that is a revert.\<close>

definition decode_revert :: "viem_error \<Rightarrow> string option" where
  "decode_revert e =
     (if \<not> ve_is_base e then None
      else case ve_revert e of
        Some r \<Rightarrow> Some (case cv_error_name r of Some n \<Rightarrow> n | None \<Rightarrow>
          (case cv_reason r of Some reason \<Rightarrow> reason | None \<Rightarrow> ''execution reverted''))
      | None \<Rightarrow>
          (let message = (case ve_short_message e of Some m \<Rightarrow> m | None \<Rightarrow> ve_message e);
               details = (case ve_meta_messages e of Some ms \<Rightarrow> join_space ms | None \<Rightarrow> [])
           in if str_includes (to_lower message) ''revert'' \<or> str_includes (to_lower message) ''execution reverted'' \<or>
                str_includes (to_lower message) ''custom error''
              then Some (extract_error_name (message @ '' '' @ details)) else None))"

subsection \<open>The operations\<close>

definition viem_chain_identity :: "'w viem_client \<Rightarrow> int \<Rightarrow> ('w, chain_identity) call" where
  "viem_chain_identity client expected = (\<lambda>w. case rpc ''eth_chainId'' (vc_get_chain_id client) w of
     (Inl e, w1) \<Rightarrow> (Inl e, w1)
   | (Inr chain_id, w1) \<Rightarrow> (case rpc ''eth_blockNumber'' (vc_get_block_number client) w1 of
       (Inl e, w2) \<Rightarrow> (Inl e, w2)
     | (Inr n, w2) \<Rightarrow>
         (if chain_id \<noteq> expected
          then Inl (app_error CHAIN_IDENTITY_MISMATCH
            (''RPC endpoint reports chain '' @ show_int chain_id @ '', expected '' @ show_int expected)
            [(''expected'', JNum expected), (''actual'', JNum chain_id)])
          else Inr \<lparr>ci_chain_id = chain_id, ci_latest_block_number = n\<rparr>, w2)))"

definition viem_assert_contract_deployed :: "'w viem_client \<Rightarrow> string \<Rightarrow> ('w, unit) call" where
  "viem_assert_contract_deployed client address = (\<lambda>w. case rpc ''eth_getCode'' (vc_get_code client address) w of
     (Inl e, w') \<Rightarrow> (Inl e, w')
   | (Inr code, w') \<Rightarrow>
       (if code = None \<or> code = Some ''0x''
        then Inl (app_error CHAIN_IDENTITY_MISMATCH ''no contract code at address'' [(''address'', JStr address)])
        else Inr (), w'))"

definition fee_estimate_of :: "int option \<Rightarrow> int option \<Rightarrow> fee_estimate" where
  "fee_estimate_of max_fee priority_fee =
     (let priority = (case priority_fee of None \<Rightarrow> 1000000000 | Some p \<Rightarrow> p);
          fee = (case max_fee of None \<Rightarrow> priority * 2 | Some f \<Rightarrow> f)
      in \<lparr>fe_max_fee_per_gas = (if fee > priority then fee else priority), fe_max_priority_fee_per_gas = priority\<rparr>)"

definition viem_fee_estimate :: "'w viem_client \<Rightarrow> ('w, fee_estimate) call" where
  "viem_fee_estimate client = (\<lambda>w. case rpc ''eth_feeHistory'' (vc_estimate_fees_per_gas client) w of
     (Inl e, w') \<Rightarrow> (Inl e, w')
   | (Inr (max_fee, priority_fee), w') \<Rightarrow> (Inr (fee_estimate_of max_fee priority_fee), w'))"

definition viem_simulate :: "'w viem_client \<Rightarrow> simulate_input \<Rightarrow> ('w, simulation_result) call" where
  "viem_simulate client input = (\<lambda>w. case vc_estimate_gas client input w of
     (Inr gas, w') \<Rightarrow> (Inr (Sim_ok gas), w')
   | (Inl e, w') \<Rightarrow> (case decode_revert e of
       Some reason \<Rightarrow> (Inr (Sim_failed reason), w')
     | None \<Rightarrow> (Inl (chain_unavailable_error ''simulation could not be performed''), w')))"

text \<open>Broadcast errors pass unwrapped: the caller classifies them by their text.\<close>

definition viem_broadcast :: "'w viem_client \<Rightarrow> string \<Rightarrow> ('w, string) call" where
  "viem_broadcast client signed = (\<lambda>w. case vc_send_raw_transaction client signed w of
     (Inl e, w') \<Rightarrow> (Inl (JsError (ve_message e)), w')
   | (Inr hash, w') \<Rightarrow> (Inr hash, w'))"

definition log_view_of :: "viem_log \<Rightarrow> log_view" where
  "log_view_of l = \<lparr>lv_address = vl_address l, lv_topics = vl_topics l, lv_data = vl_data l,
     lv_log_index = (case vl_log_index l of None \<Rightarrow> 0 | Some i \<Rightarrow> i)\<rparr>"

definition receipt_view_of :: "viem_receipt \<Rightarrow> receipt_view" where
  "receipt_view_of r = \<lparr>rv_transaction_hash = vr_transaction_hash r, rv_status = vr_status r,
     rv_block_number = vr_block_number r, rv_block_hash = vr_block_hash r, rv_gas_used = vr_gas_used r,
     rv_contract_address = vr_contract_address r, rv_logs = map log_view_of (vr_logs r)\<rparr>"

definition viem_receipt_lookup :: "'w viem_client \<Rightarrow> string \<Rightarrow> ('w, receipt_view option) call" where
  "viem_receipt_lookup client hash = (\<lambda>w. case vc_get_transaction_receipt client hash w of
     (Inr r, w') \<Rightarrow> (Inr (Some (receipt_view_of r)), w')
   | (Inl e, w') \<Rightarrow> (if is_not_found e then Inr None else Inl (chain_unavailable_error ''receipt lookup failed''), w'))"

definition viem_block_hash_at :: "'w viem_client \<Rightarrow> int \<Rightarrow> ('w, string option) call" where
  "viem_block_hash_at client n = (\<lambda>w. case vc_get_block_hash client n w of
     (Inr h, w') \<Rightarrow> (Inr h, w')
   | (Inl e, w') \<Rightarrow> (if is_not_found e then Inr None else Inl (chain_unavailable_error ''block lookup failed''), w'))"

definition viem_finalized_block_number :: "'w viem_client \<Rightarrow> ('w, int option) call" where
  "viem_finalized_block_number client = (\<lambda>w. case vc_get_finalized_block client w of
     (Inr n, w') \<Rightarrow> (Inr (Some n), w') | (Inl e, w') \<Rightarrow> (Inr None, w'))"

text \<open>Only logs of the asset's own contract that decode to \<open>MintExecuted\<close> count.\<close>

fun viem_decode_mint_events :: "abi_codec \<Rightarrow> string \<Rightarrow> log_view list \<Rightarrow> mint_event list" where
  "viem_decode_mint_events abi contract [] = []"
| "viem_decode_mint_events abi contract (l # ls) =
     (if to_lower (lv_address l) \<noteq> to_lower contract then viem_decode_mint_events abi contract ls
      else case ab_decode_event abi (lv_data l) (lv_topics l) of
        None \<Rightarrow> viem_decode_mint_events abi contract ls
      | Some (name, args) \<Rightarrow>
          if name \<noteq> ''MintExecuted'' then viem_decode_mint_events abi contract ls
          else args # viem_decode_mint_events abi contract ls)"

definition viem_read ::
  "(string \<Rightarrow> string \<Rightarrow> string list \<Rightarrow> ('w, 'a) rpc_call) \<Rightarrow> string \<Rightarrow> string \<Rightarrow> string list \<Rightarrow> ('w, 'a) call" where
  "viem_read reader contract fn args = rpc (''eth_call:'' @ fn) (reader contract fn args)"

definition and_then :: "('w, 'a) call \<Rightarrow> ('a \<Rightarrow> ('w, 'b) call) \<Rightarrow> ('w, 'b) call" where
  "and_then m k = (\<lambda>w. case m w of (Inl e, w') \<Rightarrow> (Inl e, w') | (Inr a, w') \<Rightarrow> k a w')"

definition viem_token_state :: "'w viem_client \<Rightarrow> string \<Rightarrow> ('w, token_state) call" where
  "viem_token_state client contract =
     and_then (viem_read (vc_read_bool client) contract ''paused'' []) (\<lambda>paused.
     and_then (viem_read (vc_read_int client) contract ''totalSupply'' []) (\<lambda>total.
     and_then (viem_read (vc_read_int client) contract ''supplyCap'' []) (\<lambda>cap.
     and_then (viem_read (vc_read_int client) contract ''decimals'' []) (\<lambda>decimals.
     and_then (viem_read (vc_read_text client) contract ''symbol'' []) (\<lambda>symbol.
     (\<lambda>w. (Inr \<lparr>tk_paused = paused, tk_total_supply = total, tk_supply_cap = cap, tk_decimals = decimals, tk_symbol = symbol\<rparr>, w)))))))"

definition viem_gateway :: "'w viem_client \<Rightarrow> abi_codec \<Rightarrow> int \<Rightarrow> 'w gateway" where
  "viem_gateway client abi expected_chain_id =
     \<lparr>gw_get_chain_identity = viem_chain_identity client expected_chain_id,
      gw_assert_contract_deployed = viem_assert_contract_deployed client,
      gw_get_fee_estimate = viem_fee_estimate client,
      gw_get_transaction_count = (\<lambda>address. rpc ''eth_getTransactionCount'' (vc_get_transaction_count client address)),
      gw_encode_token_deployment = (\<lambda>params. \<lparr>ec_to = None, ec_data = ab_encode_deploy abi params\<rparr>),
      gw_encode_mint_call = (\<lambda>contract params. \<lparr>ec_to = Some contract, ec_data = ab_encode_mint abi params\<rparr>),
      gw_encode_set_eligibility_call = (\<lambda>contract params. \<lparr>ec_to = Some contract, ec_data = ab_encode_set_eligibility abi params\<rparr>),
      gw_simulate = viem_simulate client,
      gw_broadcast_raw_transaction = viem_broadcast client,
      gw_get_transaction_receipt = viem_receipt_lookup client,
      gw_get_latest_block_number = rpc ''eth_blockNumber'' (vc_get_block_number client),
      gw_get_block_hash_at = viem_block_hash_at client,
      gw_get_finalized_block_number = viem_finalized_block_number client,
      gw_decode_mint_executed_events = viem_decode_mint_events abi,
      gw_read_token_state = viem_token_state client,
      gw_read_balance_of = (\<lambda>contract account. viem_read (vc_read_int client) contract ''balanceOf'' [account]),
      gw_read_reference_consumed = (\<lambda>contract reference. viem_read (vc_read_bool client) contract ''referenceConsumed'' [reference]),
      gw_read_eligible_until = (\<lambda>contract account. viem_read (vc_read_int client) contract ''eligibleUntil'' [account])\<rparr>"

subsection \<open>The contract of a gateway\<close>

text \<open>
  What the modules rely on: an answer about the chain's identity is about the configured chain, an
  estimate never asks for a priority fee above the whole fee, and mint events come from the asset's contract.
\<close>

locale honest_gateway =
  fixes gw :: "'w gateway" and expected :: int
  assumes identity: "gw_get_chain_identity gw w = (Inr ident, w') \<Longrightarrow> ci_chain_id ident = expected"
    and fees: "gw_get_fee_estimate gw w = (Inr fees, w') \<Longrightarrow> fe_max_priority_fee_per_gas fees \<le> fe_max_fee_per_gas fees"
    and events: "e \<in> set (gw_decode_mint_executed_events gw contract logs) \<Longrightarrow>
      \<exists>l \<in> set logs. to_lower (lv_address l) = to_lower contract"
begin

text \<open>A fee bump over such an estimate keeps the order, so signed replacements pass the fee check.\<close>

lemma bump_ordered:
  assumes "gw_get_fee_estimate gw w = (Inr cur, w')" "0 \<le> percent"
    and "ta_max_priority_fee_per_gas a \<le> ta_max_fee_per_gas a"
  shows "fe_max_priority_fee_per_gas (bump_fees a cur percent) \<le> fe_max_fee_per_gas (bump_fees a cur percent)"
proof -
  have "ta_max_priority_fee_per_gas a * (100 + percent) \<le> ta_max_fee_per_gas a * (100 + percent)"
    using assms(2,3) by (intro mult_right_mono) auto
  then have "bump_scale percent (ta_max_priority_fee_per_gas a) \<le> bump_scale percent (ta_max_fee_per_gas a)"
    by (simp add: bump_scale_def zdiv_mono1)
  with fees [OF assms(1)] show ?thesis by (auto simp: bump_fees_def)
qed

end

lemma mint_events_own:
  "e \<in> set (viem_decode_mint_events abi contract logs) \<Longrightarrow>
   \<exists>l \<in> set logs. to_lower (lv_address l) = to_lower contract \<and> ab_decode_event abi (lv_data l) (lv_topics l) = Some (''MintExecuted'', e)"
  by (induction logs) (auto split: if_splits option.splits prod.splits)

interpretation viem: honest_gateway "viem_gateway client abi expected" expected for client abi expected
proof
  fix w w' ident
  assume "gw_get_chain_identity (viem_gateway client abi expected) w = (Inr ident, w')"
  then show "ci_chain_id ident = expected"
    by (auto simp: viem_gateway_def viem_chain_identity_def split: prod.splits sum.splits if_splits)
next
  fix w w' fees
  assume "gw_get_fee_estimate (viem_gateway client abi expected) w = (Inr fees, w')"
  then show "fe_max_priority_fee_per_gas fees \<le> fe_max_fee_per_gas fees"
    by (auto simp: viem_gateway_def viem_fee_estimate_def fee_estimate_of_def Let_def split: prod.splits sum.splits)
next
  fix e contract logs
  assume "e \<in> set (gw_decode_mint_executed_events (viem_gateway client abi expected) contract logs)"
  then show "\<exists>l \<in> set logs. to_lower (lv_address l) = to_lower contract"
    by (auto simp: viem_gateway_def dest: mint_events_own)
qed

text \<open>
  Fees stay in order from the estimate to every replacement. Whatever the node answers, the estimate of
  the gateway has its priority fee within the whole fee, and bumping an attempt whose fees are in order by the
  current estimate gives fees in order that are at least the estimate.
\<close>

theorem fees_always_ordered:
  assumes "gw_get_fee_estimate (viem_gateway client abi expected) w = (Inr cur, w')" "0 \<le> percent"
    and "ta_max_priority_fee_per_gas a \<le> ta_max_fee_per_gas a"
  shows "fe_max_priority_fee_per_gas cur \<le> fe_max_fee_per_gas cur \<and>
    fe_max_priority_fee_per_gas (bump_fees a cur percent) \<le> fe_max_fee_per_gas (bump_fees a cur percent) \<and>
    fe_max_fee_per_gas cur \<le> fe_max_fee_per_gas (bump_fees a cur percent)"
  using viem.fees [OF assms(1)] viem.bump_ordered [OF assms] by (auto simp: bump_fees_def)

text \<open>
  C39: a block the chain no longer has is an outage, not a reorganisation. The client reports a missing block
  by an error of its own name, which the gateway does not count among the errors that mean \<open>not found\<close>:
  the wait for confirmation then fails as if the chain were unavailable, where a null would have
  been reported as an orphaned receipt.
\<close>

theorem missing_block_is_an_outage:
  assumes "vc_get_transaction_receipt client hash (sys_world s) = (Inr r, w1)"
    and "vc_get_block_hash client (vr_block_number r) w1 = (Inl e, w2)" "ve_name e = ''BlockNotFoundError''"
    and "js_clock s < deadline"
  shows "fst (watch_round (viem_gateway client abi expected) hash deadline policy next_round observed s) =
    Inl (chain_unavailable_error ''block lookup failed'')"
  using assms
  by (simp add: watch_round_def io_run date_now_run call_world_def viem_gateway_def viem_receipt_lookup_def
      viem_block_hash_at_def is_not_found_def receipt_view_of_def)

end
