(* ===== verification/ServiceWitnesses.thy ===== *)
theory ServiceWitnesses
  imports Witnesses Ledger Delivery Guarantees Sending MockCompliance Migrations ViemGateway
begin

text \<open>
  The properties of the ledgers, the deliveries, the write path, the application, the process and the
  adapters applied to concrete inputs: to states of the demo run of \<open>Scenario\<close> where a run of the
  program is needed, and to small inputs of their own elsewhere.
\<close>

subsection \<open>Ledgers\<close>

text \<open>The demo run takes steps of the system from one of its states to the next.\<close>

lemma demo_onward: "db_steps demo_executor (sys_db demo_approved) (sys_db (snd demo_minted))"
  unfolding demo_minted_def
  by (rule onward_steps [OF onward.steps_execute]) (simp add: demo_others db_steps_def)

theorem ledgers_only_grow_witness:
  "prefix (audit_events (sys_db demo_approved)) (audit_events (sys_db (snd demo_minted))) \<and>
   prefix (operation_transitions (sys_db demo_approved)) (operation_transitions (sys_db (snd demo_minted)))"
  using ledgers_only_grow [OF demo_onward] by blast

lemma demo_approved_deployment:
  "\<exists>r. r \<in> set (operations (sys_db demo_approved)) \<and> op_id r = ''u1'' \<and> op_state r = Op_SUCCEEDED"
proof -
  have "map (\<lambda>r. (op_id r, op_state r)) (operations (sys_db demo_approved)) =
     [(''u1'', Op_SUCCEEDED), (''u13'', Op_READY), (''u17'', Op_READY)]"
    unfolding demo_approved_run by simp
  then have "(''u1'', Op_SUCCEEDED) \<in> set (map (\<lambda>r. (op_id r, op_state r)) (operations (sys_db demo_approved)))" by simp
  then show ?thesis by auto
qed

theorem ended_operations_stay_witness:
  "\<exists>r. r \<in> set (operations (sys_db (snd demo_minted))) \<and> op_id r = ''u1'' \<and> op_state r = Op_SUCCEEDED"
proof -
  from demo_approved_deployment obtain r where r: "r \<in> set (operations (sys_db demo_approved))" "op_id r = ''u1''"
      "op_state r = Op_SUCCEEDED" by blast
  then have "op_state r \<in> set terminal_operation_states" by (simp add: terminal_operation_states_def)
  from ended_operations_stay [OF demo_reachable(7) demo_onward r(1) this] r show ?thesis by auto
qed

theorem executed_at_most_once_witness:
  "\<exists>r. r \<in> set (operations (sys_db (snd demo_minted))) \<and> op_state r = Op_SUCCEEDED \<and>
     count_list (history_of (op_id r) (operation_transitions (sys_db (snd demo_minted)))) Op_SIGNED \<le> 1"
proof -
  have "(''u17'', MINT, Op_SUCCEEDED) \<in> set (map (\<lambda>r. (op_id r, op_type r, op_state r)) (operations (sys_db (snd demo_minted))))"
    unfolding demo_outcomes(2) by simp
  then obtain r where "r \<in> set (operations (sys_db (snd demo_minted)))" "op_state r = Op_SUCCEEDED" by auto
  with executed_at_most_once [OF demo_reachable(8)] show ?thesis by blast
qed

text \<open>Two reservations of one lane, with the clocks moving in between.\<close>

lemma demo_lane_names: "to_lower ''0xA'' = ''0xa''" "to_lower ''0xa'' = ''0xa''"
  by code_simp+

declare run_congs [cong] state_congs [cong] let_weak_cong [cong] char_cong [cong]

lemma demo_reservations:
  "\<exists>d2 d4. reserve_nonce 31337 ''0xA'' 5 (empty_db demo_uuid) = Inr (5, d2) \<and>
     reserve_nonce 31337 ''0xa'' 6 (d2\<lparr>db_now := 9, app_now := 8\<rparr>) = Inr (6, d4)"
  by (simp add: runs demo_runs demo_lane_names)

declare run_congs [cong del] state_congs [cong del] let_weak_cong [cong del] char_cong [cong del]

theorem nonce_never_reused_witness:
  "\<exists>d2 d4. reserve_nonce 31337 ''0xA'' 5 (empty_db demo_uuid) = Inr (5, d2) \<and>
     reserve_nonce 31337 ''0xa'' 6 (d2\<lparr>db_now := 9, app_now := 8\<rparr>) = Inr (6, d4) \<and>
     read_reserved_nonce 31337 ''0xA'' d4 = Some 7"
proof -
  from demo_reservations obtain d2 d4 where r: "reserve_nonce 31337 ''0xA'' 5 (empty_db demo_uuid) = Inr (5, d2)"
    "reserve_nonce 31337 ''0xa'' 6 (d2\<lparr>db_now := 9, app_now := 8\<rparr>) = Inr (6, d4)" by blast
  have "db_steps demo_executor d2 (d2\<lparr>db_now := 9, app_now := 8\<rparr>)" by (rule db_steps_step) (rule step_clock)
  from nonce_never_reused [OF r(1) this r(2)] r show ?thesis by (simp add: demo_lane_names)
qed

subsection \<open>Migrations\<close>

text \<open>A database that records the statements it ran and refuses one of them.\<close>

definition demo_exec :: "string \<Rightarrow> string list \<Rightarrow> exn + string list" where
  "demo_exec sql d = (if sql = ''boom'' then Inl (JsError ''syntax error'') else Inr (sql # d))"

definition demo_files :: "(string \<times> string) list" where
  "demo_files = [(''2.sql'', ''two''), (''notes'', ''no''), (''1.sql'', ''one'')]"

definition demo_fresh :: "string list migrated" where
  "demo_fresh = \<lparr>md_schema = [], md_applied = []\<rparr>"

lemma demo_migrated:
  "run_migrations demo_exec demo_sha demo_files demo_fresh =
   (Inr [''1.sql'', ''2.sql''], \<lparr>md_schema = [''two'', ''one''], md_applied = [(''1.sql'', ''one''), (''2.sql'', ''two'')]\<rparr>)"
  by code_simp

theorem migrations_applied_once_witness:
  "\<exists>st' :: string list migrated. run_migrations demo_exec demo_sha demo_files demo_fresh = (Inr [''1.sql'', ''2.sql''], st') \<and>
     run_migrations demo_exec demo_sha demo_files st' = (Inr [], st')"
proof -
  have "distinct (map fst demo_files)" by (simp add: demo_files_def)
  from migrations_applied_once [OF demo_migrated this] demo_migrated show ?thesis by blast
qed

subsection \<open>The mock provider\<close>

definition demo_screening :: screen_request where
  "demo_screening = \<lparr>scr_subject_reference = ''v'', scr_wallet_address = ''0xB'', scr_chain_id = 31337, scr_asset_id = None\<rparr>"

definition demo_check :: eligibility_request where
  "demo_check = \<lparr>er_subject_reference = ''v'', er_wallet_address = ''0xB'', er_chain_id = 31337, er_asset_id = None, er_amount = ''5''\<rparr>"

definition demo_forced :: mock_state where
  "demo_forced = force_ineligible ''0xb'' \<lparr>mk_forced = {}, mk_screenings = 0, mk_now = 7\<rparr>"

abbreviation demo_mock :: "mock_state compliance_provider" where
  "demo_mock \<equiv> mock_compliance_provider demo_sha MOCK_VALIDITY_MS"

theorem mock_screening_agrees_witness:
  "\<exists>s w' e w''. cp_screen demo_mock demo_screening demo_forced = (Inr s, w') \<and>
     cp_check_eligibility demo_mock demo_check w' = (Inr e, w'') \<and> \<not> es_eligible e \<and> scs_status s \<noteq> Screening_APPROVED"
proof -
  obtain s w' where screen: "cp_screen demo_mock demo_screening demo_forced = (Inr s, w')"
    by (simp add: mock_compliance_provider_def mock_screen_def Let_def)
  obtain e w'' where check: "cp_check_eligibility demo_mock demo_check w' = (Inr e, w'')"
    by (simp add: mock_compliance_provider_def mock_check_eligibility_def Let_def)
  obtain s2 w2 where again: "cp_screen demo_mock demo_screening w' = (Inr s2, w2)"
    by (simp add: mock_compliance_provider_def mock_screen_def Let_def)
  have "to_lower ''0xB'' = to_lower ''0xb''" by code_simp
  with mock_screening_agrees [OF screen check _ _ order_refl again] screen check show ?thesis
    by (auto simp: demo_screening_def demo_check_def demo_forced_def force_ineligible_def)
qed

text \<open>The decision a process recorded before it was restarted.\<close>

definition demo_decision :: compliance_row where
  "demo_decision = \<lparr>cd_id = ''u1'', cd_wallet_id = ''u0'', cd_asset_id = None, cd_status = Cd_APPROVED,
     cd_subject_reference = ''v'', cd_provider = ''mock-local'',
     cd_provider_reference = screening_reference demo_sha demo_screening 1, cd_valid_from = 0, cd_valid_until = 9,
     cd_decided_at = 0, cd_decided_by = ''k'', cd_chain_sync_status = Cs_SYNCED, cd_chain_sync_tx_hash = None,
     cd_superseded_at = None, cd_revoked_at = None, cd_revocation_reason = None, cd_created_at = 0\<rparr>"

theorem rescreening_after_restart_fails_witness:
  "\<exists>s' w'. cp_screen demo_mock demo_screening \<lparr>mk_forced = {}, mk_screenings = 0, mk_now = 8\<rparr> = (Inr s', w') \<and>
     (\<forall>ctx input wallet x d'. record_compliance_tx demo_sha ctx input wallet None ''v'' s'
        ((empty_db demo_uuid)\<lparr>compliance_decisions := [demo_decision]\<rparr>) \<noteq> Inr (x, d'))"
proof -
  let ?w = "\<lparr>mk_forced = {}, mk_screenings = 0, mk_now = 7\<rparr>"
  let ?restarted = "\<lparr>mk_forced = {}, mk_screenings = 0, mk_now = 8\<rparr>"
  obtain s w' where screen: "cp_screen demo_mock demo_screening ?w = (Inr s, w')"
    by (simp add: mock_compliance_provider_def mock_screen_def Let_def)
  obtain s' w'' where again: "cp_screen demo_mock demo_screening ?restarted = (Inr s', w'')"
    by (simp add: mock_compliance_provider_def mock_screen_def Let_def)
  from screen have "cd_provider demo_decision = scs_provider s" "cd_provider_reference demo_decision = scs_provider_reference s"
    by (auto simp: mock_compliance_provider_def mock_screen_def Let_def demo_decision_def mock_name_def)
  from rescreening_after_restart_fails [OF screen _ this _ again, of "(empty_db demo_uuid)\<lparr>compliance_decisions := [demo_decision]\<rparr>"]
    again show ?thesis by simp
qed

subsection \<open>The viem gateway\<close>

text \<open>A node that answers everything but blocks, and proposes fees out of order.\<close>

definition demo_missing_block :: viem_error where
  "demo_missing_block = \<lparr>ve_name = ''BlockNotFoundError'', ve_is_base = True, ve_revert = None, ve_short_message = None,
     ve_message = ''Block at number 7 could not be found.'', ve_meta_messages = None\<rparr>"

definition demo_client :: "unit viem_client" where
  "demo_client = \<lparr>vc_get_chain_id = (\<lambda>w. (Inr 31337, w)), vc_get_block_number = (\<lambda>w. (Inr 9, w)),
     vc_get_code = (\<lambda>_ w. (Inr (Some ''0x60''), w)), vc_estimate_fees_per_gas = (\<lambda>w. (Inr (Some 3, Some 5), w)),
     vc_get_transaction_count = (\<lambda>_ w. (Inr 0, w)), vc_estimate_gas = (\<lambda>_ w. (Inr 21000, w)),
     vc_send_raw_transaction = (\<lambda>_ w. (Inr ''0x1'', w)),
     vc_get_transaction_receipt = (\<lambda>h w. (Inr \<lparr>vr_transaction_hash = h, vr_status = Rc_success, vr_block_number = 7,
       vr_block_hash = ''0xf'', vr_gas_used = 21000, vr_contract_address = None, vr_logs = []\<rparr>, w)),
     vc_get_block_hash = (\<lambda>_ w. (Inl demo_missing_block, w)), vc_get_finalized_block = (\<lambda>w. (Inr 9, w)),
     vc_read_bool = (\<lambda>_ _ _ w. (Inr False, w)), vc_read_int = (\<lambda>_ _ _ w. (Inr 0, w)), vc_read_text = (\<lambda>_ _ _ w. (Inr ''T'', w))\<rparr>"

definition demo_abi :: abi_codec where
  "demo_abi = \<lparr>ab_encode_deploy = (\<lambda>_. ''0x6''), ab_encode_mint = (\<lambda>_. ''0x4''), ab_encode_set_eligibility = (\<lambda>_. ''0x5''),
     ab_decode_event = (\<lambda>_ _. None)\<rparr>"

theorem fees_always_ordered_witness:
  "\<exists>cur. gw_get_fee_estimate (viem_gateway demo_client demo_abi 31337) () = (Inr cur, ()) \<and>
     fe_max_fee_per_gas cur = 5 \<and> fe_max_priority_fee_per_gas cur = 5 \<and>
     fe_max_priority_fee_per_gas (bump_fees demo_attempt cur 12) \<le> fe_max_fee_per_gas (bump_fees demo_attempt cur 12)"
proof -
  have cur: "gw_get_fee_estimate (viem_gateway demo_client demo_abi 31337) () =
      (Inr \<lparr>fe_max_fee_per_gas = 5, fe_max_priority_fee_per_gas = 5\<rparr>, ())"
    by (simp add: viem_gateway_def viem_fee_estimate_def rpc_def demo_client_def fee_estimate_of_def Let_def)
  from fees_always_ordered [OF cur, of 12 demo_attempt] cur show ?thesis
    by (simp add: demo_attempt_def prepared_attempt_def demo_attempt_input_def)
qed

theorem missing_block_is_an_outage_witness:
  "\<exists>(s :: unit sys) next_round observed. fst (watch_round (viem_gateway demo_client demo_abi 31337) ''0x1'' 60 demo_policy next_round observed s) =
     Inl (chain_unavailable_error ''block lookup failed'')"
proof -
  let ?s = "\<lparr>sys_db = empty_db demo_uuid, sys_world = (), sys_step = 0, sys_clock = (\<lambda>n. (0, 0)), sys_others = (\<lambda>_ d. d)\<rparr> :: unit sys"
  obtain r where r: "vc_get_transaction_receipt demo_client ''0x1'' (sys_world ?s) = (Inr r, ())" by (simp add: demo_client_def)
  have block: "vc_get_block_hash demo_client (vr_block_number r) () = (Inl demo_missing_block, ())" by (simp add: demo_client_def)
  have "ve_name demo_missing_block = ''BlockNotFoundError''" "js_clock ?s < 60"
    by (simp_all add: demo_missing_block_def js_clock_def)
  from missing_block_is_an_outage [OF r block this] show ?thesis by blast
qed

subsection \<open>Deliveries\<close>

definition demo_identity :: idempotency_identity where
  "demo_identity = \<lparr>ii_scope = ''mint'', ii_organization_id = ''o'', ii_actor_id = ''i'', ii_idempotency_key = ''key''\<rparr>"

definition demo_answer :: idempotent_result where
  "demo_answer = \<lparr>ir_status = 202, ir_body = JStr ''done'', ir_resource_type = ''operation'', ir_resource_id = ''u9''\<rparr>"

lemma demo_payloads: "canonical_hash demo_sha (JStr ''b'') \<noteq> canonical_hash demo_sha (JStr ''a'')"
  by code_simp

declare run_congs [cong] state_congs [cong] let_weak_cong [cong] char_cong [cong]

lemma demo_answered:
  "\<exists>out s'. execute_idempotent demo_sha demo_identity (JStr ''a'') (tx_ret demo_answer) demo_start = (Inr out, s')"
  by (simp add: demo_identity_def demo_answer_def demo_start_def runs demo_runs)

lemma demo_claims:
  "\<exists>tok rows d2 tok' rows' d3. claim_pending_outbox 10 None None (sys_db demo_created) = Inr ((tok, rows), d2) \<and>
     map ob_id rows = [''u2''] \<and> set rows \<subseteq> set (outbox d2) \<and> db_now d2 = db_now (sys_db demo_created) \<and>
     claim_pending_outbox 10 None None d2 = Inr ((tok', rows'), d3)"
  unfolding demo_created_run by (simp add: runs demo_runs claim_pending_outbox_def [THEN fun_cong])

lemma demo_outbox:
  "map ob_id (outbox (sys_db demo_created)) = [''u2'']" "claim_candidates 10 None (sys_db demo_created) = [''u2'']"
  "map outbox_job (outbox (sys_db demo_created)) = [Inr \<lparr>jd_operation_id = ''u1'', jd_outbox_id = Some ''u2'', jd_correlation_id = ''c''\<rparr>]"
  "db_now (sys_db demo_created) = 0" "app_now (sys_db demo_created) = 0"
  unfolding demo_created_run by (simp_all add: runs demo_runs)

declare run_congs [cong del] state_congs [cong del] let_weak_cong [cong del] char_cong [cong del]

theorem answered_request_replays_witness:
  "\<exists>out s' s2 s3. execute_idempotent demo_sha demo_identity (JStr ''a'') (tx_ret demo_answer) demo_start = (Inr out, s') \<and>
     execute_idempotent demo_sha demo_identity (JStr ''a'') (tx_ret demo_answer) s' = (Inr (out\<lparr>io_replayed := True\<rparr>), s2) \<and>
     execute_idempotent demo_sha demo_identity (JStr ''b'') (tx_ret demo_answer) s' =
       (Inl (app_error IDEMPOTENCY_CONFLICT ''idempotency key was already used with a different request payload''
         [(''idempotencyKey'', JStr ''key'')]), s3)"
proof -
  from demo_answered obtain out s' where
    run: "execute_idempotent demo_sha demo_identity (JStr ''a'') (tx_ret demo_answer) demo_start = (Inr out, s')" by blast
  have "\<exists>n. execute_idempotent demo_sha demo_identity again (tx_ret demo_answer) s' =
    (if canonical_hash demo_sha again = canonical_hash demo_sha (JStr ''a'') then Inr (out\<lparr>io_replayed := True\<rparr>)
     else Inl (app_error IDEMPOTENCY_CONFLICT ''idempotency key was already used with a different request payload''
       [(''idempotencyKey'', JStr (ii_idempotency_key demo_identity))]),
     s'\<lparr>sys_db := (db_at_step s')\<lparr>uuid_next := n\<rparr>, sys_step := Suc (sys_step s')\<rparr>)" for again
    by (rule answered_request_replays [OF _ _ run]) (simp_all add: demo_others tx_simps)
  from this [of "JStr ''a''"] this [of "JStr ''b''"] run show ?thesis
    using demo_payloads by (auto simp: demo_identity_def)
qed

theorem outbox_claims_are_exclusive_witness:
  "\<exists>tok rows d2 tok' (rows' :: outbox_row list) d3. claim_pending_outbox 10 None None (sys_db demo_created) = Inr ((tok, rows), d2) \<and>
     claim_pending_outbox 10 None None d2 = Inr ((tok', rows'), d3) \<and> ob_id ` set rows = {''u2''} \<and> ''u2'' \<notin> ob_id ` set rows'"
proof -
  from demo_claims obtain tok rows d2 tok' rows' d3 where
    first: "claim_pending_outbox 10 None None (sys_db demo_created) = Inr ((tok, rows), d2)"
    and ids: "map ob_id rows = [''u2'']" and kept: "set rows \<subseteq> set (outbox d2)" "db_now d2 = db_now (sys_db demo_created)"
    and second: "claim_pending_outbox 10 None None d2 = Inr ((tok', rows'), d3)" by auto
  have "ob_id ` set rows = {''u2''}" by (metis ids list.set_map list.set(1) list.set(2))
  with outbox_claims_are_exclusive [OF first kept(1) _ second] kept(2) first second show ?thesis
    by (simp add: DEFAULT_CLAIM_LEASE_MS_def)
qed

text \<open>A queue that keeps what it is given.\<close>

definition demo_queue :: "(job_data \<times> string) list queue" where
  "demo_queue = \<lparr>qu_add = (\<lambda>_ job i w. (Inr (), w @ [(job, i)]))\<rparr>"

definition demo_dispatching :: "(job_data \<times> string) list sys" where
  "demo_dispatching = \<lparr>sys_db = sys_db demo_created, sys_world = [], sys_step = 0, sys_clock = (\<lambda>_. (0, 0)), sys_others = (\<lambda>_ d. d)\<rparr>"

definition demo_job :: job_data where
  "demo_job = \<lparr>jd_operation_id = ''u1'', jd_outbox_id = Some ''u2'', jd_correlation_id = ''c''\<rparr>"

theorem dispatch_delivers_witness:
  "\<exists>s' :: (job_data \<times> string) list sys. dispatch_once demo_queue \<lparr>do_batch_size = 10, do_retry_after_ms = None\<rparr> demo_dispatching = (Inr 1, s') \<and>
     sys_world s' = [(demo_job, ''outbox-u2'')] \<and> map ob_status (outbox (sys_db s')) = [Ob_DISPATCHED]"
proof -
  let ?d = "sys_db demo_created"
  from demo_outbox obtain r where r: "outbox ?d = [r]" "ob_id r = ''u2''" "outbox_job r = Inr demo_job"
    by (auto simp: demo_job_def)
  have "?d\<lparr>db_now := 0, app_now := 0\<rparr> = ?d" using demo_outbox(4,5) by (cases ?d) simp
  then have at: "db_at_step demo_dispatching = ?d" by (simp add: db_at_step_def demo_dispatching_def)
  have "accepts_jobs demo_queue id" by (simp add: accepts_jobs_def demo_queue_def)
  moreover have "table_ok outbox_rules (outbox (sys_db demo_dispatching))"
    using reachable_schema_facts(1) [OF demo_reachable(1)] by (simp add: demo_dispatching_def db_ok_def outbox_table_def)
  ultimately have "\<exists>s' now. dispatch_once demo_queue \<lparr>do_batch_size = 10, do_retry_after_ms = None\<rparr> demo_dispatching = (Inr (length [''u2'']), s') \<and>
    id (sys_world s') = id (sys_world demo_dispatching) @
      map (\<lambda>r. (demo_job, ''outbox-'' @ ob_id r)) (filter (\<lambda>r. ob_id r \<in> set [''u2'']) (outbox (sys_db demo_dispatching))) \<and>
    outbox (sys_db s') = update_where (\<lambda>r. ob_id r \<in> set [''u2'']) (delivered_row now) (outbox (sys_db demo_dispatching))"
    by (rule dispatch_delivers) (simp_all add: at demo_outbox(2), simp_all add: demo_dispatching_def r)
  then show ?thesis by (auto simp: demo_dispatching_def r update_where_def delivered_row_def)
qed

subsection \<open>The write path\<close>

text \<open>A worker that gives up waiting at once sends the mint; another one, later, sees it included.\<close>

definition demo_impatient :: "demo_world executor_env" where
  "demo_impatient = demo_executor\<lparr>ee_chain := demo_chain\<lparr>ce_gateway :=
       demo_gateway\<lparr>gw_get_transaction_receipt := (\<lambda>_ w. (Inr None, w))\<rparr>\<rparr>,
     ee_confirmation := demo_policy\<lparr>po_timeout_ms := 0\<rparr>\<rparr>"

lemma demo_impatient_fields:
  "ee_chain demo_impatient = demo_chain\<lparr>ce_gateway := demo_gateway\<lparr>gw_get_transaction_receipt := (\<lambda>_ w. (Inr None, w))\<rparr>\<rparr>"
  "ee_handlers demo_impatient = demo_handlers"
  "ee_confirmation demo_impatient = demo_policy\<lparr>po_timeout_ms := 0\<rparr>"
  by (simp_all add: demo_impatient_def demo_env_fields)

declare run_congs [cong] state_congs [cong] let_weak_cong [cong] char_cong [cong] runs [simp] demo_runs [simp]
declare watch_receipt.simps [simp del] poll_receipt.simps [simp del] io_map.simps [simp del] tx_for_each.simps [simp del]
  resolve_in_flight.simps [simp del] demo_mint_hash [simp] demo_reference_def [symmetric, simp] show_int_def [simp]
  demo_impatient_fields [simp]

definition demo_submitted :: "demo_world sys" where
  "demo_submitted = snd (execute_operation demo_impatient ''u17'' ''w'' demo_approved)"

lemmas demo_submitted_run = demo_submitted_def [unfolded demo_approved_run, simplified]

lemma demo_observed:
  "map (\<lambda>r. (op_id r, op_state r)) (operations (sys_db demo_submitted)) =
     [(''u1'', Op_SUCCEEDED), (''u13'', Op_READY), (''u17'', Op_SUBMITTED)]"
  "fst (observe_and_finalize demo_executor ''u17'' ''u26'' ''0x2'' demo_submitted) = Inr (Ex_SUCCEEDED ''0x2'')"
  "map_option op_state (find_operation_by_id ''u17'' (db_at_step demo_submitted)) = Some Op_SUBMITTED"
  "map_option op_state (find_operation_by_id ''u13'' (sys_db demo_submitted)) = Some Op_READY"
  "\<exists>d'. fail_operation_tx ''u17'' ''E'' ''late'' (sys_db demo_submitted) = Inr ((), d')"
  "\<exists>d'. fail_operation_tx ''u13'' ''E'' ''late'' (sys_db demo_submitted) = Inr ((), d')"
  "map_option op_state (find_operation_by_id ''u17'' (sys_db demo_submitted)) = Some Op_SUBMITTED"
  unfolding demo_submitted_run by simp_all

declare run_congs [cong del] state_congs [cong del] let_weak_cong [cong del] char_cong [cong del] runs [simp del] demo_runs [simp del]
declare watch_receipt.simps [simp] poll_receipt.simps [simp] io_map.simps [simp] tx_for_each.simps [simp]
  resolve_in_flight.simps [simp] demo_mint_hash [simp del] demo_reference_def [symmetric, simp del] show_int_def [simp del]
  demo_impatient_fields [simp del]

theorem success_is_backed_witness:
  "\<exists>(receipt :: receipt_view) (operation :: operation_row) rep s1 s2. outcome_evidence demo_gateway ''0x2'' demo_policy (Co_FINALIZED receipt) \<and>
     op_id operation = ''u17'' \<and> rr_consistent rep \<and>
     oh_reconcile (handler_for demo_handlers (op_type operation))
       \<lparr>so_operation = operation, so_attempt_id = ''u26'', so_receipt = receipt\<rparr> s1 = (Inr rep, s2)"
proof -
  obtain s' where run: "observe_and_finalize demo_executor ''u17'' ''u26'' ''0x2'' demo_submitted = (Inr (Ex_SUCCEEDED ''0x2''), s')"
    using demo_observed(2) by (metis prod.collapse)
  from success_is_backed [OF run] demo_observed(3) show ?thesis
    unfolding demo_env_fields by auto
qed

subsection \<open>Failure\<close>

text \<open>A submitted mint is not declared failed; an operation that waits is.\<close>

theorem failing_spares_the_chain_witness:
  "\<exists>d' d''. fail_operation_tx ''u17'' ''E'' ''late'' (sys_db demo_submitted) = Inr ((), d') \<and> d' = sys_db demo_submitted \<and>
     fail_operation_tx ''u13'' ''E'' ''late'' (sys_db demo_submitted) = Inr ((), d'') \<and>
     operations d'' = update_where (\<lambda>r. op_id r = ''u13'' \<and> op_state r = Op_READY)
       (apply_transition Op_FAILED (pg_of_date (app_now (sys_db demo_submitted))) (failure_patch ''E'' ''late''))
       (operations (sys_db demo_submitted))"
proof -
  from demo_observed(5-6) obtain d' d'' where fail: "fail_operation_tx ''u17'' ''E'' ''late'' (sys_db demo_submitted) = Inr ((), d')"
    "fail_operation_tx ''u13'' ''E'' ''late'' (sys_db demo_submitted) = Inr ((), d'')" by auto
  from demo_observed(4,7) obtain sent waiting :: operation_row where
    "find_operation_by_id ''u17'' (sys_db demo_submitted) = Some sent" "op_state sent = Op_SUBMITTED"
    "find_operation_by_id ''u13'' (sys_db demo_submitted) = Some waiting" "op_state waiting = Op_READY" by auto
  with failing_spares_the_chain [OF fail(1)] failing_spares_the_chain [OF fail(2)] fail show ?thesis by simp
qed

subsection \<open>Recovery and sending\<close>

text \<open>An operation believed dead whose transaction was signed: abandoning it finds the bytes and resolves them.\<close>

theorem recovery_depth_enough_witness:
  "recover_one 7 demo_recovery (demo_mint_operation\<lparr>op_id := ''u1'', op_state := Op_PREPARING\<rparr>) demo_approved =
   recover_one RECOVERY_DEPTH demo_recovery (demo_mint_operation\<lparr>op_id := ''u1'', op_state := Op_PREPARING\<rparr>) demo_approved"
proof (rule recovery_depth_enough)
  show "table_ok attempt_rules (transaction_attempts (sys_db demo_approved))"
    using reachable_schema_facts(1) [OF demo_reachable(7)] by (simp add: db_ok_def attempt_table_def)
qed (simp_all add: demo_others)

text \<open>The prepared demo attempt, signed and sent.\<close>

definition demo_signing :: "demo_world sys" where
  "demo_signing = demo_start\<lparr>sys_db := (sys_db demo_start)\<lparr>transaction_attempts := [demo_attempt]\<rparr>\<rparr>"

definition demo_signature :: signer_state where
  "demo_signature = Signature_signed ''q'' demo_signer_address demo_mint_bytes ''0x2''"

lemma demo_no_hooks:
  "hk_on_signed no_hooks = (\<lambda>_. tx_ret ())" "hk_assert_broadcast_allowed no_hooks = io_ret ()"
  "hk_on_broadcasting no_hooks = (\<lambda>_. tx_ret ())" "hk_on_submitted no_hooks = (\<lambda>_ _. tx_ret ())"
  by (simp_all add: no_hooks_def)

declare run_congs [cong] state_congs [cong] let_weak_cong [cong] char_cong [cong]

lemma demo_sent:
  "\<exists>out s'. settle_signature demo_chain demo_attempt (unsigned_request_from demo_attempt) demo_signature ''s'' no_hooks demo_signing = (Inr out, s') \<and>
     dw_sent (sys_world s') = [demo_mint_bytes]"
  by (simp add: runs demo_runs demo_no_hooks demo_signature_def demo_signing_def demo_start_def demo_attempt_def prepared_attempt_def
      demo_attempt_input_def)

declare run_congs [cong del] state_congs [cong del] let_weak_cong [cong del] char_cong [cong del]

theorem only_verified_stored_bytes_are_sent_witness:
  "\<exists>(out :: exn + write_outcome) s' hash (d :: db). settle_signature demo_chain demo_attempt (unsigned_request_from demo_attempt) demo_signature ''s'' no_hooks demo_signing = (out, s') \<and>
     dw_sent (sys_world s') = [demo_mint_bytes] \<and>
     persist_signed_tx (no_hooks :: demo_world write_hooks) demo_attempt demo_mint_bytes hash ''s'' (db_at_step demo_signing) = Inr ((), d)"
proof -
  let ?log = "\<lambda>w. rev (dw_sent w)"
  from demo_sent obtain out s' where
    run: "settle_signature demo_chain demo_attempt (unsigned_request_from demo_attempt) demo_signature ''s'' no_hooks demo_signing = (Inr out, s')"
    and sent: "dw_sent (sys_world s') = [demo_mint_bytes]" by blast
  have "dw_sent (sys_world demo_signing) = []" by (simp add: demo_signing_def demo_start_def)
  with only_verified_stored_bytes_are_sent [where log = ?log, OF program_hooks_given(1) _ _ run] sent
  obtain hash d where "persist_signed_tx (no_hooks :: demo_world write_hooks) demo_attempt demo_mint_bytes hash ''s'' (db_at_step demo_signing) = Inr ((), d)"
    by (auto simp: demo_env_fields demo_gateway_methods demo_no_hooks io_ret_def)
  with run sent show ?thesis by blast
qed

end
