(* ===== verification/Schemas.thy ===== *)
theory Schemas
  imports ApprovalService ComplianceService
begin

text \<open>
  The request schemas of \<open>api/app.ts\<close> and the schema of the environment in \<open>platform/config\<close>. The
  validator is the zod library: the combinators below say what it documents of the schema
  constructors the source uses, that a schema reports one issue per failed check and an object the issues of all its
  fields; the texts of its own messages, its UUID and URL formats and the conversion of
  a value to a number are parameters. Numbers are integers: a fraction is not a value of the model.
\<close>

subsection \<open>The validator\<close>

datatype zod_problem =
    Z_required
  | Z_type string
  | Z_format
  | Z_uuid
  | Z_url
  | Z_too_short nat
  | Z_too_long nat
  | Z_too_small int
  | Z_too_big int
  | Z_not_one_of "string list"

record zod =
  zd_text :: "zod_problem \<Rightarrow> string"
  zd_uuid :: "string \<Rightarrow> bool"
  zd_url :: "string \<Rightarrow> bool"
  zd_number :: "json \<Rightarrow> int option"

type_synonym 'a parsed = "(string \<times> string) list + 'a"
type_synonym 'a zod_schema = "json option \<Rightarrow> 'a parsed"

definition issue :: "string \<Rightarrow> (string \<times> string) list" where
  "issue message = [('''', message)]"

definition z_string :: "zod \<Rightarrow> (string \<Rightarrow> string list) \<Rightarrow> string zod_schema" where
  "z_string z check v = (case v of
     None \<Rightarrow> Inl (issue (zd_text z Z_required))
   | Some (JStr s) \<Rightarrow> if check s = [] then Inr s else Inl (concat (map issue (check s)))
   | Some _ \<Rightarrow> Inl (issue (zd_text z (Z_type ''string''))))"

definition z_check :: "bool \<Rightarrow> string \<Rightarrow> string list" where
  "z_check ok message = (if ok then [] else [message])"

definition z_length :: "zod \<Rightarrow> nat \<Rightarrow> nat \<Rightarrow> string \<Rightarrow> string list" where
  "z_length z least most s =
     z_check (least \<le> length s) (zd_text z (Z_too_short least)) @ z_check (length s \<le> most) (zd_text z (Z_too_long most))"

definition z_range :: "zod \<Rightarrow> int option \<Rightarrow> int option \<Rightarrow> int \<Rightarrow> string list" where
  "z_range z least most n =
     (case least of None \<Rightarrow> [] | Some l \<Rightarrow> z_check (l \<le> n) (zd_text z (Z_too_small l))) @
     (case most of None \<Rightarrow> [] | Some m \<Rightarrow> z_check (n \<le> m) (zd_text z (Z_too_big m)))"

definition z_number_of :: "zod \<Rightarrow> int option \<Rightarrow> int option \<Rightarrow> int option \<Rightarrow> int parsed" where
  "z_number_of z least most v = (case v of
     None \<Rightarrow> Inl (issue (zd_text z (Z_type ''number'')))
   | Some n \<Rightarrow> if z_range z least most n = [] then Inr n else Inl (concat (map issue (z_range z least most n))))"

text \<open>\<open>z.number().int()\<close> and \<open>z.coerce.number().int()\<close> with bounds.\<close>

definition z_int :: "zod \<Rightarrow> int option \<Rightarrow> int option \<Rightarrow> int zod_schema" where
  "z_int z least most v = (case v of
     None \<Rightarrow> Inl (issue (zd_text z Z_required))
   | Some (JNum n) \<Rightarrow> z_number_of z least most (Some n)
   | Some _ \<Rightarrow> z_number_of z least most None)"

definition z_coerce_int :: "zod \<Rightarrow> int option \<Rightarrow> int option \<Rightarrow> int zod_schema" where
  "z_coerce_int z least most v = z_number_of z least most (case v of None \<Rightarrow> None | Some j \<Rightarrow> zd_number z j)"

definition z_enum :: "zod \<Rightarrow> (string \<times> 'a) list \<Rightarrow> 'a zod_schema" where
  "z_enum z options v = (case v of
     None \<Rightarrow> Inl (issue (zd_text z Z_required))
   | Some (JStr s) \<Rightarrow> (case map_of options s of
        None \<Rightarrow> Inl (issue (zd_text z (Z_not_one_of (map fst options)))) | Some a \<Rightarrow> Inr a)
   | Some _ \<Rightarrow> Inl (issue (zd_text z (Z_type ''string''))))"

definition z_optional :: "'a zod_schema \<Rightarrow> 'a option zod_schema" where
  "z_optional sch v = (case v of None \<Rightarrow> Inr None | Some _ \<Rightarrow> map_sum id Some (sch v))"

definition z_default :: "'a \<Rightarrow> 'a zod_schema \<Rightarrow> 'a zod_schema" where
  "z_default a sch v = (case v of None \<Rightarrow> Inr a | Some _ \<Rightarrow> sch v)"

text \<open>A field of an object, with its name as the path of its issues, and the next field.\<close>

definition z_key :: "string \<Rightarrow> 'a zod_schema \<Rightarrow> json \<Rightarrow> 'a parsed" where
  "z_key name sch obj = map_sum (map (\<lambda>(path, message). (name, message))) id (sch (json_get obj name))"

definition z_and :: "('a \<Rightarrow> 'b) parsed \<Rightarrow> 'a parsed \<Rightarrow> 'b parsed" where
  "z_and f a = (case f of
     Inl is \<Rightarrow> (case a of Inl js \<Rightarrow> Inl (is @ js) | Inr _ \<Rightarrow> Inl is)
   | Inr g \<Rightarrow> map_sum id g a)"

definition z_object :: "zod \<Rightarrow> (json \<Rightarrow> 'a parsed) \<Rightarrow> 'a zod_schema" where
  "z_object z body v = (case v of
     None \<Rightarrow> Inl (issue (zd_text z Z_required))
   | Some (JObj fs) \<Rightarrow> body (JObj fs)
   | Some _ \<Rightarrow> Inl (issue (zd_text z (Z_type ''object''))))"

text \<open>\<open>schema.parse(value)\<close> throws what was found.\<close>

definition z_parse :: "'a zod_schema \<Rightarrow> json option \<Rightarrow> exn + 'a" where
  "z_parse sch v = map_sum ZodError id (sch v)"

named_theorems parse_simps "acceptance by a schema, as equivalences"

lemma z_string_Inr [parse_simps]: "z_string z check v = Inr s \<longleftrightarrow> v = Some (JStr s) \<and> check s = []"
  by (auto simp: z_string_def split: option.splits json.splits)

lemma z_check_Nil [parse_simps]: "z_check ok m = [] \<longleftrightarrow> ok"
  by (simp add: z_check_def)

lemma z_length_Nil [parse_simps]: "z_length z l m s = [] \<longleftrightarrow> l \<le> length s \<and> length s \<le> m"
  by (auto simp: z_length_def z_check_def)

lemma z_number_Inr [parse_simps]:
  "z_number_of z l m v = Inr n \<longleftrightarrow>
     v = Some n \<and> (case l of None \<Rightarrow> True | Some l \<Rightarrow> l \<le> n) \<and> (case m of None \<Rightarrow> True | Some m \<Rightarrow> n \<le> m)"
  by (auto simp: z_number_of_def z_range_def z_check_def split: option.splits)

lemma z_int_Inr [parse_simps]:
  "z_int z l m v = Inr n \<longleftrightarrow> v = Some (JNum n) \<and>
     (case l of None \<Rightarrow> True | Some l \<Rightarrow> l \<le> n) \<and> (case m of None \<Rightarrow> True | Some m \<Rightarrow> n \<le> m)"
  by (auto simp: z_int_def parse_simps split: option.splits json.splits)

lemma z_coerce_int_Inr [parse_simps]:
  "z_coerce_int z l m v = Inr n \<longleftrightarrow> (\<exists>j. v = Some j \<and> zd_number z j = Some n) \<and>
     (case l of None \<Rightarrow> True | Some l \<Rightarrow> l \<le> n) \<and> (case m of None \<Rightarrow> True | Some m \<Rightarrow> n \<le> m)"
  by (auto simp: z_coerce_int_def parse_simps split: option.splits)

lemma z_enum_Inr [parse_simps]:
  "z_enum z options v = Inr a \<longleftrightarrow> (\<exists>s. v = Some (JStr s) \<and> map_of options s = Some a)"
  by (auto simp: z_enum_def split: option.splits json.splits)

lemma z_optional_Inr [parse_simps]:
  "z_optional sch v = Inr a \<longleftrightarrow> (if v = None then a = None else \<exists>b. sch v = Inr b \<and> a = Some b)"
  by (cases "sch v") (auto simp: z_optional_def split: option.splits)

lemma z_default_Inr [parse_simps]:
  "z_default a sch v = Inr b \<longleftrightarrow> (if v = None then b = a else sch v = Inr b)"
  by (auto simp: z_default_def split: option.splits)

lemma z_key_Inr [parse_simps]: "z_key name sch obj = Inr a \<longleftrightarrow> sch (json_get obj name) = Inr a"
  by (cases "sch (json_get obj name)") (auto simp: z_key_def)

lemma z_and_Inr [parse_simps]: "z_and f a = Inr b \<longleftrightarrow> (\<exists>g x. f = Inr g \<and> a = Inr x \<and> b = g x)"
  by (cases a) (auto simp: z_and_def split: sum.splits)

lemma z_object_Inr [parse_simps]:
  "z_object z body v = Inr a \<longleftrightarrow> (\<exists>fs. v = Some (JObj fs) \<and> body (JObj fs) = Inr a)"
  by (auto simp: z_object_def split: option.splits json.splits)

lemma z_parse_Inr [parse_simps]: "z_parse sch v = Inr a \<longleftrightarrow> sch v = Inr a"
  by (cases "sch v") (auto simp: z_parse_def)

lemma z_parse_Inl: "z_parse sch v = Inl e \<Longrightarrow> \<exists>issues. e = ZodError issues"
  by (cases "sch v") (auto simp: z_parse_def)

subsection \<open>Formats\<close>

definition char_between :: "char \<Rightarrow> char \<Rightarrow> char \<Rightarrow> bool" where
  "char_between a b c \<longleftrightarrow> (of_char a :: nat) \<le> of_char c \<and> (of_char c :: nat) \<le> of_char b"

definition is_hex :: "char \<Rightarrow> bool" where
  "is_hex c \<longleftrightarrow> is_digit c \<or> char_between (CHR ''a'') (CHR ''f'') c \<or> char_between (CHR ''A'') (CHR ''F'') c"

definition hex_text :: "nat \<Rightarrow> string \<Rightarrow> bool" where
  "hex_text n s \<longleftrightarrow> take 2 s = ''0x'' \<and> length s = n + 2 \<and> list_all is_hex (drop 2 s)"

definition address_schema :: "zod \<Rightarrow> string zod_schema" where
  "address_schema z = z_string z (\<lambda>s. z_check (hex_text 40 s) ''must be a 0x-prefixed EVM address'')"

definition amount_text :: "string \<Rightarrow> bool" where
  "amount_text s \<longleftrightarrow> s \<noteq> [] \<and> char_between (CHR ''1'') (CHR ''9'') (hd s) \<and> list_all is_digit (tl s) \<and> length s \<le> 78"

definition amount_schema :: "zod \<Rightarrow> string zod_schema" where
  "amount_schema z = z_string z (\<lambda>s. z_check (amount_text s) ''must be a positive integer string in base units'')"

definition symbol_text :: "string \<Rightarrow> bool" where
  "symbol_text s \<longleftrightarrow> 2 \<le> length s \<and> length s \<le> 12 \<and>
     list_all (\<lambda>c. is_digit c \<or> char_between (CHR ''A'') (CHR ''Z'') c) s"

definition uuid_schema :: "zod \<Rightarrow> string zod_schema" where
  "uuid_schema z = z_string z (\<lambda>s. z_check (zd_uuid z s) (zd_text z Z_uuid))"

definition text_schema :: "zod \<Rightarrow> nat \<Rightarrow> nat \<Rightarrow> string zod_schema" where
  "text_schema z least most = z_string z (z_length z least most)"

subsection \<open>Request bodies\<close>

definition create_asset_schema :: "zod \<Rightarrow> create_asset_input zod_schema" where
  "create_asset_schema z = z_object z (\<lambda>obj.
     z_and (z_and (z_and (z_and
       (Inr (\<lambda>symbol name decimals cap. \<lparr>ca_symbol = symbol, ca_name = name, ca_decimals = decimals, ca_supply_cap = cap\<rparr>))
       (z_key ''symbol'' (z_string z (\<lambda>s. z_check (symbol_text s) (zd_text z Z_format))) obj))
       (z_key ''name'' (text_schema z 1 128) obj))
       (z_key ''decimals'' (z_int z (Some 0) (Some 18)) obj))
       (z_key ''supplyCap'' (amount_schema z) obj))"

definition create_wallet_schema :: "zod \<Rightarrow> register_wallet_input zod_schema" where
  "create_wallet_schema z = z_object z (\<lambda>obj.
     z_and (z_and (z_and
       (Inr (\<lambda>address investor label. \<lparr>rw_address = address, rw_investor_reference = investor, rw_label = label\<rparr>))
       (z_key ''address'' (address_schema z) obj))
       (z_key ''investorReference'' (text_schema z 1 128) obj))
       (z_key ''label'' (z_optional (text_schema z 0 128)) obj))"

text \<open>The route adds the wallet id to the parsed body.\<close>

definition compliance_decision_schema :: "zod \<Rightarrow> uuid \<Rightarrow> record_compliance_input zod_schema" where
  "compliance_decision_schema z wallet_id = z_object z (\<lambda>obj.
     z_and (z_and
       (Inr (\<lambda>asset_id subject. \<lparr>rci_wallet_id = wallet_id, rci_asset_id = asset_id, rci_subject_reference = subject\<rparr>))
       (z_key ''assetId'' (z_optional (uuid_schema z)) obj))
       (z_key ''subjectReference'' (z_optional (text_schema z 1 128)) obj))"

definition compliance_revocation_schema :: "zod \<Rightarrow> uuid \<Rightarrow> revoke_input zod_schema" where
  "compliance_revocation_schema z wallet_id = z_object z (\<lambda>obj.
     z_and (z_and
       (Inr (\<lambda>asset_id reason. \<lparr>rvi_wallet_id = wallet_id, rvi_asset_id = asset_id, rvi_reason = reason\<rparr>))
       (z_key ''assetId'' (z_optional (uuid_schema z)) obj))
       (z_key ''reason'' (text_schema z 1 500) obj))"

definition create_mint_schema :: "zod \<Rightarrow> (uuid \<times> string) zod_schema" where
  "create_mint_schema z = z_object z (\<lambda>obj.
     z_and (z_and (Inr Pair)
       (z_key ''walletId'' (uuid_schema z) obj))
       (z_key ''amount'' (amount_schema z) obj))"

definition approval_decision_schema :: "zod \<Rightarrow> uuid \<Rightarrow> record_approval_input zod_schema" where
  "approval_decision_schema z request_id = z_object z (\<lambda>obj.
     z_and (z_and
       (Inr (\<lambda>decision comment. \<lparr>rai_approval_request_id = request_id, rai_decision = decision, rai_comment = comment\<rparr>))
       (z_key ''decision'' (z_enum z [(''APPROVE'', APPROVE), (''REJECT'', REJECT)]) obj))
       (z_key ''comment'' (z_optional (text_schema z 0 1024)) obj))"

definition audit_query_schema :: "zod \<Rightarrow> audit_query_input zod_schema" where
  "audit_query_schema z = z_object z (\<lambda>obj.
     z_and (z_and (z_and (z_and (z_and
       (Inr (\<lambda>operation_id resource_type resource_id limit cursor.
          \<lparr>aqi_operation_id = operation_id, aqi_resource_type = resource_type, aqi_resource_id = resource_id,
           aqi_limit = limit, aqi_cursor = cursor\<rparr>))
       (z_key ''operationId'' (z_optional (uuid_schema z)) obj))
       (z_key ''resourceType'' (z_optional (text_schema z 0 64)) obj))
       (z_key ''resourceId'' (z_optional (text_schema z 0 128)) obj))
       (z_key ''limit'' (z_optional (z_coerce_int z (Some 1) (Some 200))) obj))
       (z_key ''cursor'' (z_optional (text_schema z 0 128)) obj))"

subsection \<open>What the schemas promise the services\<close>

lemma is_digit_value: "is_digit c \<longleftrightarrow> (\<exists>n < 10. digit_of c = Some n)"
  by (auto simp: is_digit_def char_between_def digit_of_def Let_def split: if_splits)

lemma char_between_digit: "char_between (CHR ''1'') (CHR ''9'') c \<Longrightarrow> \<exists>n. 0 < n \<and> n < 10 \<and> digit_of c = Some n"
  by (auto simp: char_between_def digit_of_def Let_def)

lemma read_decimal_bounds:
  "list_all is_digit s \<Longrightarrow> \<exists>n. read_digits 10 acc s = Some n \<and> acc * 10 ^ length s \<le> n \<and> n < (acc + 1) * 10 ^ length s"
proof (induction s arbitrary: acc)
  case (Cons c s)
  then obtain k where k: "digit_of c = Some k" "k < 10" by (auto simp: is_digit_value)
  from Cons.IH [of "acc * 10 + k"] Cons.prems obtain n where
    n: "read_digits 10 (acc * 10 + k) s = Some n" "(acc * 10 + k) * 10 ^ length s \<le> n"
      "n < (acc * 10 + k + 1) * 10 ^ length s" by auto
  have "acc * 10 ^ length (c # s) \<le> (acc * 10 + k) * 10 ^ length s" by (simp add: algebra_simps)
  from this n(2) have "acc * 10 ^ length (c # s) \<le> n" by (rule le_trans)
  moreover have "(acc * 10 + k + 1) * 10 ^ length s \<le> (acc + 1) * 10 * 10 ^ length s"
    by (rule mult_right_mono) (use k in auto)
  with n(3) have "n < (acc + 1) * 10 * 10 ^ length s" by (rule less_le_trans)
  then have "n < (acc + 1) * 10 ^ length (c # s)" by (simp only: length_Cons power_Suc mult.assoc)
  moreover have "read_digits 10 acc (c # s) = Some n" using n(1) k by simp
  ultimately show ?case by blast
qed simp

text \<open>Text of the amount format is the decimal notation of a number between 1 and $10^{78} - 1$.\<close>

lemma amount_text_value:
  assumes "amount_text s"
  shows "\<exists>n. js_bigint s = Some n \<and> 0 < n \<and> n < 10 ^ 78"
proof -
  from assms obtain c r where s: "s = c # r" and c: "char_between (CHR ''1'') (CHR ''9'') c"
    and r: "list_all is_digit r" "length r \<le> 77"
    by (cases s) (auto simp: amount_text_def)
  from char_between_digit [OF c] obtain k where k: "0 < k" "k < 10" "digit_of c = Some k" by blast
  from read_decimal_bounds [OF r(1), of k] obtain n where
    n: "read_digits 10 k r = Some n" "k * 10 ^ length r \<le> n" "n < (k + 1) * 10 ^ length r" by blast
  have white: "\<not> js_white x" if "x \<in> set s" for x
    using that r(1) c by (auto simp: s list_all_iff is_digit_def char_between_def js_white_def)
  have "dropWhile js_white xs = xs" if "set xs \<subseteq> set s" for xs
    using that white by (cases xs) auto
  then have "trim s = s" by (simp add: trim_def)
  moreover have "c \<noteq> CHR ''-''" "c \<noteq> CHR ''+''" using k(3) by (auto simp: digit_of_def Let_def)
  moreover have "c \<noteq> CHR ''0''" using k by (auto simp: digit_of_def Let_def)
  ultimately have "js_bigint s = Some (int n)"
    using k n(1) by (simp add: js_bigint_def s read_digits1_def)
  moreover have "0 < n" using n(2) k(1) by (metis gr0I le_zero_eq mult_is_0 not_gr0 power_not_zero zero_neq_numeral)
  moreover have "n < 10 ^ 78"
  proof -
    have "(10 :: nat) ^ length r \<le> 10 ^ 77" using r(2) by (rule power_increasing) simp
    then have "(k + 1) * 10 ^ length r \<le> 10 * (10 :: nat) ^ 77" using k(2) by (intro mult_le_mono) simp_all
    with n(3) show ?thesis by simp
  qed
  then have "int n < int (10 ^ 78)" by (rule of_nat_less_iff [THEN iffD2])
  ultimately show ?thesis by (intro exI [of _ "int n"]) simp
qed

end
