(* ===== verification/HttpApi.thy ===== *)
theory HttpApi
  imports Schemas Ports
begin

text \<open>
  The HTTP application: authentication (\<open>platform/auth/jwt.ts\<close>) and the routes of \<open>api/app.ts\<close>, as a
  program that answers every request. The JWT library is a pair of functions, and Fastify is the
  match of a path to a route; what the program does with a request, from the hooks to
  the error handler, is here. Logging and metrics counters are left out.
\<close>

subsection \<open>Bearer tokens\<close>

record jwt_settings =
  jt_secret :: string
  jt_issuer :: string
  jt_audience :: string

text \<open>\<open>jwtVerify\<close> gives the payload of a valid token at a time; \<open>SignJWT\<close> makes a token.\<close>

record jwt_library =
  jw_verify :: "jwt_settings \<Rightarrow> js_time \<Rightarrow> string \<Rightarrow> json option"
  jw_sign :: "jwt_settings \<Rightarrow> js_time \<Rightarrow> string \<Rightarrow> json \<Rightarrow> string"

record authenticator =
  dj_settings :: jwt_settings
  dj_library :: jwt_library

definition issue_token :: "authenticator \<Rightarrow> string \<Rightarrow> string \<Rightarrow> string option \<Rightarrow> ('w sys, string) io" where
  "issue_token auth subject organization_id expires_in =
     io_bind date_now (\<lambda>now. io_ret (jw_sign (dj_library auth) (dj_settings auth) now
       (case expires_in of None \<Rightarrow> ''2h'' | Some t \<Rightarrow> t)
       (JObj [(''org'', Some (JStr organization_id)), (''sub'', Some (JStr subject)),
         (''iss'', Some (JStr (jt_issuer (dj_settings auth)))), (''aud'', Some (JStr (jt_audience (dj_settings auth))))])))"

definition subject_of_payload :: "json \<Rightarrow> exn + string \<times> string" where
  "subject_of_payload payload =
     (case json_get payload ''sub'' of
       Some (JStr subject) \<Rightarrow>
         if subject = [] then Inl (unauthorized_error ''token is missing a subject'')
         else (case json_get payload ''org'' of
             Some (JStr organization_id) \<Rightarrow>
               if organization_id = [] then Inl (unauthorized_error ''token is missing an organization'')
               else Inr (subject, organization_id)
           | _ \<Rightarrow> Inl (unauthorized_error ''token is missing an organization''))
     | _ \<Rightarrow> Inl (unauthorized_error ''token is missing a subject''))"

definition verify_token :: "authenticator \<Rightarrow> string \<Rightarrow> ('w sys, string \<times> string) io" where
  "verify_token auth token =
     io_bind date_now (\<lambda>now.
     io_lift (case jw_verify (dj_library auth) (dj_settings auth) now token of
       None \<Rightarrow> Inl (unauthorized_error ''invalid or expired token'')
     | Some payload \<Rightarrow> subject_of_payload payload))"

text \<open>\<open>/^Bearer (.+)$/\<close> on the trimmed header; the dot matches no line end.\<close>

definition line_end :: "char \<Rightarrow> bool" where
  "line_end c \<longleftrightarrow> of_char c \<in> {10, 13 :: nat}"

definition parse_bearer :: "string option \<Rightarrow> exn + string" where
  "parse_bearer header = (case header of
     None \<Rightarrow> Inl (unauthorized_error ''missing Authorization header'')
   | Some h \<Rightarrow>
       (let t = trim h; token = drop 7 t
        in if take 7 t = ''Bearer '' \<and> token \<noteq> [] \<and> list_all (\<lambda>c. \<not> line_end c) token then Inr token
           else Inl (unauthorized_error ''malformed Authorization header'')))"

subsection \<open>Requests and responses\<close>

datatype route =
    Get_live
  | Get_ready
  | Get_metrics
  | Post_assets
  | Post_deployments string
  | Get_asset string
  | Post_wallets
  | Post_compliance_decisions string
  | Post_compliance_revocations string
  | Post_mints string
  | Post_approval_decisions string
  | Get_operation string
  | Get_audit_events
  | Not_found_route

record http_request =
  hq_route :: route
  hq_headers :: "(string \<times> string) list"
  hq_body :: "json option"
  hq_query :: json

datatype http_body = Body_empty | Body_text string | Body_json json

record http_response =
  hs_status :: nat
  hs_headers :: "(string \<times> string) list"
  hs_body :: http_body

definition header_of :: "http_request \<Rightarrow> string \<Rightarrow> string option" where
  "header_of req name = map_of (hq_headers req) name"

definition json_reply :: "nat \<Rightarrow> (string \<times> json) list \<Rightarrow> http_response" where
  "json_reply status fs = \<lparr>hs_status = status, hs_headers = [], hs_body = Body_json (JObj (map (map_prod id Some) fs))\<rparr>"

record 'w app_env =
  ap_sha :: "string \<Rightarrow> string"
  ap_zod :: zod
  ap_of_iso :: "string \<Rightarrow> js_time"
  ap_auth :: authenticator
  ap_chain_id :: int
  ap_provider :: "'w compliance_provider"
  ap_select_1 :: "('w, unit) call"
  ap_metrics_enabled :: bool
  ap_metrics_content_type :: string
  ap_render_metrics :: "('w, string) call"

subsection \<open>Hooks\<close>

definition anonymous_actor :: actor where
  "anonymous_actor = \<lparr>ac_type = SYSTEM, ac_id = ''anonymous'', ac_organization_id = ''none'', ac_roles = []\<rparr>"

text \<open>The request id is the caller's or a new one; the correlation id defaults to it.\<close>

definition request_ids :: "http_request \<Rightarrow> ('w sys, string \<times> string) io" where
  "request_ids req =
     io_bind (case header_of req ''x-request-id'' of Some i \<Rightarrow> io_ret i | None \<Rightarrow> js_uuid) (\<lambda>request_id.
     io_ret (request_id, case header_of req ''x-correlation-id'' of Some c \<Rightarrow> c | None \<Rightarrow> request_id))"

definition authenticated_actor :: "user_record option \<Rightarrow> exn + actor" where
  "authenticated_actor found = (case found of
     None \<Rightarrow> Inl (unauthorized_error ''token subject is not a known user'')
   | Some user \<Rightarrow>
       if us_status (ur_user user) \<noteq> Us_ACTIVE then Inl (unauthorized_error ''user is disabled'')
       else Inr (to_actor user))"

definition authenticate :: "'w app_env \<Rightarrow> http_request \<Rightarrow> request_context \<Rightarrow> ('w sys, request_context) io" where
  "authenticate env req ctx =
     io_bind (io_lift (parse_bearer (header_of req ''authorization''))) (\<lambda>token.
     io_bind (verify_token (ap_auth env) token) (\<lambda>(subject, organization_id).
     io_bind (run_query (find_user_by_subject subject)) (\<lambda>found.
     io_bind (io_lift (authenticated_actor found)) (\<lambda>actor.
     io_ret (ctx\<lparr>rc_actor := actor\<rparr>)))))"

definition json_fields_of_error :: "error_body \<Rightarrow> json" where
  "json_fields_of_error b = JObj [(''error'', Some (JObj [(''code'', Some (JStr (error_code_name (eb_code b)))),
     (''message'', Some (JStr (eb_message b))), (''details'', eb_details b),
     (''requestId'', Some (JStr (eb_request_id b))), (''correlationId'', Some (JStr (eb_correlation_id b)))]))]"

definition error_response :: "normalized_error \<Rightarrow> http_response" where
  "error_response e = \<lparr>hs_status = ne_status e, hs_headers = [], hs_body = Body_json (json_fields_of_error (ne_body e))\<rparr>"

definition not_found_response :: "string \<Rightarrow> string \<Rightarrow> http_response" where
  "not_found_response request_id correlation_id =
     \<lparr>hs_status = 404, hs_headers = [], hs_body = Body_json (json_fields_of_error
       \<lparr>eb_code = RESOURCE_NOT_FOUND, eb_message = ''route not found'', eb_details = None, eb_request_id = request_id,
        eb_correlation_id = correlation_id\<rparr>)\<rparr>"

subsection \<open>Health and metrics\<close>

definition check_readiness :: "('w, unit) call \<Rightarrow> ('w sys, string) io" where
  "check_readiness probe = io_catch (io_then (call_world probe) (io_ret ''ok'')) (\<lambda>_. io_ret ''error'')"

definition get_ready :: "'w app_env \<Rightarrow> ('w sys, http_response) io" where
  "get_ready env =
     io_bind (check_readiness (ap_select_1 env)) (\<lambda>postgres.
     (let ready = (postgres = ''ok'')
      in io_ret (json_reply (if ready then 200 else 503)
           [(''status'', JStr (if ready then ''ready'' else ''degraded'')),
            (''checks'', JObj [(''postgres'', Some (JStr postgres))])])))"

definition get_metrics :: "'w app_env \<Rightarrow> ('w sys, http_response) io" where
  "get_metrics env =
     (if \<not> ap_metrics_enabled env then io_ret \<lparr>hs_status = 404, hs_headers = [], hs_body = Body_empty\<rparr>
      else io_bind (call_world (ap_render_metrics env)) (\<lambda>text.
        io_ret \<lparr>hs_status = 200, hs_headers = [(''content-type'', ap_metrics_content_type env)], hs_body = Body_text text\<rparr>))"

subsection \<open>What the responses show\<close>

definition json_of_int :: "int option \<Rightarrow> json" where
  "json_of_int v = (case v of None \<Rightarrow> JNull | Some n \<Rightarrow> JNum n)"

definition json_of_amount :: "int option \<Rightarrow> json" where
  "json_of_amount v = json_of_opt (map_option show_int v)"

definition json_of_stored :: "json option \<Rightarrow> json" where
  "json_of_stored v = (case v of None \<Rightarrow> JNull | Some j \<Rightarrow> j)"

definition json_of_time :: "pg_time \<Rightarrow> json" where
  "json_of_time t = JStr (iso_string (date_of_pg t))"

fun chain_sync_status_name :: "chain_sync_status \<Rightarrow> string" where
  "chain_sync_status_name Cs_PENDING = ''PENDING''"
| "chain_sync_status_name Cs_SYNCED = ''SYNCED''"
| "chain_sync_status_name Cs_FAILED = ''FAILED''"

fun observation_kind_name :: "observation_kind \<Rightarrow> string" where
  "observation_kind_name Ob_RECEIPT = ''RECEIPT''"
| "observation_kind_name Ob_BLOCK_CANONICALITY = ''BLOCK_CANONICALITY''"
| "observation_kind_name Ob_FINALITY = ''FINALITY''"
| "observation_kind_name Ob_MINT_EVENT = ''MINT_EVENT''"
| "observation_kind_name Ob_REFERENCE_CONSUMED = ''REFERENCE_CONSUMED''"
| "observation_kind_name Ob_RECIPIENT_BALANCE = ''RECIPIENT_BALANCE''"
| "observation_kind_name Ob_TOTAL_SUPPLY = ''TOTAL_SUPPLY''"
| "observation_kind_name Ob_CHAIN_IDENTITY = ''CHAIN_IDENTITY''"
| "observation_kind_name Ob_CONTRACT_CODE = ''CONTRACT_CODE''"
| "observation_kind_name Ob_TOKEN_METADATA = ''TOKEN_METADATA''"
| "observation_kind_name Ob_ELIGIBILITY_WINDOW = ''ELIGIBILITY_WINDOW''"

fun severity_name :: "observation_severity \<Rightarrow> string" where
  "severity_name INFO = ''INFO''"
| "severity_name WARNING = ''WARNING''"
| "severity_name CRITICAL = ''CRITICAL''"

fun observation_status_name :: "observation_status \<Rightarrow> string" where
  "observation_status_name Obs_OPEN = ''OPEN''"
| "observation_status_name Obs_RESOLVED = ''RESOLVED''"

fun actor_type_name :: "actor_type \<Rightarrow> string" where
  "actor_type_name USER = ''USER''"
| "actor_type_name SYSTEM = ''SYSTEM''"

definition serialize_asset :: "asset_row \<Rightarrow> (string \<times> json) list" where
  "serialize_asset a =
     [(''id'', JStr (as_id a)), (''symbol'', JStr (as_symbol a)), (''name'', JStr (as_name a)),
      (''decimals'', JNum (as_decimals a)), (''supplyCap'', JStr (show_int (as_supply_cap a))),
      (''chainId'', JNum (as_chain_id a)), (''contractAddress'', json_of_opt (as_contract_address a)),
      (''deploymentTxHash'', json_of_opt (as_deployment_tx_hash a)), (''status'', JStr (asset_status_name (as_status a))),
      (''policyVersion'', JNum (as_policy_version a)), (''createdAt'', json_of_time (as_created_at a))]"

definition serialize_wallet :: "wallet_row \<Rightarrow> (string \<times> json) list" where
  "serialize_wallet w =
     [(''id'', JStr (wa_id w)), (''address'', JStr (wa_address w)), (''chainId'', JNum (wa_chain_id w)),
      (''label'', json_of_opt (wa_label w)), (''investorReference'', JStr (wa_investor_reference w)),
      (''status'', JStr (wallet_status_name (wa_status w))), (''createdAt'', json_of_time (wa_created_at w))]"

definition serialize_attempt :: "attempt_row \<Rightarrow> json" where
  "serialize_attempt a = JObj (map (map_prod id Some)
     [(''id'', JStr (ta_id a)), (''purpose'', JStr (attempt_purpose_name (ta_purpose a))),
      (''status'', JStr (attempt_status_name (ta_status a))), (''nonce'', JNum (ta_nonce a)),
      (''transactionHash'', json_of_opt (ta_transaction_hash a)), (''blockNumber'', json_of_int (ta_block_number a)),
      (''blockHash'', json_of_opt (ta_block_hash a)), (''receiptStatus'', json_of_int (ta_receipt_status a)),
      (''broadcastAttempts'', JNum (int (ta_broadcast_attempts a))), (''maxFeePerGas'', JStr (show_int (ta_max_fee_per_gas a))),
      (''maxPriorityFeePerGas'', JStr (show_int (ta_max_priority_fee_per_gas a))),
      (''replacesAttemptId'', json_of_opt (ta_replaces_attempt_id a)),
      (''replacedByAttemptId'', json_of_opt (ta_replaced_by_attempt_id a)),
      (''replacementReason'', json_of_opt (ta_replacement_reason a)),
      (''replacementNumber'', JNum (int (ta_replacement_number a))), (''errorCode'', json_of_opt (ta_error_code a))])"

definition serialize_observation :: "observation_row \<Rightarrow> json" where
  "serialize_observation co = JObj (map (map_prod id Some)
     [(''kind'', JStr (observation_kind_name (co_kind co))), (''matched'', JBool (co_matched co)),
      (''canonical'', JBool (co_canonical co)), (''severity'', JStr (severity_name (co_severity co))),
      (''status'', JStr (observation_status_name (co_status co))), (''expected'', json_of_stored (co_expected co)),
      (''actual'', json_of_stored (co_actual co)), (''detail'', json_of_opt (co_detail co)),
      (''observedAt'', json_of_time (co_observed_at co))])"

text \<open>The hash shown for the operation: that of the first attempt that has one and was not replaced.\<close>

definition shown_hash :: "attempt_row list \<Rightarrow> json" where
  "shown_hash attempts = json_of_opt (Option.bind
     (find (\<lambda>a. ta_transaction_hash a \<noteq> None \<and> ta_replaced_by_attempt_id a = None) attempts) ta_transaction_hash)"

definition operation_view ::
  "operation_row \<Rightarrow> attempt_row list \<Rightarrow> observation_row list \<Rightarrow> (operation_state \<times> pg_time) list \<Rightarrow> http_response" where
  "operation_view operation attempts observations history = json_reply 200
     [(''id'', JStr (op_id operation)), (''type'', JStr (operation_type_name (op_type operation))),
      (''state'', JStr (operation_state_name (op_state operation))), (''assetId'', JStr (op_asset_id operation)),
      (''walletId'', json_of_opt (op_wallet_id operation)), (''amount'', json_of_amount (op_amount operation)),
      (''operationReference'', json_of_opt (op_operation_reference operation)),
      (''requiredApprovals'', JNum (int (op_required_approvals operation))),
      (''failureCode'', json_of_opt (op_failure_code operation)), (''failureReason'', json_of_opt (op_failure_reason operation)),
      (''correlationId'', JStr (op_correlation_id operation)), (''createdAt'', json_of_time (op_created_at operation)),
      (''stateUpdatedAt'', json_of_time (op_state_updated_at operation)), (''transactionHash'', shown_hash attempts),
      (''history'', JArr (map (\<lambda>(st, at). JObj [(''state'', Some (JStr (operation_state_name st))), (''at'', Some (json_of_time at))]) history)),
      (''transactionAttempts'', JArr (map serialize_attempt attempts)),
      (''reconciliation'', JArr (map serialize_observation observations))]"

definition serialize_event :: "audit_row \<Rightarrow> json" where
  "serialize_event e = JObj (map (map_prod id Some)
     [(''id'', JStr (au_id e)), (''occurredAt'', json_of_time (au_occurred_at e)),
      (''actorType'', JStr (actor_type_name (au_actor_type e))), (''actorId'', JStr (au_actor_id e)),
      (''action'', JStr (au_action e)), (''resourceType'', JStr (au_resource_type e)),
      (''resourceId'', JStr (au_resource_id e)), (''operationId'', json_of_opt (au_operation_id e)),
      (''correlationId'', JStr (au_correlation_id e)), (''metadata'', au_metadata e)])"

subsection \<open>Routes\<close>

definition uuid_param :: "zod \<Rightarrow> string \<Rightarrow> string \<Rightarrow> exn + uuid" where
  "uuid_param z name v =
     z_parse (z_object z (\<lambda>obj. z_key name (uuid_schema z) obj)) (Some (JObj [(name, Some (JStr v))]))"

text \<open>\<open>request.body ?? {}\<close>\<close>

definition body_or_empty :: "json option \<Rightarrow> json option" where
  "body_or_empty body = Some (case body of None \<Rightarrow> JObj [] | Some JNull \<Rightarrow> JObj [] | Some j \<Rightarrow> j)"

definition post_assets :: "'w app_env \<Rightarrow> request_context \<Rightarrow> json option \<Rightarrow> ('w sys, http_response) io" where
  "post_assets env ctx body =
     io_bind (io_lift (z_parse (create_asset_schema (ap_zod env)) body)) (\<lambda>input.
     io_bind (create_asset (ap_sha env) (ap_chain_id env) ctx input) (\<lambda>(asset, operation_id).
     io_ret (json_reply 202 (serialize_asset asset @ [(''provisioningOperationId'', JStr operation_id)]))))"

definition post_deployments :: "'w app_env \<Rightarrow> request_context \<Rightarrow> string \<Rightarrow> ('w sys, http_response) io" where
  "post_deployments env ctx param =
     io_bind (io_lift (uuid_param (ap_zod env) ''assetId'' param)) (\<lambda>asset_id.
     io_bind (request_deployment (ap_sha env) ctx asset_id) (\<lambda>operation.
     io_ret (json_reply 202 [(''operationId'', JStr (op_id operation)),
       (''state'', JStr (operation_state_name (op_state operation)))])))"

definition get_asset_route :: "'w app_env \<Rightarrow> request_context \<Rightarrow> string \<Rightarrow> ('w sys, http_response) io" where
  "get_asset_route env ctx param =
     io_bind (io_lift (uuid_param (ap_zod env) ''assetId'' param)) (\<lambda>asset_id.
     io_bind (get_asset ctx asset_id) (\<lambda>asset. io_ret (json_reply 200 (serialize_asset asset))))"

definition post_wallets :: "'w app_env \<Rightarrow> request_context \<Rightarrow> json option \<Rightarrow> ('w sys, http_response) io" where
  "post_wallets env ctx body =
     io_bind (io_lift (z_parse (create_wallet_schema (ap_zod env)) body)) (\<lambda>input.
     io_bind (register_wallet (ap_chain_id env) ctx input) (\<lambda>wallet.
     io_ret (json_reply 201 (serialize_wallet wallet))))"

definition post_compliance_decisions ::
  "'w app_env \<Rightarrow> request_context \<Rightarrow> string \<Rightarrow> json option \<Rightarrow> ('w sys, http_response) io" where
  "post_compliance_decisions env ctx param body =
     io_bind (io_lift (uuid_param (ap_zod env) ''walletId'' param)) (\<lambda>wallet_id.
     io_bind (io_lift (z_parse (compliance_decision_schema (ap_zod env) wallet_id) (body_or_empty body))) (\<lambda>input.
     io_bind (record_compliance_decision (ap_sha env) (ap_provider env) ctx input) (\<lambda>(decision, operation_id).
     io_ret (json_reply (if operation_id = None then 201 else 202)
       [(''id'', JStr (cd_id decision)), (''walletId'', JStr (cd_wallet_id decision)),
        (''assetId'', json_of_opt (cd_asset_id decision)), (''status'', JStr (decision_status_name (cd_status decision))),
        (''provider'', JStr (cd_provider decision)), (''providerReference'', JStr (cd_provider_reference decision)),
        (''validFrom'', json_of_time (cd_valid_from decision)), (''validUntil'', json_of_time (cd_valid_until decision)),
        (''decidedAt'', json_of_time (cd_decided_at decision)),
        (''chainSyncStatus'', JStr (chain_sync_status_name (cd_chain_sync_status decision))),
        (''eligibilityOperationId'', json_of_opt operation_id)]))))"

definition post_compliance_revocations ::
  "'w app_env \<Rightarrow> request_context \<Rightarrow> string \<Rightarrow> json option \<Rightarrow> ('w sys, http_response) io" where
  "post_compliance_revocations env ctx param body =
     io_bind (io_lift (uuid_param (ap_zod env) ''walletId'' param)) (\<lambda>wallet_id.
     io_bind (io_lift (z_parse (compliance_revocation_schema (ap_zod env) wallet_id) (body_or_empty body))) (\<lambda>input.
     io_bind (revoke_decision (ap_sha env) (ap_provider env) ctx input) (\<lambda>(decision, operation_id).
     io_ret (json_reply (if operation_id = None then 200 else 202)
       [(''id'', JStr (cd_id decision)), (''walletId'', JStr (cd_wallet_id decision)),
        (''assetId'', json_of_opt (cd_asset_id decision)), (''status'', JStr (decision_status_name (cd_status decision))),
        (''revokedAt'', case cd_revoked_at decision of None \<Rightarrow> JNull | Some t \<Rightarrow> json_of_time t),
        (''revocationReason'', json_of_opt (cd_revocation_reason decision)),
        (''eligibilityOperationId'', json_of_opt operation_id)]))))"

text \<open>A mint needs an idempotency key of at least eight characters, checked before the body.\<close>

definition idempotency_key_of :: "string option \<Rightarrow> exn + string" where
  "idempotency_key_of header = (case header of
     Some key \<Rightarrow> if length key < 8
       then Inl (app_error IDEMPOTENCY_KEY_REQUIRED ''the Idempotency-Key header is required and must be at least 8 characters'' [])
       else Inr key
   | None \<Rightarrow> Inl (app_error IDEMPOTENCY_KEY_REQUIRED ''the Idempotency-Key header is required and must be at least 8 characters'' []))"

definition mint_response :: "request_mint_result \<Rightarrow> http_response" where
  "mint_response r = \<lparr>hs_status = rmr_http_status r,
     hs_headers = [(''idempotent-replay'', if rmr_replayed r then ''true'' else ''false'')],
     hs_body = Body_json (JObj [(''operationId'', rmr_operation_id r), (''approvalRequestId'', rmr_approval_request_id r),
       (''state'', rmr_state r), (''requiredApprovals'', rmr_required_approvals r)])\<rparr>"

definition post_mints ::
  "'w app_env \<Rightarrow> request_context \<Rightarrow> string \<Rightarrow> string option \<Rightarrow> json option \<Rightarrow> ('w sys, http_response) io" where
  "post_mints env ctx param key_header body =
     io_bind (io_lift (uuid_param (ap_zod env) ''assetId'' param)) (\<lambda>asset_id.
     io_bind (io_lift (idempotency_key_of key_header)) (\<lambda>key.
     io_bind (io_lift (z_parse (create_mint_schema (ap_zod env)) body)) (\<lambda>(wallet_id, amount).
     io_bind (request_mint (ap_sha env) ctx \<lparr>rm_asset_id = asset_id, rm_wallet_id = wallet_id, rm_amount = amount,
       rm_idempotency_key = key\<rparr>) (\<lambda>result.
     io_ret (mint_response result)))))"

definition post_approval_decisions ::
  "'w app_env \<Rightarrow> request_context \<Rightarrow> string \<Rightarrow> json option \<Rightarrow> ('w sys, http_response) io" where
  "post_approval_decisions env ctx param body =
     io_bind (io_lift (uuid_param (ap_zod env) ''requestId'' param)) (\<lambda>request_id.
     io_bind (io_lift (z_parse (approval_decision_schema (ap_zod env) request_id) body)) (\<lambda>input.
     io_bind (record_approval_decision (ap_sha env) ctx input) (\<lambda>r.
     io_ret (json_reply 200 [(''approvalRequestId'', JStr (rar_approval_request_id r)), (''operationId'', JStr (rar_operation_id r)),
       (''approvalRequestState'', JStr (approval_request_state_name (rar_approval_request_state r))),
       (''operationState'', JStr (operation_state_name (rar_operation_state r))),
       (''approvalsRecorded'', JNum (int (rar_approvals_recorded r))),
       (''requiredApprovals'', JNum (int (rar_required_approvals r)))]))))"

definition get_operation_route :: "'w app_env \<Rightarrow> request_context \<Rightarrow> string \<Rightarrow> ('w sys, http_response) io" where
  "get_operation_route env ctx param =
     io_bind (io_lift (uuid_param (ap_zod env) ''operationId'' param)) (\<lambda>operation_id.
     io_bind (get_operation ctx operation_id) (\<lambda>operation.
     io_bind (run_query (list_attempts_for_operation (op_id operation))) (\<lambda>attempts.
     io_bind (run_query (list_observations (op_id operation))) (\<lambda>observations.
     io_bind (run_query (list_operation_history (op_id operation))) (\<lambda>history.
     io_ret (operation_view operation attempts observations history))))))"

definition get_audit_events :: "'w app_env \<Rightarrow> request_context \<Rightarrow> json \<Rightarrow> ('w sys, http_response) io" where
  "get_audit_events env ctx query =
     io_bind (io_lift (z_parse (audit_query_schema (ap_zod env)) (Some query))) (\<lambda>input.
     io_bind (query_audit (ap_of_iso env) ctx input) (\<lambda>(events, next_cursor).
     io_ret (json_reply 200 [(''events'', JArr (map serialize_event events)), (''nextCursor'', json_of_opt next_cursor)])))"

subsection \<open>The application\<close>

fun public_route :: "route \<Rightarrow> bool" where
  "public_route Get_live = True"
| "public_route Get_ready = True"
| "public_route Get_metrics = True"
| "public_route Not_found_route = True"
| "public_route _ = False"

fun public_handler :: "'w app_env \<Rightarrow> request_context \<Rightarrow> route \<Rightarrow> ('w sys, http_response) io" where
  "public_handler env ctx Get_live = io_ret (json_reply 200 [(''status'', JStr ''ok'')])"
| "public_handler env ctx Get_ready = get_ready env"
| "public_handler env ctx Get_metrics = get_metrics env"
| "public_handler env ctx _ = io_ret (not_found_response (rc_request_id ctx) (rc_correlation_id ctx))"

fun protected_handler :: "'w app_env \<Rightarrow> http_request \<Rightarrow> request_context \<Rightarrow> route \<Rightarrow> ('w sys, http_response) io" where
  "protected_handler env req ctx Post_assets = post_assets env ctx (hq_body req)"
| "protected_handler env req ctx (Post_deployments i) = post_deployments env ctx i"
| "protected_handler env req ctx (Get_asset i) = get_asset_route env ctx i"
| "protected_handler env req ctx Post_wallets = post_wallets env ctx (hq_body req)"
| "protected_handler env req ctx (Post_compliance_decisions i) = post_compliance_decisions env ctx i (hq_body req)"
| "protected_handler env req ctx (Post_compliance_revocations i) = post_compliance_revocations env ctx i (hq_body req)"
| "protected_handler env req ctx (Post_mints i) = post_mints env ctx i (header_of req ''idempotency-key'') (hq_body req)"
| "protected_handler env req ctx (Post_approval_decisions i) = post_approval_decisions env ctx i (hq_body req)"
| "protected_handler env req ctx (Get_operation i) = get_operation_route env ctx i"
| "protected_handler env req ctx Get_audit_events = get_audit_events env ctx (hq_query req)"
| "protected_handler env req ctx _ = public_handler env ctx (hq_route req)"

definition route_handler :: "'w app_env \<Rightarrow> http_request \<Rightarrow> request_context \<Rightarrow> ('w sys, http_response) io" where
  "route_handler env req ctx =
     (if public_route (hq_route req) then public_handler env ctx (hq_route req)
      else io_bind (authenticate env req ctx) (\<lambda>ctx. protected_handler env req ctx (hq_route req)))"

text \<open>One request: the hooks, the route, the error handler; the ids go back as headers.\<close>

definition handle_request :: "'w app_env \<Rightarrow> http_request \<Rightarrow> ('w sys, http_response) io" where
  "handle_request env req =
     io_bind (request_ids req) (\<lambda>(request_id, correlation_id).
     io_bind (io_catch
         (route_handler env req \<lparr>rc_actor = anonymous_actor, rc_correlation_id = correlation_id, rc_request_id = request_id\<rparr>)
         (\<lambda>e. io_ret (error_response (normalize_error e request_id correlation_id)))) (\<lambda>response.
     io_ret (response\<lparr>hs_headers :=
       [(''x-request-id'', request_id), (''x-correlation-id'', correlation_id)] @ hs_headers response\<rparr>)))"

end
