(* ===== verification/Container.thy ===== *)
theory Container
  imports HttpApi Replacement
begin

text \<open>
  The process: its settings (\<open>platform/config/index.ts\<close>), the wiring of every component from them
  (\<open>platform/container.ts\<close>) and the job and readiness callbacks of \<open>worker/runtime.ts\<close>. Adapters over
  libraries (the chain, the keys, the queue, the validator, tokens) are given; loggers, metrics, connections
  and timers are left out.
\<close>

subsection \<open>Settings\<close>

datatype node_env = Development | Test | Production

record app_config =
  NODE_ENV :: node_env
  LOG_LEVEL :: string
  API_HOST :: string
  API_PORT :: int
  DATABASE_URL :: string
  DATABASE_POOL_MAX :: int
  REDIS_URL :: string
  QUEUE_PREFIX :: string
  EVM_RPC_URL :: string
  EVM_CHAIN_ID :: int
  EVM_CONFIRMATIONS :: int
  EVM_RECEIPT_TIMEOUT_MS :: int
  TRANSACTION_STUCK_AFTER_MS :: int
  TRANSACTION_MAX_REPLACEMENTS :: int
  TRANSACTION_FEE_BUMP_PERCENT :: int
  TESTNET_RPC_URL :: "string option"
  TESTNET_CHAIN_ID :: "int option"
  TESTNET_CONFIRMATIONS :: int
  SIGNER_REQUEST_TIMEOUT_MS :: int
  MINT_DEADLINE_SECONDS :: int
  JWT_SECRET :: string
  JWT_ISSUER :: string
  JWT_AUDIENCE :: string
  LOCAL_SIGNER_PRIVATE_KEY :: string
  LOCAL_SIGNER_ADDRESS :: string
  WORKER_CONCURRENCY :: int
  OUTBOX_POLL_INTERVAL_MS :: int
  OUTBOX_BATCH_SIZE :: int
  RECOVERY_SWEEP_INTERVAL_MS :: int
  RECOVERY_STALE_AFTER_MS :: int
  METRICS_ENABLED :: bool

definition any_text :: "zod \<Rightarrow> string zod_schema" where
  "any_text z = z_string z (\<lambda>_. [])"

definition url_schema :: "zod \<Rightarrow> string zod_schema" where
  "url_schema z = z_string z (\<lambda>s. z_check (zd_url z s) (zd_text z Z_url))"

definition at_least :: "zod \<Rightarrow> nat \<Rightarrow> string \<Rightarrow> string zod_schema" where
  "at_least z n message = z_string z (\<lambda>s. z_check (n \<le> length s) message)"

definition hex_address :: "zod \<Rightarrow> string zod_schema" where
  "hex_address z = z_string z (\<lambda>s. z_check (hex_text 40 s) ''must be a 0x-prefixed 20-byte address'')"

definition hex_private_key :: "zod \<Rightarrow> string zod_schema" where
  "hex_private_key z = z_string z (\<lambda>s. z_check (hex_text 64 s) ''must be a 0x-prefixed 32-byte private key'')"

definition log_levels :: "string list" where
  "log_levels = [''fatal'', ''error'', ''warn'', ''info'', ''debug'', ''trace'', ''silent'']"

text \<open>The settings in three runs of the object's fields, in their order.\<close>

definition env_process :: "zod \<Rightarrow> json \<Rightarrow> (node_env \<Rightarrow> string \<Rightarrow> string \<Rightarrow> int \<Rightarrow> string \<Rightarrow> int \<Rightarrow> string \<Rightarrow> string \<Rightarrow> 'a) parsed \<Rightarrow> 'a parsed" where
  "env_process z e f = z_and (z_and (z_and (z_and (z_and (z_and (z_and (z_and f
     (z_key ''NODE_ENV'' (z_default Development (z_enum z
        [(''development'', Development), (''test'', Test), (''production'', Production)])) e))
     (z_key ''LOG_LEVEL'' (z_default ''info'' (z_enum z (map (\<lambda>l. (l, l)) log_levels))) e))
     (z_key ''API_HOST'' (z_default ''127.0.0.1'' (any_text z)) e))
     (z_key ''API_PORT'' (z_default 3000 (z_coerce_int z (Some 0) (Some 65535))) e))
     (z_key ''DATABASE_URL'' (url_schema z) e))
     (z_key ''DATABASE_POOL_MAX'' (z_default 10 (z_coerce_int z (Some 1) (Some 100))) e))
     (z_key ''REDIS_URL'' (url_schema z) e))
     (z_key ''QUEUE_PREFIX'' (z_default ''ito'' (at_least z 1 (zd_text z (Z_too_short 1)))) e)"

definition env_chain :: "zod \<Rightarrow> json \<Rightarrow>
  (string \<Rightarrow> int \<Rightarrow> int \<Rightarrow> int \<Rightarrow> int \<Rightarrow> int \<Rightarrow> int \<Rightarrow> string option \<Rightarrow> int option \<Rightarrow> int \<Rightarrow> int \<Rightarrow> int \<Rightarrow> 'a) parsed \<Rightarrow> 'a parsed" where
  "env_chain z e f = z_and (z_and (z_and (z_and (z_and (z_and (z_and (z_and (z_and (z_and (z_and (z_and f
     (z_key ''EVM_RPC_URL'' (url_schema z) e))
     (z_key ''EVM_CHAIN_ID'' (z_coerce_int z (Some 1) None) e))
     (z_key ''EVM_CONFIRMATIONS'' (z_default 2 (z_coerce_int z (Some 1) None)) e))
     (z_key ''EVM_RECEIPT_TIMEOUT_MS'' (z_default 60000 (z_coerce_int z (Some 1000) None)) e))
     (z_key ''TRANSACTION_STUCK_AFTER_MS'' (z_default 60000 (z_coerce_int z (Some 1000) None)) e))
     (z_key ''TRANSACTION_MAX_REPLACEMENTS'' (z_default 3 (z_coerce_int z (Some 0) (Some 10))) e))
     (z_key ''TRANSACTION_FEE_BUMP_PERCENT'' (z_default 25 (z_coerce_int z (Some 10) (Some 500))) e))
     (z_key ''TESTNET_RPC_URL'' (z_optional (url_schema z)) e))
     (z_key ''TESTNET_CHAIN_ID'' (z_optional (z_coerce_int z (Some 1) None)) e))
     (z_key ''TESTNET_CONFIRMATIONS'' (z_default 3 (z_coerce_int z (Some 1) None)) e))
     (z_key ''SIGNER_REQUEST_TIMEOUT_MS'' (z_default 300000 (z_coerce_int z (Some 1000) None)) e))
     (z_key ''MINT_DEADLINE_SECONDS'' (z_default 900 (z_coerce_int z (Some 30) None)) e)"

definition env_worker :: "zod \<Rightarrow> json \<Rightarrow>
  (string \<Rightarrow> string \<Rightarrow> string \<Rightarrow> string \<Rightarrow> string \<Rightarrow> int \<Rightarrow> int \<Rightarrow> int \<Rightarrow> int \<Rightarrow> int \<Rightarrow> bool \<Rightarrow> 'a) parsed \<Rightarrow> 'a parsed" where
  "env_worker z e f = z_and (z_and (z_and (z_and (z_and (z_and (z_and (z_and (z_and (z_and (z_and f
     (z_key ''JWT_SECRET'' (at_least z 16 ''JWT secret must be at least 16 characters'') e))
     (z_key ''JWT_ISSUER'' (z_default ''ito-local'' (any_text z)) e))
     (z_key ''JWT_AUDIENCE'' (z_default ''ito-api'' (any_text z)) e))
     (z_key ''LOCAL_SIGNER_PRIVATE_KEY'' (hex_private_key z) e))
     (z_key ''LOCAL_SIGNER_ADDRESS'' (hex_address z) e))
     (z_key ''WORKER_CONCURRENCY'' (z_default 4 (z_coerce_int z (Some 1) (Some 32))) e))
     (z_key ''OUTBOX_POLL_INTERVAL_MS'' (z_default 500 (z_coerce_int z (Some 50) None)) e))
     (z_key ''OUTBOX_BATCH_SIZE'' (z_default 50 (z_coerce_int z (Some 1) (Some 500))) e))
     (z_key ''RECOVERY_SWEEP_INTERVAL_MS'' (z_default 5000 (z_coerce_int z (Some 200) None)) e))
     (z_key ''RECOVERY_STALE_AFTER_MS'' (z_default 15000 (z_coerce_int z (Some 200) None)) e))
     (z_key ''METRICS_ENABLED'' (z_default True (z_enum z [(''true'', True), (''false'', False)])) e)"

definition env_schema :: "zod \<Rightarrow> app_config zod_schema" where
  "env_schema z = z_object z (\<lambda>e. env_worker z e (env_chain z e (env_process z e (Inr app_config.make))))"

definition config_error :: "string list \<Rightarrow> exn" where
  "config_error issues = JsError (''invalid environment configuration:\<newline>  - '' @
     concat (case issues of [] \<Rightarrow> [] | i # is \<Rightarrow> i # map (\<lambda>i. ''\<newline>  - '' @ i) is))"

text \<open>The environment is an object of strings.\<close>

definition load_config :: "zod \<Rightarrow> (string \<times> string) list \<Rightarrow> exn + app_config" where
  "load_config z env = (case env_schema z (Some (JObj (map (\<lambda>(k, v). (k, Some (JStr v))) env))) of
     Inl issues \<Rightarrow> Inl (config_error (map (\<lambda>(path, message). (if path = [] then ''(root)'' else path) @ '': '' @ message) issues))
   | Inr config \<Rightarrow>
       if NODE_ENV config = Production
       then Inl (config_error
         [''NODE_ENV=production is refused: this reference implementation ships only development adapters''])
       else Inr config)"

subsection \<open>The composition root\<close>

definition replacement_policy_of :: "app_config \<Rightarrow> replacement_policy" where
  "replacement_policy_of c = \<lparr>rp_stuck_after_ms = TRANSACTION_STUCK_AFTER_MS c,
     rp_max_replacements = nat (TRANSACTION_MAX_REPLACEMENTS c), rp_fee_bump_percent = TRANSACTION_FEE_BUMP_PERCENT c\<rparr>"

definition chain_config_of :: "app_config \<Rightarrow> chain_config" where
  "chain_config_of c = \<lparr>cfg_evm_chain_id = EVM_CHAIN_ID c, cfg_evm_rpc_url = EVM_RPC_URL c,
     cfg_evm_confirmations = EVM_CONFIRMATIONS c, cfg_testnet_rpc_url = TESTNET_RPC_URL c,
     cfg_testnet_chain_id = TESTNET_CHAIN_ID c, cfg_testnet_confirmations = TESTNET_CONFIRMATIONS c,
     cfg_replacement = replacement_policy_of c\<rparr>"

text \<open>What the root takes from outside: the adapters and the libraries behind them.\<close>

record 'w adapters =
  ad_gateway :: "'w gateway"
  ad_signer :: "'w signer_provider"
  ad_compliance :: "'w compliance_provider"
  ad_queue :: "'w queue"
  ad_codec :: transaction_codec
  ad_sha :: "string \<Rightarrow> string"
  ad_zod :: zod
  ad_of_iso :: "string \<Rightarrow> js_time"
  ad_jwt :: jwt_library
  ad_select_1 :: "('w, unit) call"
  ad_redis_ping :: "('w, unit) call"
  ad_metrics_content_type :: string
  ad_render_metrics :: "('w, string) call"

record 'w container =
  ct_profiles :: chain_profiles
  ct_confirmation :: confirmation_policy
  ct_executor :: "'w executor_env"
  ct_dispatcher :: dispatcher_options
  ct_recovery :: "'w recovery_env"
  ct_replacement :: "'w replacement_env"
  ct_app :: "'w app_env"

definition confirmation_of :: "app_config \<Rightarrow> chain_profile \<Rightarrow> confirmation_policy" where
  "confirmation_of c profile = \<lparr>po_confirmations = pf_confirmations profile, po_finality_tag = pf_finality_tag profile,
     po_timeout_ms = EVM_RECEIPT_TIMEOUT_MS c, po_poll_interval_ms = 200\<rparr>"

definition chain_writer_of :: "app_config \<Rightarrow> chain_profile \<Rightarrow> 'w adapters \<Rightarrow> 'w chain_env" where
  "chain_writer_of c profile a = \<lparr>ce_gateway = ad_gateway a, ce_signer = ad_signer a, ce_chain_id = pf_chain_id profile,
     ce_signer_request_timeout_ms = SIGNER_REQUEST_TIMEOUT_MS c, ce_replacement = pf_replacement profile,
     ce_codec = ad_codec a, ce_sha = ad_sha a\<rparr>"

definition handlers_of :: "app_config \<Rightarrow> 'w adapters \<Rightarrow> 'w handler_env" where
  "handlers_of c a = \<lparr>he_gateway = ad_gateway a, he_signer = ad_signer a, he_provider = ad_compliance a,
     he_chain_id = EVM_CHAIN_ID c, he_mint_deadline_seconds = MINT_DEADLINE_SECONDS c, he_sha = ad_sha a\<rparr>"

definition app_of :: "app_config \<Rightarrow> 'w adapters \<Rightarrow> 'w app_env" where
  "app_of c a = \<lparr>ap_sha = ad_sha a, ap_zod = ad_zod a, ap_of_iso = ad_of_iso a,
     ap_auth = \<lparr>dj_settings = \<lparr>jt_secret = JWT_SECRET c, jt_issuer = JWT_ISSUER c, jt_audience = JWT_AUDIENCE c\<rparr>,
       dj_library = ad_jwt a\<rparr>,
     ap_chain_id = EVM_CHAIN_ID c, ap_provider = ad_compliance a, ap_select_1 = ad_select_1 a,
     ap_metrics_enabled = METRICS_ENABLED c, ap_metrics_content_type = ad_metrics_content_type a,
     ap_render_metrics = ad_render_metrics a\<rparr>"

definition create_container :: "app_config \<Rightarrow> 'w adapters \<Rightarrow> exn + 'w container" where
  "create_container c a = (case resolve_chain_profiles (chain_config_of c) of
     Inl e \<Rightarrow> Inl e
   | Inr profiles \<Rightarrow>
       (let profile = ps_active profiles;
            confirmation = confirmation_of c profile;
            executor = \<lparr>ee_chain = chain_writer_of c profile a, ee_handlers = handlers_of c a, ee_confirmation = confirmation\<rparr>
        in Inr \<lparr>ct_profiles = profiles, ct_confirmation = confirmation, ct_executor = executor,
             ct_dispatcher = \<lparr>do_batch_size = nat (OUTBOX_BATCH_SIZE c), do_retry_after_ms = None\<rparr>,
             ct_recovery = \<lparr>rv_executor = executor, rv_queue = ad_queue a,
               rv_stale_after_ms = RECOVERY_STALE_AFTER_MS c, rv_batch_size = 50\<rparr>,
             ct_replacement = \<lparr>pe_executor = executor, pe_profile = profile\<rparr>, ct_app = app_of c a\<rparr>))"

subsection \<open>The worker's callbacks\<close>

definition worker_of :: "'w container \<Rightarrow> 'w worker_env" where
  "worker_of ct = \<lparr>we_recovery = ct_recovery ct, we_replacement = ct_replacement ct\<rparr>"

text \<open>The processor of the queue hands the operation of a job to the executor.\<close>

definition process_job :: "'w container \<Rightarrow> string \<Rightarrow> job_data \<Rightarrow> ('w sys, execution_result) io" where
  "process_job ct worker_id job = execute_operation (ct_executor ct) (jd_operation_id job) worker_id"

record worker_readiness =
  wr_ready :: bool
  wr_postgres :: string
  wr_redis :: string
  wr_evm :: string

definition worker_readiness_of :: "'w adapters \<Rightarrow> ('w sys, worker_readiness) io" where
  "worker_readiness_of a =
     io_bind (check_readiness (ad_select_1 a)) (\<lambda>postgres.
     io_bind (check_readiness (ad_redis_ping a)) (\<lambda>redis.
     io_bind (check_readiness (\<lambda>w. map_prod (map_sum id (\<lambda>_. ())) id (gw_get_chain_identity (ad_gateway a) w))) (\<lambda>evm.
     io_ret \<lparr>wr_ready = list_all (\<lambda>v. v = ''ok'') [postgres, redis, evm], wr_postgres = postgres, wr_redis = redis,
       wr_evm = evm\<rparr>)))"

subsection \<open>What a started process is\<close>

definition in_range :: "int option \<Rightarrow> int option \<Rightarrow> int \<Rightarrow> bool" where
  "in_range l m n \<longleftrightarrow> (case l of None \<Rightarrow> True | Some l \<Rightarrow> l \<le> n) \<and> (case m of None \<Rightarrow> True | Some m \<Rightarrow> n \<le> m)"

lemma in_range_simps [simp]:
  "in_range (Some l) None n \<longleftrightarrow> l \<le> n" "in_range (Some l) (Some m) n \<longleftrightarrow> l \<le> n \<and> n \<le> m"
  by (simp_all add: in_range_def)

lemma setting_in_range:
  "z_key name (z_coerce_int z l m) e = Inr v \<Longrightarrow> in_range l m v"
  "z_key name (z_default a (z_coerce_int z l m)) e = Inr v \<Longrightarrow> in_range l m a \<Longrightarrow> in_range l m v"
  by (auto simp: in_range_def parse_simps split: if_splits)

lemma setting_text:
  "z_key name (at_least z n message) e = Inr s \<Longrightarrow> n \<le> length s" "z_key name (hex_address z) e = Inr s \<Longrightarrow> hex_text 40 s"
  "z_key name (hex_private_key z) e = Inr s \<Longrightarrow> hex_text 64 s"
  by (auto simp: at_least_def hex_address_def hex_private_key_def parse_simps)

lemma env_process_Inr: "env_process z e f = Inr v \<Longrightarrow>
  \<exists>g node level host port db pool redis prefix. f = Inr g \<and> v = g node level host port db pool redis prefix"
  unfolding env_process_def z_and_Inr by clarify (intro exI conjI, rule refl, rule refl)

lemma env_chain_Inr: "env_chain z e f = Inr v \<Longrightarrow>
  \<exists>g url chain conf timeout stuck most bump turl tchain tconf sign mint. f = Inr g \<and>
    v = g url chain conf timeout stuck most bump turl tchain tconf sign mint \<and>
    in_range (Some 1) None chain \<and> in_range (Some 1) None conf \<and> in_range (Some 1000) None timeout \<and>
    in_range (Some 1000) None stuck \<and> in_range (Some 0) (Some 10) most \<and> in_range (Some 10) (Some 500) bump \<and>
    in_range (Some 1000) None sign \<and> in_range (Some 30) None mint"
  unfolding env_chain_def z_and_Inr
  by clarify (intro exI conjI, rule refl, rule refl, (erule setting_in_range(1) | erule setting_in_range(2), simp)+)

lemma env_worker_Inr: "env_worker z e f = Inr v \<Longrightarrow>
  \<exists>g secret issuer audience key addr conc poll batch sweep stale metrics. f = Inr g \<and>
    v = g secret issuer audience key addr conc poll batch sweep stale metrics \<and>
    16 \<le> length secret \<and> hex_text 64 key \<and> hex_text 40 addr \<and> in_range (Some 1) (Some 500) batch \<and>
    in_range (Some 200) None stale"
  unfolding env_worker_def z_and_Inr
  by clarify (intro exI conjI, rule refl, rule refl, (erule setting_text | erule setting_in_range(2), simp)+)

text \<open>What every accepted configuration satisfies.\<close>

definition config_ok :: "app_config \<Rightarrow> bool" where
  "config_ok c \<longleftrightarrow> NODE_ENV c \<noteq> Production \<and> 0 < EVM_CHAIN_ID c \<and> 1 \<le> EVM_CONFIRMATIONS c \<and>
     1000 \<le> EVM_RECEIPT_TIMEOUT_MS c \<and> 1000 \<le> TRANSACTION_STUCK_AFTER_MS c \<and>
     0 \<le> TRANSACTION_MAX_REPLACEMENTS c \<and> TRANSACTION_MAX_REPLACEMENTS c \<le> 10 \<and>
     10 \<le> TRANSACTION_FEE_BUMP_PERCENT c \<and> TRANSACTION_FEE_BUMP_PERCENT c \<le> 500 \<and>
     1000 \<le> SIGNER_REQUEST_TIMEOUT_MS c \<and> 30 \<le> MINT_DEADLINE_SECONDS c \<and> 16 \<le> length (JWT_SECRET c) \<and>
     hex_text 64 (LOCAL_SIGNER_PRIVATE_KEY c) \<and> hex_text 40 (LOCAL_SIGNER_ADDRESS c) \<and>
     1 \<le> OUTBOX_BATCH_SIZE c \<and> OUTBOX_BATCH_SIZE c \<le> 500 \<and> 200 \<le> RECOVERY_STALE_AFTER_MS c"

lemma env_schema_ok: "env_schema z v = Inr c \<Longrightarrow> NODE_ENV c \<noteq> Production \<Longrightarrow> config_ok c"
  unfolding env_schema_def z_object_Inr
  by (elim exE conjE, drule env_worker_Inr, elim exE conjE, drule env_chain_Inr, elim exE conjE, drule env_process_Inr)
    (auto simp: config_ok_def app_config.defs)

end
