(* ===== verification/ApiFacts.thy ===== *)
theory ApiFacts
  imports HttpApi Programs
begin

text \<open>
  What the HTTP application promises: who is let in, what a parsed body is, what a caller without
  the role gets, what a response never shows, and that every request is answered and commits only
  steps of the system.
\<close>

subsection \<open>Who is let in\<close>

lemma unauthorized_code [simp]: "code_of_error (unauthorized_error m) = UNAUTHORIZED"
  by (simp add: unauthorized_error_def)

lemma parse_bearer_Inl: "parse_bearer h = Inl e \<Longrightarrow> code_of_error e = UNAUTHORIZED"
  by (auto simp: parse_bearer_def Let_def split: option.splits if_splits)

lemma subject_of_payload_Inl: "subject_of_payload p = Inl e \<Longrightarrow> code_of_error e = UNAUTHORIZED"
  by (auto simp: subject_of_payload_def split: option.splits json.splits if_splits)

lemma authenticated_actor_Inr:
  "authenticated_actor found = Inr actor \<longleftrightarrow>
     (\<exists>user. found = Some user \<and> us_status (ur_user user) = Us_ACTIVE \<and> actor = to_actor user)"
  by (auto simp: authenticated_actor_def split: option.splits if_splits)

lemma authenticated_actor_Inl: "authenticated_actor found = Inl e \<Longrightarrow> code_of_error e = UNAUTHORIZED"
  by (auto simp: authenticated_actor_def split: option.splits if_splits)

definition after_query :: "'w sys \<Rightarrow> 'w sys" where
  "after_query s = s\<lparr>sys_db := db_at_step s, sys_step := Suc (sys_step s)\<rparr>"

lemma after_query [simp]: "sys_db (after_query s) = db_at_step s" "sys_world (after_query s) = sys_world s"
  "sys_others (after_query s) = sys_others s" "sys_clock (after_query s) = sys_clock s"
  by (simp_all add: after_query_def)

definition token_subject :: "'w app_env \<Rightarrow> js_time \<Rightarrow> string \<Rightarrow> exn + string \<times> string" where
  "token_subject env now token = (case jw_verify (dj_library (ap_auth env)) (dj_settings (ap_auth env)) now token of
     None \<Rightarrow> Inl (unauthorized_error ''invalid or expired token'')
   | Some payload \<Rightarrow> subject_of_payload payload)"

lemma token_subject_Inr: "token_subject env now token = Inr v \<longleftrightarrow>
  (\<exists>payload. jw_verify (dj_library (ap_auth env)) (dj_settings (ap_auth env)) now token = Some payload \<and>
     subject_of_payload payload = Inr v)"
  by (simp add: token_subject_def split: option.split)

lemma token_subject_Inl: "token_subject env now token = Inl e \<Longrightarrow> code_of_error e = UNAUTHORIZED"
  by (auto simp: token_subject_def subject_of_payload_Inl split: option.splits)

lemma authenticate_run:
  "authenticate env req ctx s = (case parse_bearer (header_of req ''authorization'') of
     Inl e \<Rightarrow> (Inl e, s)
   | Inr token \<Rightarrow> (case token_subject env (js_clock s) token of
       Inl e \<Rightarrow> (Inl e, after_query s)
     | Inr (subject, org) \<Rightarrow>
         (map_sum id (\<lambda>actor. ctx\<lparr>rc_actor := actor\<rparr>)
            (authenticated_actor (find_user_by_subject subject (db_at_step (after_query s)))), after_query (after_query s))))"
  by (simp add: authenticate_def verify_token_def token_subject_def io_run date_now_run run_query_def run_tx_def tx_read_def
      after_query_def split: sum.split option.split)

lemma find_user_actor: "find_user_by_subject subject d = Some user \<Longrightarrow>
  to_actor user = \<lparr>ac_type = USER, ac_id = us_id (ur_user user), ac_organization_id = us_organization_id (ur_user user),
    ac_roles = load_roles (us_id (ur_user user)) d\<rparr>"
  by (auto simp: find_user_by_subject_def to_actor_def)

lemma authenticate_Inr:
  assumes "authenticate env req ctx s = (Inr ctx', s')"
  shows "\<exists>token subject org user. parse_bearer (header_of req ''authorization'') = Inr token \<and>
    token_subject env (js_clock s) token = Inr (subject, org) \<and> find_user_by_subject subject (sys_db s') = Some user \<and>
    us_status (ur_user user) = Us_ACTIVE \<and> ctx' = ctx\<lparr>rc_actor := to_actor user\<rparr>"
  using assms by (fastforce simp: authenticate_run authenticated_actor_def split: sum.splits option.splits if_splits)

lemma map_sum_Inl: "map_sum id f x = Inl e \<longleftrightarrow> x = Inl e"
  by (cases x) auto

lemma authenticate_Inl: "authenticate env req ctx s = (Inl e, s') \<Longrightarrow> code_of_error e = UNAUTHORIZED"
  by (auto simp: authenticate_run parse_bearer_Inl token_subject_Inl authenticated_actor_Inl map_sum_Inl split: sum.splits)

lemma authenticate_admits:
  assumes "parse_bearer (header_of req ''authorization'') = Inr token" "token_subject env (js_clock s) token = Inr (subject, org)"
    "authenticate env req ctx s = (r, s')" "find_user_by_subject subject (sys_db s') = Some user"
    "us_status (ur_user user) = Us_ACTIVE"
  shows "r = Inr (ctx\<lparr>rc_actor := to_actor user\<rparr>)"
  using assms by (auto simp: authenticate_run authenticated_actor_def)

text \<open>
  C16: who is let in. A request is authenticated exactly when its header carries a bearer token that
  verifies now, its subject is a user of the database and this user is active; the actor is that user with
  the roles the database gives it at that moment, whatever the token says, and every other request is
  refused as unauthorized before anything is written.
\<close>

theorem authenticate_iff:
  assumes "authenticate env req ctx s = (r, s')"
  shows "(\<forall>ctx'. r = Inr ctx' \<longleftrightarrow>
      (\<exists>token payload subject org user. parse_bearer (header_of req ''authorization'') = Inr token \<and>
         jw_verify (dj_library (ap_auth env)) (dj_settings (ap_auth env)) (js_clock s) token = Some payload \<and>
         subject_of_payload payload = Inr (subject, org) \<and> find_user_by_subject subject (sys_db s') = Some user \<and>
         us_status (ur_user user) = Us_ACTIVE \<and>
         ctx' = ctx\<lparr>rc_actor := \<lparr>ac_type = USER, ac_id = us_id (ur_user user),
           ac_organization_id = us_organization_id (ur_user user), ac_roles = load_roles (us_id (ur_user user)) (sys_db s')\<rparr>\<rparr>)) \<and>
    (\<forall>e. r = Inl e \<longrightarrow> code_of_error e = UNAUTHORIZED) \<and>
    (sys_db s' = sys_db s \<or> sys_db s' = db_at_step s \<or> sys_db s' = db_at_step (after_query s)) \<and> sys_world s' = sys_world s"
proof (intro conjI allI impI iffI)
  fix ctx'
  assume "r = Inr ctx'"
  with assms have "authenticate env req ctx s = (Inr ctx', s')" by simp
  from authenticate_Inr [OF this]
  show "\<exists>token payload subject org user. parse_bearer (header_of req ''authorization'') = Inr token \<and>
         jw_verify (dj_library (ap_auth env)) (dj_settings (ap_auth env)) (js_clock s) token = Some payload \<and>
         subject_of_payload payload = Inr (subject, org) \<and> find_user_by_subject subject (sys_db s') = Some user \<and>
         us_status (ur_user user) = Us_ACTIVE \<and>
         ctx' = ctx\<lparr>rc_actor := \<lparr>ac_type = USER, ac_id = us_id (ur_user user),
           ac_organization_id = us_organization_id (ur_user user), ac_roles = load_roles (us_id (ur_user user)) (sys_db s')\<rparr>\<rparr>"
    by (simp add: token_subject_Inr) (metis find_user_actor)
qed (use assms in \<open>auto simp: authenticate_Inl find_user_actor dest: authenticate_admits [OF _ token_subject_Inr [THEN iffD2]]\<close>,
    auto simp: authenticate_run split: sum.splits)

subsection \<open>What a parsed body is\<close>

text \<open>
  C28: what the schemas let through is what the services take. An accepted mint body names its wallet by a
  UUID and an amount that the service reads as a number between 1 and $10^{78} - 1$; an accepted asset
  has a positive supply cap of that size and between 0 and 18 decimals; an accepted
  wallet address is 20 bytes of hexadecimal.
\<close>

theorem parsed_bodies_well_formed:
  shows "(z_parse (create_mint_schema z) body = Inr (wallet_id, amount) \<longrightarrow>
       zd_uuid z wallet_id \<and> (\<exists>n. mint_amount amount = Inr n \<and> 0 < n \<and> n < 10 ^ 78)) \<and>
    (z_parse (create_asset_schema z) body = Inr asset \<longrightarrow>
       (\<exists>n. bigint_or_throw (ca_supply_cap asset) = Inr n \<and> 0 < n \<and> n < 10 ^ 78) \<and>
       0 \<le> ca_decimals asset \<and> ca_decimals asset \<le> 18 \<and> symbol_text (ca_symbol asset)) \<and>
    (z_parse (create_wallet_schema z) body = Inr wallet \<longrightarrow> hex_text 40 (rw_address wallet) \<and> rw_investor_reference wallet \<noteq> [])"
proof (intro conjI impI)
  assume "z_parse (create_mint_schema z) body = Inr (wallet_id, amount)"
  then have "amount_text amount" and w: "zd_uuid z wallet_id"
    by (auto simp: create_mint_schema_def uuid_schema_def amount_schema_def parse_simps)
  then show "zd_uuid z wallet_id" "\<exists>n. mint_amount amount = Inr n \<and> 0 < n \<and> n < 10 ^ 78"
    by (auto simp: mint_amount_def dest!: amount_text_value)
next
  assume "z_parse (create_asset_schema z) body = Inr asset"
  then have "amount_text (ca_supply_cap asset)" "symbol_text (ca_symbol asset)" "0 \<le> ca_decimals asset" "ca_decimals asset \<le> 18"
    by (auto simp: create_asset_schema_def amount_schema_def parse_simps)
  then show "\<exists>n. bigint_or_throw (ca_supply_cap asset) = Inr n \<and> 0 < n \<and> n < 10 ^ 78"
    "0 \<le> ca_decimals asset" "ca_decimals asset \<le> 18" "symbol_text (ca_symbol asset)"
    by (auto simp: bigint_or_throw_def dest!: amount_text_value)
qed (auto simp: create_wallet_schema_def address_schema_def text_schema_def parse_simps)

subsection \<open>Callers without the role\<close>

text \<open>The roles each route asks for; reading an operation needs none.\<close>

fun route_roles :: "route \<Rightarrow> app_role list" where
  "route_roles Post_assets = [ISSUER, ADMIN]"
| "route_roles (Post_deployments i) = [ISSUER, ADMIN]"
| "route_roles (Get_asset i) = [ISSUER, ADMIN, APPROVER, COMPLIANCE_OFFICER, AUDITOR]"
| "route_roles Post_wallets = [ISSUER, ADMIN, COMPLIANCE_OFFICER]"
| "route_roles (Post_compliance_decisions i) = [COMPLIANCE_OFFICER, ADMIN]"
| "route_roles (Post_compliance_revocations i) = [COMPLIANCE_OFFICER, ADMIN]"
| "route_roles (Post_mints i) = [ISSUER, ADMIN]"
| "route_roles (Post_approval_decisions i) = [APPROVER, ADMIN]"
| "route_roles Get_audit_events = [AUDITOR, ADMIN]"
| "route_roles _ = []"

definition refuses :: "('w sys, 'a) io \<Rightarrow> 'w sys \<Rightarrow> bool" where
  "refuses m s \<longleftrightarrow> (\<exists>e. m s = (Inl e, s) \<and>
     (code_of_error e = FORBIDDEN \<or> code_of_error e = IDEMPOTENCY_KEY_REQUIRED \<or> (\<exists>issues. e = ZodError issues)))"

lemma refuses_parse: "(\<And>v. refuses (k v) s) \<Longrightarrow> refuses (io_bind (io_lift (z_parse sch body)) k) s"
  by (cases "z_parse sch body") (auto simp: refuses_def io_run dest: z_parse_Inl)

lemma refuses_key: "(\<And>v. refuses (k v) s) \<Longrightarrow> refuses (io_bind (io_lift (idempotency_key_of header)) k) s"
  by (auto simp: refuses_def io_run idempotency_key_of_def split: option.split)

lemma refuses_prod: "(\<And>a b. refuses (f a b) s) \<Longrightarrow> refuses (case v of (a, b) \<Rightarrow> f a b) s"
  by (cases v) simp

lemma refuses_service:
  "ac_type a = USER \<Longrightarrow> \<forall>r \<in> set allowed. \<not> has_role a r \<Longrightarrow>
   refuses (io_bind (io_then (io_lift (require_role a allowed action)) m) k) s"
  by (auto simp: refuses_def require_role_def has_any_role_iff forbidden_error_def io_run)

lemmas service_defs = create_asset_def request_deployment_def get_asset_def register_wallet_def
  record_compliance_decision_def revoke_decision_def request_mint_def record_approval_decision_def query_audit_def

lemmas route_defs = post_assets_def post_deployments_def get_asset_route_def post_wallets_def post_compliance_decisions_def
  post_compliance_revocations_def post_mints_def post_approval_decisions_def get_operation_route_def get_audit_events_def
  uuid_param_def

lemmas refuses_intros = refuses_parse refuses_key refuses_prod refuses_service

text \<open>
  C17: a caller without the role changes nothing. On every route that asks for roles, a user who has
  none of them is refused as forbidden, unless the request is already malformed or lacks its
  idempotency key; nothing is read from the provider and nothing is written.
\<close>

theorem missing_role_refused:
  assumes "ac_type (rc_actor ctx) = USER" "\<forall>r \<in> set (route_roles route). \<not> has_role (rc_actor ctx) r"
    and "route_roles route \<noteq> []"
  shows "\<exists>e. protected_handler env req ctx route s = (Inl e, s) \<and>
    (code_of_error e = FORBIDDEN \<or> code_of_error e = IDEMPOTENCY_KEY_REQUIRED \<or> (\<exists>issues. e = ZodError issues))"
proof -
  have "refuses (protected_handler env req ctx route) s"
    using assms
    by (cases route) (auto simp: route_defs service_defs intro!: refuses_intros)
  then show ?thesis by (simp add: refuses_def)
qed

subsection \<open>What a response never shows\<close>

text \<open>The same database without the signed bytes of its attempts.\<close>

definition hide_signed :: "db \<Rightarrow> db" where
  "hide_signed d = d\<lparr>transaction_attempts := map (\<lambda>a. a\<lparr>ta_signed_raw_transaction := None\<rparr>) (transaction_attempts d)\<rparr>"

lemma hide_signed_tables [simp]:
  "operations (hide_signed d) = operations d" "operation_transitions (hide_signed d) = operation_transitions d"
  "chain_observations (hide_signed d) = chain_observations d" "users (hide_signed d) = users d"
  "user_roles (hide_signed d) = user_roles d" "db_now (hide_signed d) = db_now d" "app_now (hide_signed d) = app_now d"
  by (simp_all add: hide_signed_def)

lemma hide_signed_reads [simp]:
  "find_operation_by_id i (hide_signed d) = find_operation_by_id i d"
  "list_operation_history i (hide_signed d) = list_operation_history i d"
  "list_observations i (hide_signed d) = list_observations i d"
  "find_user_by_subject subject (hide_signed d) = find_user_by_subject subject d"
  by (simp_all add: find_operation_by_id_def list_operation_history_def list_observations_def find_user_by_subject_def
      load_roles_def [abs_def])

lemma hide_signed_attempts:
  "list_attempts_for_operation i (hide_signed d) =
     map (\<lambda>a. a\<lparr>ta_signed_raw_transaction := None\<rparr>) (list_attempts_for_operation i d)"
proof -
  let ?h = "\<lambda>a. a\<lparr>ta_signed_raw_transaction := None\<rparr> :: attempt_row"
  have insort: "insort_key ta_created_at (?h a) (map ?h as) = map ?h (insort_key ta_created_at a as)" for a as
    by (induction as) auto
  have "sort_key ta_created_at (map ?h as) = map ?h (sort_key ta_created_at as)" for as
    by (induction as) (simp_all add: insort)
  then show ?thesis by (simp add: list_attempts_for_operation_def order_by_def hide_signed_def filter_map o_def)
qed

lemma view_hides_bytes:
  "operation_view operation (map (\<lambda>a. a\<lparr>ta_signed_raw_transaction := None\<rparr>) attempts) observations history =
     operation_view operation attempts observations history"
proof -
  let ?h = "\<lambda>a. a\<lparr>ta_signed_raw_transaction := None\<rparr> :: attempt_row"
  have "shown_hash (map ?h as) = shown_hash as" for as
    by (induction as) (auto simp: shown_hash_def)
  moreover have "serialize_attempt (?h a) = serialize_attempt a" for a by (simp add: serialize_attempt_def)
  ultimately show ?thesis unfolding operation_view_def by (simp only: map_map o_def)
qed

text \<open>A program that does not see the bytes answers the same without them, and leaves the same rest.\<close>

definition masked :: "'w sys \<Rightarrow> 'w sys" where
  "masked s = s\<lparr>sys_db := hide_signed (sys_db s)\<rparr>"

definition others_blind :: "'w sys \<Rightarrow> bool" where
  "others_blind s \<longleftrightarrow> (\<forall>n d. sys_others s n (hide_signed d) = hide_signed (sys_others s n d))"

definition blind :: "('w sys, 'a) io \<Rightarrow> bool" where
  "blind m \<longleftrightarrow> (\<forall>s. others_blind s \<longrightarrow> m (masked s) = (fst (m s), masked (snd (m s))) \<and> others_blind (snd (m s)))"

lemma masked_step: "others_blind s \<Longrightarrow> db_at_step (masked s) = hide_signed (db_at_step s)"
  by (simp add: masked_def others_blind_def db_at_step_def hide_signed_def)

lemma blind_ret: "blind (io_ret a)" and blind_lift: "blind (io_lift x)"
  by (auto simp: blind_def io_run split: sum.split)

lemma blind_bind: "blind m \<Longrightarrow> (\<And>a. blind (k a)) \<Longrightarrow> blind (io_bind m k)"
  unfolding blind_def io_bind_def by (fastforce split: prod.splits sum.splits)

lemma blind_catch: "blind m \<Longrightarrow> (\<And>e. blind (h e)) \<Longrightarrow> blind (io_catch m h)"
  unfolding blind_def io_catch_def by (fastforce split: prod.splits sum.splits)

lemma query_run: "run_query f s = (Inr (f (db_at_step s)), after_query s)"
  by (simp add: run_query_iff after_query_def)

lemma masked_query:
  assumes "others_blind s"
  shows "after_query (masked s) = masked (after_query s)" "others_blind (after_query s)"
  using assms
  by (simp_all add: after_query_def masked_step [OF assms]) (simp_all add: masked_def others_blind_def)

lemma blind_query: "(\<And>d. f (hide_signed d) = f d) \<Longrightarrow> blind (run_query f)"
  by (simp add: blind_def masked_query masked_step query_run)

lemma blind_query_bind:
  "(\<And>d. k (f (hide_signed d)) = k (f d)) \<Longrightarrow> (\<And>v. blind (k v)) \<Longrightarrow> blind (io_bind (run_query f) k)"
  by (simp add: blind_def masked_query masked_step query_run io_bind_def)

lemma blind_throw: "blind (io_throw e)"
  by (simp add: blind_def io_throw_def)

lemma blind_if: "blind m \<Longrightarrow> blind n \<Longrightarrow> blind (if b then m else n)"
  by simp

lemma blind_option: "blind m \<Longrightarrow> (\<And>x. blind (f x)) \<Longrightarrow> blind (case v of None \<Rightarrow> m | Some x \<Rightarrow> f x)"
  by (cases v) simp_all

lemma blind_prod: "(\<And>x y. blind (f x y)) \<Longrightarrow> blind (case v of (x, y) \<Rightarrow> f x y)"
  by (cases v) simp

lemma blind_uuid: "blind js_uuid"
  by (auto simp: blind_def js_uuid_def run_tx_def fresh_uuid_def masked_step hide_signed_def split: sum.splits)
    (auto simp: masked_def others_blind_def hide_signed_def)

lemmas blind_intros = blind_ret blind_lift blind_throw blind_if blind_option blind_prod blind_uuid blind_bind blind_catch

lemma blind_authenticate: "blind (authenticate env req ctx)"
  unfolding authenticate_def verify_token_def date_now_def
  by (intro blind_intros blind_query) simp_all

lemma blind_get_operation: "blind (get_operation_route env ctx i)"
proof -
  have "blind (get_operation ctx j)" for j
    unfolding get_operation_def by (intro blind_intros blind_query) simp
  then show ?thesis
    unfolding get_operation_route_def
    by (intro blind_bind [OF blind_lift] blind_bind blind_query_bind blind_ret) (simp_all add: hide_signed_attempts view_hides_bytes)
qed

text \<open>
  C27: signed bytes are never shown. The whole answer to a request for an operation, headers and errors
  included, is the same for a database that has lost the signed bytes of every attempt.
\<close>

theorem signed_bytes_never_shown:
  assumes "hq_route req = Get_operation i"
    and "\<And>n d. sys_others s n (hide_signed d) = hide_signed (sys_others s n d)"
  shows "fst (handle_request env req (s\<lparr>sys_db := hide_signed (sys_db s)\<rparr>)) = fst (handle_request env req s)"
proof -
  have "blind (handle_request env req)"
    unfolding handle_request_def request_ids_def route_handler_def assms(1)
    by (simp, intro blind_intros blind_authenticate blind_get_operation)
  with assms(2) show ?thesis by (simp add: blind_def others_blind_def masked_def)
qed

subsection \<open>Every request is answered\<close>

context step_closed begin

lemma steps_get_operation: "stays env P (get_operation ctx i)"
  unfolding get_operation_def by (intro steps_intros)

lemma steps_query_audit: "stays env P (query_audit of_iso ctx input)"
  unfolding query_audit_def Let_def by (intro steps_intros)

lemma steps_routes:
  "stays env P (post_assets app ctx body)" "stays env P (post_deployments app ctx i)"
  "stays env P (get_asset_route app ctx i)" "stays env P (post_wallets app ctx body)"
  "stays env P (post_compliance_decisions app ctx i body)" "stays env P (post_compliance_revocations app ctx i body)"
  "stays env P (post_mints app ctx i key body)" "stays env P (post_approval_decisions app ctx i body)"
  "stays env P (get_operation_route app ctx i)" "stays env P (get_audit_events app ctx query)"
  unfolding route_defs get_asset_def
  by (intro steps_intros steps_requests steps_get_operation steps_query_audit)+

lemma steps_public: "stays env P (public_handler app ctx route)"
  by (cases route) (auto simp: get_ready_def check_readiness_def get_metrics_def Let_def intro!: steps_intros)

lemma steps_protected: "stays env P (protected_handler app req ctx route)"
  by (cases route) (auto intro: steps_routes steps_public)

lemma steps_authenticate: "stays env P (authenticate app req ctx)"
  unfolding authenticate_def verify_token_def by (intro steps_intros)

lemma steps_route_handler: "stays env P (route_handler app req ctx)"
  unfolding route_handler_def by (intro steps_intros steps_public steps_authenticate steps_protected)

lemma steps_handle_request: "stays env P (handle_request app req)"
  unfolding handle_request_def request_ids_def by (intro steps_intros steps_route_handler)

end

lemma request_ids_run: "\<exists>ids s'. request_ids req s = (Inr ids, s')"
  by (auto simp: request_ids_def io_run js_uuid_def run_tx_def fresh_uuid_def split: option.split)

text \<open>Whoever is not let in is told so as unauthorized.\<close>

lemma parse_bearer_refusal: "parse_bearer h = Inl e \<Longrightarrow> \<exists>m. e = unauthorized_error m"
  by (auto simp: parse_bearer_def Let_def split: option.splits if_splits)

lemma subject_of_payload_refusal: "subject_of_payload p = Inl e \<Longrightarrow> \<exists>m. e = unauthorized_error m"
  by (auto simp: subject_of_payload_def split: option.splits json.splits if_splits)

lemma token_subject_refusal: "token_subject env now token = Inl e \<Longrightarrow> \<exists>m. e = unauthorized_error m"
  by (auto simp: token_subject_def dest: subject_of_payload_refusal split: option.splits)

lemma authenticated_actor_refusal: "authenticated_actor found = Inl e \<Longrightarrow> \<exists>m. e = unauthorized_error m"
  by (auto simp: authenticated_actor_def split: option.splits if_splits)

lemma authenticate_refusal: "authenticate env req ctx s = (Inl e, s') \<Longrightarrow> \<exists>m. e = unauthorized_error m"
  by (auto simp: authenticate_run map_sum_Inl split: sum.splits
      dest: parse_bearer_refusal token_subject_refusal authenticated_actor_refusal)

text \<open>
  The answer a caller gets for what a route made or threw, written out: the body of an error has its code, message,
  details and the two ids, and of an error that is none of the program's own it says nothing.
\<close>

definition error_json :: "string \<Rightarrow> string \<Rightarrow> json option \<Rightarrow> string \<Rightarrow> string \<Rightarrow> http_body" where
  "error_json code message details request_id correlation_id = Body_json (JObj [(''error'', Some (JObj [
     (''code'', Some (JStr code)), (''message'', Some (JStr message)), (''details'', details),
     (''requestId'', Some (JStr request_id)), (''correlationId'', Some (JStr correlation_id))]))])"

fun answers :: "exn + http_response \<Rightarrow> string \<Rightarrow> string \<Rightarrow> nat \<Rightarrow> http_body \<Rightarrow> bool" where
  "answers (Inr shown) rid cid status body \<longleftrightarrow> status = hs_status shown \<and> body = hs_body shown"
| "answers (Inl (AppError e)) rid cid status body \<longleftrightarrow> status = ae_http_status e \<and>
     body = error_json (error_code_name (ae_code e)) (ae_message e) (if ae_details e = JObj [] then None else Some (ae_details e)) rid cid"
| "answers (Inl (ZodError issues)) rid cid status body \<longleftrightarrow> status = 400 \<and>
     body = error_json ''VALIDATION_ERROR'' ''request validation failed'' (Some (JObj [(''issues'', Some (JArr
       (map (\<lambda>(path, message). JObj [(''path'', Some (JStr path)), (''message'', Some (JStr message))]) issues)))])) rid cid"
| "answers (Inl other) rid cid status body \<longleftrightarrow> status = 500 \<and>
     body = error_json ''INTERNAL_ERROR'' ''an internal error occurred'' None rid cid"

lemma has_no_keys_iff: "has_no_keys j \<longleftrightarrow> j = JObj []"
  by (auto simp: has_no_keys_def split: json.splits list.splits)

lemma error_response_answers:
  "answers (Inl ex) rid cid (hs_status (error_response (normalize_error ex rid cid))) (hs_body (error_response (normalize_error ex rid cid)))"
  by (cases ex) (simp_all add: error_response_def json_fields_of_error_def error_json_def has_no_keys_iff zod_issues_def)

text \<open>
  C26: what a caller is answered. Every request gets a response with its two ids, which are the caller's own when it
  sent them. On a protected route a request that is not authenticated gets a 401 with the code UNAUTHORIZED, and
  nothing more runs; otherwise the route runs as the authenticated actor and the answer is what it made, or the
  status, code, message and details of the error it threw, a 400 with the issues for a body that does not
  parse, and one and the same 500 for every error of the database or the runtime.
\<close>

theorem requests_are_answered:
  fixes env :: "'w app_env"
  shows "\<exists>response s' rid cid s1. handle_request env req s = (Inr response, s') \<and> request_ids req s = (Inr (rid, cid), s1) \<and>
    header_of req ''x-request-id'' \<in> {None, Some rid} \<and>
    cid = (case header_of req ''x-correlation-id'' of None \<Rightarrow> rid | Some c \<Rightarrow> c) \<and>
    {(''x-request-id'', rid), (''x-correlation-id'', cid)} \<subseteq> set (hs_headers response) \<and>
    (let ctx = \<lparr>rc_actor = anonymous_actor, rc_correlation_id = cid, rc_request_id = rid\<rparr> in
     if public_route (hq_route req)
     then \<exists>r. public_handler env ctx (hq_route req) s1 = (r, s') \<and> answers r rid cid (hs_status response) (hs_body response)
     else case authenticate env req ctx s1 of
       (Inl e, s2) \<Rightarrow> s' = s2 \<and> hs_status response = 401 \<and> (\<exists>m. hs_body response = error_json ''UNAUTHORIZED'' m None rid cid)
     | (Inr ctx', s2) \<Rightarrow> \<exists>r. protected_handler env req ctx' (hq_route req) s2 = (r, s') \<and>
         answers r rid cid (hs_status response) (hs_body response))"
proof -
  obtain rid cid s1 where ids: "request_ids req s = (Inr (rid, cid), s1)" using request_ids_run [of req s] by auto
  let ?ctx = "\<lparr>rc_actor = anonymous_actor, rc_correlation_id = cid, rc_request_id = rid\<rparr>"
  obtain r s' where run: "route_handler env req ?ctx s1 = (r, s')" by (cases "route_handler env req ?ctx s1")
  define response where "response = (let shown = (case r of Inr shown \<Rightarrow> shown | Inl ex \<Rightarrow> error_response (normalize_error ex rid cid))
    in shown\<lparr>hs_headers := [(''x-request-id'', rid), (''x-correlation-id'', cid)] @ hs_headers shown\<rparr>)"
  have served: "handle_request env req s = (Inr response, s')"
    by (simp add: handle_request_def io_run ids run response_def Let_def split: sum.split)
  have answered: "answers r rid cid (hs_status response) (hs_body response)"
    using error_response_answers [of _ rid cid] by (cases r) (simp_all add: response_def Let_def)
  have headers: "{(''x-request-id'', rid), (''x-correlation-id'', cid)} \<subseteq> set (hs_headers response)"
    by (simp add: response_def Let_def)
  have own: "header_of req ''x-request-id'' \<in> {None, Some rid}"
    "cid = (case header_of req ''x-correlation-id'' of None \<Rightarrow> rid | Some c \<Rightarrow> c)"
    using ids by (auto simp: request_ids_def io_bind_Inr io_ret_iff split: option.splits)
  have route: "if public_route (hq_route req)
     then \<exists>r. public_handler env ?ctx (hq_route req) s1 = (r, s') \<and> answers r rid cid (hs_status response) (hs_body response)
     else case authenticate env req ?ctx s1 of
       (Inl e, s2) \<Rightarrow> s' = s2 \<and> hs_status response = 401 \<and> (\<exists>m. hs_body response = error_json ''UNAUTHORIZED'' m None rid cid)
     | (Inr ctx', s2) \<Rightarrow> \<exists>r. protected_handler env req ctx' (hq_route req) s2 = (r, s') \<and>
         answers r rid cid (hs_status response) (hs_body response)"
  proof (cases "public_route (hq_route req)")
    case True
    with run answered show ?thesis by (auto simp: route_handler_def)
  next
    case False
    obtain x s2 where auth: "authenticate env req ?ctx s1 = (x, s2)" by fastforce
    show ?thesis
    proof (cases x)
      case (Inl e)
      with auth authenticate_refusal obtain m where "e = unauthorized_error m" by blast
      moreover from run False auth Inl have "r = Inl e" "s' = s2" by (auto simp: route_handler_def io_bind_def)
      ultimately show ?thesis
        using answered False auth Inl by (auto simp: unauthorized_error_def app_error_def new_app_error_def)
    next
      case (Inr ctx')
      with run False auth answered show ?thesis by (auto simp: route_handler_def io_bind_def)
    qed
  qed
  show ?thesis
    unfolding Let_def by (intro exI [of _ response] exI [of _ s'] exI [of _ rid] exI [of _ cid] exI [of _ s1] conjI served ids own headers route)
qed

end
