(* ===== verification/Process.thy ===== *)
theory Process
  imports Container ApiFacts Ledger
begin

text \<open>
  The composed process: what a configuration that loads guarantees of every component the root
  builds from it, and that the components so built only take steps of one system.
\<close>

lemma create_container_Inr:
  "create_container c a = Inr ct \<longleftrightarrow>
     (\<exists>profiles. resolve_chain_profiles (chain_config_of c) = Inr profiles \<and>
        (let profile = ps_active profiles;
             executor = \<lparr>ee_chain = chain_writer_of c profile a, ee_handlers = handlers_of c a,
               ee_confirmation = confirmation_of c profile\<rparr>
         in ct = \<lparr>ct_profiles = profiles, ct_confirmation = confirmation_of c profile, ct_executor = executor,
              ct_dispatcher = \<lparr>do_batch_size = nat (OUTBOX_BATCH_SIZE c), do_retry_after_ms = None\<rparr>,
              ct_recovery = \<lparr>rv_executor = executor, rv_queue = ad_queue a,
                rv_stale_after_ms = RECOVERY_STALE_AFTER_MS c, rv_batch_size = 50\<rparr>,
              ct_replacement = \<lparr>pe_executor = executor, pe_profile = profile\<rparr>, ct_app = app_of c a\<rparr>))"
  by (auto simp: create_container_def Let_def split: sum.split)

lemma active_profile:
  assumes "resolve_chain_profiles (chain_config_of c) = Inr profiles"
  shows "ps_active profiles = chain_profile_from (EVM_CHAIN_ID c) (EVM_RPC_URL c) (EVM_CONFIRMATIONS c) (replacement_policy_of c)"
  using assms by (auto simp: resolve_chain_profiles_def chain_config_of_def Let_def split: option.splits if_splits)

lemma finality_latest: "finality_tag_for chain = Tag_latest \<longleftrightarrow> chain = ANVIL_CHAIN_ID"
  by (simp add: finality_tag_for_def)

lemma load_config_ok: "load_config z env = Inr c \<Longrightarrow> config_ok c"
  by (auto simp: load_config_def dest: env_schema_ok split: sum.splits if_splits)

text \<open>
  One chain, one executor. When the settings load and the root builds the process, every component
  works on the chain of EVM_CHAIN_ID through the same gateway and signer; the job processor, the recovery
  and the replacement share one executor; replacements raise fees by at least 10 percent and at most 10
  times; a transaction needs at least one confirmation, and only the local chain is believed without
  finality; the process is never a production one.
\<close>

theorem container_wiring:
  assumes "load_config z env = Inr c" "create_container c a = Inr ct"
  shows "(let chain = ee_chain (ct_executor ct); handlers = ee_handlers (ct_executor ct);
              profile = ps_active (ct_profiles ct); policy = ce_replacement chain
    in ce_chain_id chain = EVM_CHAIN_ID c \<and> he_chain_id handlers = EVM_CHAIN_ID c \<and>
       ap_chain_id (ct_app ct) = EVM_CHAIN_ID c \<and> pf_chain_id profile = EVM_CHAIN_ID c \<and>
       ce_gateway chain = he_gateway handlers \<and> ce_signer chain = he_signer handlers \<and>
       rv_executor (ct_recovery ct) = ct_executor ct \<and> pe_executor (ct_replacement ct) = ct_executor ct \<and>
       pf_replacement (pe_profile (ct_replacement ct)) = policy \<and> 10 \<le> rp_fee_bump_percent policy \<and>
       rp_max_replacements policy \<le> 10 \<and> 1 \<le> po_confirmations (ee_confirmation (ct_executor ct)) \<and>
       (po_finality_tag (ee_confirmation (ct_executor ct)) = Tag_latest \<longleftrightarrow> EVM_CHAIN_ID c = ANVIL_CHAIN_ID) \<and>
       NODE_ENV c \<noteq> Production)"
  using load_config_ok [OF assms(1)] assms(2)
  by (auto simp: create_container_Inr Let_def active_profile chain_writer_of_def handlers_of_def app_of_def
      chain_profile_from_def replacement_policy_of_def confirmation_of_def finality_latest config_ok_def nat_le_iff)

lemma container_executors:
  "create_container c a = Inr ct \<Longrightarrow> rv_executor (we_recovery (worker_of ct)) = ct_executor ct"
  "create_container c a = Inr ct \<Longrightarrow> pe_executor (we_replacement (worker_of ct)) = ct_executor ct"
  by (auto simp: create_container_Inr Let_def worker_of_def)

subsection \<open>A run of the process\<close>

text \<open>
  What a process does, one after the other: it answers a request, works on a job of the queue, sweeps or
  dispatches. Other processes are at work all the time: they commit between any two statements.
\<close>

datatype activity = Serve http_request | Work string job_data | Sweep | Dispatch

fun run_activity :: "'w container \<Rightarrow> 'w queue \<Rightarrow> activity \<Rightarrow> 'w sys \<Rightarrow> 'w sys" where
  "run_activity ct q (Serve req) s = snd (handle_request (ct_app ct) req s)"
| "run_activity ct q (Work worker_id job) s = snd (process_job ct worker_id job s)"
| "run_activity ct q Sweep s = snd (worker_sweep (worker_of ct) s)"
| "run_activity ct q Dispatch s = snd (dispatch_once q (ct_dispatcher ct) s)"

definition run_process :: "'w container \<Rightarrow> 'w queue \<Rightarrow> activity list \<Rightarrow> 'w sys \<Rightarrow> 'w sys" where
  "run_process ct q activities s = fold (run_activity ct q) activities s"

lemma activity_stays:
  assumes "create_container c a = Inr ct"
  shows "sys_keeps (db_steps (ct_executor ct) d) s (run_activity ct q activity s)"
proof -
  note within = onward.steps_handle_request [where env = "ct_executor ct" and ?d0.0 = d]
    onward.steps_execute [where env = "ct_executor ct" and ?d0.0 = d]
    onward.steps_worker [OF container_executors [OF assms], where ?d0.0 = d]
    onward.steps_dispatch [where env = "ct_executor ct" and ?d0.0 = d]
  show ?thesis by (cases activity) (use within in \<open>auto simp: process_job_def io_within_def\<close>)
qed

lemma run_process_steps:
  assumes "create_container c a = Inr ct" and "\<And>n d. db_steps (ct_executor ct) d (sys_others s n d)"
  shows "db_steps (ct_executor ct) (sys_db s) (sys_db (run_process ct q activities s))"
  using assms(2)
proof (induction activities arbitrary: s)
  case (Cons activity activities)
  let ?t = "run_activity ct q activity s"
  have "db_steps (ct_executor ct) d d' \<Longrightarrow> db_steps (ct_executor ct) d (sys_others s n d')" for n d d'
    using Cons.prems db_steps_trans by blast
  with activity_stays [OF assms(1), of "sys_db s" s q activity]
  have "db_steps (ct_executor ct) (sys_db s) (sys_db ?t)" "sys_others ?t = sys_others s"
    by (auto simp: sys_keeps_def db_steps_def)
  with Cons.IH [of ?t] Cons.prems show ?case by (auto simp: run_process_def intro: db_steps_trans)
qed (simp add: run_process_def db_steps_def)

text \<open>
  C6: whatever the process that the composition root builds is asked to do, in any order, and whatever processes of
  the same system commit meanwhile, in the database it leaves no mint has gone past PENDING_APPROVAL without
  an approved request on its proposal hash that two different persons approved, neither of them the requester; every
  operation was taken, prepared and signed at most once; nothing was removed from the audit trail or rewritten in
  it; and whatever had ended before ended for good.
\<close>

theorem process_keeps_the_rules:
  fixes s :: "'w sys"
  assumes "create_container c a = Inr ct" and "\<And>n d. db_steps (ct_executor ct) d (sys_others s n d)"
    and "reachable (ct_executor ct) (sys_db s)"
  shows "let d = sys_db (run_process ct q activities s) in
    (\<forall>r \<in> set (operations d). op_type r = MINT \<and> op_state r \<notin> {Op_PENDING_APPROVAL, Op_CANCELLED, Op_FAILED} \<longrightarrow>
      (\<exists>x \<in> set (approval_requests d). ar_operation_id x = op_id r \<and> ar_state x = Ar_APPROVED \<and> ar_proposal_hash x = op_proposal_hash r \<and>
        (\<forall>y \<in> set (decisions_on (ar_id x) d). ad_decision y = APPROVE \<and> ad_proposal_hash y = op_proposal_hash r \<and>
           ad_approver_id y \<noteq> op_requested_by r) \<and>
        2 \<le> card (ad_approver_id ` set (decisions_on (ar_id x) d)))) \<and>
    (\<forall>r \<in> set (operations d). \<forall>state \<in> {Op_READY, Op_PREPARING, Op_SIGNING, Op_SIGNED}.
      count_list (history_of (op_id r) (operation_transitions d)) state \<le> 1) \<and>
    prefix (audit_events (sys_db s)) (audit_events d) \<and>
    (\<forall>r \<in> set (operations (sys_db s)). op_state r \<in> set terminal_operation_states \<longrightarrow>
      (\<exists>r' \<in> set (operations d). op_id r' = op_id r \<and> op_state r' = op_state r))"
proof -
  let ?d = "sys_db (run_process ct q activities s)"
  have steps: "db_steps (ct_executor ct) (sys_db s) ?d" by (rule run_process_steps [OF assms(1,2)])
  have reach: "reachable (ct_executor ct) ?d" by (rule reachable_steps [OF steps assms(3)])
  have two: "two_person_ok ?d" by (rule two_person_flow.reachable_keeps [OF reach])
  have ends: "\<exists>r' \<in> set (operations ?d). op_id r' = op_id r \<and> op_state r' = op_state r"
    if "r \<in> set (operations (sys_db s))" "op_state r \<in> set terminal_operation_states" for r
    using ended_operations_facts [OF assms(3) steps that] by blast
  show ?thesis
    unfolding Let_def
    by (intro conjI) (use two in \<open>simp add: two_person_ok_def gated_def approved_by_two_def\<close>,
      use executed_once_facts [OF reach] in simp, use steps_extend [OF steps] in \<open>simp add: extends_def\<close>, use ends in blast)
qed

end
