(* ===== verification/ApiWitnesses.thy ===== *)
theory ApiWitnesses
  imports Scenario Process
begin

text \<open>
  The properties of the application and of the process applied to concrete inputs: an application over the
  demo world of \<open>Scenario\<close>, and a process built from a small environment.
\<close>

subsection \<open>The application\<close>

definition demo_zod :: zod where
  "demo_zod = \<lparr>zd_text = (\<lambda>_. ''invalid''), zd_uuid = (\<lambda>s. s \<noteq> []), zd_url = (\<lambda>s. s \<noteq> []),
     zd_number = (\<lambda>j. case j of JStr s \<Rightarrow> js_bigint s | JNum n \<Rightarrow> Some n | _ \<Rightarrow> None)\<rparr>"

definition demo_jwt :: jwt_library where
  "demo_jwt = \<lparr>jw_verify = (\<lambda>_ now token. if token = ''tok'' \<and> now < 100
       then Some (JObj [(''sub'', Some (JStr ''alice'')), (''org'', Some (JStr ''o''))]) else None),
     jw_sign = (\<lambda>_ _ _ _. ''tok'')\<rparr>"

definition demo_app :: "demo_world app_env" where
  "demo_app = \<lparr>ap_sha = demo_sha, ap_zod = demo_zod, ap_of_iso = (\<lambda>_. 0),
     ap_auth = \<lparr>dj_settings = \<lparr>jt_secret = ''0123456789abcdef'', jt_issuer = ''ito-local'', jt_audience = ''ito-api''\<rparr>,
       dj_library = demo_jwt\<rparr>,
     ap_chain_id = 31337, ap_provider = demo_provider, ap_select_1 = (\<lambda>w. (Inr (), w)), ap_metrics_enabled = False,
     ap_metrics_content_type = ''text/plain'', ap_render_metrics = (\<lambda>w. (Inr [], w))\<rparr>"

definition demo_request :: "route \<Rightarrow> http_request" where
  "demo_request r = \<lparr>hq_route = r, hq_headers = [(''authorization'', ''Bearer tok''), (''x-request-id'', ''q'')],
     hq_body = None, hq_query = JObj []\<rparr>"

text \<open>A database that knows one user, an issuer and approver.\<close>

definition demo_users :: "demo_world sys" where
  "demo_users = demo_start\<lparr>sys_db := (sys_db demo_start)\<lparr>
     users := [\<lparr>us_id = ''i'', us_external_subject = ''alice'', us_organization_id = ''o'', us_display_name = ''Alice'',
       us_status = Us_ACTIVE\<rparr>],
     user_roles := [(''i'', ''ISSUER''), (''i'', ''APPROVER'')]\<rparr>\<rparr>"

theorem authenticate_iff_witness:
  "\<exists>ctx s'. authenticate demo_app (demo_request Get_live) (demo_ctx ''anonymous'' ADMIN) demo_users = (Inr ctx, s') \<and>
     ac_id (rc_actor ctx) = ''i'' \<and> ac_roles (rc_actor ctx) = [ISSUER, APPROVER] \<and> rc_correlation_id ctx = ''c''"
proof -
  let ?ctx = "demo_ctx ''anonymous'' ADMIN"
  obtain r s' where run: "authenticate demo_app (demo_request Get_live) ?ctx demo_users = (r, s')" by (rule prod.exhaust)
  note facts = authenticate_iff [OF run]
  from facts have db: "users (sys_db s') = users (sys_db demo_users)" "user_roles (sys_db s') = user_roles (sys_db demo_users)"
    by (auto simp: demo_users_def demo_start_def db_at_step_def)
  let ?user = "\<lparr>us_id = ''i'', us_external_subject = ''alice'', us_organization_id = ''o'', us_display_name = ''Alice'', us_status = Us_ACTIVE\<rparr>"
  have "app_role_of_name ''ISSUER'' = Some ISSUER" "app_role_of_name ''APPROVER'' = Some APPROVER" by code_simp+
  then have roles: "load_roles ''i'' (sys_db s') = [ISSUER, APPROVER]"
    by (simp add: load_roles_def db demo_users_def List.map_filter_def)
  have "parse_bearer (header_of (demo_request Get_live) ''authorization'') = Inr ''tok''"
    unfolding demo_request_def by code_simp
  moreover have "jw_verify (dj_library (ap_auth demo_app)) (dj_settings (ap_auth demo_app)) (js_clock demo_users) ''tok'' =
      Some (JObj [(''sub'', Some (JStr ''alice'')), (''org'', Some (JStr ''o''))])"
    by (simp add: demo_app_def demo_jwt_def demo_users_def demo_start_def js_clock_def)
  moreover have "subject_of_payload (JObj [(''sub'', Some (JStr ''alice'')), (''org'', Some (JStr ''o''))]) = Inr (''alice'', ''o'')"
    by code_simp
  moreover have "find_user_by_subject ''alice'' (sys_db s') = Some \<lparr>ur_user = ?user, ur_roles = [ISSUER, APPROVER]\<rparr>"
    using roles by (simp add: find_user_by_subject_def select_first_def db demo_users_def)
  ultimately have "r = Inr (?ctx\<lparr>rc_actor := \<lparr>ac_type = USER, ac_id = ''i'', ac_organization_id = ''o'', ac_roles = [ISSUER, APPROVER]\<rparr>\<rparr>)"
    using facts roles by (intro conjunct1 [OF facts, rule_format, THEN iffD2] exI conjI) auto
  with run show ?thesis by (simp add: demo_ctx_def)
qed

definition demo_mint_body :: "json option" where
  "demo_mint_body = Some (JObj [(''walletId'', Some (JStr ''u10'')), (''amount'', Some (JStr ''5''))])"

theorem parsed_bodies_well_formed_witness:
  "z_parse (create_mint_schema demo_zod) demo_mint_body = Inr (''u10'', ''5'') \<and> (\<exists>n. mint_amount ''5'' = Inr n \<and> 0 < n)"
proof -
  have "amount_text ''5''" by (simp add: amount_text_def char_between_def)
  then have "z_parse (create_mint_schema demo_zod) demo_mint_body = Inr (''u10'', ''5'')"
    by (simp add: create_mint_schema_def uuid_schema_def amount_schema_def demo_mint_body_def demo_zod_def parse_simps)
  with parsed_bodies_well_formed [of demo_zod demo_mint_body "''u10''" "''5''"] show ?thesis by blast
qed

theorem missing_role_refused_witness:
  "\<exists>e. protected_handler demo_app (demo_request Post_wallets) (demo_ctx ''a'' APPROVER) Post_wallets demo_start = (Inl e, demo_start)"
proof -
  have "ac_type (rc_actor (demo_ctx ''a'' APPROVER)) = USER"
    "\<forall>r \<in> set (route_roles Post_wallets). \<not> has_role (rc_actor (demo_ctx ''a'' APPROVER)) r" "route_roles Post_wallets \<noteq> []"
    by (simp_all add: demo_ctx_def has_role_def)
  from missing_role_refused [OF this, of demo_app "demo_request Post_wallets" demo_start] show ?thesis by blast
qed

lemma demo_minted_others: "sys_others (snd demo_minted) = (\<lambda>_ d. d)"
  unfolding demo_minted_run by simp

theorem signed_bytes_never_shown_witness:
  "fst (handle_request demo_app (demo_request (Get_operation ''u17'')) ((snd demo_minted)\<lparr>sys_db := hide_signed (sys_db (snd demo_minted))\<rparr>)) =
   fst (handle_request demo_app (demo_request (Get_operation ''u17'')) (snd demo_minted))"
  by (rule signed_bytes_never_shown [where i = "''u17''"]) (simp_all add: demo_request_def demo_minted_others)

text \<open>A request without a token.\<close>

definition demo_stranger :: http_request where
  "demo_stranger = (demo_request Post_assets)\<lparr>hq_headers := [(''x-request-id'', ''q'')]\<rparr>"

theorem requests_are_answered_witness:
  "\<exists>response s' m. handle_request demo_app demo_stranger demo_start = (Inr response, s') \<and>
     (''x-request-id'', ''q'') \<in> set (hs_headers response) \<and> hs_status response = 401 \<and>
     hs_body response = error_json ''UNAUTHORIZED'' m None ''q'' ''q''"
proof -
  have ids: "request_ids demo_stranger demo_start = (Inr (''q'', ''q''), demo_start)"
    by (simp add: request_ids_def demo_stranger_def demo_request_def header_of_def io_run)
  have route: "\<not> public_route (hq_route demo_stranger)"
    by (simp add: demo_stranger_def demo_request_def)
  have bearer: "\<exists>e. parse_bearer (header_of demo_stranger ''authorization'') = Inl e"
    by (simp add: parse_bearer_def demo_stranger_def header_of_def)
  have refused: "\<exists>e s2. authenticate demo_app demo_stranger ctx demo_start = (Inl e, s2)" for ctx
    using bearer by (auto simp: authenticate_run)
  let ?ctx = "\<lparr>rc_actor = anonymous_actor, rc_correlation_id = ''q'', rc_request_id = ''q''\<rparr>"
  obtain e s2 where auth: "authenticate demo_app demo_stranger ?ctx demo_start = (Inl e, s2)" using refused by blast
  from requests_are_answered [of demo_app demo_stranger demo_start] show ?thesis
    by (auto simp: ids route auth Let_def)
qed

subsection \<open>The process\<close>

text \<open>The settings of a local setup; everything not given has its default.\<close>

definition demo_environment :: "(string \<times> string) list" where
  "demo_environment = [(''NODE_ENV'', ''test''), (''DATABASE_URL'', ''postgres://db''), (''REDIS_URL'', ''redis://q''),
     (''EVM_RPC_URL'', ''http://anvil''), (''EVM_CHAIN_ID'', ''31337''), (''JWT_SECRET'', ''0123456789abcdef''),
     (''LOCAL_SIGNER_PRIVATE_KEY'', ''0x'' @ replicate 64 (CHR ''1'')),
     (''LOCAL_SIGNER_ADDRESS'', ''0x'' @ replicate 40 (CHR ''a''))]"

lemma demo_keys: "is_hex c \<Longrightarrow> hex_text n (CHR ''0'' # CHR ''x'' # replicate n c)"
  by (simp add: hex_text_def list_all_iff)

lemma demo_hex: "is_hex (CHR ''1'')" "is_hex (CHR ''a'')"
  by (simp_all add: is_hex_def is_digit_def char_between_def)

lemma demo_chain_id: "js_bigint ''31337'' = Some 31337"
  by (simp add: js_bigint_def trim_def js_white_def read_digits1_def digit_of_def Let_def)

lemma demo_settings:
  "\<exists>c. load_config demo_zod demo_environment = Inr c \<and> EVM_CHAIN_ID c = 31337 \<and> TESTNET_RPC_URL c = None"
  by (simp add: load_config_def env_schema_def z_object_def env_worker_def env_chain_def env_process_def z_and_def z_key_def
      z_default_def z_enum_def z_optional_def z_string_def z_coerce_int_def z_number_of_def z_range_def z_check_def any_text_def
      url_schema_def at_least_def hex_address_def hex_private_key_def demo_environment_def demo_zod_def demo_keys demo_hex
      demo_chain_id app_config.make_def)

definition demo_adapters :: "demo_world adapters" where
  "demo_adapters = \<lparr>ad_gateway = demo_gateway, ad_signer = demo_signer, ad_compliance = demo_provider,
     ad_queue = \<lparr>qu_add = (\<lambda>_ _ _ w. (Inr (), w))\<rparr>, ad_codec = demo_codec, ad_sha = demo_sha, ad_zod = demo_zod,
     ad_of_iso = (\<lambda>_. 0), ad_jwt = demo_jwt, ad_select_1 = (\<lambda>w. (Inr (), w)), ad_redis_ping = (\<lambda>w. (Inr (), w)),
     ad_metrics_content_type = ''text/plain'', ad_render_metrics = (\<lambda>w. (Inr [], w))\<rparr>"

lemma demo_process:
  "\<exists>c (ct :: demo_world container). load_config demo_zod demo_environment = Inr c \<and> create_container c demo_adapters = Inr ct \<and>
     EVM_CHAIN_ID c = 31337"
proof -
  from demo_settings obtain c where c: "load_config demo_zod demo_environment = Inr c" "EVM_CHAIN_ID c = 31337" "TESTNET_RPC_URL c = None" by blast
  then have "\<exists>ps. resolve_chain_profiles (chain_config_of c) = Inr ps"
    by (simp add: resolve_chain_profiles_def chain_config_of_def Let_def)
  with c show ?thesis by (auto simp: create_container_def Let_def)
qed

theorem container_wiring_witness:
  "\<exists>c (ct :: demo_world container). load_config demo_zod demo_environment = Inr c \<and> create_container c demo_adapters = Inr ct \<and>
     ce_chain_id (ee_chain (ct_executor ct)) = 31337 \<and> rv_executor (ct_recovery ct) = ct_executor ct \<and>
     po_finality_tag (ee_confirmation (ct_executor ct)) = Tag_latest"
proof -
  from demo_process obtain c and ct :: "demo_world container" where
    c: "load_config demo_zod demo_environment = Inr c" "create_container c demo_adapters = Inr ct" "EVM_CHAIN_ID c = 31337" by blast
  from container_wiring [OF c(1,2)] c show ?thesis by (auto simp: Let_def ANVIL_CHAIN_ID_def)
qed

text \<open>Settings with which the root builds the executor of the demo run.\<close>

lemma demo_root:
  "\<exists>c (ct :: demo_world container). create_container c demo_adapters = Inr ct \<and> ct_executor ct = demo_executor"
proof -
  from demo_settings obtain c where c: "load_config demo_zod demo_environment = Inr c" "EVM_CHAIN_ID c = 31337" "TESTNET_RPC_URL c = None"
    by blast
  let ?c = "c\<lparr>EVM_CONFIRMATIONS := 1, EVM_RECEIPT_TIMEOUT_MS := 50, TRANSACTION_STUCK_AFTER_MS := 1000,
    TRANSACTION_MAX_REPLACEMENTS := 3, TRANSACTION_FEE_BUMP_PERCENT := 12, SIGNER_REQUEST_TIMEOUT_MS := 1000,
    MINT_DEADLINE_SECONDS := 60\<rparr>"
  from c show ?thesis
    by (intro exI [of _ ?c])
      (auto simp: create_container_def Let_def resolve_chain_profiles_def chain_config_of_def chain_writer_of_def handlers_of_def
        confirmation_of_def replacement_policy_of_def chain_profile_from_def finality_tag_for_def ANVIL_CHAIN_ID_def
        demo_adapters_def demo_executor_def demo_chain_def demo_handlers_def demo_policy_def demo_replacement_def)
qed

text \<open>The process of the demo goes on after the mint was executed: the mint stays what it is, and what it rests on.\<close>

definition demo_day :: "activity list" where
  "demo_day = [Dispatch, Serve (demo_request Post_assets), Sweep, Work ''w'' \<lparr>jd_operation_id = ''u13'', jd_outbox_id = None,
     jd_correlation_id = ''c''\<rparr>, Sweep]"

theorem process_keeps_the_rules_witness:
  "\<exists>c (ct :: demo_world container). create_container c demo_adapters = Inr ct \<and>
     (let d = sys_db (run_process ct (ad_queue demo_adapters) demo_day (snd demo_minted)) in
      \<exists>r \<in> set (operations d). op_id r = ''u17'' \<and> op_state r = Op_SUCCEEDED \<and>
        count_list (history_of ''u17'' (operation_transitions d)) Op_SIGNED \<le> 1)"
proof -
  from demo_root obtain c and ct :: "demo_world container" where ct: "create_container c demo_adapters = Inr ct" "ct_executor ct = demo_executor" by blast
  have others: "\<And>n d. db_steps (ct_executor ct) d (sys_others (snd demo_minted) n d)"
    by (simp add: demo_minted_others db_steps_def)
  have start: "reachable (ct_executor ct) (sys_db (snd demo_minted))" by (simp add: ct(2) demo_reachable(8))
  have "(''u17'', MINT, Op_SUCCEEDED) \<in> set (map (\<lambda>r. (op_id r, op_type r, op_state r)) (operations (sys_db (snd demo_minted))))"
    unfolding demo_outcomes(2) by simp
  then obtain r where "r \<in> set (operations (sys_db (snd demo_minted)))" "op_id r = ''u17''" "op_state r = Op_SUCCEEDED" by auto
  moreover have "Op_SUCCEEDED \<in> set terminal_operation_states" by (simp add: terminal_operation_states_def)
  ultimately show ?thesis
    using process_keeps_the_rules [OF ct(1) others start, of "ad_queue demo_adapters" demo_day] ct(1)
    unfolding Let_def by fastforce
qed

end
