(* ===== verification/ChainFacts.thy ===== *)
theory ChainFacts
  imports Guarantees
begin

text \<open>
  What the chain path does to the attempts of an operation: a fee replacement is the same transaction at
  the same nonce with higher fees, and a reorganisation takes back what an inclusion recorded.
\<close>

subsection \<open>Replacing an attempt\<close>

lemma attempt_ids: "table_ok attempt_rules rows \<Longrightarrow> distinct (map ta_id rows)"
  using table_ok_unique_nth [of attempt_rules rows "''transaction_attempts_pkey''" "\<lambda>r r'. ta_id r = ta_id r'"]
  by (fastforce simp: attempt_rules_def distinct_conv_nth nat_neq_iff)

lemma attempt_rules_new:
  assumes "table_ok attempt_rules (rows @ [a])" "r \<in> set rows"
  shows "ta_id r \<noteq> ta_id a" "ta_status r \<noteq> At_REPLACED \<Longrightarrow> ta_status a \<noteq> At_REPLACED \<Longrightarrow> \<not> same_nonce_slot r a"
proof -
  from assms(2) obtain k where k: "k < length rows" "rows ! k = r" by (auto simp: in_set_conv_nth)
  note new = table_ok_unique_nth [OF assms(1), of _ _ k "length rows"]
  show "ta_id r \<noteq> ta_id a"
    using new [of "''transaction_attempts_pkey''" "\<lambda>r r'. ta_id r = ta_id r'"] k by (simp add: attempt_rules_def nth_append)
  show "\<not> same_nonce_slot r a" if "ta_status r \<noteq> At_REPLACED" "ta_status a \<noteq> At_REPLACED"
    using new [of "''transaction_attempts_live_nonce_key''"
        "\<lambda>r r'. ta_status r \<noteq> At_REPLACED \<and> ta_status r' \<noteq> At_REPLACED \<and> same_nonce_slot r r'"] k that
    by (simp add: attempt_rules_def nth_append)
qed

text \<open>What a replacement does to the row it replaces.\<close>

definition retired_by :: "string \<Rightarrow> pg_time \<Rightarrow> uuid \<Rightarrow> attempt_row \<Rightarrow> attempt_row" where
  "retired_by reason now i r = r\<lparr>ta_status := At_REPLACED, ta_replacement_reason := Some reason, ta_updated_at := now,
     ta_replaced_by_attempt_id := Some i\<rparr>"

definition replacement_row :: "(string \<Rightarrow> string) \<Rightarrow> attempt_row \<Rightarrow> replacement_input \<Rightarrow> insert_attempt_input" where
  "replacement_row sha previous input =
     \<lparr>ia_operation_id = rpi_operation_id input, ia_asset_id = rpi_asset_id input, ia_wallet_id = rpi_wallet_id input,
      ia_purpose = rpi_purpose input, ia_chain_id = rpi_chain_id input, ia_from_address = rpi_from_address input,
      ia_to_address = rpi_to_address input, ia_nonce = rpi_nonce input, ia_data = rpi_data input,
      ia_gas_limit = rpi_gas_limit input, ia_max_fee_per_gas = fe_max_fee_per_gas (rpi_fees input),
      ia_max_priority_fee_per_gas = fe_max_priority_fee_per_gas (rpi_fees input),
      ia_request_hash = request_hash sha (rpi_chain_id input) (rpi_from_address input) (rpi_to_address input)
        (rpi_nonce input) (rpi_data input) (rpi_gas_limit input) (rpi_fees input),
      ia_intent_fingerprint = rpi_intent_fingerprint input, ia_replaces_attempt_id = Some (ta_id previous),
      ia_replacement_reason = Some (rpi_reason input),
      ia_replacement_number = Some (ta_replacement_number previous + 1)\<rparr>"

lemma retire_and_link:
  assumes ids: "distinct (map ta_id rows)"
    and live: "q \<in> set rows" "ta_id q = i" "ta_status q \<noteq> At_REPLACED"
  shows "update_where (\<lambda>r. ta_id r = i) (\<lambda>r. r\<lparr>ta_replaced_by_attempt_id := Some j\<rparr>)
      (update_where (\<lambda>r. ta_id r = i \<and> ta_status r \<noteq> At_REPLACED)
        (\<lambda>r. r\<lparr>ta_status := At_REPLACED, ta_replacement_reason := Some reason, ta_updated_at := now\<rparr>) rows)
    = update_where (\<lambda>r. ta_id r = i) (retired_by reason now j) rows"
  unfolding update_where_def map_map
proof (rule map_cong [OF refl])
  fix r
  assume r: "r \<in> set rows"
  have "ta_id r = i \<Longrightarrow> r = q" using ids r live(1,2) by (auto simp: distinct_map inj_on_def)
  with live(3) show "((\<lambda>r. if ta_id r = i then r\<lparr>ta_replaced_by_attempt_id := Some j\<rparr> else r) \<circ>
      (\<lambda>r. if ta_id r = i \<and> ta_status r \<noteq> At_REPLACED
         then r\<lparr>ta_status := At_REPLACED, ta_replacement_reason := Some reason, ta_updated_at := now\<rparr> else r)) r =
      (if ta_id r = i then retired_by reason now j r else r)"
    by (cases "ta_id r = i") (simp_all add: retired_by_def comp_def)
qed

lemma replace_attempt_rows:
  assumes "replace_attempt_tx env previous input hooks d = Inr (inserted, d')" and "hk_on_prepared hooks = (\<lambda>_. tx_ret ())"
  shows "inserted = prepared_attempt (ta_id inserted) (db_now d) (replacement_row (ce_sha env) previous input)"
    and "transaction_attempts d' = update_where (\<lambda>r. ta_id r = ta_id previous)
      (retired_by (rpi_reason input) (pg_of_date (app_now d)) (ta_id inserted)) (transaction_attempts d) @ [inserted]"
    and "\<exists>r \<in> set (transaction_attempts d). ta_id r = ta_id previous \<and> ta_status r \<noteq> At_REPLACED"
    and "r \<in> set (transaction_attempts d') \<Longrightarrow> ta_status r \<noteq> At_REPLACED \<Longrightarrow> same_nonce_slot r inserted \<Longrightarrow> r = inserted"
proof -
  let ?rows = "transaction_attempts d"
  let ?retired = "update_where (\<lambda>r. ta_id r = ta_id previous \<and> ta_status r \<noteq> At_REPLACED)
    (\<lambda>r. r\<lparr>ta_status := At_REPLACED, ta_replacement_reason := Some (rpi_reason input),
       ta_updated_at := pg_of_date (app_now d)\<rparr>) ?rows"
  let ?link = "update_where (\<lambda>r. ta_id r = ta_id previous) (\<lambda>r. r\<lparr>ta_replaced_by_attempt_id := Some (ta_id inserted)\<rparr>)"
  from assms have row: "inserted = prepared_attempt (ta_id inserted) (db_now d) (replacement_row (ce_sha env) previous input)"
    and ok: "table_ok attempt_rules (?retired @ [inserted])"
    and rows: "transaction_attempts d' = ?link (?retired @ [inserted])"
    and live: "\<exists>r \<in> set ?rows. ta_id r = ta_id previous \<and> ta_status r \<noteq> At_REPLACED"
    by (auto simp: replace_attempt_tx_def retire_attempt_for_replacement_def update_attempts_def insert_prepared_attempt_def
        link_attempt_replacement_def tx_simps fresh_uuid_def attempt_table_def replacement_row_def prepared_attempt_def
        filter_empty_conv)
  show "inserted = prepared_attempt (ta_id inserted) (db_now d) (replacement_row (ce_sha env) previous input)" by (rule row)
  show "\<exists>r \<in> set (transaction_attempts d). ta_id r = ta_id previous \<and> ta_status r \<noteq> At_REPLACED" by (rule live)
  have retired_ids: "map ta_id ?retired = map ta_id ?rows" by (rule map_update_where) simp
  with attempt_ids [OF ok] have ids: "distinct (map ta_id ?rows)" by simp
  have other: "ta_id inserted \<noteq> ta_id previous"
  proof -
    from live have "ta_id previous \<in> set (map ta_id ?retired)" unfolding retired_ids by (metis image_eqI list.set_map)
    with attempt_ids [OF ok] show ?thesis by auto
  qed
  from live obtain q where q: "q \<in> set ?rows" "ta_id q = ta_id previous" "ta_status q \<noteq> At_REPLACED" by blast
  from rows other show after: "transaction_attempts d' = update_where (\<lambda>r. ta_id r = ta_id previous)
      (retired_by (rpi_reason input) (pg_of_date (app_now d)) (ta_id inserted)) (transaction_attempts d) @ [inserted]"
    using retire_and_link [OF ids q] by (simp add: update_where_def)
  show "r = inserted" if r: "r \<in> set (transaction_attempts d')" "ta_status r \<noteq> At_REPLACED" "same_nonce_slot r inserted"
  proof (rule ccontr)
    assume "r \<noteq> inserted"
    with r(1) after obtain r0 where "r0 \<in> set ?rows" "r = (if ta_id r0 = ta_id previous
        then retired_by (rpi_reason input) (pg_of_date (app_now d)) (ta_id inserted) r0 else r0)"
      by (auto simp: update_where_def)
    with r(2) have "r \<in> set ?retired" by (force simp: update_where_def retired_by_def split: if_splits)
    moreover have "ta_status inserted \<noteq> At_REPLACED" by (subst row) (simp add: prepared_attempt_def)
    ultimately show False using attempt_rules_new(2) [OF ok] r(2,3) by blast
  qed
qed

lemma replacement_is_live:
  assumes "replace_attempt_tx env previous input hooks d = Inr (inserted, d')" "hk_on_prepared hooks = (\<lambda>_. tx_ret ())"
  shows "find_live_attempt_at_nonce (rpi_chain_id input) (rpi_from_address input) (rpi_nonce input) d' = Some inserted"
proof -
  note rows = replace_attempt_rows [OF assms]
  let ?live = "\<lambda>r. ta_chain_id r = rpi_chain_id input \<and> ta_from_address r = to_lower (rpi_from_address input) \<and>
    ta_nonce r = rpi_nonce input \<and> ta_status r \<noteq> At_REPLACED"
  from rows(1) obtain i where "inserted = prepared_attempt i (db_now d) (replacement_row (ce_sha env) previous input)" by blast
  then have new: "?live inserted" by (simp add: prepared_attempt_def replacement_row_def)
  have only: "r = inserted" if "?live r" "r \<in> set (transaction_attempts d')" for r
    by (rule rows(4)) (use that new in \<open>simp_all add: same_nonce_slot_def\<close>)
  have "inserted \<in> set (transaction_attempts d')" by (simp add: rows(2))
  with new have "select_first ?live (transaction_attempts d') \<noteq> None" by (auto simp only: select_first_None)
  then obtain r where r: "select_first ?live (transaction_attempts d') = Some r" by blast
  from select_first_Some [OF r] have "r = inserted" by (intro only) simp_all
  with r show ?thesis by (simp add: find_live_attempt_at_nonce_def)
qed

text \<open>The transaction of an attempt with other fees, as the row of another attempt keeps it.\<close>

definition with_fees :: "attempt_row \<Rightarrow> fee_estimate \<Rightarrow> uuid \<Rightarrow> unsigned_request" where
  "with_fees a fees i = \<lparr>utr_attempt_id = i, utr_chain_id = ta_chain_id a, utr_from = to_lower (ta_from_address a),
     utr_to = map_option to_lower (ta_to_address a), utr_nonce = ta_nonce a, utr_value = 0,
     utr_data = to_lower (ta_data a), utr_gas_limit = ta_gas_limit a,
     utr_max_fee_per_gas = fe_max_fee_per_gas fees, utr_max_priority_fee_per_gas = fe_max_priority_fee_per_gas fees\<rparr>"

definition replacement_context :: "attempt_row \<Rightarrow> replacement_input \<Rightarrow> signing_context" where
  "replacement_context previous input = \<lparr>sc_purpose = ta_purpose previous, sc_operation_id = ta_operation_id previous,
     sc_asset_id = ta_asset_id previous, sc_correlation_id = rpi_correlation_id input, sc_evidence = rpi_evidence input\<rparr>"

text \<open>
  C10: a fee replacement is the same transaction with higher fees. Either it is refused with an error, no row
  is written and nobody outside is called; or there were replacements left and both fees rise, the attempt is
  retired and linked to a new row that is the only live one at its nonce, no other attempt changes, and what goes to
  the signer is the chain, sender, target, nonce, value, data and gas limit of the attempt it replaces.
\<close>

theorem fee_replacement_is_the_same_transaction:
  assumes "replace_fees env previous fees reason cid hooks s = (r, s')" "hk_on_prepared hooks = (\<lambda>_. tx_ret ())"
  shows "(\<exists>e. r = Inl e \<and> sys_world s' = sys_world s \<and> (s' = s \<or> sys_db s' = db_at_step s)) \<or>
    (\<exists>inserted d. ta_replacement_number previous < rp_max_replacements (ce_replacement env) \<and>
       ta_max_fee_per_gas previous < fe_max_fee_per_gas fees \<and>
       ta_max_priority_fee_per_gas previous < fe_max_priority_fee_per_gas fees \<and>
       transaction_attempts d = update_where (\<lambda>a. ta_id a = ta_id previous)
         (retired_by reason (pg_of_date (app_now (db_at_step s))) (ta_id inserted)) (transaction_attempts (db_at_step s)) @ [inserted] \<and>
       find_live_attempt_at_nonce (ta_chain_id previous) (ta_from_address previous) (ta_nonce previous) d = Some inserted \<and>
       ta_replaces_attempt_id inserted = Some (ta_id previous) \<and>
       ta_replacement_number inserted = Suc (ta_replacement_number previous) \<and>
       unsigned_request_from inserted = with_fees previous fees (ta_id inserted) \<and>
       (r, s') = submit_to_signer env inserted (with_fees previous fees (ta_id inserted))
         (replacement_context previous (fee_replacement_input (ce_sha env) previous fees reason cid)) (ta_operation_id previous) hooks
         (s\<lparr>sys_db := d, sys_step := Suc (sys_step s)\<rparr>))"
proof (cases "ta_replacement_number previous \<ge> rp_max_replacements (ce_replacement env) \<or>
    fe_max_fee_per_gas fees \<le> ta_max_fee_per_gas previous \<or> fe_max_priority_fee_per_gas fees \<le> ta_max_priority_fee_per_gas previous \<or>
    (\<exists>e. assert_fee_only_replacement (ce_sha env) previous (replacement_candidate previous) = Inl e)")
  case True
  then have "\<exists>e. r = Inl e \<and> s' = s"
    using assms(1) by (auto simp: replace_fees_def io_run split: sum.splits if_splits)
  then show ?thesis by blast
next
  case False
  let ?input = "fee_replacement_input (ce_sha env) previous fees reason cid"
  from False assms(1) have run: "sign_replacement env previous ?input hooks s = (r, s')"
    by (auto simp: replace_fees_def io_run split: sum.splits)
  show ?thesis
  proof (cases "replace_attempt_tx env previous ?input hooks (db_at_step s)")
    case (Inl e)
    with run show ?thesis by (auto simp: sign_replacement_def io_run run_tx_def)
  next
    case (Inr v)
    then obtain inserted d where v: "replace_attempt_tx env previous ?input hooks (db_at_step s) = Inr (inserted, d)"
      by (cases v) auto
    note rows = replace_attempt_rows [OF v assms(2)]
    from rows(1) obtain i where row: "inserted = prepared_attempt i (db_now (db_at_step s)) (replacement_row (ce_sha env) previous ?input)"
      by blast
    have fields: "ta_replaces_attempt_id inserted = Some (ta_id previous)"
      "ta_replacement_number inserted = Suc (ta_replacement_number previous)"
      "unsigned_request_from inserted = with_fees previous fees (ta_id inserted)"
      by (simp_all add: row prepared_attempt_def replacement_row_def fee_replacement_input_def
          unsigned_request_from_def with_fees_def)
    from run v have "(r, s') = submit_to_signer env inserted (unsigned_request_from inserted)
        (replacement_context previous ?input) (ta_operation_id previous) hooks (s\<lparr>sys_db := d, sys_step := Suc (sys_step s)\<rparr>)"
      by (simp add: sign_replacement_def io_run run_tx_def fee_replacement_input_def replacement_context_def)
    with False fields rows(2) replacement_is_live [OF v assms(2)] show ?thesis
      by (auto simp: fee_replacement_input_def)
  qed
qed

subsection \<open>A reorganisation\<close>

text \<open>A transition of a row and the transition back leave the row as it was, but for its time.\<close>

lemma apply_transition_back:
  "apply_transition s1 t2 no_patch (apply_transition s2 t1 no_patch r) = apply_transition s1 t2 no_patch r"
  by (simp add: apply_transition_def no_patch_def patched_def)

lemma transition_back:
  assumes "table_ok operation_rules rows" "r \<in> set rows" "op_id r = i" "op_state r = s1" "s1 \<noteq> s2"
  shows "update_where (\<lambda>r. op_id r = i \<and> op_state r = s2) (apply_transition s1 t2 no_patch)
      (update_where (\<lambda>r. op_id r = i \<and> op_state r = s1) (apply_transition s2 t1 no_patch) rows)
    = update_where (\<lambda>r. op_id r = i) (apply_transition s1 t2 no_patch) rows"
  unfolding update_where_def map_map
proof (rule map_cong [OF refl])
  fix q
  assume q: "q \<in> set rows"
  have "op_state q = s1" if "op_id q = i"
    using operation_rules_ids [OF assms(1) q assms(2)] that assms(3,4) by simp
  with assms(5) show "((\<lambda>r. if op_id r = i \<and> op_state r = s2 then apply_transition s1 t2 no_patch r else r) \<circ>
      (\<lambda>r. if op_id r = i \<and> op_state r = s1 then apply_transition s2 t1 no_patch r else r)) q =
      (if op_id q = i then apply_transition s1 t2 no_patch q else q)"
    by (simp add: comp_def apply_transition_back)
qed

text \<open>The receipt's columns of an attempt that is included nowhere.\<close>

definition not_included :: "attempt_row \<Rightarrow> bool" where
  "not_included a \<longleftrightarrow> ta_status a = At_SUBMITTED \<and> ta_block_number a = None \<and> ta_block_hash a = None \<and>
     ta_gas_used a = None \<and> ta_receipt_status a = None"

definition reorged :: "receipt_view \<Rightarrow> pg_time \<Rightarrow> attempt_row \<Rightarrow> attempt_row" where
  "reorged receipt now a = a\<lparr>ta_contract_address := map_option to_lower (rv_contract_address receipt), ta_updated_at := now\<rparr>"

lemma include_and_clear:
  assumes "not_included a"
  shows "a\<lparr>ta_status := st, ta_block_number := Some n, ta_block_hash := Some h, ta_gas_used := Some g,
      ta_receipt_status := Some rs, ta_contract_address := ca, ta_updated_at := t1\<rparr>
      \<lparr>ta_status := At_SUBMITTED, ta_block_number := None, ta_block_hash := None, ta_gas_used := None,
        ta_receipt_status := None, ta_updated_at := t2\<rparr> = a\<lparr>ta_contract_address := ca, ta_updated_at := t2\<rparr>"
  using assms by (cases a) (simp add: not_included_def)

definition included_row :: "receipt_view \<Rightarrow> pg_time \<Rightarrow> attempt_row \<Rightarrow> attempt_row" where
  "included_row receipt now a = a\<lparr>ta_status := (if rv_status receipt = Rc_success then At_INCLUDED else At_REVERTED),
     ta_block_number := Some (rv_block_number receipt), ta_block_hash := Some (to_lower (rv_block_hash receipt)),
     ta_gas_used := Some (rv_gas_used receipt), ta_receipt_status := Some (if rv_status receipt = Rc_success then 1 else 0),
     ta_contract_address := map_option to_lower (rv_contract_address receipt), ta_updated_at := now\<rparr>"

definition cleared_row :: "pg_time \<Rightarrow> attempt_row \<Rightarrow> attempt_row" where
  "cleared_row now a = a\<lparr>ta_status := At_SUBMITTED, ta_block_number := None, ta_block_hash := None, ta_gas_used := None,
     ta_receipt_status := None, ta_updated_at := now\<rparr>"

lemma cleared_included: "not_included a \<Longrightarrow> cleared_row t2 (included_row receipt t1 a) = reorged receipt t2 a"
  unfolding included_row_def cleared_row_def reorged_def by (rule include_and_clear)

lemma record_inclusion_rows:
  assumes "record_inclusion_tx i a_id receipt d = Inr ((), d')" "find_operation_by_id i d = Some operation"
    "op_state operation = Op_SUBMITTED"
  shows "operations d' = update_where (\<lambda>r. op_id r = i \<and> op_state r = Op_SUBMITTED)
      (apply_transition Op_INCLUDED (pg_of_date (app_now d)) no_patch) (operations d)"
    and "history_of i (operation_transitions d') = history_of i (operation_transitions d) @ [Op_INCLUDED]"
    and "transaction_attempts d' = update_where (\<lambda>a. ta_id a = a_id \<and> ta_status a \<notin> {At_CONFIRMED, At_REVERTED})
      (included_row receipt (pg_of_date (app_now d))) (transaction_attempts d)"
  using assms find_operation_by_id_Some [OF assms(2)]
  by (auto simp: record_inclusion_tx_def tx_simps lock_operation_def transition_operation_Inr record_receipt_def
      update_attempts_def attempt_table_def receipt_input_of_def included_row_def [abs_def] history_of_append)

lemma reorg_rows:
  assumes "reorg_tx chain i a_id receipt d = Inr ((), d')" "find_operation_by_id i d = Some operation"
    "op_state operation = Op_INCLUDED"
  shows "operations d' = update_where (\<lambda>r. op_id r = i \<and> op_state r = Op_INCLUDED)
      (apply_transition Op_SUBMITTED (pg_of_date (app_now d)) no_patch) (operations d)"
    and "history_of i (operation_transitions d') = history_of i (operation_transitions d) @ [Op_SUBMITTED]"
    and "transaction_attempts d' = update_where (\<lambda>a. ta_id a = a_id) (cleared_row (pg_of_date (app_now d))) (transaction_attempts d)"
    and "ob \<in> set (chain_observations d') \<Longrightarrow> co_transaction_attempt_id ob = Some a_id \<Longrightarrow> \<not> co_canonical ob"
  using assms find_operation_by_id_Some [OF assms(2)]
  by (auto simp: reorg_tx_def tx_simps lock_operation_def transition_operation_Inr invalidate_attempt_observations_def
      clear_attempt_inclusion_def update_attempts_def attempt_table_def cleared_row_def [abs_def] history_of_append
      record_observation_def observation_of_def reorg_observation_def observation_table_def
      record_audit_event_def audit_table_def fresh_uuid_def set_update_where split: if_splits)

text \<open>
  C12: a reorganisation takes back what an inclusion recorded. When the receipt of a submitted attempt is
  recorded and its block then leaves the canonical chain, the operation is SUBMITTED again, its timeline shows the
  inclusion and the way back, and every attempt is as it was before, signed bytes, hash, nonce and fees included,
  but for the time of its update and the contract address of the receipt; no observation about the attempt counts as
  canonical any more.
\<close>

theorem reorg_undoes_inclusion:
  assumes "record_inclusion_tx i a_id receipt d = Inr ((), d1)"
    and "reorg_tx chain i a_id receipt (d1\<lparr>db_now := t, app_now := t'\<rparr>) = Inr ((), d2)"
    and "table_ok operation_rules (operations d)" "find_operation_by_id i d = Some operation" "op_state operation = Op_SUBMITTED"
    and "\<And>a. a \<in> set (transaction_attempts d) \<Longrightarrow> ta_id a = a_id \<Longrightarrow> not_included a"
  shows "operations d2 = update_where (\<lambda>r. op_id r = i) (apply_transition Op_SUBMITTED (pg_of_date t') no_patch) (operations d) \<and>
    history_of i (operation_transitions d2) = history_of i (operation_transitions d) @ [Op_INCLUDED, Op_SUBMITTED] \<and>
    transaction_attempts d2 = update_where (\<lambda>a. ta_id a = a_id) (reorged receipt (pg_of_date t')) (transaction_attempts d) \<and>
    (\<forall>ob \<in> set (chain_observations d2). co_transaction_attempt_id ob = Some a_id \<longrightarrow> \<not> co_canonical ob)"
proof -
  let ?d = "d1\<lparr>db_now := t, app_now := t'\<rparr>" and ?included = "apply_transition Op_INCLUDED (pg_of_date (app_now d)) no_patch"
  note found = find_operation_by_id_Some [OF assms(4)]
  note inc = record_inclusion_rows [OF assms(1,4,5)]
  have "find_operation_by_id i ?d = Some (?included operation)"
    using assms(4,5) found
    by (simp add: find_operation_by_id_def inc(1) select_first_update_where)
  note reverse = reorg_rows [OF assms(2) this apply_transition_simps(2)]
  have "transaction_attempts ?d = update_where (\<lambda>a. ta_id a = a_id \<and> ta_status a \<notin> {At_CONFIRMED, At_REVERTED})
      (included_row receipt (pg_of_date (app_now d))) (transaction_attempts d)" by (simp add: inc(3))
  note before = this
  have "transaction_attempts d2 = update_where (\<lambda>a. ta_id a = a_id) (reorged receipt (pg_of_date t')) (transaction_attempts d)"
    unfolding reverse(3) before
    unfolding update_where_def map_map
  proof (rule map_cong [OF refl])
    fix a
    assume "a \<in> set (transaction_attempts d)"
    then have a: "ta_id a = a_id \<Longrightarrow> not_included a" by (rule assms(6))
    show "((\<lambda>r. if ta_id r = a_id then cleared_row (pg_of_date (app_now ?d)) r else r) \<circ>
        (\<lambda>r. if ta_id r = a_id \<and> ta_status r \<notin> {At_CONFIRMED, At_REVERTED}
           then included_row receipt (pg_of_date (app_now d)) r else r)) a =
        (if ta_id a = a_id then reorged receipt (pg_of_date t') a else a)"
    proof (cases "ta_id a = a_id")
      case True
      from a [OF this] have "ta_status a \<notin> {At_CONFIRMED, At_REVERTED}" by (simp add: not_included_def)
      with True cleared_included [OF a [OF True]] show ?thesis by (simp add: included_row_def)
    qed simp
  qed
  with inc reverse transition_back [OF assms(3) found [THEN conjunct1] found [THEN conjunct2] assms(5), of Op_INCLUDED] show ?thesis
    by simp
qed

end
