(* ===== verification/ComplianceFacts.thy ===== *)
theory ComplianceFacts
  imports ComplianceService
begin

text \<open>
  What a revocation does to the approvals of a wallet: it ends those of its own scope and queues the
  on-chain write; an approval of the whole wallet survives the revocation for one asset and still
  covers that asset.
\<close>

text \<open>Statements that touch neither the decisions nor the clock of the database.\<close>

definition same_decisions :: "compliance_row list \<Rightarrow> pg_time \<Rightarrow> db \<Rightarrow> bool" where
  "same_decisions rows now d \<longleftrightarrow> compliance_decisions d = rows \<and> db_now d = now"

lemma same_decisions_frames:
  "same_decisions rows now d \<Longrightarrow> same_decisions rows now (t_put operation_table rs1 d)"
  "same_decisions rows now d \<Longrightarrow> same_decisions rows now (t_put transition_log_table rs2 d)"
  "same_decisions rows now d \<Longrightarrow> same_decisions rows now (t_put outbox_table rs3 d)"
  "same_decisions rows now d \<Longrightarrow> same_decisions rows now (t_put audit_table rs4 d)"
  by (simp_all add: same_decisions_def table_defs)

lemmas same_decisions_writes =
  operation_t.preserves_frame [where P = "same_decisions rows now" for rows now, OF same_decisions_frames(1)]
  transition_log_t.preserves_frame [where P = "same_decisions rows now" for rows now, OF same_decisions_frames(2)]
  outbox_t.preserves_frame [where P = "same_decisions rows now" for rows now, OF same_decisions_frames(3)]
  audit_t.preserves_frame [where P = "same_decisions rows now" for rows now, OF same_decisions_frames(4)]

lemma same_decisions_uuid: "preserves (same_decisions rows now) fresh_uuid"
  by (auto simp: preserves_def fresh_uuid_def same_decisions_def)

lemmas same_decisions_intros = preserves_intros same_decisions_writes same_decisions_uuid

lemma same_decisions_sync: "preserves (same_decisions rows now) (sync_when_asset sha asset wallet decision u c)"
  unfolding sync_when_asset_def enqueue_eligibility_sync_def clear_live_eligibility_sync_def lock_operation_def
    transition_operation_def record_operation_transition_def insert_administrative_operation_def insert_operation_def
    enqueue_outbox_def
  by (intro same_decisions_intros)

lemma same_decisions_audit: "preserves (same_decisions rows now) (record_audit_event event)"
  unfolding record_audit_event_def by (intro same_decisions_intros)

text \<open>The operation that carries a decision to the chain.\<close>

lemma sync_operation:
  assumes "sync_when_asset sha (Some asset) wallet decision u c d = Inr (operation, d')"
  shows "\<exists>row. operation = Some row \<and> row \<in> set (operations d') \<and> op_type row = SYNC_ELIGIBILITY \<and> op_state row = Op_READY \<and>
    op_asset_id row = as_id asset \<and> op_wallet_id row = Some (wa_id wallet) \<and> op_compliance_decision_id row = Some (cd_id decision)"
  using assms
  by (auto simp: sync_when_asset_def enqueue_eligibility_sync_def insert_administrative_operation_def insert_operation_def
      operation_with_defaults_def enqueue_outbox_def tx_simps record_operation_transition_Inr operation_table_def
      outbox_table_def fresh_uuid_def)

lemma audit_keeps_operations: "record_audit_event event d = Inr (u, d') \<Longrightarrow> operations d' = operations d"
  by (auto simp: record_audit_event_def tx_simps fresh_uuid_def audit_table_def)

text \<open>The approvals of a wallet that are in force, whatever they are for.\<close>

definition approvals_in_force :: "uuid \<Rightarrow> db \<Rightarrow> compliance_row list" where
  "approvals_in_force wallet_id d =
     filter (\<lambda>r. cd_wallet_id r = wallet_id \<and> approval_in_force (db_now d) r) (compliance_decisions d)"

lemma find_active_approval_in_force:
  "find_active_approval w a d \<noteq> None \<longleftrightarrow>
     (\<exists>r \<in> set (approvals_in_force w d). cd_asset_id r = None \<or> (a \<noteq> None \<and> cd_asset_id r = a))"
  by (auto simp: find_active_approval_def approvals_in_force_def filter_empty_conv)

lemma audit_same_decisions: "record_audit_event event d = Inr (u, d') \<Longrightarrow> compliance_decisions d' = compliance_decisions d \<and> db_now d' = db_now d"
  using preservesD [OF same_decisions_audit, of event d u d' "compliance_decisions d" "db_now d"] by (simp add: same_decisions_def)

lemma sync_same_decisions:
  "sync_when_asset sha asset wallet decision u c d = Inr (operation, d') \<Longrightarrow>
   compliance_decisions d' = compliance_decisions d \<and> db_now d' = db_now d"
  using preservesD [OF same_decisions_sync, of sha asset wallet decision u c d operation d' "compliance_decisions d" "db_now d"]
  by (simp add: same_decisions_def)

text \<open>The first two statements of a revocation: the approvals of the scope end and the revocation is recorded.\<close>

lemma supersede_in_force:
  assumes "supersede_active_decisions w a d = Inr (u, d')"
  shows "approvals_in_force w d' = filter (\<lambda>r. cd_asset_id r \<noteq> a) (approvals_in_force w d)" "db_now d' = db_now d"
proof -
  from assms have d': "compliance_decisions d' = update_where (\<lambda>r. cd_wallet_id r = w \<and> cd_asset_id r = a \<and>
      cd_status r = Cd_APPROVED \<and> cd_superseded_at r = None) (\<lambda>r. r\<lparr>cd_superseded_at := Some (db_now d)\<rparr>) (compliance_decisions d)"
    and now: "db_now d' = db_now d"
    by (auto simp: supersede_active_decisions_def tx_simps compliance_table_def)
  show "db_now d' = db_now d" by (rule now)
  have "filter (\<lambda>r. cd_wallet_id r = w \<and> approval_in_force n r) (update_where (\<lambda>r. cd_wallet_id r = w \<and> cd_asset_id r = a \<and>
      cd_status r = Cd_APPROVED \<and> cd_superseded_at r = None) (\<lambda>r. r\<lparr>cd_superseded_at := Some m\<rparr>) rows) =
    filter (\<lambda>r. cd_asset_id r \<noteq> a) (filter (\<lambda>r. cd_wallet_id r = w \<and> approval_in_force n r) rows)" for n m rows
    by (induction rows) (auto simp: update_where_def approval_in_force_def)
  then show "approvals_in_force w d' = filter (\<lambda>r. cd_asset_id r \<noteq> a) (approvals_in_force w d)"
    by (simp add: approvals_in_force_def d' now)
qed

lemma insert_revocation_in_force:
  assumes "insert_revocation name ctx input wallet live d = Inr (row, d')"
  shows "approvals_in_force w d' = approvals_in_force w d" "row \<in> set (compliance_decisions d')"
    "cd_status row = Cd_REVOKED" "cd_wallet_id row = wa_id wallet" "cd_asset_id row = rvi_asset_id input"
  using assms
  by (auto simp: insert_revocation_def insert_compliance_decision_def tx_simps fresh_uuid_def compliance_table_def
      approvals_in_force_def approval_in_force_def)

lemma find_latest_revocation_Some:
  "find_latest_revocation w a d = Some r \<Longrightarrow> r \<in> set (compliance_decisions d) \<and> cd_status r = Cd_REVOKED"
  by (auto simp: find_latest_revocation_def dest!: select_latest_Some)

text \<open>A revocation repeats an old answer or goes through all its statements.\<close>

lemma revoke_decision_cases:
  assumes "revoke_decision_tx sha name ctx input wallet asset d = Inr ((revocation, operation), d')"
  obtains (repeated) "find_active_approval (wa_id wallet) (rvi_asset_id input) d = None"
      "find_latest_revocation (wa_id wallet) (rvi_asset_id input) d = Some revocation" "d' = d"
  | (revoked) d1 d2 d3 u op event v where
      "tx_when (find_active_approval (wa_id wallet) (rvi_asset_id input) d \<noteq> None)
         (supersede_active_decisions (wa_id wallet) (rvi_asset_id input)) d = Inr (u, d1)"
      "insert_revocation name ctx input wallet (find_active_approval (wa_id wallet) (rvi_asset_id input) d) d1 = Inr (revocation, d2)"
      "sync_when_asset sha asset wallet revocation (ac_id (rc_actor ctx)) (rc_correlation_id ctx) d2 = Inr (op, d3)"
      "record_audit_event event d3 = Inr (v, d')" "operation = map_option op_id op"
  using assms
  by (cases "find_active_approval (wa_id wallet) (rvi_asset_id input) d";
      cases "find_latest_revocation (wa_id wallet) (rvi_asset_id input) d")
    (auto simp: revoke_decision_tx_def tx_bind_Inr tx_then_Inr tx_read_Inr tx_ret_Inr)

lemma none_in_force:
  assumes "find_active_approval w a d = None"
  shows "filter (\<lambda>r. cd_asset_id r \<noteq> a) (approvals_in_force w d) = approvals_in_force w d"
  using assms find_active_approval_in_force [of w a d] by (cases a) (auto simp: filter_id_conv)

lemma revoke_in_force:
  assumes "revoke_decision_tx sha name ctx input wallet asset d = Inr ((revocation, operation), d')"
  shows "approvals_in_force (wa_id wallet) d' = filter (\<lambda>r. cd_asset_id r \<noteq> rvi_asset_id input) (approvals_in_force (wa_id wallet) d)"
  using assms
proof (cases rule: revoke_decision_cases)
  case repeated
  then show ?thesis by (simp add: none_in_force)
next
  case (revoked d1 d2 d3 u op event v)
  from revoked(1) have "approvals_in_force (wa_id wallet) d1 = filter (\<lambda>r. cd_asset_id r \<noteq> rvi_asset_id input) (approvals_in_force (wa_id wallet) d)"
    by (auto simp: tx_when_Inr supersede_in_force none_in_force split: if_splits)
  with insert_revocation_in_force(1) [OF revoked(2)] sync_same_decisions [OF revoked(3)] audit_same_decisions [OF revoked(4)]
  show ?thesis by (simp add: approvals_in_force_def)
qed

lemma revoke_recorded:
  assumes "revoke_decision_tx sha name ctx input wallet asset d = Inr ((revocation, operation), d')"
  shows "revocation \<in> set (compliance_decisions d') \<and> cd_status revocation = Cd_REVOKED"
  using assms
proof (cases rule: revoke_decision_cases)
  case repeated
  then show ?thesis by (simp add: find_latest_revocation_Some)
next
  case (revoked d1 d2 d3 u op event v)
  with insert_revocation_in_force(2,3) [OF revoked(2)] sync_same_decisions [OF revoked(3)] audit_same_decisions [OF revoked(4)]
  show ?thesis by simp
qed

lemma revoke_queued:
  assumes "revoke_decision_tx sha name ctx input wallet (Some asset) d = Inr ((revocation, operation), d')"
    and "find_active_approval (wa_id wallet) (rvi_asset_id input) d \<noteq> None \<or>
      find_latest_revocation (wa_id wallet) (rvi_asset_id input) d = None"
  shows "\<exists>row \<in> set (operations d'). operation = Some (op_id row) \<and> op_type row = SYNC_ELIGIBILITY \<and> op_state row = Op_READY \<and>
    op_asset_id row = as_id asset \<and> op_wallet_id row = Some (wa_id wallet) \<and> op_compliance_decision_id row = Some (cd_id revocation)"
  using assms(1)
proof (cases rule: revoke_decision_cases)
  case repeated
  with assms(2) show ?thesis by simp
next
  case (revoked d1 d2 d3 u op event v)
  with sync_operation [OF revoked(3)] audit_keeps_operations [OF revoked(4)] show ?thesis by auto
qed

lemma revoke_wide:
  assumes "revoke_decision_tx sha name ctx input wallet None d = Inr ((revocation, operation), d')"
  shows "operation = None \<and> operations d' = operations d"
proof (cases "find_active_approval (wa_id wallet) (rvi_asset_id input) d = None \<and>
    find_latest_revocation (wa_id wallet) (rvi_asset_id input) d \<noteq> None")
  case True
  with assms show ?thesis by (auto simp: revoke_decision_tx_def tx_bind_Inr tx_read_Inr tx_ret_Inr)
next
  case False
  from assms show ?thesis
  proof (cases rule: revoke_decision_cases)
    case repeated
    with False show ?thesis by simp
  next
    case (revoked d1 d2 d3 u op event v)
    from revoked(1) have "operations d1 = operations d"
      by (auto simp: supersede_active_decisions_def tx_simps compliance_table_def split: if_splits)
    moreover from revoked(2) have "operations d2 = operations d1"
      by (auto simp: insert_revocation_def insert_compliance_decision_def tx_simps fresh_uuid_def compliance_table_def)
    moreover from revoked(3) have "op = None" "d3 = d2" by (auto simp: sync_when_asset_def tx_simps)
    ultimately show ?thesis using revoked(5) audit_keeps_operations [OF revoked(4)] by simp
  qed
qed

lemma revoke_repeated:
  assumes "revoke_decision_tx sha name ctx input wallet asset d = Inr ((revocation, operation), d')"
    and "find_active_approval (wa_id wallet) (rvi_asset_id input) d = None"
    and "find_latest_revocation (wa_id wallet) (rvi_asset_id input) d \<noteq> None"
  shows "d' = d"
  using assms by (auto simp: revoke_decision_tx_def tx_bind_Inr tx_read_Inr tx_ret_Inr)

text \<open>
  C11: a revocation ends the approvals of its scope and no others. When a revocation commits, the approvals of
  the wallet in force are those that were in force before and are not for the revoked scope; so the wallet is
  still covered for the revoked scope exactly when that scope is one asset and an approval of the whole wallet was in
  force. The revocation is recorded. If it names a deployed asset and is not the repetition of an earlier one, it
  leaves a READY operation that is to close the eligibility window of the wallet on that asset's contract, bound to
  this revocation; the window itself closes only when that operation is executed. A revocation of the whole
  wallet leaves no operation, whatever windows are open. A repetition changes nothing.
\<close>

theorem revocation_ends_its_scope:
  assumes "revoke_decision_tx sha name ctx input wallet asset d = Inr ((revocation, operation), d')"
  shows "approvals_in_force (wa_id wallet) d' = filter (\<lambda>r. cd_asset_id r \<noteq> rvi_asset_id input) (approvals_in_force (wa_id wallet) d) \<and>
    revocation \<in> set (compliance_decisions d') \<and> cd_status revocation = Cd_REVOKED \<and>
    (case asset of
       Some a \<Rightarrow> find_active_approval (wa_id wallet) (rvi_asset_id input) d \<noteq> None \<or>
           find_latest_revocation (wa_id wallet) (rvi_asset_id input) d = None \<longrightarrow>
         (\<exists>row \<in> set (operations d'). operation = Some (op_id row) \<and> op_type row = SYNC_ELIGIBILITY \<and> op_state row = Op_READY \<and>
           op_asset_id row = as_id a \<and> op_wallet_id row = Some (wa_id wallet) \<and> op_compliance_decision_id row = Some (cd_id revocation))
     | None \<Rightarrow> operation = None \<and> operations d' = operations d) \<and>
    (find_active_approval (wa_id wallet) (rvi_asset_id input) d = None \<and>
       find_latest_revocation (wa_id wallet) (rvi_asset_id input) d \<noteq> None \<longrightarrow> d' = d) \<and>
    (find_active_approval (wa_id wallet) (rvi_asset_id input) d' \<noteq> None \<longleftrightarrow>
      rvi_asset_id input \<noteq> None \<and> find_active_approval (wa_id wallet) None d \<noteq> None)"
proof (intro conjI)
  show "find_active_approval (wa_id wallet) (rvi_asset_id input) d' \<noteq> None \<longleftrightarrow>
      rvi_asset_id input \<noteq> None \<and> find_active_approval (wa_id wallet) None d \<noteq> None"
    unfolding find_active_approval_in_force revoke_in_force [OF assms] by (cases "rvi_asset_id input") auto
  show "case asset of
       Some a \<Rightarrow> find_active_approval (wa_id wallet) (rvi_asset_id input) d \<noteq> None \<or>
           find_latest_revocation (wa_id wallet) (rvi_asset_id input) d = None \<longrightarrow>
         (\<exists>row \<in> set (operations d'). operation = Some (op_id row) \<and> op_type row = SYNC_ELIGIBILITY \<and> op_state row = Op_READY \<and>
           op_asset_id row = as_id a \<and> op_wallet_id row = Some (wa_id wallet) \<and> op_compliance_decision_id row = Some (cd_id revocation))
     | None \<Rightarrow> operation = None \<and> operations d' = operations d"
  proof (cases asset)
    case None
    with revoke_wide assms show ?thesis by simp
  next
    case (Some a)
    with revoke_queued assms show ?thesis by simp
  qed
qed (use revoke_in_force [OF assms] revoke_recorded [OF assms] revoke_repeated [OF assms] in auto)

end
