(* ===== verification/Lifecycle.thy ===== *)
theory Lifecycle
  imports Container
begin

text \<open>
  The life of a worker process: the polling loop of \<open>modules/outbox/outbox-dispatcher.ts\<close> and the
  start and shutdown of \<open>worker/runtime.ts\<close> and \<open>worker/main.ts\<close>. JavaScript runs one turn at a time,
  so an event below is what happens between two awaits; timers that the runtime still has to fire, dispatch
  cycles that wait for the database or the queue, and calls of \<open>stop\<close> that wait are part of the state. What
  a cycle does to the database is \<open>Maintenance.dispatch_once\<close>.
\<close>

subsection \<open>The polling loop of the dispatcher\<close>

text \<open>Who called \<open>dispatchOnce\<close>: a tick of the loop or other code.\<close>

datatype cycle_owner = Tick | Caller

record dispatcher =
  dp_timer :: "nat option"
  dp_running :: bool
  dp_stopped :: bool
  dp_pending :: "nat list"
  dp_next :: nat
  dp_cycles :: "cycle_owner list"
  dp_settled :: nat
  dp_stopping :: nat

definition new_dispatcher :: dispatcher where
  "new_dispatcher = \<lparr>dp_timer = None, dp_running = False, dp_stopped = False, dp_pending = [], dp_next = 0,
     dp_cycles = [], dp_settled = 0, dp_stopping = 0\<rparr>"

text \<open>\<open>this.timer = setTimeout(() => void tick(), pollIntervalMs)\<close>\<close>

definition arm_timer :: "dispatcher \<Rightarrow> dispatcher" where
  "arm_timer s = s\<lparr>dp_timer := Some (dp_next s), dp_pending := dp_pending s @ [dp_next s], dp_next := Suc (dp_next s)\<rparr>"

definition start_dispatcher :: "dispatcher \<Rightarrow> dispatcher" where
  "start_dispatcher s = arm_timer (s\<lparr>dp_stopped := False\<rparr>)"

text \<open>The first turn of \<open>dispatchOnce\<close>: a tick that finds a cycle running has its answer at once.\<close>

definition enter_cycle :: "cycle_owner \<Rightarrow> dispatcher \<Rightarrow> dispatcher" where
  "enter_cycle owner s =
     (if dp_running s then (case owner of Tick \<Rightarrow> s\<lparr>dp_settled := Suc (dp_settled s)\<rparr> | Caller \<Rightarrow> s)
      else s\<lparr>dp_running := True, dp_cycles := owner # dp_cycles s\<rparr>)"

definition fire_timer :: "nat \<Rightarrow> dispatcher \<Rightarrow> dispatcher" where
  "fire_timer h s =
     (let s' = s\<lparr>dp_pending := remove1 h (dp_pending s)\<rparr>
      in if dp_stopped s' then s' else enter_cycle Tick s')"

text \<open>The end of a cycle, thrown or not: \<open>finally { this.running = false }\<close>.\<close>

definition leave_cycle :: "cycle_owner \<Rightarrow> dispatcher \<Rightarrow> dispatcher" where
  "leave_cycle owner s =
     (let s' = s\<lparr>dp_running := False, dp_cycles := remove1 owner (dp_cycles s)\<rparr>
      in case owner of Tick \<Rightarrow> s'\<lparr>dp_settled := Suc (dp_settled s')\<rparr> | Caller \<Rightarrow> s')"

text \<open>The rest of a tick after its call of \<open>dispatchOnce\<close>.\<close>

definition continue_tick :: "dispatcher \<Rightarrow> dispatcher" where
  "continue_tick s =
     (let s' = s\<lparr>dp_settled := dp_settled s - 1\<rparr>
      in if dp_stopped s' then s' else arm_timer s')"

definition clear_timer :: "dispatcher \<Rightarrow> dispatcher" where
  "clear_timer s = (case dp_timer s of None \<Rightarrow> s | Some h \<Rightarrow> s\<lparr>dp_pending := remove1 h (dp_pending s)\<rparr>)"

text \<open>\<open>stop\<close> returns at once or waits, looking every 20 ms, until no cycle runs.\<close>

definition stop_dispatcher :: "dispatcher \<Rightarrow> dispatcher" where
  "stop_dispatcher s =
     (let s' = clear_timer (s\<lparr>dp_stopped := True\<rparr>)
      in if dp_running s' then s'\<lparr>dp_stopping := Suc (dp_stopping s')\<rparr> else s')"

datatype dispatcher_event = Start | Fire nat | Call | Finish cycle_owner | Continue | Stop | Stopped

fun dispatcher_turn :: "dispatcher_event \<Rightarrow> dispatcher \<Rightarrow> dispatcher option" where
  "dispatcher_turn Start s = Some (start_dispatcher s)"
| "dispatcher_turn (Fire h) s = (if h \<in> set (dp_pending s) then Some (fire_timer h s) else None)"
| "dispatcher_turn Call s = Some (enter_cycle Caller s)"
| "dispatcher_turn (Finish owner) s = (if owner \<in> set (dp_cycles s) then Some (leave_cycle owner s) else None)"
| "dispatcher_turn Continue s = (if 0 < dp_settled s then Some (continue_tick s) else None)"
| "dispatcher_turn Stop s = Some (stop_dispatcher s)"
| "dispatcher_turn Stopped s =
     (if 0 < dp_stopping s \<and> \<not> dp_running s then Some (s\<lparr>dp_stopping := dp_stopping s - 1\<rparr>) else None)"

fun dispatcher_run :: "dispatcher_event list \<Rightarrow> dispatcher \<Rightarrow> dispatcher option" where
  "dispatcher_run [] s = Some s"
| "dispatcher_run (e # es) s = Option.bind (dispatcher_turn e s) (dispatcher_run es)"

fun_cases fire_turnE: "dispatcher_turn (Fire h) s = Some s'"
  and finish_turnE: "dispatcher_turn (Finish owner) s = Some s'"
  and continue_turnE: "dispatcher_turn Continue s = Some s'"
  and stopped_turnE: "dispatcher_turn Stopped s = Some s'"

lemmas turn_defs = start_dispatcher_def arm_timer_def enter_cycle_def fire_timer_def leave_cycle_def continue_tick_def
  clear_timer_def stop_dispatcher_def

text \<open>
  The invariant: the flag is up exactly while a cycle runs, there is never a second one, and every loop
  is in one place: a timer, a tick inside \<open>dispatchOnce\<close>, or a tick about to go on.
\<close>

definition loops :: "dispatcher \<Rightarrow> nat" where
  "loops s = length (dp_pending s) + length (filter (\<lambda>c. c = Tick) (dp_cycles s)) + dp_settled s"

definition dispatcher_ok :: "dispatcher \<Rightarrow> bool" where
  "dispatcher_ok s \<longleftrightarrow> dp_running s = (dp_cycles s \<noteq> []) \<and> length (dp_cycles s) \<le> 1"

lemma dispatcher_ok_cases: "dispatcher_ok s \<Longrightarrow> dp_cycles s = [] \<and> \<not> dp_running s \<or> (\<exists>c. dp_cycles s = [c] \<and> dp_running s)"
  by (cases "dp_cycles s") (auto simp: dispatcher_ok_def)

lemma dispatcher_turn_ok: "dispatcher_turn e s = Some s' \<Longrightarrow> dispatcher_ok s \<Longrightarrow> dispatcher_ok s'"
  by (drule dispatcher_ok_cases, cases e)
    (auto simp: dispatcher_ok_def turn_defs Let_def split: if_splits option.splits cycle_owner.splits)

lemma one_less: "x \<in> set xs \<Longrightarrow> Suc (length xs - Suc 0) \<le> length xs"
  by (cases xs) auto

lemma dispatcher_turn_loops:
  "dispatcher_turn e s = Some s' \<Longrightarrow> dispatcher_ok s \<Longrightarrow> loops s' \<le> loops s + (if e = Start then 1 else 0)"
  by (drule dispatcher_ok_cases, cases e)
    (auto simp: loops_def turn_defs Let_def length_remove1 intro!: one_less split: if_splits option.splits cycle_owner.splits)

lemma new_dispatcher_ok: "dispatcher_ok new_dispatcher"
  by (simp add: dispatcher_ok_def new_dispatcher_def)

lemma dispatcher_run_ok: "dispatcher_run es s = Some s' \<Longrightarrow> dispatcher_ok s \<Longrightarrow> dispatcher_ok s'"
  by (induction es arbitrary: s) (auto simp: bind_eq_Some_conv dest: dispatcher_turn_ok)

lemma dispatcher_run_loops:
  "dispatcher_run es s = Some s' \<Longrightarrow> dispatcher_ok s \<Longrightarrow> loops s' \<le> loops s + count_list es Start"
proof (induction es arbitrary: s)
  case (Cons e es)
  then obtain s1 where "dispatcher_turn e s = Some s1" "dispatcher_run es s1 = Some s'" by (auto simp: bind_eq_Some_conv)
  with Cons.IH [of s1] dispatcher_turn_loops [of e s s1] dispatcher_turn_ok [of e s s1] Cons.prems(2)
  show ?case by fastforce
qed simp

text \<open>
  Once \<open>stop\<close> was called and no cycle runs, nothing but a new start or a call from outside begins one;
  what the runtime still holds is used up.
\<close>

definition winding_down :: "dispatcher \<Rightarrow> bool" where
  "winding_down s \<longleftrightarrow> dp_stopped s \<and> \<not> dp_running s \<and> dp_cycles s = []"

definition remaining_turns :: "dispatcher \<Rightarrow> nat" where
  "remaining_turns s = length (dp_pending s) + dp_settled s + dp_stopping s"

lemma winding_down_turn:
  "dispatcher_turn e s = Some s' \<Longrightarrow> winding_down s \<Longrightarrow> e \<notin> {Start, Call} \<Longrightarrow>
   winding_down s' \<and> remaining_turns s' + (if e = Stop then 0 else 1) \<le> remaining_turns s"
  by (cases e) (auto simp: winding_down_def remaining_turns_def turn_defs Let_def length_remove1 intro!: one_less
      split: if_splits option.splits)

lemma winding_down_run:
  "dispatcher_run es s = Some s' \<Longrightarrow> winding_down s \<Longrightarrow> set es \<inter> {Start, Call} = {} \<Longrightarrow>
   winding_down s' \<and> remaining_turns s' + length (filter (\<lambda>e. e \<noteq> Stop) es) \<le> remaining_turns s"
proof (induction es arbitrary: s)
  case (Cons e es)
  then obtain s1 where "dispatcher_turn e s = Some s1" "dispatcher_run es s1 = Some s'" by (auto simp: bind_eq_Some_conv)
  with Cons.IH [of s1] winding_down_turn [of e s s1] Cons.prems(2,3) show ?case by (auto split: if_splits)
qed simp

lemma dispatcher_run_append:
  "dispatcher_run (es @ es') s = Option.bind (dispatcher_run es s) (dispatcher_run es')"
  by (induction es arbitrary: s) (auto split: bind_splits)

text \<open>
  C24: the dispatcher of a process never runs two cycles at once and goes quiet when it is stopped. After
  any events a process can see, at most one cycle is under way and the flag says whether; there are never
  more loops than calls of \<open>start\<close>. When \<open>stop\<close> has returned and no cycle runs, no later event but a new start
  or an outside call begins one, no timer is set again, and the timers and waits that are left are used up
  after as many events.
\<close>

theorem dispatcher_one_cycle_and_quiet:
  assumes "dispatcher_run es new_dispatcher = Some s"
  shows "length (dp_cycles s) \<le> 1 \<and> (dp_running s \<longleftrightarrow> dp_cycles s \<noteq> []) \<and> loops s \<le> count_list es Start \<and>
    (dp_stopped s \<and> \<not> dp_running s \<and> dispatcher_run es' s = Some s' \<and> set es' \<inter> {Start, Call} = {} \<longrightarrow>
       dp_cycles s' = [] \<and> \<not> dp_running s' \<and> length (filter (\<lambda>e. e \<noteq> Stop) es') \<le> remaining_turns s)"
proof (intro conjI impI)
  from dispatcher_run_ok [OF assms new_dispatcher_ok]
  show "length (dp_cycles s) \<le> 1" "dp_running s \<longleftrightarrow> dp_cycles s \<noteq> []" by (auto simp: dispatcher_ok_def)
  from dispatcher_run_loops [OF assms new_dispatcher_ok] show "loops s \<le> count_list es Start"
    by (simp add: loops_def new_dispatcher_def)
  assume quiet: "dp_stopped s \<and> \<not> dp_running s \<and> dispatcher_run es' s = Some s' \<and> set es' \<inter> {Start, Call} = {}"
  with dispatcher_run_ok [OF assms new_dispatcher_ok] have "winding_down s"
    by (auto simp: dispatcher_ok_def winding_down_def)
  with winding_down_run [of es' s s'] quiet
  show "dp_cycles s' = []" "\<not> dp_running s'" "length (filter (\<lambda>e. e \<noteq> Stop) es') \<le> remaining_turns s"
    by (auto simp: winding_down_def)
qed

subsection \<open>The worker process\<close>

text \<open>
  Jobs and sweeps under way are counted. Of the queue library, closing a consumer ends the handing out of jobs
  and returns when none is under way. \<open>Signal\<close> is the first SIGINT or SIGTERM.
\<close>

datatype worker_stage = Up | Closing_consumer | Stopping_runtime | Closing_container | Closed

record worker_process =
  wk_stage :: worker_stage
  wk_dispatcher :: dispatcher
  wk_interval :: bool
  wk_sweeps :: nat
  wk_jobs :: nat

definition start_worker_runtime :: worker_process where
  "start_worker_runtime = \<lparr>wk_stage = Up, wk_dispatcher = start_dispatcher new_dispatcher, wk_interval = True,
     wk_sweeps = 0, wk_jobs = 0\<rparr>"

inductive worker_step :: "worker_process \<Rightarrow> worker_process \<Rightarrow> bool" where
  dispatcher_moves: "dispatcher_turn e (wk_dispatcher w) = Some d \<Longrightarrow> e \<notin> {Start, Call, Stop} \<Longrightarrow>
    worker_step w (w\<lparr>wk_dispatcher := d\<rparr>)"
| job_begins: "wk_stage w = Up \<Longrightarrow> worker_step w (w\<lparr>wk_jobs := Suc (wk_jobs w)\<rparr>)"
| job_ends: "0 < wk_jobs w \<Longrightarrow> worker_step w (w\<lparr>wk_jobs := wk_jobs w - 1\<rparr>)"
| sweep_begins: "wk_interval w \<Longrightarrow> worker_step w (w\<lparr>wk_sweeps := Suc (wk_sweeps w)\<rparr>)"
| sweep_ends: "0 < wk_sweeps w \<Longrightarrow> worker_step w (w\<lparr>wk_sweeps := wk_sweeps w - 1\<rparr>)"
| signal: "wk_stage w = Up \<Longrightarrow> worker_step w (w\<lparr>wk_stage := Closing_consumer, wk_interval := False\<rparr>)"
| consumer_closed: "wk_stage w = Closing_consumer \<Longrightarrow> wk_jobs w = 0 \<Longrightarrow>
    worker_step w (w\<lparr>wk_stage := Stopping_runtime, wk_dispatcher := stop_dispatcher (wk_dispatcher w)\<rparr>)"
| runtime_stopped: "wk_stage w = Stopping_runtime \<Longrightarrow> dp_stopping (wk_dispatcher w) = 0 \<Longrightarrow>
    worker_step w (w\<lparr>wk_stage := Closing_container, wk_dispatcher := stop_dispatcher (wk_dispatcher w)\<rparr>)"
| container_closed: "wk_stage w = Closing_container \<Longrightarrow> dp_stopping (wk_dispatcher w) = 0 \<Longrightarrow>
    worker_step w (w\<lparr>wk_stage := Closed\<rparr>)"

inductive_cases worker_stepE: "worker_step w w'"

text \<open>A dispatcher that is stopped or about to be: a cycle runs only while a call of \<open>stop\<close> waits for it.\<close>

definition stopping :: "dispatcher \<Rightarrow> bool" where
  "stopping d \<longleftrightarrow> dp_stopped d \<and> (dp_running d \<longrightarrow> 0 < dp_stopping d)"

lemma stopping_turn:
  assumes "dispatcher_turn e d = Some d'" "e \<notin> {Start, Call, Stop}" "stopping d"
  shows "stopping d'"
proof (cases e)
  case (Fire h)
  from assms(1) [unfolded Fire] show ?thesis
    by (rule fire_turnE) (use assms(3) in \<open>auto simp: stopping_def turn_defs Let_def split: if_splits\<close>)
next
  case (Finish owner)
  from assms(1) [unfolded Finish] show ?thesis
    by (rule finish_turnE) (use assms(3) in \<open>auto simp: stopping_def turn_defs Let_def split: if_splits cycle_owner.splits\<close>)
next
  case Continue
  from assms(1) [unfolded Continue] show ?thesis
    by (rule continue_turnE) (use assms(3) in \<open>auto simp: stopping_def turn_defs Let_def split: if_splits\<close>)
next
  case Stopped
  from assms(1) [unfolded Stopped] show ?thesis
    by (rule stopped_turnE) (use assms(3) in \<open>auto simp: stopping_def split: if_splits\<close>)
qed (use assms(2) in auto)

lemma stop_stops: "stopping (stop_dispatcher d)"
  by (auto simp: stopping_def turn_defs Let_def split: option.split)

lemma stop_idle: "\<not> dp_running d \<Longrightarrow> \<not> dp_running (stop_dispatcher d)"
  by (auto simp: turn_defs Let_def split: option.split)

definition worker_ok :: "worker_process \<Rightarrow> bool" where
  "worker_ok w \<longleftrightarrow> dispatcher_ok (wk_dispatcher w) \<and> (wk_stage w \<noteq> Up \<longrightarrow> \<not> wk_interval w) \<and>
     (wk_stage w \<in> {Stopping_runtime, Closing_container, Closed} \<longrightarrow> wk_jobs w = 0 \<and> stopping (wk_dispatcher w)) \<and>
     (wk_stage w \<in> {Closing_container, Closed} \<longrightarrow> \<not> dp_running (wk_dispatcher w))"

lemma stopped_stays_idle:
  assumes "dispatcher_turn e d = Some d'" "e \<notin> {Start, Call, Stop}" "dp_stopped d" "\<not> dp_running d"
  shows "\<not> dp_running d'"
  using assms by (cases e) (auto simp: turn_defs Let_def split: if_splits cycle_owner.splits)

lemma worker_step_ok: "worker_step w w' \<Longrightarrow> worker_ok w \<Longrightarrow> worker_ok w'"
proof (induction rule: worker_step.induct)
  case (dispatcher_moves e w d)
  then show ?case
    using dispatcher_turn_ok [of e "wk_dispatcher w" d] stopping_turn [of e "wk_dispatcher w" d]
      stopped_stays_idle [of e "wk_dispatcher w" d]
    by (auto simp: worker_ok_def stopping_def)
next
  case (consumer_closed w)
  then show ?case
    using dispatcher_turn_ok [of Stop "wk_dispatcher w"] by (simp add: worker_ok_def stop_stops)
next
  case (runtime_stopped w)
  then show ?case
    using dispatcher_turn_ok [of Stop "wk_dispatcher w"] stop_idle [of "wk_dispatcher w"]
    by (simp add: worker_ok_def stop_stops) (simp add: stopping_def)
qed (auto simp: worker_ok_def)

lemma started_ok: "worker_ok start_worker_runtime"
  using dispatcher_turn_ok [of Start new_dispatcher]
  by (simp add: worker_ok_def start_worker_runtime_def new_dispatcher_ok)

lemma worker_steps_ok: "worker_step\<^sup>*\<^sup>* w w' \<Longrightarrow> worker_ok w \<Longrightarrow> worker_ok w'"
  by (induction rule: rtranclp_induct) (auto intro: worker_step_ok)

text \<open>
  C25: the connections are closed under no job and no dispatch cycle. In every state a worker process can reach,
  from the moment \<open>container.close\<close> ends the queue connection and the pool, no job of the queue and
  no cycle of the dispatcher is under way, the interval of the sweep is cleared, and none of them begins again; before
  that, while the consumer is open, at most one dispatch cycle runs at a time.
\<close>

theorem worker_closes_after_its_work:
  assumes "worker_step\<^sup>*\<^sup>* start_worker_runtime w"
  shows "length (dp_cycles (wk_dispatcher w)) \<le> 1 \<and>
    (wk_stage w = Closed \<longrightarrow> wk_jobs w = 0 \<and> dp_cycles (wk_dispatcher w) = [] \<and> \<not> wk_interval w)"
  using worker_steps_ok [OF assms started_ok] by (auto simp: worker_ok_def dispatcher_ok_def)

text \<open>A sweep is not waited for: it may be under way when the pool is closed.\<close>

lemma sweep_may_outlive_the_pool: "\<exists>w. worker_step\<^sup>*\<^sup>* start_worker_runtime w \<and> wk_stage w = Closed \<and> wk_sweeps w = 1"
proof -
  note step = converse_rtranclp_into_rtranclp [where r = worker_step]
  have "worker_step\<^sup>*\<^sup>* start_worker_runtime
    \<lparr>wk_stage = Closed, wk_dispatcher = stop_dispatcher (stop_dispatcher (start_dispatcher new_dispatcher)), wk_interval = False,
     wk_sweeps = 1, wk_jobs = 0\<rparr>"
    by (rule step, rule sweep_begins, simp add: start_worker_runtime_def,
        rule step, rule signal, simp add: start_worker_runtime_def,
        rule step, rule consumer_closed, simp, simp add: start_worker_runtime_def,
        rule step, rule runtime_stopped, simp, simp add: start_worker_runtime_def turn_defs new_dispatcher_def,
        rule r_into_rtranclp, rule container_closed [THEN back_subst [where P = "worker_step _"]])
      (simp_all add: start_worker_runtime_def turn_defs new_dispatcher_def)
  then show ?thesis by auto
qed

end
