(* ===== verification/Observability.thy ===== *)
theory Observability
  imports Container
begin

text \<open>
  What the operators of a process see: the metrics of \<open>platform/metrics/index.ts\<close>, the gauges that
  \<open>outbox-dispatcher.ts\<close> and \<open>worker/runtime.ts\<close> set from the database, and the fields that
  \<open>platform/logging/index.ts\<close> hides. Counters and timers are not part of the model of the
  components; their effect on a program is nothing.
\<close>

subsection \<open>The metrics\<close>

text \<open>The bounds of the buckets of a histogram are kept in milliseconds.\<close>

datatype metric_kind = Counter | Gauge | Histogram "nat list"

record metric =
  mt_kind :: metric_kind
  mt_name :: string
  mt_labels :: "string list"

definition http_metrics :: "metric list" where
  "http_metrics =
    [\<lparr>mt_kind = Histogram [5, 10, 25, 50, 100, 250, 500, 1000, 2500, 5000, 10000],
      mt_name = ''ito_http_request_duration_seconds'', mt_labels = [''method'', ''route'', ''status'']\<rparr>,
     \<lparr>mt_kind = Counter, mt_name = ''ito_http_requests_total'', mt_labels = [''method'', ''route'', ''status'']\<rparr>]"

definition operation_metrics :: "metric list" where
  "operation_metrics =
    [\<lparr>mt_kind = Counter, mt_name = ''ito_operation_transitions_total'', mt_labels = [''from'', ''to'', ''type'']\<rparr>,
     \<lparr>mt_kind = Gauge, mt_name = ''ito_operations_in_state'', mt_labels = [''state'']\<rparr>,
     \<lparr>mt_kind = Counter, mt_name = ''ito_operations_failed_total'', mt_labels = [''reason'']\<rparr>,
     \<lparr>mt_kind = Histogram [500, 1000, 2500, 5000, 10000, 30000, 60000, 120000, 300000],
      mt_name = ''ito_operation_duration_seconds'', mt_labels = [''type'', ''outcome'']\<rparr>]"

definition chain_metrics :: "metric list" where
  "chain_metrics =
    [\<lparr>mt_kind = Counter, mt_name = ''ito_broadcast_unknown_total'', mt_labels = []\<rparr>,
     \<lparr>mt_kind = Counter, mt_name = ''ito_transaction_confirmations_total'', mt_labels = [''outcome'']\<rparr>,
     \<lparr>mt_kind = Counter, mt_name = ''ito_reconciliation_checks_total'', mt_labels = [''type'', ''outcome'']\<rparr>,
     \<lparr>mt_kind = Gauge, mt_name = ''ito_reconciliation_open_findings'', mt_labels = [''severity'']\<rparr>,
     \<lparr>mt_kind = Counter, mt_name = ''ito_signer_requests_total'', mt_labels = [''provider'', ''outcome'']\<rparr>,
     \<lparr>mt_kind = Gauge, mt_name = ''ito_signer_pending'', mt_labels = []\<rparr>,
     \<lparr>mt_kind = Counter, mt_name = ''ito_compliance_checks_total'', mt_labels = [''outcome'']\<rparr>,
     \<lparr>mt_kind = Counter, mt_name = ''ito_transaction_replacements_total'', mt_labels = [''purpose'', ''result'']\<rparr>,
     \<lparr>mt_kind = Gauge, mt_name = ''ito_nonce_lanes_blocked'', mt_labels = []\<rparr>,
     \<lparr>mt_kind = Counter, mt_name = ''ito_nonce_recoveries_total'', mt_labels = [''result'']\<rparr>,
     \<lparr>mt_kind = Counter, mt_name = ''ito_reorg_observations_total'', mt_labels = []\<rparr>,
     \<lparr>mt_kind = Counter, mt_name = ''ito_signer_failures_total'', mt_labels = [''reason'']\<rparr>]"

definition queue_metrics :: "metric list" where
  "queue_metrics =
    [\<lparr>mt_kind = Gauge, mt_name = ''ito_outbox_backlog'', mt_labels = [''status'']\<rparr>,
     \<lparr>mt_kind = Counter, mt_name = ''ito_outbox_dispatched_total'', mt_labels = [''topic'', ''result'']\<rparr>,
     \<lparr>mt_kind = Counter, mt_name = ''ito_queue_jobs_total'', mt_labels = [''queue'', ''result'']\<rparr>,
     \<lparr>mt_kind = Histogram [10, 50, 100, 500, 1000, 2500, 5000, 10000, 30000, 60000],
      mt_name = ''ito_worker_processing_duration_seconds'', mt_labels = [''job'']\<rparr>]"

definition rpc_metrics :: "metric list" where
  "rpc_metrics =
    [\<lparr>mt_kind = Counter, mt_name = ''ito_rpc_requests_total'', mt_labels = [''method'', ''result'']\<rparr>,
     \<lparr>mt_kind = Histogram [5, 10, 50, 100, 500, 1000, 2500, 5000, 10000],
      mt_name = ''ito_rpc_duration_seconds'', mt_labels = [''method'']\<rparr>]"

definition create_metrics :: "metric list" where
  "create_metrics = http_metrics @ operation_metrics @ chain_metrics @ queue_metrics @ rpc_metrics"

text \<open>A registry refuses a second metric of the same name, and a histogram its buckets out of order.\<close>

lemma metrics_register:
  "distinct (map mt_name create_metrics)"
  "\<forall>m \<in> set create_metrics. \<forall>bs. mt_kind m = Histogram bs \<longrightarrow> sorted_wrt (<) bs"
  by (simp_all add: create_metrics_def http_metrics_def operation_metrics_def chain_metrics_def queue_metrics_def rpc_metrics_def)

subsection \<open>Gauges\<close>

text \<open>A gauge has one value per value of its label; a label that was never set has none.\<close>

type_synonym gauge = "string \<Rightarrow> nat option"

fun outbox_status_name :: "outbox_status \<Rightarrow> string" where
  "outbox_status_name Ob_PENDING = ''PENDING''"
| "outbox_status_name Ob_CLAIMED = ''CLAIMED''"
| "outbox_status_name Ob_DISPATCHED = ''DISPATCHED''"
| "outbox_status_name Ob_FAILED = ''FAILED''"

text \<open>
  \<open>for (const label of labels) gauge.set(label, counts.find(...)?.count ?? 0)\<close>, and the loop over the
  counts alone.
\<close>

fun set_each :: "('k \<Rightarrow> string) \<Rightarrow> string list \<Rightarrow> ('k \<times> nat) list \<Rightarrow> gauge \<Rightarrow> gauge" where
  "set_each name [] counts g = g"
| "set_each name (l # ls) counts g = set_each name ls counts
     (g(l \<mapsto> (case find (\<lambda>(k, n). name k = l) counts of None \<Rightarrow> 0 | Some (k, n) \<Rightarrow> n)))"

fun set_counted :: "('k \<Rightarrow> string) \<Rightarrow> ('k \<times> nat) list \<Rightarrow> gauge \<Rightarrow> gauge" where
  "set_counted name [] g = g"
| "set_counted name ((k, n) # counts) g = set_counted name counts (g(name k \<mapsto> n))"

definition report_backlog :: "(outbox_status \<times> nat) list \<Rightarrow> gauge \<Rightarrow> gauge" where
  "report_backlog = set_each outbox_status_name [''PENDING'', ''CLAIMED'', ''DISPATCHED'', ''FAILED'']"

record worker_gauges =
  wg_signer_pending :: nat
  wg_operations_in_state :: gauge
  wg_open_findings :: gauge

text \<open>The gauges a sweep of the worker sets, from what its queries answer.\<close>

definition sweep_gauges ::
  "(observation_severity \<times> nat) list \<Rightarrow> nat \<Rightarrow> (operation_state \<times> nat) list \<Rightarrow> worker_gauges \<Rightarrow> worker_gauges" where
  "sweep_gauges findings pending states g =
     g\<lparr>wg_signer_pending := pending,
       wg_operations_in_state := set_counted operation_state_name states (wg_operations_in_state g),
       wg_open_findings := set_each severity_name [''INFO'', ''WARNING'', ''CRITICAL''] findings (wg_open_findings g)\<rparr>"

definition grouped :: "('r \<Rightarrow> 'k) \<Rightarrow> 'r list \<Rightarrow> ('k \<times> nat) list" where
  "grouped key rows = map (\<lambda>k. (k, length (filter (\<lambda>r. key r = k) rows))) (remdups (map key rows))"

lemma grouped_set: "(k, n) \<in> set (grouped key rows) \<longleftrightarrow> n = length (filter (\<lambda>r. key r = k) rows) \<and> 0 < n"
  by (auto simp: grouped_def filter_empty_conv)

lemma set_each_other: "l \<notin> set ls \<Longrightarrow> set_each name ls counts g l = g l"
  by (induction ls arbitrary: g) auto

lemma set_each_in:
  "l \<in> set ls \<Longrightarrow> set_each name ls counts g l =
     Some (case find (\<lambda>(k, n). name k = l) counts of None \<Rightarrow> 0 | Some (k, n) \<Rightarrow> n)"
proof (induction ls arbitrary: g)
  case (Cons l' ls)
  then show ?case by (cases "l \<in> set ls") (auto simp: set_each_other)
qed simp

text \<open>A gauge set for every label shows the number of rows, nought included.\<close>

lemma set_each_grouped:
  assumes "\<And>k k'. name k = name k' \<Longrightarrow> k = k'" "name k \<in> set ls"
  shows "set_each name ls (grouped key rows) g (name k) = Some (length (filter (\<lambda>r. key r = k) rows))"
proof (cases "find (\<lambda>(k', n). name k' = name k) (grouped key rows)")
  case None
  then have "(k, n) \<notin> set (grouped key rows)" for n by (auto simp: find_None_iff)
  then have "length (filter (\<lambda>r. key r = k) rows) = 0" by (auto simp: grouped_set)
  with None assms(2) show ?thesis by (simp add: set_each_in)
next
  case (Some v)
  then have "name (fst v) = name k" "v \<in> set (grouped key rows)" by (force simp: find_Some_iff in_set_conv_nth)+
  then obtain n where "v = (k, n)" "n = length (filter (\<lambda>r. key r = k) rows)"
    using assms(1) by (cases v) (auto simp: grouped_set)
  with Some assms(2) show ?thesis by (simp add: set_each_in)
qed

text \<open>A gauge set from the counts alone keeps what it showed for a label that is counted no more.\<close>

lemma set_counted_other: "l \<notin> name ` fst ` set counts \<Longrightarrow> set_counted name counts g l = g l"
  by (induction name counts g rule: set_counted.induct) auto

lemma set_counted_grouped:
  assumes "\<And>k k'. name k = name k' \<Longrightarrow> k = k'"
  shows "set_counted name (grouped key rows) g (name k) =
    (if k \<in> key ` set rows then Some (length (filter (\<lambda>r. key r = k) rows)) else g (name k))"
proof -
  have "set_counted name (map (\<lambda>k. (k, f k)) ks) g (name k) = (if k \<in> set ks then Some (f k) else g (name k))"
    if "distinct ks" for ks f
    using that
  proof (induction ks arbitrary: g)
    case (Cons k' ks)
    then show ?case using assms [of k k'] by (cases "k \<in> set ks") (auto simp: set_counted_other)
  qed simp
  then show ?thesis by (simp add: grouped_def)
qed

lemma label_names_inj:
  "outbox_status_name a = outbox_status_name b \<Longrightarrow> a = b" "severity_name v = severity_name w \<Longrightarrow> v = w"
  by (cases a; cases b; simp) (cases v; cases w; simp)

text \<open>
  C32: what the gauges show after a report. The backlog of the outbox and the open findings are the numbers of rows
  for every status and severity, nought included, and the pending signatures are counted. The number of operations in a
  state is right only for a state some operation is in: for one that has emptied, the gauge goes on showing
  what it showed before.
\<close>

theorem gauges_after_report:
  "report_backlog (count_outbox_by_status d) g (outbox_status_name s) = Some (length (filter (\<lambda>r. ob_status r = s) (outbox d))) \<and>
   wg_open_findings (sweep_gauges (count_open_findings_by_severity d) (count_pending_signer_requests d) (count_operations_by_state d) w)
     (severity_name v) = Some (length (filter (\<lambda>r. co_severity r = v) (filter (\<lambda>r. co_status r = Obs_OPEN) (chain_observations d)))) \<and>
   wg_signer_pending (sweep_gauges (count_open_findings_by_severity d) (count_pending_signer_requests d) (count_operations_by_state d) w) =
     length (filter (\<lambda>r. sr_status r = Sr_PENDING) (signer_requests d)) \<and>
   wg_operations_in_state (sweep_gauges (count_open_findings_by_severity d) (count_pending_signer_requests d) (count_operations_by_state d) w)
     (operation_state_name st) =
     (if st \<in> op_state ` set (operations d) then Some (length (filter (\<lambda>r. op_state r = st) (operations d)))
      else wg_operations_in_state w (operation_state_name st))"
proof -
  have groups: "count_outbox_by_status d = grouped ob_status (outbox d)"
    "count_open_findings_by_severity d = grouped co_severity (filter (\<lambda>r. co_status r = Obs_OPEN) (chain_observations d))"
    "count_operations_by_state d = grouped op_state (operations d)"
    by (simp_all add: count_outbox_by_status_def count_open_findings_by_severity_def count_operations_by_state_def grouped_def Let_def)
  have labels: "outbox_status_name s \<in> set [''PENDING'', ''CLAIMED'', ''DISPATCHED'', ''FAILED'']"
    "severity_name v \<in> set [''INFO'', ''WARNING'', ''CRITICAL'']"
    by (cases s; simp) (cases v; simp)
  note shown = set_each_grouped [where name = outbox_status_name, OF label_names_inj(1) labels(1)]
    set_each_grouped [where name = severity_name, OF label_names_inj(2) labels(2)]
    set_counted_grouped [where name = operation_state_name, OF operation_state_name_inj]
  show ?thesis
    unfolding groups
    by (simp add: report_backlog_def sweep_gauges_def count_pending_signer_requests_def shown del: set_each.simps set_counted.simps list.set)
qed

subsection \<open>What the logs hide\<close>

definition redacted_fields :: "string list" where
  "redacted_fields = [''privateKey'', ''private_key'', ''mnemonic'', ''signedTransaction'', ''signed_transaction'',
     ''signedRawTransaction'', ''rawTransaction'', ''secret'', ''jwt'', ''token'', ''authorization'', ''password'']"

definition REDACTED_PATHS :: "string list" where
  "REDACTED_PATHS = concat (map (\<lambda>field. [field, ''*.'' @ field, ''*.*.'' @ field, ''*.*.*.'' @ field]) redacted_fields)"

text \<open>
  A path of the logger names keys from the outside in, separated by dots, and a star stands for any key at its
  level; \<open>covers\<close> is the matching of the logging library. The logger puts the censor text in place of the whole
  value a configured path leads to, so a value of a log entry is hidden when a path covers its keys or the keys
  of a value it is inside of.
\<close>

definition redacted :: "(string \<Rightarrow> string list \<Rightarrow> bool) \<Rightarrow> string list \<Rightarrow> bool" where
  "redacted covers keys =
     list_ex (\<lambda>path. list_ex (\<lambda>n. covers path (take n keys)) [1 ..< Suc (length keys)]) REDACTED_PATHS"

definition star_path :: "nat \<Rightarrow> string \<Rightarrow> string" where
  "star_path n field = concat (replicate n ''*.'') @ field"

lemma REDACTED_PATHS_stars: "path \<in> set REDACTED_PATHS \<longleftrightarrow> (\<exists>n \<le> 3. \<exists>field \<in> set redacted_fields. path = star_path n field)"
proof -
  have four: "(\<exists>n \<le> 3. P n) \<longleftrightarrow> P 0 \<or> P 1 \<or> P 2 \<or> P 3" for P :: "nat \<Rightarrow> bool"
    by (auto simp: numeral_3_eq_3 numeral_2_eq_2 le_Suc_eq)
  have stars: "(\<exists>n \<le> 3. path = star_path n field) \<longleftrightarrow> path \<in> set [field, ''*.'' @ field, ''*.*.'' @ field, ''*.*.*.'' @ field]" for field
    unfolding four by (simp add: star_path_def numeral_3_eq_3 numeral_2_eq_2)
  have "path \<in> set REDACTED_PATHS \<longleftrightarrow>
      (\<exists>field \<in> set redacted_fields. path \<in> set [field, ''*.'' @ field, ''*.*.'' @ field, ''*.*.*.'' @ field])"
    by (simp only: REDACTED_PATHS_def set_concat set_map UN_iff bex_simps)
  then show ?thesis unfolding stars [symmetric] by blast
qed

text \<open>A key on the way to a value.\<close>

lemma take_last_key: "(\<exists>n. 1 \<le> n \<and> n \<le> length keys \<and> n \<le> m \<and> last (take n keys) \<in> A) \<longleftrightarrow> (\<exists>k \<in> set (take m keys). k \<in> A)"
proof
  assume "\<exists>n. 1 \<le> n \<and> n \<le> length keys \<and> n \<le> m \<and> last (take n keys) \<in> A"
  then obtain n where n: "1 \<le> n" "n \<le> length keys" "n \<le> m" "last (take n keys) \<in> A" by blast
  then have "last (take n keys) \<in> set (take n keys)" by (intro last_in_set) auto
  also have "set (take n keys) \<subseteq> set (take m keys)" using n(3) by (rule set_take_subset_set_take)
  finally show "\<exists>k \<in> set (take m keys). k \<in> A" using n(4) by blast
next
  assume "\<exists>k \<in> set (take m keys). k \<in> A"
  then obtain i where i: "i < m" "i < length keys" "keys ! i \<in> A" by (auto simp: in_set_conv_nth)
  then have "last (take (Suc i) keys) = keys ! i" by (simp add: take_Suc_conv_app_nth)
  with i show "\<exists>n. 1 \<le> n \<and> n \<le> length keys \<and> n \<le> m \<and> last (take n keys) \<in> A"
    by (intro exI [of _ "Suc i"]) auto
qed

text \<open>
  C33: what is hidden is what is under a secret key at most three levels deep. If a path of stars and a plain
  name covers exactly the keys of that name at that depth, a value is hidden exactly when one of the first four keys
  that lead to it is one of the twelve listed names: then it is the value of that key or a part of it. A secret
  under a fifth key is written to the log.
\<close>

theorem secrets_hidden_to_depth_three:
  assumes "\<And>n field keys. list_all (\<lambda>c. c \<noteq> CHR ''*'' \<and> c \<noteq> CHR ''.'') field \<Longrightarrow>
    covers (star_path n field) keys \<longleftrightarrow> length keys = Suc n \<and> last keys = field"
  shows "redacted covers keys \<longleftrightarrow> (\<exists>key \<in> set (take 4 keys). key \<in>
    {''privateKey'', ''private_key'', ''mnemonic'', ''signedTransaction'', ''signed_transaction'', ''signedRawTransaction'',
     ''rawTransaction'', ''secret'', ''jwt'', ''token'', ''authorization'', ''password''})"
proof -
  have plain: "list_all (\<lambda>c. c \<noteq> CHR ''*'' \<and> c \<noteq> CHR ''.'') field" if "field \<in> set redacted_fields" for field
    using that by (auto simp: redacted_fields_def)
  have "redacted covers keys \<longleftrightarrow> (\<exists>n. 1 \<le> n \<and> n \<le> length keys \<and>
      (\<exists>m \<le> 3. \<exists>field \<in> set redacted_fields. covers (star_path m field) (take n keys)))"
    unfolding redacted_def list_ex_iff Bex_def REDACTED_PATHS_stars set_upt atLeastLessThan_iff less_Suc_eq_le by blast
  also have "\<dots> \<longleftrightarrow> (\<exists>n. 1 \<le> n \<and> n \<le> length keys \<and> n \<le> 4 \<and> last (take n keys) \<in> set redacted_fields)"
  proof (rule ex_cong1)
    fix n
    have "(\<exists>m \<le> 3. \<exists>field \<in> set redacted_fields. covers (star_path m field) (take n keys)) \<longleftrightarrow>
        n \<le> 4 \<and> last (take n keys) \<in> set redacted_fields" if "1 \<le> n" "n \<le> length keys"
    proof -
      have "covers (star_path m field) (take n keys) \<longleftrightarrow> m = n - 1 \<and> last (take n keys) = field"
        if "field \<in> set redacted_fields" for m field
        using assms [OF plain [OF that]] \<open>1 \<le> n\<close> \<open>n \<le> length keys\<close> by auto
      then show ?thesis using that(1) by auto
    qed
    then show "(1 \<le> n \<and> n \<le> length keys \<and> (\<exists>m \<le> 3. \<exists>field \<in> set redacted_fields. covers (star_path m field) (take n keys))) \<longleftrightarrow>
        (1 \<le> n \<and> n \<le> length keys \<and> n \<le> 4 \<and> last (take n keys) \<in> set redacted_fields)" by blast
  qed
  also have "\<dots> \<longleftrightarrow> (\<exists>key \<in> set (take 4 keys). key \<in> set redacted_fields)" by (rule take_last_key)
  finally show ?thesis by (simp only: redacted_fields_def list.set)
qed

end
