(* ===== verification/Bootstrap.thy ===== *)
theory Bootstrap
  imports ApiFacts Programs
begin

text \<open>
  \<open>platform/bootstrap.ts\<close>: the development personas, and \<open>upsertUser\<close> of \<open>user-repository.ts\<close> as the
  program runs it, one statement after the other with the commits of other processes in between. The
  personas are provisioned one by one here; the code starts all six at once, each on rows of its own.
\<close>

definition DEFAULT_ORGANIZATION :: string where
  "DEFAULT_ORGANIZATION = ''acme-issuer''"

record dev_user =
  du_subject :: string
  du_display_name :: string
  du_roles :: "app_role list"

definition DEV_USERS :: "dev_user list" where
  "DEV_USERS =
    [\<lparr>du_subject = ''dev-admin'', du_display_name = ''Dev Admin'', du_roles = [ADMIN]\<rparr>,
     \<lparr>du_subject = ''dev-issuer'', du_display_name = ''Dev Issuer'', du_roles = [ISSUER]\<rparr>,
     \<lparr>du_subject = ''dev-compliance'', du_display_name = ''Dev Compliance Officer'', du_roles = [COMPLIANCE_OFFICER]\<rparr>,
     \<lparr>du_subject = ''dev-approver-1'', du_display_name = ''Dev Approver One'', du_roles = [APPROVER]\<rparr>,
     \<lparr>du_subject = ''dev-approver-2'', du_display_name = ''Dev Approver Two'', du_roles = [APPROVER]\<rparr>,
     \<lparr>du_subject = ''dev-auditor'', du_display_name = ''Dev Auditor'', du_roles = [AUDITOR]\<rparr>]"

definition upsert_user :: "create_user_input \<Rightarrow> ('w sys, user_record) io" where
  "upsert_user input =
     io_bind (run_tx (upsert_user_row input)) (\<lambda>user.
     io_then (run_tx (clear_user_roles (us_id user)))
     (io_then (run_tx (insert_user_roles (us_id user) (cu_roles input)))
     (io_ret \<lparr>ur_user = user, ur_roles = cu_roles input\<rparr>)))"

record bootstrapped_user =
  bu_subject :: string
  bu_record :: user_record
  bu_token :: string

definition bootstrap_dev_user :: "authenticator \<Rightarrow> string \<Rightarrow> dev_user \<Rightarrow> ('w sys, bootstrapped_user) io" where
  "bootstrap_dev_user auth organization_id user =
     io_bind (upsert_user \<lparr>cu_external_subject = du_subject user, cu_organization_id = organization_id,
       cu_display_name = du_display_name user, cu_roles = du_roles user\<rparr>) (\<lambda>rec.
     io_bind (issue_token auth (du_subject user) organization_id None) (\<lambda>token.
     io_ret \<lparr>bu_subject = du_subject user, bu_record = rec, bu_token = token\<rparr>))"

definition bootstrap_dev_users :: "authenticator \<Rightarrow> string \<Rightarrow> ('w sys, bootstrapped_user list) io" where
  "bootstrap_dev_users auth organization_id = io_map (bootstrap_dev_user auth organization_id) DEV_USERS"

text \<open>The bootstrap takes steps of the system like every other program.\<close>

context step_closed
begin

lemma steps_bootstrap: "stays env P (bootstrap_dev_users auth organization_id)"
  unfolding bootstrap_dev_users_def bootstrap_dev_user_def upsert_user_def issue_token_def
  by (intro steps_intros program_tx.intros)

end

lemma bootstrap_takes_steps:
  fixes env :: "'w executor_env" and s :: "'w sys"
  assumes "\<And>n d. db_steps env d (sys_others s n d)"
  shows "db_steps env (sys_db s) (sys_db (snd (bootstrap_dev_users auth organization_id s)))"
  by (rule onward_steps [OF onward.steps_bootstrap assms])

subsection \<open>Provisioning\<close>

lemma user_ids: "table_ok user_rules rows \<Longrightarrow> r \<in> set rows \<Longrightarrow> r' \<in> set rows \<Longrightarrow> us_id r = us_id r' \<Longrightarrow> r = r'"
  by (rule table_ok_unique [where n = "''users_pkey''" and c = "\<lambda>r r'. us_id r = us_id r'"]) (auto simp: user_rules_def)

lemma user_subjects: "table_ok user_rules rows \<Longrightarrow> r \<in> set rows \<Longrightarrow> r' \<in> set rows \<Longrightarrow>
    us_external_subject r = us_external_subject r' \<Longrightarrow> r = r'"
  by (rule table_ok_unique [where n = "''users_external_subject_key''" and c = "\<lambda>r r'. us_external_subject r = us_external_subject r'"])
    (auto simp: user_rules_def)

lemma select_subject:
  assumes "table_ok user_rules rows" "r \<in> set rows"
  shows "select_first (\<lambda>u. us_external_subject u = us_external_subject r) rows = Some r"
proof -
  let ?q = "\<lambda>u. us_external_subject u = us_external_subject r"
  from assms(2) have "select_first ?q rows \<noteq> None" unfolding select_first_None by blast
  then obtain u where u: "select_first ?q rows = Some u" by blast
  from select_first_Some [OF u] user_subjects [OF assms(1) _ assms(2)] have "u = r" by blast
  with u show ?thesis by simp
qed

declare app_role_of_name.simps [simp del]

lemma role_name_back [simp]: "app_role_of_name (app_role_name r) = Some r"
  by (cases r) (simp_all add: app_role_of_name.simps app_roles_def)

lemma upsert_row_facts:
  assumes "upsert_user_row input d = Inr (user, d')"
  shows "table_ok user_rules (users d')" "user \<in> set (users d')" "us_external_subject user = cu_external_subject input"
    "us_organization_id user = cu_organization_id input" "us_display_name user = cu_display_name input"
    "user_roles d' = user_roles d"
    "(\<forall>u \<in> set (users d). us_status u = Us_ACTIVE) \<Longrightarrow> us_status user = Us_ACTIVE"
    "(\<forall>u \<in> set (users d). us_status u = Us_ACTIVE) \<Longrightarrow> \<forall>u \<in> set (users d'). us_status u = Us_ACTIVE"
    "subject \<noteq> cu_external_subject input \<Longrightarrow>
       select_first (\<lambda>u. us_external_subject u = subject) (users d') = select_first (\<lambda>u. us_external_subject u = subject) (users d)"
proof -
  define new where "new = \<lparr>us_id = uuid_source d (uuid_next d), us_external_subject = cu_external_subject input,
    us_organization_id = cu_organization_id input, us_display_name = cu_display_name input, us_status = Us_ACTIVE\<rparr>"
  define upd where "upd = (\<lambda>r :: user_row. r\<lparr>us_display_name := cu_display_name input, us_organization_id := cu_organization_id input\<rparr>)"
  define mine where "mine = (\<lambda>r :: user_row. us_external_subject r = cu_external_subject input)"
  have "table_ok user_rules (users d') \<and> user_roles d' = user_roles d \<and>
    (user = new \<and> users d' = users d @ [new] \<or>
     (\<exists>r \<in> set (users d). mine r \<and> user = upd r \<and> users d' = update_where mine upd (users d)))"
    using assms unfolding upsert_user_row_def insert_on_conflict_do_update_def
    by (auto simp: tx_simps fresh_uuid_def user_table_def new_def upd_def mine_def find_Some_iff split: option.splits)
  then show "table_ok user_rules (users d')" "user \<in> set (users d')" "us_external_subject user = cu_external_subject input"
    "us_organization_id user = cu_organization_id input" "us_display_name user = cu_display_name input"
    "user_roles d' = user_roles d"
    "(\<forall>u \<in> set (users d). us_status u = Us_ACTIVE) \<Longrightarrow> us_status user = Us_ACTIVE"
    "(\<forall>u \<in> set (users d). us_status u = Us_ACTIVE) \<Longrightarrow> \<forall>u \<in> set (users d'). us_status u = Us_ACTIVE"
    by (auto simp: new_def upd_def mine_def set_update_where)
  have "select_first q (users d @ [new]) = select_first q (users d)" if "\<not> q new" for q
    using that by (auto simp: select_first_def find_append split: option.split)
  moreover have "select_first (\<lambda>u. us_external_subject u = subject) (update_where mine upd rows) =
      select_first (\<lambda>u. us_external_subject u = subject) rows" if "subject \<noteq> cu_external_subject input" for rows
    using that by (induction rows) (auto simp: select_first_def update_where_def mine_def upd_def)
  moreover assume "subject \<noteq> cu_external_subject input"
  ultimately show "select_first (\<lambda>u. us_external_subject u = subject) (users d') = select_first (\<lambda>u. us_external_subject u = subject) (users d)"
    using \<open>table_ok user_rules (users d') \<and> _\<close> by (auto simp: new_def)
qed

lemma clear_roles_rows: "clear_user_roles i d = Inr (u, d') \<Longrightarrow> users d' = users d \<and> user_roles d' = delete_where (\<lambda>r. fst r = i) (user_roles d)"
  by (auto simp: clear_user_roles_def tx_simps user_role_table_def)

lemma insert_roles_rows: "insert_user_roles i roles d = Inr (u, d') \<Longrightarrow>
    users d' = users d \<and> user_roles d' = user_roles d @ map (\<lambda>role. (i, app_role_name role)) roles"
  by (auto simp: insert_user_roles_def tx_simps user_role_table_def split: if_splits)

text \<open>The roles of a user after the two statements that replace them, and of the others.\<close>

lemma replaced_roles:
  assumes "user_roles d' = delete_where (\<lambda>r. fst r = i) (user_roles d) @ map (\<lambda>role. (i, app_role_name role)) roles"
  shows "load_roles i d' = roles" "j \<noteq> i \<Longrightarrow> load_roles j d' = load_roles j d"
proof -
  have "List.map_filter (\<lambda>(u, role). if u = i then app_role_of_name role else None) (map (\<lambda>role. (i, app_role_name role)) roles) = roles"
    by (induction roles) (simp_all add: List.map_filter_simps)
  moreover have "List.map_filter (\<lambda>(u, role). if u = i then app_role_of_name role else None) (delete_where (\<lambda>r. fst r = i) rows) = []" for rows
    by (induction rows) (auto simp: delete_where_def List.map_filter_simps)
  ultimately show "load_roles i d' = roles" by (simp add: load_roles_def assms List.map_filter_def)
  assume j: "j \<noteq> i"
  have "List.map_filter (\<lambda>(u, role). if u = j then app_role_of_name role else None) (delete_where (\<lambda>r. fst r = i) rows) =
      List.map_filter (\<lambda>(u, role). if u = j then app_role_of_name role else None) rows" for rows
    using j by (induction rows) (auto simp: delete_where_def List.map_filter_simps split: option.split)
  with j show "load_roles j d' = load_roles j d"
    by (simp add: load_roles_def assms List.map_filter_def)
qed

text \<open>Other processes that leave the users alone, and a directory whose constraints hold.\<close>

definition users_left_alone :: "'w sys \<Rightarrow> bool" where
  "users_left_alone s \<longleftrightarrow> (\<forall>n d. users (sys_others s n d) = users d \<and> user_roles (sys_others s n d) = user_roles d)"

definition directory_ok :: "db \<Rightarrow> bool" where
  "directory_ok d \<longleftrightarrow> table_ok user_rules (users d) \<and> (\<forall>u \<in> set (users d). us_status u = Us_ACTIVE)"

lemma directory_at_step:
  assumes "users_left_alone s"
  shows "users (db_at_step s) = users (sys_db s)" "user_roles (db_at_step s) = user_roles (sys_db s)"
  using assms by (simp_all add: users_left_alone_def db_at_step_def)

lemma find_user_same: "users d = users d' \<Longrightarrow> user_roles d = user_roles d' \<Longrightarrow> find_user_by_subject x d = find_user_by_subject x d'"
  by (simp add: find_user_by_subject_def load_roles_def)

lemma upsert_user_run:
  assumes run: "upsert_user input s = (Inr rec, s')" and others: "users_left_alone s" and ok: "directory_ok (sys_db s)"
  shows "sys_others s' = sys_others s \<and> sys_clock s' = sys_clock s \<and> directory_ok (sys_db s')"
    and "find_user_by_subject (cu_external_subject input) (sys_db s') = Some rec \<and> ur_roles rec = cu_roles input \<and>
      us_organization_id (ur_user rec) = cu_organization_id input \<and> us_display_name (ur_user rec) = cu_display_name input \<and>
      us_status (ur_user rec) = Us_ACTIVE"
    and "subject \<noteq> cu_external_subject input \<Longrightarrow> find_user_by_subject subject (sys_db s') = find_user_by_subject subject (sys_db s)"
proof -
  from run obtain user s1 s2 u1 u2 where first: "run_tx (upsert_user_row input) s = (Inr user, s1)"
    and second: "run_tx (clear_user_roles (us_id user)) s1 = (Inr u1, s2)"
    and third: "run_tx (insert_user_roles (us_id user) (cu_roles input)) s2 = (Inr u2, s')"
    and rec: "rec = \<lparr>ur_user = user, ur_roles = cu_roles input\<rparr>"
    by (auto simp: upsert_user_def io_bind_Inr io_then_Inr io_ret_iff)
  have alone: "users_left_alone s1" "users_left_alone s2"
    using first second others by (auto simp: run_tx_Inr users_left_alone_def)
  from first have "upsert_user_row input (db_at_step s) = Inr (user, sys_db s1)" by (auto simp: run_tx_Inr)
  note row = upsert_row_facts [OF this]
  from second have "clear_user_roles (us_id user) (db_at_step s1) = Inr (u1, sys_db s2)" by (auto simp: run_tx_Inr)
  note cleared = clear_roles_rows [OF this]
  from third have "insert_user_roles (us_id user) (cu_roles input) (db_at_step s2) = Inr (u2, sys_db s')" by (auto simp: run_tx_Inr)
  note inserted = insert_roles_rows [OF this]
  have final: "users (sys_db s') = users (sys_db s1)" "user_roles (sys_db s') =
      delete_where (\<lambda>r. fst r = us_id user) (user_roles (sys_db s1)) @ map (\<lambda>role. (us_id user, app_role_name role)) (cu_roles input)"
    using cleared inserted alone by (simp_all add: directory_at_step)
  note roles = replaced_roles [OF final(2)]
  have dir: "directory_ok (sys_db s1)" "us_status user = Us_ACTIVE"
    using row(1,7,8) ok others by (auto simp: directory_ok_def directory_at_step)
  from first second third dir(1) final(1)
  show "sys_others s' = sys_others s \<and> sys_clock s' = sys_clock s \<and> directory_ok (sys_db s')"
    by (auto simp: run_tx_Inr directory_ok_def)
  have "select_first (\<lambda>u. us_external_subject u = cu_external_subject input) (users (sys_db s1)) = Some user"
    using select_subject [OF row(1,2)] row(3) by simp
  with roles(1) final(1) rec row(4,5) dir(2)
  show "find_user_by_subject (cu_external_subject input) (sys_db s') = Some rec \<and> ur_roles rec = cu_roles input \<and>
      us_organization_id (ur_user rec) = cu_organization_id input \<and> us_display_name (ur_user rec) = cu_display_name input \<and>
      us_status (ur_user rec) = Us_ACTIVE"
    by (simp add: find_user_by_subject_def)
  assume other: "subject \<noteq> cu_external_subject input"
  have "load_roles (us_id u) (sys_db s') = load_roles (us_id u) (sys_db s1)"
    if u: "select_first (\<lambda>u. us_external_subject u = subject) (users (sys_db s1)) = Some u" for u
  proof (rule roles(2))
    from select_first_Some [OF u] other row(3) have "u \<in> set (users (sys_db s1))" "u \<noteq> user" by auto
    with user_ids [OF row(1) _ row(2)] show "us_id u \<noteq> us_id user" by blast
  qed
  then have "find_user_by_subject subject (sys_db s') = find_user_by_subject subject (sys_db s1)"
    using final(1)
    by (cases "select_first (\<lambda>u. us_external_subject u = subject) (users (sys_db s1))") (simp_all add: find_user_by_subject_def)
  also have "\<dots> = find_user_by_subject subject (sys_db s)"
    using row(6) row(9) [OF other] others by (simp add: find_user_by_subject_def load_roles_def directory_at_step)
  finally show "find_user_by_subject subject (sys_db s') = find_user_by_subject subject (sys_db s)" .
qed

subsection \<open>The personas\<close>

lemma not_white_line_end: "\<not> js_white c \<Longrightarrow> \<not> line_end c"
  by (auto simp: js_white_def line_end_def)

lemma dropWhile_white: "list_all (\<lambda>c. \<not> js_white c) xs \<Longrightarrow> xs \<noteq> [] \<Longrightarrow> dropWhile js_white (xs @ ys) = xs @ ys"
  by (cases xs) auto

lemma parse_bearer_token:
  assumes "token \<noteq> []" "list_all (\<lambda>c. \<not> js_white c) token"
  shows "parse_bearer (Some (''Bearer '' @ token)) = Inr token"
proof -
  have "\<not> js_white (CHR ''B'')" by (simp add: js_white_def)
  then have "dropWhile js_white (''Bearer '' @ token) = ''Bearer '' @ token" by simp
  moreover have "dropWhile js_white (rev token @ rev ''Bearer '') = rev token @ rev ''Bearer ''"
    by (rule dropWhile_white) (use assms in \<open>simp_all add: list_all_iff\<close>)
  ultimately have "trim (''Bearer '' @ token) = ''Bearer '' @ token"
    by (simp only: trim_def rev_append rev_rev_ident)
  then show ?thesis
    using assms by (simp add: parse_bearer_def Let_def list_all_iff not_white_line_end)
qed

definition persona_token :: "authenticator \<Rightarrow> string \<Rightarrow> dev_user \<Rightarrow> js_time \<Rightarrow> string" where
  "persona_token auth organization_id u t = jw_sign (dj_library auth) (dj_settings auth) t ''2h''
     (JObj [(''org'', Some (JStr organization_id)), (''sub'', Some (JStr (du_subject u))),
       (''iss'', Some (JStr (jt_issuer (dj_settings auth)))), (''aud'', Some (JStr (jt_audience (dj_settings auth))))])"

text \<open>A persona is in the directory with its roles and has a token of the moment it was issued.\<close>

definition provisioned :: "authenticator \<Rightarrow> string \<Rightarrow> 'w sys \<Rightarrow> 'w sys \<Rightarrow> dev_user \<Rightarrow> bootstrapped_user \<Rightarrow> bool" where
  "provisioned auth organization_id s s' u b \<longleftrightarrow> bu_subject b = du_subject u \<and>
     find_user_by_subject (du_subject u) (sys_db s') = Some (bu_record b) \<and> ur_roles (bu_record b) = du_roles u \<and>
     us_organization_id (ur_user (bu_record b)) = organization_id \<and> us_status (ur_user (bu_record b)) = Us_ACTIVE \<and>
     (\<exists>k \<in> {sys_step s ..< sys_step s'}. bu_token b = persona_token auth organization_id u (snd (sys_clock s k)))"

lemma bootstrap_one:
  assumes "bootstrap_dev_user auth org u s = (Inr b, s')" "users_left_alone s" "directory_ok (sys_db s)"
  shows "users_left_alone s' \<and> sys_clock s' = sys_clock s \<and> directory_ok (sys_db s') \<and> sys_step s \<le> sys_step s' \<and>
      provisioned auth org s s' u b"
    and "subject \<noteq> du_subject u \<Longrightarrow> find_user_by_subject subject (sys_db s') = find_user_by_subject subject (sys_db s)"
proof -
  let ?input = "\<lparr>cu_external_subject = du_subject u, cu_organization_id = org, cu_display_name = du_display_name u, cu_roles = du_roles u\<rparr>"
  from assms(1) obtain rec s1 where up: "upsert_user ?input s = (Inr rec, s1)"
    and token: "bu_token b = persona_token auth org u (snd (sys_clock s1 (sys_step s1)))"
    and b: "bu_subject b = du_subject u" "bu_record b = rec"
    and s': "sys_db s' = db_at_step s1" "sys_others s' = sys_others s1" "sys_clock s' = sys_clock s1" "sys_step s' = Suc (sys_step s1)"
    by (auto simp: bootstrap_dev_user_def issue_token_def date_now_def io_bind_Inr io_ret_iff run_query_iff persona_token_def db_at_step_def)
  note facts = upsert_user_run [OF up assms(2,3)]
  have steps: "sys_step s1 = sys_step s + 3"
    using up by (auto simp: upsert_user_def io_bind_Inr io_then_Inr io_ret_iff run_tx_Inr)
  have alone: "users_left_alone s1" using facts(1) assms(2) by (simp add: users_left_alone_def)
  note same = find_user_same [OF directory_at_step [OF alone]]
  show "users_left_alone s' \<and> sys_clock s' = sys_clock s \<and> directory_ok (sys_db s') \<and> sys_step s \<le> sys_step s' \<and>
      provisioned auth org s s' u b"
    using facts(1,2) alone token b s' steps
    by (auto simp: provisioned_def users_left_alone_def directory_ok_def directory_at_step [OF alone] same intro!: bexI [of _ "sys_step s1"])
  show "subject \<noteq> du_subject u \<Longrightarrow> find_user_by_subject subject (sys_db s') = find_user_by_subject subject (sys_db s)"
    using facts(3) s'(1) same by simp
qed

lemma bootstrap_all:
  assumes "io_map (bootstrap_dev_user auth org) us s = (Inr bs, s')" "users_left_alone s" "directory_ok (sys_db s)"
    and "distinct (map du_subject us)"
  shows "list_all2 (provisioned auth org s s') us bs \<and> sys_clock s' = sys_clock s \<and> sys_step s \<le> sys_step s' \<and>
    (\<forall>x. x \<notin> du_subject ` set us \<longrightarrow> find_user_by_subject x (sys_db s') = find_user_by_subject x (sys_db s))"
  using assms
proof (induction us arbitrary: s bs)
  case (Cons u us)
  from Cons.prems(1) obtain b bs1 s1 where one: "bootstrap_dev_user auth org u s = (Inr b, s1)"
    and rest: "io_map (bootstrap_dev_user auth org) us s1 = (Inr bs1, s')" and bs: "bs = b # bs1"
    by (auto simp: io_bind_Inr io_ret_iff)
  note first = bootstrap_one [OF one Cons.prems(2,3)]
  from Cons.IH [OF rest] first(1) Cons.prems(4)
  have ih: "list_all2 (provisioned auth org s1 s') us bs1" "sys_clock s' = sys_clock s1" "sys_step s1 \<le> sys_step s'"
    "x \<notin> du_subject ` set us \<Longrightarrow> find_user_by_subject x (sys_db s') = find_user_by_subject x (sys_db s1)" for x by auto
  have "list_all2 (provisioned auth org s s') us bs1"
    by (rule list_all2_mono [OF ih(1)]) (use first(1) in \<open>auto simp: provisioned_def\<close>)
  moreover have "provisioned auth org s s' u b"
    using first(1) ih(3) ih(4) [of "du_subject u"] Cons.prems(4) by (auto simp: provisioned_def)
  ultimately show ?case
    using bs first ih by (auto simp: le_trans)
qed (auto simp: io_ret_iff)

text \<open>
  C29: the personas are let in as what they are. After the bootstrap, on a directory in which nobody is
  disabled, a request that carries the token of a persona within its two hours is authenticated as this
  persona, in its organization and with exactly the roles of the table, while the directory still says so; what is asked
  of the token library is that it verifies what it signed and that a token has no white space.
\<close>

theorem personas_are_let_in:
  assumes "bootstrap_dev_users (ap_auth env) org s = (Inr bs, s1)" "users_left_alone s" "directory_ok (sys_db s)" "org \<noteq> []"
    and library: "\<And>u t t'. u \<in> set DEV_USERS \<Longrightarrow> t \<le> t' \<Longrightarrow> t' < t + 7199000 \<Longrightarrow>
      (let token = persona_token (ap_auth env) org u t in token \<noteq> [] \<and> list_all (\<lambda>c. \<not> js_white c) token \<and>
         (\<exists>p. jw_verify (dj_library (ap_auth env)) (dj_settings (ap_auth env)) t' token = Some p \<and>
            json_get p ''sub'' = Some (JStr (du_subject u)) \<and> json_get p ''org'' = Some (JStr org)))"
    and "b \<in> set bs" "header_of req ''authorization'' = Some (''Bearer '' @ bu_token b)"
    and "authenticate env req ctx s2 = (r, s3)"
    and now: "\<And>k. sys_step s \<le> k \<Longrightarrow> k < sys_step s1 \<Longrightarrow>
      snd (sys_clock s k) \<le> js_clock s2 \<and> js_clock s2 < snd (sys_clock s k) + 7199000"
    and "find_user_by_subject (bu_subject b) (sys_db s3) = find_user_by_subject (bu_subject b) (sys_db s1)"
  shows "\<exists>u \<in> set DEV_USERS. bu_subject b = du_subject u \<and>
    r = Inr (ctx\<lparr>rc_actor := \<lparr>ac_type = USER, ac_id = us_id (ur_user (bu_record b)), ac_organization_id = org,
      ac_roles = du_roles u\<rparr>\<rparr>)"
proof -
  have "distinct (map du_subject DEV_USERS)" by (simp add: DEV_USERS_def)
  from bootstrap_all [OF assms(1) [unfolded bootstrap_dev_users_def] assms(2,3) this]
  have "list_all2 (provisioned (ap_auth env) org s s1) DEV_USERS bs" by blast
  with assms(6) obtain u where u: "u \<in> set DEV_USERS" "provisioned (ap_auth env) org s s1 u b"
    by (metis in_set_conv_nth list_all2_conv_all_nth)
  then obtain k where k: "sys_step s \<le> k" "k < sys_step s1" "bu_token b = persona_token (ap_auth env) org u (snd (sys_clock s k))"
    by (auto simp: provisioned_def)
  from library [OF u(1) now [OF k(1,2), THEN conjunct1] now [OF k(1,2), THEN conjunct2]] k(3)
  obtain p where token: "bu_token b \<noteq> []" "list_all (\<lambda>c. \<not> js_white c) (bu_token b)"
    and p: "jw_verify (dj_library (ap_auth env)) (dj_settings (ap_auth env)) (js_clock s2) (bu_token b) = Some p"
      "json_get p ''sub'' = Some (JStr (du_subject u))" "json_get p ''org'' = Some (JStr org)"
    by (auto simp: Let_def)
  have "parse_bearer (header_of req ''authorization'') = Inr (bu_token b)"
    unfolding assms(7) by (rule parse_bearer_token [OF token])
  moreover have "du_subject u \<noteq> []" using u(1) by (auto simp: DEV_USERS_def)
  with p assms(4) have "token_subject env (js_clock s2) (bu_token b) = Inr (du_subject u, org)"
    by (simp add: token_subject_def subject_of_payload_def)
  moreover have "find_user_by_subject (du_subject u) (sys_db s3) = Some (bu_record b)" "us_status (ur_user (bu_record b)) = Us_ACTIVE"
    using u(2) assms(10) by (simp_all add: provisioned_def)
  ultimately have "r = Inr (ctx\<lparr>rc_actor := to_actor (bu_record b)\<rparr>)"
    by (intro authenticate_admits [OF _ _ assms(8)])
  with u show ?thesis by (auto simp: provisioned_def to_actor_def)
qed

end
