(* ===== verification/SystemWitnesses.thy ===== *)
theory SystemWitnesses
  imports Scenario ChainFacts ComplianceFacts Lifecycle Observability Bootstrap
begin

text \<open>
  The properties of replacements, reorganisations, revocations, the life of a worker, the logs and the
  personas applied to concrete inputs.
\<close>

subsection \<open>The dispatcher and the worker\<close>

theorem dispatcher_one_cycle_and_quiet_witness:
  "\<exists>s. dispatcher_run [Start, Fire 0, Call, Stop, Finish Tick, Stopped] new_dispatcher = Some s \<and> dp_stopped s \<and>
     dispatcher_run [Continue] s \<noteq> None \<and> length [Continue] \<le> remaining_turns s"
proof -
  obtain s where run: "dispatcher_run [Start, Fire 0, Call, Stop, Finish Tick, Stopped] new_dispatcher = Some s"
    and s: "dp_stopped s" "\<not> dp_running s" "0 < dp_settled s"
    by (simp add: new_dispatcher_def turn_defs Let_def)
  then obtain s' where next': "dispatcher_run [Continue] s = Some s'" by simp
  from dispatcher_one_cycle_and_quiet [OF run, of "[Continue]" s'] run s next' show ?thesis by simp
qed

theorem worker_closes_after_its_work_witness:
  "\<exists>w. worker_step\<^sup>*\<^sup>* start_worker_runtime w \<and> wk_stage w = Closed \<and> wk_sweeps w = 1 \<and> wk_jobs w = 0 \<and>
     dp_cycles (wk_dispatcher w) = []"
  using sweep_may_outlive_the_pool worker_closes_after_its_work by blast

subsection \<open>The logs\<close>

fun demo_strip :: "string \<Rightarrow> nat \<times> string" where
  "demo_strip (c # d # path) =
     (if c = CHR ''*'' \<and> d = CHR ''.'' then (case demo_strip path of (n, field) \<Rightarrow> (Suc n, field)) else (0, c # d # path))"
| "demo_strip path = (0, path)"

definition demo_covers :: "string \<Rightarrow> string list \<Rightarrow> bool" where
  "demo_covers path keys = (case demo_strip path of (n, field) \<Rightarrow> length keys = Suc n \<and> last keys = field)"

lemma demo_strip_stars: "list_all (\<lambda>c. c \<noteq> CHR ''*'' \<and> c \<noteq> CHR ''.'') field \<Longrightarrow> demo_strip (star_path n field) = (n, field)"
proof (induction n)
  case 0
  then show ?case by (cases field rule: demo_strip.cases) (simp_all add: star_path_def)
next
  case (Suc n)
  then show ?case by (simp add: star_path_def)
qed

theorem secrets_hidden_to_depth_three_witness:
  "redacted demo_covers [''req'', ''headers'', ''authorization''] \<and> redacted demo_covers [''secret'', ''a'', ''b'', ''c'', ''d''] \<and>
   \<not> redacted demo_covers [''a'', ''b'', ''c'', ''d'', ''jwt'']"
proof -
  have "demo_covers (star_path n field) keys \<longleftrightarrow> length keys = Suc n \<and> last keys = field"
    if "list_all (\<lambda>c. c \<noteq> CHR ''*'' \<and> c \<noteq> CHR ''.'') field" for n field keys
    by (simp add: demo_covers_def demo_strip_stars [OF that])
  from secrets_hidden_to_depth_three [of demo_covers, OF this] show ?thesis by simp
qed

declare run_congs [cong] state_congs [cong] let_weak_cong [cong] char_cong [cong]

subsection \<open>A replacement and a reorganisation\<close>

definition demo_slow_chain :: "demo_world chain_env" where
  "demo_slow_chain = demo_chain\<lparr>ce_sha := (\<lambda>_. ''h''),
     ce_signer := demo_signer\<lparr>sg_request_signature := (\<lambda>r _ w. (Inr (Signature_pending ''p''), w))\<rparr>\<rparr>"

definition demo_stuck :: attempt_row where
  "demo_stuck = \<lparr>ta_id = ''t'', ta_operation_id = Some ''o'', ta_asset_id = None, ta_wallet_id = None, ta_purpose = P_MINT,
     ta_chain_id = 31337, ta_from_address = ''0xa'', ta_to_address = Some ''0xc'', ta_nonce = 3, ta_value = 0, ta_data = ''0x4'',
     ta_gas_limit = 100, ta_max_fee_per_gas = 30, ta_max_priority_fee_per_gas = 2, ta_request_hash = ''q'',
     ta_signed_raw_transaction = Some ''0x02m'', ta_transaction_hash = Some ''0x2'', ta_status = At_SUBMITTED,
     ta_broadcast_attempts = 1, ta_block_number = None, ta_block_hash = None, ta_gas_used = None, ta_receipt_status = None,
     ta_contract_address = None, ta_error_code = None, ta_error_message = None, ta_intent_fingerprint = None,
     ta_replaces_attempt_id = None, ta_replaced_by_attempt_id = None, ta_replacement_reason = None,
     ta_replacement_number = 0, ta_created_at = 0, ta_updated_at = 0\<rparr>"

definition demo_stuck_sys :: "demo_world sys" where
  "demo_stuck_sys = demo_start\<lparr>sys_db := (empty_db demo_uuid)\<lparr>transaction_attempts := [demo_stuck]\<rparr>\<rparr>"

lemma demo_lower: "to_lower ''0xa'' = ''0xa''" "to_lower ''0xc'' = ''0xc''" "to_lower ''0x4'' = ''0x4''" "to_lower ''0xf'' = ''0xf''"
  by code_simp+

abbreviation demo_bump :: fee_estimate where
  "demo_bump \<equiv> \<lparr>fe_max_fee_per_gas = 60, fe_max_priority_fee_per_gas = 4\<rparr>"

lemma demo_replaced:
  "fst (replace_fees demo_slow_chain demo_stuck demo_bump ''STUCK'' ''c'' (no_hooks :: demo_world write_hooks) demo_stuck_sys) =
     Inr (Wo_SIGNATURE_PENDING ''u0'' ''p'')"
  by (simp add: runs demo_runs demo_lower demo_slow_chain_def demo_stuck_sys_def demo_start_def demo_stuck_def no_hooks_def
      demo_replacement_def replacement_candidate_def fingerprint_of_def intent_fingerprint_def canonical_hash_def request_hash_def)

theorem fee_replacement_is_the_same_transaction_witness:
  "\<exists>s' inserted d. replace_fees demo_slow_chain demo_stuck demo_bump ''STUCK'' ''c'' (no_hooks :: demo_world write_hooks) demo_stuck_sys =
       (Inr (Wo_SIGNATURE_PENDING ''u0'' ''p''), s') \<and>
     find_live_attempt_at_nonce 31337 ''0xa'' 3 d = Some inserted \<and> ta_replacement_number inserted = 1 \<and>
     unsigned_request_from inserted = with_fees demo_stuck demo_bump (ta_id inserted) \<and> ta_nonce inserted = 3"
proof -
  from demo_replaced obtain s' where run: "replace_fees demo_slow_chain demo_stuck demo_bump ''STUCK'' ''c''
      (no_hooks :: demo_world write_hooks) demo_stuck_sys = (Inr (Wo_SIGNATURE_PENDING ''u0'' ''p''), s')"
    by (metis prod.collapse)
  have hook: "hk_on_prepared (no_hooks :: demo_world write_hooks) = (\<lambda>_. tx_ret ())" by (simp add: no_hooks_def)
  from fee_replacement_is_the_same_transaction [OF run hook] obtain inserted d where
    d: "find_live_attempt_at_nonce (ta_chain_id demo_stuck) (ta_from_address demo_stuck) (ta_nonce demo_stuck) d = Some inserted"
      "ta_replacement_number inserted = Suc (ta_replacement_number demo_stuck)"
      "unsigned_request_from inserted = with_fees demo_stuck demo_bump (ta_id inserted)" by auto
  from d(3) have "utr_nonce (unsigned_request_from inserted) = utr_nonce (with_fees demo_stuck demo_bump (ta_id inserted))" by simp
  then have "ta_nonce inserted = 3" by (simp add: unsigned_request_from_def with_fees_def demo_stuck_def)
  with run d show ?thesis by (intro exI [of _ s'] exI [of _ inserted] exI [of _ d]) (simp add: demo_stuck_def)
qed

definition demo_submitted :: operation_row where
  "demo_submitted = \<lparr>op_id = ''o'', op_organization_id = ''g'', op_type = MINT, op_state = Op_SUBMITTED, op_asset_id = ''s'',
     op_wallet_id = Some ''w'', op_amount = Some 5, op_operation_reference = Some ''f'', op_compliance_decision_id = None,
     op_proposal_hash = ''h'', op_required_approvals = 2, op_requested_by = ''i'', op_correlation_id = ''c'',
     op_failure_code = None, op_failure_reason = None, op_claimed_by = Some ''k'', op_claimed_at = Some 0,
     op_state_updated_at = 0, op_created_at = 0, op_updated_at = 0\<rparr>"

definition demo_submitted_db :: db where
  "demo_submitted_db = (empty_db demo_uuid)\<lparr>operations := [demo_submitted], transaction_attempts := [demo_stuck]\<rparr>"

lemma demo_reorged:
  "\<exists>d1 d2. record_inclusion_tx ''o'' ''t'' (demo_receipt ''0x2'') demo_submitted_db = Inr ((), d1) \<and>
     reorg_tx 31337 ''o'' ''t'' (demo_receipt ''0x2'') (d1\<lparr>db_now := 9, app_now := 8\<rparr>) = Inr ((), d2)"
  by (simp add: runs demo_runs demo_lower demo_submitted_db_def demo_submitted_def demo_stuck_def)

declare run_congs [cong del] state_congs [cong del] let_weak_cong [cong del] char_cong [cong del]

theorem reorg_undoes_inclusion_witness:
  "\<exists>d1 d2. record_inclusion_tx ''o'' ''t'' (demo_receipt ''0x2'') demo_submitted_db = Inr ((), d1) \<and>
     reorg_tx 31337 ''o'' ''t'' (demo_receipt ''0x2'') (d1\<lparr>db_now := 9, app_now := 8\<rparr>) = Inr ((), d2) \<and>
     map op_state (operations d2) = [Op_SUBMITTED] \<and> map ta_transaction_hash (transaction_attempts d2) = [Some ''0x2''] \<and>
     map ta_block_number (transaction_attempts d2) = [None]"
proof -
  from demo_reorged obtain d1 d2 where runs: "record_inclusion_tx ''o'' ''t'' (demo_receipt ''0x2'') demo_submitted_db = Inr ((), d1)"
    "reorg_tx 31337 ''o'' ''t'' (demo_receipt ''0x2'') (d1\<lparr>db_now := 9, app_now := 8\<rparr>) = Inr ((), d2)" by blast
  have ok: "table_ok operation_rules (operations demo_submitted_db)"
    by (simp add: demo_submitted_db_def demo_submitted_def table_ok_def operation_rules_def)
  have found: "find_operation_by_id ''o'' demo_submitted_db = Some demo_submitted" "op_state demo_submitted = Op_SUBMITTED"
    by (simp_all add: find_operation_by_id_def select_first_def demo_submitted_db_def demo_submitted_def)
  have fresh: "not_included a" if "a \<in> set (transaction_attempts demo_submitted_db)" for a
    using that by (simp add: demo_submitted_db_def demo_stuck_def not_included_def)
  from reorg_undoes_inclusion [OF runs ok found fresh] runs show ?thesis
    by (simp add: demo_submitted_db_def demo_submitted_def demo_stuck_def update_where_def reorged_def)
qed

declare run_congs [cong] state_congs [cong] let_weak_cong [cong] char_cong [cong]

subsection \<open>A revocation under an approval of the whole wallet\<close>

definition demo_wallet :: wallet_row where
  "demo_wallet = \<lparr>wa_id = ''w'', wa_organization_id = ''g'', wa_chain_id = 31337, wa_address = ''0xb'', wa_label = None,
     wa_investor_reference = ''v'', wa_status = Wa_REGISTERED, wa_created_by = ''i'', wa_created_at = 0\<rparr>"

definition demo_asset :: asset_row where
  "demo_asset = \<lparr>as_id = ''s'', as_organization_id = ''g'', as_symbol = ''T'', as_name = ''N'', as_decimals = 0, as_supply_cap = 100,
     as_chain_id = 31337, as_contract_address = Some ''0xc'', as_deployment_tx_hash = Some ''0x1'', as_status = As_ACTIVE,
     as_policy_version = 1, as_created_by = ''i'', as_created_at = 0, as_updated_at = 0\<rparr>"

definition demo_wide_approval :: compliance_row where
  "demo_wide_approval = \<lparr>cd_id = ''d'', cd_wallet_id = ''w'', cd_asset_id = None, cd_status = Cd_APPROVED, cd_subject_reference = ''v'',
     cd_provider = ''p'', cd_provider_reference = ''n'', cd_valid_from = 0, cd_valid_until = 9, cd_decided_at = 0, cd_decided_by = ''k'',
     cd_chain_sync_status = Cs_SYNCED, cd_chain_sync_tx_hash = None, cd_superseded_at = None, cd_revoked_at = None,
     cd_revocation_reason = None, cd_created_at = 0\<rparr>"

definition demo_wide_db :: db where
  "demo_wide_db = (empty_db demo_uuid)\<lparr>compliance_decisions := [demo_wide_approval]\<rparr>"

definition demo_revocation :: revoke_input where
  "demo_revocation = \<lparr>rvi_wallet_id = ''w'', rvi_asset_id = Some ''s'', rvi_reason = ''no''\<rparr>"

lemma demo_revoked:
  "\<exists>r i d. revoke_decision_tx demo_sha ''p'' (demo_ctx ''k'' COMPLIANCE_OFFICER) demo_revocation demo_wallet (Some demo_asset) demo_wide_db =
     Inr ((r, i), d)"
  by (simp add: runs demo_runs demo_wide_db_def demo_wide_approval_def demo_asset_def demo_wallet_def demo_revocation_def demo_ctx_def)

declare run_congs [cong del] state_congs [cong del] let_weak_cong [cong del] char_cong [cong del]

theorem revocation_ends_its_scope_witness:
  "\<exists>r i d. revoke_decision_tx demo_sha ''p'' (demo_ctx ''k'' COMPLIANCE_OFFICER) demo_revocation demo_wallet (Some demo_asset) demo_wide_db =
       Inr ((r, Some i), d) \<and> cd_status r = Cd_REVOKED \<and> find_active_approval ''w'' (Some ''s'') d \<noteq> None"
proof -
  from demo_revoked obtain r i d where run: "revoke_decision_tx demo_sha ''p'' (demo_ctx ''k'' COMPLIANCE_OFFICER) demo_revocation
      demo_wallet (Some demo_asset) demo_wide_db = Inr ((r, i), d)" by blast
  have "find_active_approval ''w'' a demo_wide_db \<noteq> None" for a
    by (simp add: find_active_approval_def demo_wide_db_def demo_wide_approval_def approval_in_force_def empty_db_def)
  with revocation_ends_its_scope [OF run] run show ?thesis
    by (auto simp: demo_wallet_def demo_revocation_def)
qed

subsection \<open>The personas\<close>

text \<open>A token library whose token is the subject behind a mark.\<close>

definition subject_jwt :: jwt_library where
  "subject_jwt = \<lparr>jw_verify = (\<lambda>_ _ token. Some (JObj [(''sub'', Some (JStr (drop 2 token))), (''org'', Some (JStr DEFAULT_ORGANIZATION))])),
     jw_sign = (\<lambda>_ _ _ payload. case json_get payload ''sub'' of Some (JStr subject) \<Rightarrow> ''t-'' @ subject | _ \<Rightarrow> [])\<rparr>"

definition persona_app :: "demo_world app_env" where
  "persona_app = \<lparr>ap_sha = demo_sha,
     ap_zod = \<lparr>zd_text = (\<lambda>_. []), zd_uuid = (\<lambda>_. True), zd_url = (\<lambda>_. True), zd_number = (\<lambda>_. None)\<rparr>, ap_of_iso = (\<lambda>_. 0),
     ap_auth = \<lparr>dj_settings = \<lparr>jt_secret = [], jt_issuer = [], jt_audience = []\<rparr>, dj_library = subject_jwt\<rparr>,
     ap_chain_id = 31337, ap_provider = demo_provider, ap_select_1 = (\<lambda>w. (Inr (), w)), ap_metrics_enabled = False,
     ap_metrics_content_type = [], ap_render_metrics = (\<lambda>w. (Inr [], w))\<rparr>"

lemma persona_tokens:
  assumes "u \<in> set DEV_USERS"
  shows "let token = persona_token (ap_auth persona_app) DEFAULT_ORGANIZATION u t in token \<noteq> [] \<and> list_all (\<lambda>c. \<not> js_white c) token \<and>
    (\<exists>p. jw_verify (dj_library (ap_auth persona_app)) (dj_settings (ap_auth persona_app)) t' token = Some p \<and>
       json_get p ''sub'' = Some (JStr (du_subject u)) \<and> json_get p ''org'' = Some (JStr DEFAULT_ORGANIZATION))"
proof -
  have token: "persona_token (ap_auth persona_app) DEFAULT_ORGANIZATION u t = ''t-'' @ du_subject u"
    by (simp add: persona_token_def persona_app_def subject_jwt_def)
  moreover have "list_all (\<lambda>c. \<not> js_white c) (''t-'' @ du_subject u)"
    using assms by (auto simp: DEV_USERS_def js_white_def)
  ultimately show ?thesis by (simp add: persona_app_def subject_jwt_def)
qed

declare run_congs [cong] state_congs [cong] let_weak_cong [cong] char_cong [cong]

lemma personas_bootstrapped:
  "\<exists>bs s1. bootstrap_dev_users (ap_auth persona_app) DEFAULT_ORGANIZATION demo_start = (Inr bs, s1) \<and>
     (\<exists>b \<in> set bs. bu_subject b = ''dev-issuer'') \<and> sys_others s1 = (\<lambda>_ d. d) \<and> sys_clock s1 = sys_clock demo_start \<and>
     sys_step s1 = 24"
  by (simp add: runs demo_runs bootstrap_dev_users_def bootstrap_dev_user_def upsert_user_def issue_token_def DEV_USERS_def
      persona_app_def subject_jwt_def demo_start_def DEFAULT_ORGANIZATION_def)

declare run_congs [cong del] state_congs [cong del] let_weak_cong [cong del] char_cong [cong del]

lemma persona_lookup: "users_left_alone s \<Longrightarrow> authenticate env req ctx s = (r, s') \<Longrightarrow>
    find_user_by_subject x (sys_db s') = find_user_by_subject x (sys_db s)"
  by (rule find_user_same)
    (auto simp: authenticate_run after_query_def users_left_alone_def db_at_step_def split: sum.splits)

theorem personas_are_let_in_witness:
  "\<exists>bs s1 b req s3. bootstrap_dev_users (ap_auth persona_app) DEFAULT_ORGANIZATION demo_start = (Inr bs, s1) \<and> b \<in> set bs \<and>
     authenticate persona_app req (demo_ctx [] AUDITOR) s1 =
       (Inr ((demo_ctx [] AUDITOR)\<lparr>rc_actor := \<lparr>ac_type = USER, ac_id = us_id (ur_user (bu_record b)),
          ac_organization_id = DEFAULT_ORGANIZATION, ac_roles = [ISSUER]\<rparr>\<rparr>), s3)"
proof -
  obtain bs s1 b where boot: "bootstrap_dev_users (ap_auth persona_app) DEFAULT_ORGANIZATION demo_start = (Inr bs, s1)"
    and b: "b \<in> set bs" "bu_subject b = ''dev-issuer''"
    and s1: "sys_others s1 = (\<lambda>_ d. d)" "sys_clock s1 = sys_clock demo_start" "sys_step s1 = 24"
    using personas_bootstrapped by blast
  define req where "req = \<lparr>hq_route = Get_live, hq_headers = [(''authorization'', ''Bearer '' @ bu_token b)], hq_body = None, hq_query = JObj []\<rparr>"
  obtain r s3 where auth: "authenticate persona_app req (demo_ctx [] AUDITOR) s1 = (r, s3)" by (meson prod.exhaust)
  have here: "users_left_alone s1" "users_left_alone demo_start" "directory_ok (sys_db demo_start)"
    by (simp_all add: users_left_alone_def s1 demo_start_def empty_db_def user_rules_def directory_ok_def)
  have now: "snd (sys_clock demo_start k) \<le> js_clock s1 \<and> js_clock s1 < snd (sys_clock demo_start k) + 7199000"
    if "sys_step demo_start \<le> k" "k < sys_step s1" for k
    using that by (simp add: s1 js_clock_def demo_start_def)
  have header: "header_of req ''authorization'' = Some (''Bearer '' @ bu_token b)"
    by (simp add: req_def header_of_def)
  have "DEFAULT_ORGANIZATION \<noteq> []" by (simp add: DEFAULT_ORGANIZATION_def)
  from personas_are_let_in [OF boot here(2,3) this persona_tokens b(1) header auth now persona_lookup [OF here(1) auth]]
  obtain u where "u \<in> set DEV_USERS" "bu_subject b = du_subject u"
    "r = Inr ((demo_ctx [] AUDITOR)\<lparr>rc_actor := \<lparr>ac_type = USER, ac_id = us_id (ur_user (bu_record b)),
       ac_organization_id = DEFAULT_ORGANIZATION, ac_roles = du_roles u\<rparr>\<rparr>)" by blast
  with b(2) have "r = Inr ((demo_ctx [] AUDITOR)\<lparr>rc_actor := \<lparr>ac_type = USER, ac_id = us_id (ur_user (bu_record b)),
       ac_organization_id = DEFAULT_ORGANIZATION, ac_roles = [ISSUER]\<rparr>\<rparr>)" by (auto simp: DEV_USERS_def)
  with boot b(1) auth show ?thesis by blast
qed

end
