(* ===== verification/Spec2Isabelle.thy ===== *)
theory Spec2Isabelle
  imports Witnesses ServiceWitnesses ApiWitnesses SystemWitnesses
begin

text \<open>
  Verification library of the institutional tokenization orchestrator, the TypeScript program under
  \<open>src/src\<close>: a service that issues, approves and settles chain operations (deploying a token,
  minting, opening the eligibility window of a wallet) with PostgreSQL as the source of truth.

  \<^bold>\<open>The program.\<close> The HTTP application (\<open>api/app.ts\<close>) authenticates a caller, parses the request and
  calls one service. Requests create rows in the same transaction as an outbox message
  (\<open>modules/assets\<close>, \<open>modules/wallets\<close>, \<open>modules/operations/mint-service.ts\<close>,
  \<open>modules/approvals\<close>, \<open>modules/compliance\<close>). The outbox dispatcher publishes messages to a queue;
  a worker executes an operation (\<open>modules/operations/operation-executor.ts\<close>), which asks its
  handler for a call, the chain writer (\<open>modules/transactions/chain-writer.ts\<close>) for a nonce, a
  signature and a broadcast, waits for confirmation and reconciles the chain with the database.
  Sweeps recover operations of dead workers, replace stuck transactions and expire compliance
  decisions. \<open>platform/container.ts\<close> builds all of it from the settings of \<open>platform/config\<close>.

  \<^bold>\<open>How the model is built.\<close> The database is a record of tables (theory Schema) and a table is the
  list of its rows in insertion order; every statement of the program goes through Tables, which
  checks the constraints of the migrations (Constraints) and throws the PostgreSQL error the code
  catches by constraint name. A transaction is a function of type \<open>(db, 'a) tx\<close> (Effects): it
  returns a result with the new database or an exception that discards it. A program outside a
  transaction has type \<open>('w sys, 'a) io\<close> (Effects, Runtime): its state is the database and an
  abstract world \<open>'w\<close> of everything else (the chain, the signer, the queue, the clock), it may
  throw with the state changed, and it carries the log of the database steps it took, between which
  \<open>Runtime.sys\<close> lets other processes commit. Exceptions are one datatype (Errors): application
  errors, PostgreSQL errors, validation errors and plain JavaScript errors. Integers of the code
  that are bigint, numeric or bounded well below 2^53 are \<open>int\<close>; identifiers are strings.

  \<^bold>\<open>Theories.\<close>
  \<^item> Prelude, Effects, Tables: lists, strings and numbers of JavaScript and SQL; the two monads with
    their calculus of preserved properties (named theorems, a locale); statements on tables.
  \<^item> Canonical, Errors, Domain, Intents: \<open>domain/*.ts\<close>, \<open>db/errors.ts\<close>, \<open>api/errors.ts\<close>,
    \<open>administrative-intent.ts\<close>, \<open>transaction-intent.ts\<close>. Canonical texts are equal exactly for
    the same value, whatever the order of its fields; hashes bind every field; the transition tables; the tally.
  \<^item> Schema, Constraints: \<open>db/schema/index.ts\<close> and the migrations.
  \<^item> OperationRepo, AttemptRepo, WorkflowRepo, RegistryRepo: \<open>db/repositories/*.ts\<close>, one definition
    per exported function.
  \<^item> RegistryServices, MintService, ApprovalService, ComplianceService: the services of \<open>modules\<close>
    that requests call.
  \<^item> Ports: the interfaces of \<open>ports\<close>, the signer contract as a locale interpreted on both
    development signers of \<open>adapters/signer\<close>, and the verification of signed bytes.
  \<^item> Confirmation, Reconciliation, ChainWriter: \<open>platform/config/chain-profile.ts\<close> and
    \<open>modules/transactions\<close>.
  \<^item> Handlers, HandlerFacts, OperationExecutor: \<open>modules/operations\<close>; HandlerFacts says what a prepared mint was
    checked against, statement by statement and call by call.
  \<^item> Maintenance, Replacement: the outbox dispatcher, the recovery sweep, the replacement sweep and
    the tick of the worker.
  \<^item> Frames, TwoPerson: which tables an operation leaves alone, and the two person rule as an
    invariant of the approval tables.
  \<^item> Workflow, Invariants, Programs: every transaction of the program as a constructor of one
    inductive step relation, reachable databases, their invariants by rule induction, and the
    refinement that every program only takes such steps (a locale over the predicates that steps keep,
    interpreted on reachability and on being a later state of a given one).
  \<^item> Ledger: what holds along steps: append-only ledgers, ended operations, one execution, fresh nonces.
  \<^item> Guarantees, Sending: the turning points of the write path: what success rests on, what a failure
    may touch, that recovery ends, that only verified and stored bytes are sent.
  \<^item> Delivery: idempotent replay, exclusive outbox leases, delivery of what is due.
  \<^item> ChainFacts, ComplianceFacts: what a fee replacement keeps of the transaction it replaces, how a
    reorganisation takes back an inclusion, which approvals a revocation ends.
  \<^item> Schemas, HttpApi, ApiFacts: \<open>api/app.ts\<close> and \<open>platform/auth/jwt.ts\<close>: request schemas, hooks, routes,
    responses; who is let in, what parsed bodies are, what responses never show.
  \<^item> Container, Process: \<open>platform/config/index.ts\<close>, \<open>platform/container.ts\<close> and the callbacks of
    \<open>worker/runtime.ts\<close>; the wiring, and what every run of the whole process leaves
    in the database (\<open>process_keeps_the_rules\<close>).
  \<^item> Lifecycle: the polling loop of \<open>outbox-dispatcher.ts\<close> as a machine of JavaScript turns (timers, cycles under
    way, waiting calls of \<open>stop\<close>), and the start and shutdown of \<open>worker/runtime.ts\<close> and \<open>worker/main.ts\<close> as a
    step relation: one cycle at a time, quiet after \<open>stop\<close>, connections closed after the work.
  \<^item> Observability: the metrics of \<open>platform/metrics/index.ts\<close>, the gauges the dispatcher and the worker set from
    the database, the paths \<open>platform/logging/index.ts\<close> hides.
  \<^item> Bootstrap: \<open>platform/bootstrap.ts\<close> and \<open>upsertUser\<close>: after it the personas are let in with their roles.
  \<^item> MockCompliance, ViemGateway, Migrations: the adapters of \<open>adapters/compliance\<close> and \<open>adapters/evm\<close>
    with the contracts of a provider and of a gateway as locales, and \<open>db/migrator.ts\<close>.
  \<^item> Evaluation, Scenario, Witnesses, ServiceWitnesses, ApiWitnesses, SystemWitnesses: the execution equations of the
    model, one run of the whole system (an asset is created, deployed, a wallet registered and screened,
    a mint requested, approved by two persons, executed and settled) and the instances of the
    properties on it.

  \<^bold>\<open>Bounds and fuel.\<close> The wait for a receipt loops on the clock; its fuel is the number of rounds the
  deadline allows. A round sleeps, and a sleep shifts the clock by its delay, at least a millisecond; so on a clock that
  does not go back (\<open>clock_forward\<close>, a hypothesis) more rounds change nothing: \<open>Confirmation.await_rounds_enough\<close>.
  Resolving the bytes of an operation and abandoning it call each other in the recovery sweep; the depth
  bound is two, and \<open>Guarantees.recovery_depth_enough\<close> shows that any positive one gives the same.

  \<^bold>\<open>Parameters.\<close> SHA-256 and keccak-256, the transaction codec, the client and the ABI codec of viem, the
  keys of the signer, the compliance provider behind its interface, the token library, the queue, the
  execution of a migration, the matching of a log path to an entry and the clock are arguments of the definitions that use them. Of zod, the
  schema constructors are written out as its documentation describes them, over its texts, its UUID and
  URL formats and its number conversion as arguments. Nothing is assumed of a hash: a statement about
  hashes says that equal hashes come from equal values or exhibit a collision.

  \<^bold>\<open>Not modelled.\<close> The compiled contract (\<open>token-artifact.ts\<close>, generated) and its Solidity, the
  connection pool and the migrate command, the increments of counters and histograms and the lines of the log, how
  Fastify matches a path to a route, a second signal during a shutdown, the .env file and its cache, and the
  demonstration scripts, which are clients of the API.
  A record the repositories read is the row itself.

  \<^bold>\<open>Where the model is coarser than the code.\<close> A transaction is one step. PostgreSQL at READ COMMITTED lets commits of
  others fall between two statements of a transaction for rows it holds no lock on; the model relies on the
  row locks and unique keys the code takes to protect the rows its decisions depend on. Reading a user with the roles
  (\<open>find_user_by_subject\<close>) and taking an idempotency key with the row it conflicts with (\<open>claim_idempotency_key\<close>)
  are two statements in the code and one step here, so the error for a key that vanished in between is never reached.
  Other sequences of statements outside a transaction, as in \<open>upsertUser\<close>, are sequences of steps with commits of
  other processes in between. The personas of \<open>platform/bootstrap.ts\<close> are provisioned one after the other instead of
  concurrently. Of the schema, plain foreign keys and the length and pattern checks of texts are not in the rules of the
  tables; the composite key \<open>approval_decisions_requester_fk\<close>, which carries the two person rule, is checked by the
  statement that inserts a decision.
\<close>

end
